(* ===== verification/Ui_Elements.thy ===== *)
theory Ui_Elements
  imports Main "HOL-Library.AList"
begin

text \<open>
  What the widgets of the console are made of: the values of the language that are passed as
  properties, JSX expressions with attributes, spreads and children, and the parameters that stand
  for the libraries the widgets call (\<open>clsx\<close>, \<open>tailwind-merge\<close>, \<open>class-variance-authority\<close>,
  \<open>next-themes\<close>). Elements of the host document and of the widget libraries (\<open>radix-ui\<close>, \<open>cmdk\<close>,
  \<open>sonner\<close>, \<open>lucide-react\<close>) are not rendered further: they are the leaves of the model.
\<close>

subsection \<open>Values, elements and properties\<close>

text \<open>
  \<open>Host ''div''\<close> is \<open><div>\<close>, \<open>Lib ''Dialog'' ''Root''\<close> is the component \<open>Root\<close> of the library's \<open>Dialog\<close>.
  A function passed as a property is one of the caller's, of a type \<open>'h\<close>, or the only one the
  widgets have themselves, \<open>FocusInput\<close>. \<open>Elem\<close> is a React element; its
  children are the property \<open>children\<close>, several of them are \<open>Nodes\<close>.
\<close>

datatype tag = Host string | Lib string string

datatype 'h handler = Given 'h | FocusInput

datatype 'h val =
    Undefined | Null | Str string | Flag bool | Num int | Fn "'h handler"
  | Obj "(string \<times> 'h val) list" | Elem tag "(string \<times> 'h val) list" | Nodes "'h val list"

type_synonym 'h props = "(string \<times> 'h val) list"

definition given :: "string \<Rightarrow> 'h props \<Rightarrow> 'h val" where
  "given k ps = (case map_of ps k of None \<Rightarrow> Undefined | Some v \<Rightarrow> v)"

text \<open>Destructuring with a default, \<open>{ k = d }\<close>, and the rest of the properties, \<open>{ ...props }\<close>.\<close>

definition given_or :: "string \<Rightarrow> 'h val \<Rightarrow> 'h props \<Rightarrow> 'h val" where
  "given_or k d ps = (case given k ps of Undefined \<Rightarrow> d | v \<Rightarrow> v)"

definition omit :: "string list \<Rightarrow> 'h props \<Rightarrow> 'h props" where
  "omit ks ps = filter (\<lambda>(k, v). k \<notin> set ks) ps"

fun truthy_val :: "'h val \<Rightarrow> bool" where
  "truthy_val Undefined = False"
| "truthy_val Null = False"
| "truthy_val (Str s) = (s \<noteq> [])"
| "truthy_val (Flag b) = b"
| "truthy_val (Num n) = (n \<noteq> 0)"
| "truthy_val _ = True"

text \<open>\<open>a && b\<close>, and \<open>a === "s"\<close>.\<close>

definition js_and :: "'h val \<Rightarrow> 'h val \<Rightarrow> 'h val" where
  "js_and a b = (if truthy_val a then b else a)"

fun is_str :: "string \<Rightarrow> 'h val \<Rightarrow> bool" where
  "is_str s (Str t) = (s = t)"
| "is_str s _ = False"

subsection \<open>JSX\<close>

text \<open>
  The attributes of an opening tag are evaluated from left to right; a later attribute or spread
  replaces an earlier property. Children written between the tags replace the property
  \<open>children\<close>, also a spread one.
\<close>

datatype 'h attr = Attr string "'h val" | Spread "'h props"

fun put_attr :: "'h attr \<Rightarrow> 'h props \<Rightarrow> 'h props" where
  "put_attr (Attr k v) ps = AList.update k v ps"
| "put_attr (Spread qs) ps = AList.merge ps qs"

fun put_children :: "'h val list \<Rightarrow> 'h props \<Rightarrow> 'h props" where
  "put_children [] ps = ps"
| "put_children [c] ps = AList.update ''children'' c ps"
| "put_children cs ps = AList.update ''children'' (Nodes cs) ps"

definition jsx_args :: "'h attr list \<Rightarrow> 'h val list \<Rightarrow> 'h props" where
  "jsx_args as cs = put_children cs (fold put_attr as [])"

definition jsx :: "tag \<Rightarrow> 'h attr list \<Rightarrow> 'h val list \<Rightarrow> 'h val" where
  "jsx t as cs = Elem t (jsx_args as cs)"

lemma map_of_put_attr [simp]:
  "map_of (put_attr (Attr k v) ps) = (map_of ps)(k \<mapsto> v)"
  "map_of (put_attr (Spread qs) ps) = map_of ps ++ map_of qs"
  by (simp_all add: update_conv' merge_conv')

lemma map_of_put_children [simp]:
  "map_of (put_children [] ps) = map_of ps"
  "map_of (put_children [c] ps) = (map_of ps)(''children'' \<mapsto> c)"
  "map_of (put_children (c # c' # cs) ps) = (map_of ps)(''children'' \<mapsto> Nodes (c # c' # cs))"
  by (simp_all add: update_conv')

declare put_attr.simps [simp del] put_children.simps [simp del]

lemma map_of_omit [simp]: "map_of (omit ks ps) k = (if k \<in> set ks then None else map_of ps k)"
  by (induction ps) (auto simp: omit_def)

text \<open>The element reached from a value by going down to the given child at every level.\<close>

fun props_of :: "'h val \<Rightarrow> 'h props" where
  "props_of (Elem t ps) = ps"
| "props_of _ = []"

fun tag_of :: "'h val \<Rightarrow> tag option" where
  "tag_of (Elem t ps) = Some t"
| "tag_of _ = None"

definition children_of :: "'h val \<Rightarrow> 'h val list" where
  "children_of v = (case given ''children'' (props_of v) of Undefined \<Rightarrow> [] | Nodes vs \<Rightarrow> vs | c \<Rightarrow> [c])"

lemma children_of_eq:
  "children_of v = (case map_of (props_of v) ''children'' of
     None \<Rightarrow> [] | Some Undefined \<Rightarrow> [] | Some (Nodes vs) \<Rightarrow> vs | Some c \<Rightarrow> [c])"
  by (simp add: children_of_def given_def split: option.split val.split)

fun props_at :: "nat list \<Rightarrow> 'h val \<Rightarrow> 'h props" where
  "props_at [] v = props_of v"
| "props_at (i # is) v = (if i < length (children_of v) then props_at is (children_of v ! i) else [])"

subsection \<open>Library functions\<close>

text \<open>
  \<open>cva(base, config)\<close> is a function from the selected variants to class names. \<open>theme\<close> is the
  answer of \<open>useTheme()\<close>, an object.
\<close>

record cva_config =
  variants :: "(string \<times> (string \<times> string) list) list"
  defaultVariants :: "(string \<times> string) list"

record 'h widget_lib =
  clsx :: "'h val list \<Rightarrow> string"
  twMerge :: "string \<Rightarrow> string"
  cva :: "string \<Rightarrow> cva_config \<Rightarrow> 'h props \<Rightarrow> string"
  theme :: "'h props"

text \<open>\<open>cn\<close> of \<open>src/console/src/lib/utils.ts\<close>.\<close>

definition cn :: "'h widget_lib \<Rightarrow> 'h val list \<Rightarrow> 'h val" where
  "cn lib inputs = Str (twMerge lib (clsx lib inputs))"

end
