(* ===== verification/Ui_Widgets.thy ===== *)
theory Ui_Widgets
  imports Ui_Elements
begin

text \<open>
  The widgets of \<open>src/console/src/components/ui\<close>, one definition per component: a function from the
  properties it is given to the element it returns. A widget rendered inside another one is called
  with the properties of its tag. The theory shows what all of them promise to the pages: whatever
  property a page gives that the widget does not read itself (handlers, \<open>disabled\<close>, \<open>value\<close>, ARIA
  attributes) arrives unchanged at the element it wraps, and that element carries the slot name the
  style sheet selects it by.
\<close>

text \<open>
  The one handler the widgets have themselves (\<open>input-group.tsx\<close>): a click on an addon focuses the
  first input of the group, unless it hits a button. \<open>click_path\<close> has the tag names from the target
  upwards, \<open>group_inputs\<close> the inputs below the parent of the addon, if it has a parent.
\<close>

record 'i addon_click =
  click_path :: "string list"
  group_inputs :: "'i list option"

definition focus_input :: "'i addon_click \<Rightarrow> 'i option" where
  "focus_input e =
     (if ''button'' \<in> set (click_path e) then None
      else case group_inputs e of Some (i # is) \<Rightarrow> Some i | _ \<Rightarrow> None)"

subsection \<open>\<open>alert.tsx\<close>\<close>

definition alertVariants_base :: string where
  "alertVariants_base =
     ''group/alert relative grid w-full gap-0.5 rounded-lg border px-2.5 py-2 text-left '' @
     ''text-sm has-data-[slot=alert-action]:relative has-data-[slot=alert-action]:pr-18 '' @
     ''has-[>svg]:grid-cols-[auto_1fr] has-[>svg]:gap-x-2 *:[svg]:row-span-2 '' @
     ''*:[svg]:translate-y-0.5 *:[svg]:text-current *:[svg:not([class*='size-'])]:size-4''"

definition alertVariants_config :: cva_config where
  "alertVariants_config =
     \<lparr>variants =
      [(''variant'',
        [(''default'', ''bg-card text-card-foreground''),
         (''destructive'', ''bg-card text-destructive *:data-[slot=alert-description]:text-destructive/90 '' @
          ''*:[svg]:text-current'')])],
      defaultVariants = [(''variant'', ''default'')]\<rparr>"

definition alertVariants :: "'h widget_lib \<Rightarrow> 'h props \<Rightarrow> string" where
  "alertVariants lib = cva lib alertVariants_base alertVariants_config"

definition Alert :: "'h widget_lib \<Rightarrow> 'h props \<Rightarrow> 'h val" where
  "Alert lib args =
     (let className = given ''className'' args;
          variant = given ''variant'' args;
          props = omit [''className'', ''variant''] args
      in jsx (Host ''div'')
       [Attr ''data-slot'' (Str ''alert''),
        Attr ''role'' (Str ''alert''),
        Attr ''className'' (cn lib [(Str (alertVariants lib [(''variant'', variant)])), className]),
        Spread props] [])"

definition AlertTitle_class :: string where
  "AlertTitle_class =
     ''font-medium group-has-[>svg]/alert:col-start-2 [&_a]:underline '' @
     ''[&_a]:underline-offset-3 [&_a]:hover:text-foreground''"

definition AlertTitle :: "'h widget_lib \<Rightarrow> 'h props \<Rightarrow> 'h val" where
  "AlertTitle lib args =
     (let className = given ''className'' args;
          props = omit [''className''] args
      in jsx (Host ''div'')
       [Attr ''data-slot'' (Str ''alert-title''),
        Attr ''className'' (cn lib [(Str AlertTitle_class), className]),
        Spread props] [])"

definition AlertDescription_class :: string where
  "AlertDescription_class =
     ''text-sm text-balance text-muted-foreground md:text-pretty [&_a]:underline '' @
     ''[&_a]:underline-offset-3 [&_a]:hover:text-foreground [&_p:not(:last-child)]:mb-4''"

definition AlertDescription :: "'h widget_lib \<Rightarrow> 'h props \<Rightarrow> 'h val" where
  "AlertDescription lib args =
     (let className = given ''className'' args;
          props = omit [''className''] args
      in jsx (Host ''div'')
       [Attr ''data-slot'' (Str ''alert-description''),
        Attr ''className'' (cn lib [(Str AlertDescription_class), className]),
        Spread props] [])"

definition AlertAction :: "'h widget_lib \<Rightarrow> 'h props \<Rightarrow> 'h val" where
  "AlertAction lib args =
     (let className = given ''className'' args;
          props = omit [''className''] args
      in jsx (Host ''div'')
       [Attr ''data-slot'' (Str ''alert-action''),
        Attr ''className'' (cn lib [(Str ''absolute top-2 right-2''), className]),
        Spread props] [])"

subsection \<open>\<open>badge.tsx\<close>\<close>

definition badgeVariants_base :: string where
  "badgeVariants_base =
     ''group/badge inline-flex h-5 w-fit shrink-0 items-center justify-center gap-1 '' @
     ''overflow-hidden rounded-4xl border border-transparent px-2 py-0.5 text-xs '' @
     ''font-medium whitespace-nowrap transition-all focus-visible:border-ring '' @
     ''focus-visible:ring-[3px] focus-visible:ring-ring/50 '' @
     ''has-data-[icon=inline-end]:pr-1.5 has-data-[icon=inline-start]:pl-1.5 '' @
     ''aria-invalid:border-destructive aria-invalid:ring-destructive/20 '' @
     ''dark:aria-invalid:ring-destructive/40 [&>svg]:pointer-events-none [&>svg]:size-3!''"

definition badgeVariants_config :: cva_config where
  "badgeVariants_config =
     \<lparr>variants =
      [(''variant'',
        [(''default'', ''bg-primary text-primary-foreground [a]:hover:bg-primary/80''),
         (''secondary'', ''bg-secondary text-secondary-foreground [a]:hover:bg-secondary/80''),
         (''destructive'', ''bg-destructive/10 text-destructive focus-visible:ring-destructive/20 '' @
          ''dark:bg-destructive/20 dark:focus-visible:ring-destructive/40 '' @
          ''[a]:hover:bg-destructive/20''),
         (''outline'', ''border-border text-foreground [a]:hover:bg-muted [a]:hover:text-muted-foreground''),
         (''ghost'', ''hover:bg-muted hover:text-muted-foreground dark:hover:bg-muted/50''),
         (''link'', ''text-primary underline-offset-4 hover:underline'')])],
      defaultVariants = [(''variant'', ''default'')]\<rparr>"

definition badgeVariants :: "'h widget_lib \<Rightarrow> 'h props \<Rightarrow> string" where
  "badgeVariants lib = cva lib badgeVariants_base badgeVariants_config"

definition Badge :: "'h widget_lib \<Rightarrow> 'h props \<Rightarrow> 'h val" where
  "Badge lib args =
     (let className = given ''className'' args;
          variant = given_or ''variant'' (Str ''default'') args;
          asChild = given_or ''asChild'' (Flag False) args;
          props = omit [''className'', ''variant'', ''asChild''] args;
          Comp = (if truthy_val asChild then Lib ''Slot'' ''Root'' else Host ''span'')
      in jsx Comp
       [Attr ''data-slot'' (Str ''badge''),
        Attr ''data-variant'' variant,
        Attr ''className'' (cn lib [(Str (badgeVariants lib [(''variant'', variant)])), className]),
        Spread props] [])"

subsection \<open>\<open>button.tsx\<close>\<close>

definition buttonVariants_base :: string where
  "buttonVariants_base =
     ''group/button inline-flex shrink-0 items-center justify-center rounded-lg border '' @
     ''border-transparent bg-clip-padding text-sm font-medium whitespace-nowrap '' @
     ''transition-all outline-none select-none focus-visible:border-ring '' @
     ''focus-visible:ring-3 focus-visible:ring-ring/50 '' @
     ''active:not-aria-[haspopup]:translate-y-px disabled:pointer-events-none '' @
     ''disabled:opacity-50 aria-invalid:border-destructive aria-invalid:ring-3 '' @
     ''aria-invalid:ring-destructive/20 dark:aria-invalid:border-destructive/50 '' @
     ''dark:aria-invalid:ring-destructive/40 [&_svg]:pointer-events-none [&_svg]:shrink-0 '' @
     ''[&_svg:not([class*='size-'])]:size-4''"

definition buttonVariants_config :: cva_config where
  "buttonVariants_config =
     \<lparr>variants =
      [(''variant'',
        [(''default'', ''bg-primary text-primary-foreground [a]:hover:bg-primary/80''),
         (''outline'', ''border-border bg-background hover:bg-muted hover:text-foreground '' @
          ''aria-expanded:bg-muted aria-expanded:text-foreground dark:border-input '' @
          ''dark:bg-input/30 dark:hover:bg-input/50''),
         (''secondary'', ''bg-secondary text-secondary-foreground hover:bg-secondary/80 '' @
          ''aria-expanded:bg-secondary aria-expanded:text-secondary-foreground''),
         (''ghost'', ''hover:bg-muted hover:text-foreground aria-expanded:bg-muted '' @
          ''aria-expanded:text-foreground dark:hover:bg-muted/50''),
         (''destructive'', ''bg-destructive/10 text-destructive hover:bg-destructive/20 '' @
          ''focus-visible:border-destructive/40 focus-visible:ring-destructive/20 '' @
          ''dark:bg-destructive/20 dark:hover:bg-destructive/30 '' @
          ''dark:focus-visible:ring-destructive/40''),
         (''link'', ''text-primary underline-offset-4 hover:underline'')]),
       (''size'',
        [(''default'', ''h-8 gap-1.5 px-2.5 has-data-[icon=inline-end]:pr-2 '' @
          ''has-data-[icon=inline-start]:pl-2''),
         (''xs'', ''h-6 gap-1 rounded-[min(var(--radius-md),10px)] px-2 text-xs '' @
          ''in-data-[slot=button-group]:rounded-lg has-data-[icon=inline-end]:pr-1.5 '' @
          ''has-data-[icon=inline-start]:pl-1.5 [&_svg:not([class*='size-'])]:size-3''),
         (''sm'', ''h-7 gap-1 rounded-[min(var(--radius-md),12px)] px-2.5 text-[0.8rem] '' @
          ''in-data-[slot=button-group]:rounded-lg has-data-[icon=inline-end]:pr-1.5 '' @
          ''has-data-[icon=inline-start]:pl-1.5 [&_svg:not([class*='size-'])]:size-3.5''),
         (''lg'', ''h-9 gap-1.5 px-2.5 has-data-[icon=inline-end]:pr-2 '' @
          ''has-data-[icon=inline-start]:pl-2''),
         (''icon'', ''size-8''),
         (''icon-xs'', ''size-6 rounded-[min(var(--radius-md),10px)] '' @
          ''in-data-[slot=button-group]:rounded-lg [&_svg:not([class*='size-'])]:size-3''),
         (''icon-sm'', ''size-7 rounded-[min(var(--radius-md),12px)] '' @
          ''in-data-[slot=button-group]:rounded-lg''),
         (''icon-lg'', ''size-9'')])],
      defaultVariants = [(''variant'', ''default''), (''size'', ''default'')]\<rparr>"

definition buttonVariants :: "'h widget_lib \<Rightarrow> 'h props \<Rightarrow> string" where
  "buttonVariants lib = cva lib buttonVariants_base buttonVariants_config"

definition Button :: "'h widget_lib \<Rightarrow> 'h props \<Rightarrow> 'h val" where
  "Button lib args =
     (let className = given ''className'' args;
          variant = given_or ''variant'' (Str ''default'') args;
          size = given_or ''size'' (Str ''default'') args;
          asChild = given_or ''asChild'' (Flag False) args;
          props = omit [''className'', ''variant'', ''size'', ''asChild''] args;
          Comp = (if truthy_val asChild then Lib ''Slot'' ''Root'' else Host ''button'')
      in jsx Comp
       [Attr ''data-slot'' (Str ''button''),
        Attr ''data-variant'' variant,
        Attr ''data-size'' size,
        Attr ''className'' (cn lib [(Str (buttonVariants lib [(''variant'', variant), (''size'', size), (''className'', className)]))]),
        Spread props] [])"

subsection \<open>\<open>card.tsx\<close>\<close>

definition Card_class :: string where
  "Card_class =
     ''group/card flex flex-col gap-4 overflow-hidden rounded-xl bg-card py-4 text-sm '' @
     ''text-card-foreground ring-1 ring-foreground/10 has-data-[slot=card-footer]:pb-0 '' @
     ''has-[>img:first-child]:pt-0 data-[size=sm]:gap-3 data-[size=sm]:py-3 '' @
     ''data-[size=sm]:has-data-[slot=card-footer]:pb-0 *:[img:first-child]:rounded-t-xl '' @
     ''*:[img:last-child]:rounded-b-xl''"

definition Card :: "'h widget_lib \<Rightarrow> 'h props \<Rightarrow> 'h val" where
  "Card lib args =
     (let className = given ''className'' args;
          size = given_or ''size'' (Str ''default'') args;
          props = omit [''className'', ''size''] args
      in jsx (Host ''div'')
       [Attr ''data-slot'' (Str ''card''),
        Attr ''data-size'' size,
        Attr ''className'' (cn lib [(Str Card_class), className]),
        Spread props] [])"

definition CardHeader_class :: string where
  "CardHeader_class =
     ''group/card-header @container/card-header grid auto-rows-min items-start gap-1 '' @
     ''rounded-t-xl px-4 group-data-[size=sm]/card:px-3 '' @
     ''has-data-[slot=card-action]:grid-cols-[1fr_auto] '' @
     ''has-data-[slot=card-description]:grid-rows-[auto_auto] [.border-b]:pb-4 '' @
     ''group-data-[size=sm]/card:[.border-b]:pb-3''"

definition CardHeader :: "'h widget_lib \<Rightarrow> 'h props \<Rightarrow> 'h val" where
  "CardHeader lib args =
     (let className = given ''className'' args;
          props = omit [''className''] args
      in jsx (Host ''div'')
       [Attr ''data-slot'' (Str ''card-header''),
        Attr ''className'' (cn lib [(Str CardHeader_class), className]),
        Spread props] [])"

definition CardTitle_class :: string where
  "CardTitle_class =
     ''font-heading text-base leading-snug font-medium group-data-[size=sm]/card:text-sm''"

definition CardTitle :: "'h widget_lib \<Rightarrow> 'h props \<Rightarrow> 'h val" where
  "CardTitle lib args =
     (let className = given ''className'' args;
          props = omit [''className''] args
      in jsx (Host ''div'')
       [Attr ''data-slot'' (Str ''card-title''),
        Attr ''className'' (cn lib [(Str CardTitle_class), className]),
        Spread props] [])"

definition CardDescription :: "'h widget_lib \<Rightarrow> 'h props \<Rightarrow> 'h val" where
  "CardDescription lib args =
     (let className = given ''className'' args;
          props = omit [''className''] args
      in jsx (Host ''div'')
       [Attr ''data-slot'' (Str ''card-description''),
        Attr ''className'' (cn lib [(Str ''text-sm text-muted-foreground''), className]),
        Spread props] [])"

definition CardAction :: "'h widget_lib \<Rightarrow> 'h props \<Rightarrow> 'h val" where
  "CardAction lib args =
     (let className = given ''className'' args;
          props = omit [''className''] args
      in jsx (Host ''div'')
       [Attr ''data-slot'' (Str ''card-action''),
        Attr ''className'' (cn lib [(Str ''col-start-2 row-span-2 row-start-1 self-start justify-self-end''), className]),
        Spread props] [])"

definition CardContent :: "'h widget_lib \<Rightarrow> 'h props \<Rightarrow> 'h val" where
  "CardContent lib args =
     (let className = given ''className'' args;
          props = omit [''className''] args
      in jsx (Host ''div'')
       [Attr ''data-slot'' (Str ''card-content''),
        Attr ''className'' (cn lib [(Str ''px-4 group-data-[size=sm]/card:px-3''), className]),
        Spread props] [])"

definition CardFooter_class :: string where
  "CardFooter_class =
     ''flex items-center rounded-b-xl border-t bg-muted/50 p-4 '' @
     ''group-data-[size=sm]/card:p-3''"

definition CardFooter :: "'h widget_lib \<Rightarrow> 'h props \<Rightarrow> 'h val" where
  "CardFooter lib args =
     (let className = given ''className'' args;
          props = omit [''className''] args
      in jsx (Host ''div'')
       [Attr ''data-slot'' (Str ''card-footer''),
        Attr ''className'' (cn lib [(Str CardFooter_class), className]),
        Spread props] [])"

subsection \<open>\<open>dialog.tsx\<close>\<close>

definition Dialog :: "'h widget_lib \<Rightarrow> 'h props \<Rightarrow> 'h val" where
  "Dialog lib args =
     jsx (Lib ''Dialog'' ''Root'')
       [Attr ''data-slot'' (Str ''dialog''),
        Spread args] []"

definition DialogTrigger :: "'h widget_lib \<Rightarrow> 'h props \<Rightarrow> 'h val" where
  "DialogTrigger lib args =
     jsx (Lib ''Dialog'' ''Trigger'')
       [Attr ''data-slot'' (Str ''dialog-trigger''),
        Spread args] []"

definition DialogPortal :: "'h widget_lib \<Rightarrow> 'h props \<Rightarrow> 'h val" where
  "DialogPortal lib args =
     jsx (Lib ''Dialog'' ''Portal'')
       [Attr ''data-slot'' (Str ''dialog-portal''),
        Spread args] []"

definition DialogClose :: "'h widget_lib \<Rightarrow> 'h props \<Rightarrow> 'h val" where
  "DialogClose lib args =
     jsx (Lib ''Dialog'' ''Close'')
       [Attr ''data-slot'' (Str ''dialog-close''),
        Spread args] []"

definition DialogOverlay_class :: string where
  "DialogOverlay_class =
     ''fixed inset-0 isolate z-50 bg-black/10 duration-100 '' @
     ''supports-backdrop-filter:backdrop-blur-xs data-open:animate-in data-open:fade-in-0 '' @
     ''data-closed:animate-out data-closed:fade-out-0''"

definition DialogOverlay :: "'h widget_lib \<Rightarrow> 'h props \<Rightarrow> 'h val" where
  "DialogOverlay lib args =
     (let className = given ''className'' args;
          props = omit [''className''] args
      in jsx (Lib ''Dialog'' ''Overlay'')
       [Attr ''data-slot'' (Str ''dialog-overlay''),
        Attr ''className'' (cn lib [(Str DialogOverlay_class), className]),
        Spread props] [])"

definition DialogContent_class :: string where
  "DialogContent_class =
     ''fixed top-1/2 left-1/2 z-50 grid w-full max-w-[calc(100%-2rem)] -translate-x-1/2 '' @
     ''-translate-y-1/2 gap-4 rounded-xl bg-popover p-4 text-sm text-popover-foreground '' @
     ''ring-1 ring-foreground/10 duration-100 outline-none sm:max-w-sm '' @
     ''data-open:animate-in data-open:fade-in-0 data-open:zoom-in-95 '' @
     ''data-closed:animate-out data-closed:fade-out-0 data-closed:zoom-out-95''"

definition DialogContent :: "'h widget_lib \<Rightarrow> 'h props \<Rightarrow> 'h val" where
  "DialogContent lib args =
     (let className = given ''className'' args;
          children = given ''children'' args;
          showCloseButton = given_or ''showCloseButton'' (Flag True) args;
          props = omit [''className'', ''children'', ''showCloseButton''] args
      in DialogPortal lib (jsx_args
       []
       [DialogOverlay lib [],
        jsx (Lib ''Dialog'' ''Content'')
         [Attr ''data-slot'' (Str ''dialog-content''),
          Attr ''className'' (cn lib [(Str DialogContent_class), className]),
          Spread props]
         [children,
          js_and showCloseButton (jsx (Lib ''Dialog'' ''Close'')
             [Attr ''data-slot'' (Str ''dialog-close''),
              Attr ''asChild'' (Flag True)]
             [Button lib (jsx_args
               [Attr ''variant'' (Str ''ghost''),
                Attr ''className'' (Str ''absolute top-2 right-2''),
                Attr ''size'' (Str ''icon-sm'')]
               [jsx (Lib ''lucide'' ''XIcon'')
                 [] [],
                jsx (Host ''span'')
                 [Attr ''className'' (Str ''sr-only'')]
                 [Str ''Close'']])])]]))"

definition DialogHeader :: "'h widget_lib \<Rightarrow> 'h props \<Rightarrow> 'h val" where
  "DialogHeader lib args =
     (let className = given ''className'' args;
          props = omit [''className''] args
      in jsx (Host ''div'')
       [Attr ''data-slot'' (Str ''dialog-header''),
        Attr ''className'' (cn lib [(Str ''flex flex-col gap-2''), className]),
        Spread props] [])"

definition DialogFooter_class :: string where
  "DialogFooter_class =
     ''-mx-4 -mb-4 flex flex-col-reverse gap-2 rounded-b-xl border-t bg-muted/50 p-4 '' @
     ''sm:flex-row sm:justify-end''"

definition DialogFooter :: "'h widget_lib \<Rightarrow> 'h props \<Rightarrow> 'h val" where
  "DialogFooter lib args =
     (let className = given ''className'' args;
          showCloseButton = given_or ''showCloseButton'' (Flag False) args;
          children = given ''children'' args;
          props = omit [''className'', ''showCloseButton'', ''children''] args
      in jsx (Host ''div'')
       [Attr ''data-slot'' (Str ''dialog-footer''),
        Attr ''className'' (cn lib [(Str DialogFooter_class), className]),
        Spread props]
       [children,
        js_and showCloseButton (jsx (Lib ''Dialog'' ''Close'')
           [Attr ''asChild'' (Flag True)]
           [Button lib (jsx_args
             [Attr ''variant'' (Str ''outline'')]
             [Str ''Close''])])])"

definition DialogTitle :: "'h widget_lib \<Rightarrow> 'h props \<Rightarrow> 'h val" where
  "DialogTitle lib args =
     (let className = given ''className'' args;
          props = omit [''className''] args
      in jsx (Lib ''Dialog'' ''Title'')
       [Attr ''data-slot'' (Str ''dialog-title''),
        Attr ''className'' (cn lib [(Str ''font-heading text-base leading-none font-medium''), className]),
        Spread props] [])"

definition DialogDescription_class :: string where
  "DialogDescription_class =
     ''text-sm text-muted-foreground *:[a]:underline *:[a]:underline-offset-3 '' @
     ''*:[a]:hover:text-foreground''"

definition DialogDescription :: "'h widget_lib \<Rightarrow> 'h props \<Rightarrow> 'h val" where
  "DialogDescription lib args =
     (let className = given ''className'' args;
          props = omit [''className''] args
      in jsx (Lib ''Dialog'' ''Description'')
       [Attr ''data-slot'' (Str ''dialog-description''),
        Attr ''className'' (cn lib [(Str DialogDescription_class), className]),
        Spread props] [])"

subsection \<open>\<open>separator.tsx\<close>\<close>

definition Separator_class :: string where
  "Separator_class =
     ''shrink-0 bg-border data-horizontal:h-px data-horizontal:w-full data-vertical:w-px '' @
     ''data-vertical:self-stretch''"

definition Separator :: "'h widget_lib \<Rightarrow> 'h props \<Rightarrow> 'h val" where
  "Separator lib args =
     (let className = given ''className'' args;
          orientation = given_or ''orientation'' (Str ''horizontal'') args;
          decorative = given_or ''decorative'' (Flag True) args;
          props = omit [''className'', ''orientation'', ''decorative''] args
      in jsx (Lib ''Separator'' ''Root'')
       [Attr ''data-slot'' (Str ''separator''),
        Attr ''decorative'' decorative,
        Attr ''orientation'' orientation,
        Attr ''className'' (cn lib [(Str Separator_class), className]),
        Spread props] [])"

subsection \<open>\<open>sheet.tsx\<close>\<close>

definition Sheet :: "'h widget_lib \<Rightarrow> 'h props \<Rightarrow> 'h val" where
  "Sheet lib args =
     jsx (Lib ''Dialog'' ''Root'')
       [Attr ''data-slot'' (Str ''sheet''),
        Spread args] []"

definition SheetTrigger :: "'h widget_lib \<Rightarrow> 'h props \<Rightarrow> 'h val" where
  "SheetTrigger lib args =
     jsx (Lib ''Dialog'' ''Trigger'')
       [Attr ''data-slot'' (Str ''sheet-trigger''),
        Spread args] []"

definition SheetClose :: "'h widget_lib \<Rightarrow> 'h props \<Rightarrow> 'h val" where
  "SheetClose lib args =
     jsx (Lib ''Dialog'' ''Close'')
       [Attr ''data-slot'' (Str ''sheet-close''),
        Spread args] []"

definition SheetPortal :: "'h widget_lib \<Rightarrow> 'h props \<Rightarrow> 'h val" where
  "SheetPortal lib args =
     jsx (Lib ''Dialog'' ''Portal'')
       [Attr ''data-slot'' (Str ''sheet-portal''),
        Spread args] []"

definition SheetOverlay_class :: string where
  "SheetOverlay_class =
     ''fixed inset-0 z-50 bg-black/10 duration-100 '' @
     ''supports-backdrop-filter:backdrop-blur-xs data-open:animate-in data-open:fade-in-0 '' @
     ''data-closed:animate-out data-closed:fade-out-0''"

definition SheetOverlay :: "'h widget_lib \<Rightarrow> 'h props \<Rightarrow> 'h val" where
  "SheetOverlay lib args =
     (let className = given ''className'' args;
          props = omit [''className''] args
      in jsx (Lib ''Dialog'' ''Overlay'')
       [Attr ''data-slot'' (Str ''sheet-overlay''),
        Attr ''className'' (cn lib [(Str SheetOverlay_class), className]),
        Spread props] [])"

definition SheetContent_class :: string where
  "SheetContent_class =
     ''fixed z-50 flex flex-col gap-4 bg-popover bg-clip-padding text-sm '' @
     ''text-popover-foreground shadow-lg transition duration-200 ease-in-out '' @
     ''data-[side=bottom]:inset-x-0 data-[side=bottom]:bottom-0 data-[side=bottom]:h-auto '' @
     ''data-[side=bottom]:border-t data-[side=left]:inset-y-0 data-[side=left]:left-0 '' @
     ''data-[side=left]:h-full data-[side=left]:w-3/4 data-[side=left]:border-r '' @
     ''data-[side=right]:inset-y-0 data-[side=right]:right-0 data-[side=right]:h-full '' @
     ''data-[side=right]:w-3/4 data-[side=right]:border-l data-[side=top]:inset-x-0 '' @
     ''data-[side=top]:top-0 data-[side=top]:h-auto data-[side=top]:border-b '' @
     ''data-[side=left]:sm:max-w-sm data-[side=right]:sm:max-w-sm data-open:animate-in '' @
     ''data-open:fade-in-0 data-[side=bottom]:data-open:slide-in-from-bottom-10 '' @
     ''data-[side=left]:data-open:slide-in-from-left-10 '' @
     ''data-[side=right]:data-open:slide-in-from-right-10 '' @
     ''data-[side=top]:data-open:slide-in-from-top-10 data-closed:animate-out '' @
     ''data-closed:fade-out-0 data-[side=bottom]:data-closed:slide-out-to-bottom-10 '' @
     ''data-[side=left]:data-closed:slide-out-to-left-10 '' @
     ''data-[side=right]:data-closed:slide-out-to-right-10 '' @
     ''data-[side=top]:data-closed:slide-out-to-top-10''"

definition SheetContent :: "'h widget_lib \<Rightarrow> 'h props \<Rightarrow> 'h val" where
  "SheetContent lib args =
     (let className = given ''className'' args;
          children = given ''children'' args;
          side = given_or ''side'' (Str ''right'') args;
          showCloseButton = given_or ''showCloseButton'' (Flag True) args;
          props = omit [''className'', ''children'', ''side'', ''showCloseButton''] args
      in SheetPortal lib (jsx_args
       []
       [SheetOverlay lib [],
        jsx (Lib ''Dialog'' ''Content'')
         [Attr ''data-slot'' (Str ''sheet-content''),
          Attr ''data-side'' side,
          Attr ''className'' (cn lib [(Str SheetContent_class), className]),
          Spread props]
         [children,
          js_and showCloseButton (jsx (Lib ''Dialog'' ''Close'')
             [Attr ''data-slot'' (Str ''sheet-close''),
              Attr ''asChild'' (Flag True)]
             [Button lib (jsx_args
               [Attr ''variant'' (Str ''ghost''),
                Attr ''className'' (Str ''absolute top-3 right-3''),
                Attr ''size'' (Str ''icon-sm'')]
               [jsx (Lib ''lucide'' ''XIcon'')
                 [] [],
                jsx (Host ''span'')
                 [Attr ''className'' (Str ''sr-only'')]
                 [Str ''Close'']])])]]))"

definition SheetHeader :: "'h widget_lib \<Rightarrow> 'h props \<Rightarrow> 'h val" where
  "SheetHeader lib args =
     (let className = given ''className'' args;
          props = omit [''className''] args
      in jsx (Host ''div'')
       [Attr ''data-slot'' (Str ''sheet-header''),
        Attr ''className'' (cn lib [(Str ''flex flex-col gap-0.5 p-4''), className]),
        Spread props] [])"

definition SheetFooter :: "'h widget_lib \<Rightarrow> 'h props \<Rightarrow> 'h val" where
  "SheetFooter lib args =
     (let className = given ''className'' args;
          props = omit [''className''] args
      in jsx (Host ''div'')
       [Attr ''data-slot'' (Str ''sheet-footer''),
        Attr ''className'' (cn lib [(Str ''mt-auto flex flex-col gap-2 p-4''), className]),
        Spread props] [])"

definition SheetTitle :: "'h widget_lib \<Rightarrow> 'h props \<Rightarrow> 'h val" where
  "SheetTitle lib args =
     (let className = given ''className'' args;
          props = omit [''className''] args
      in jsx (Lib ''Dialog'' ''Title'')
       [Attr ''data-slot'' (Str ''sheet-title''),
        Attr ''className'' (cn lib [(Str ''font-heading text-base font-medium text-foreground''), className]),
        Spread props] [])"

definition SheetDescription :: "'h widget_lib \<Rightarrow> 'h props \<Rightarrow> 'h val" where
  "SheetDescription lib args =
     (let className = given ''className'' args;
          props = omit [''className''] args
      in jsx (Lib ''Dialog'' ''Description'')
       [Attr ''data-slot'' (Str ''sheet-description''),
        Attr ''className'' (cn lib [(Str ''text-sm text-muted-foreground''), className]),
        Spread props] [])"

subsection \<open>\<open>skeleton.tsx\<close>\<close>

definition Skeleton :: "'h widget_lib \<Rightarrow> 'h props \<Rightarrow> 'h val" where
  "Skeleton lib args =
     (let className = given ''className'' args;
          props = omit [''className''] args
      in jsx (Host ''div'')
       [Attr ''data-slot'' (Str ''skeleton''),
        Attr ''className'' (cn lib [(Str ''animate-pulse rounded-md bg-muted''), className]),
        Spread props] [])"

subsection \<open>\<open>table.tsx\<close>\<close>

definition Table :: "'h widget_lib \<Rightarrow> 'h props \<Rightarrow> 'h val" where
  "Table lib args =
     (let className = given ''className'' args;
          props = omit [''className''] args
      in jsx (Host ''div'')
       [Attr ''data-slot'' (Str ''table-container''),
        Attr ''className'' (Str ''relative w-full overflow-x-auto'')]
       [jsx (Host ''table'')
         [Attr ''data-slot'' (Str ''table''),
          Attr ''className'' (cn lib [(Str ''w-full caption-bottom text-sm''), className]),
          Spread props] []])"

definition TableHeader :: "'h widget_lib \<Rightarrow> 'h props \<Rightarrow> 'h val" where
  "TableHeader lib args =
     (let className = given ''className'' args;
          props = omit [''className''] args
      in jsx (Host ''thead'')
       [Attr ''data-slot'' (Str ''table-header''),
        Attr ''className'' (cn lib [(Str ''[&_tr]:border-b''), className]),
        Spread props] [])"

definition TableBody :: "'h widget_lib \<Rightarrow> 'h props \<Rightarrow> 'h val" where
  "TableBody lib args =
     (let className = given ''className'' args;
          props = omit [''className''] args
      in jsx (Host ''tbody'')
       [Attr ''data-slot'' (Str ''table-body''),
        Attr ''className'' (cn lib [(Str ''[&_tr:last-child]:border-0''), className]),
        Spread props] [])"

definition TableFooter :: "'h widget_lib \<Rightarrow> 'h props \<Rightarrow> 'h val" where
  "TableFooter lib args =
     (let className = given ''className'' args;
          props = omit [''className''] args
      in jsx (Host ''tfoot'')
       [Attr ''data-slot'' (Str ''table-footer''),
        Attr ''className'' (cn lib [(Str ''border-t bg-muted/50 font-medium [&>tr]:last:border-b-0''), className]),
        Spread props] [])"

definition TableRow_class :: string where
  "TableRow_class =
     ''border-b transition-colors hover:bg-muted/50 has-aria-expanded:bg-muted/50 '' @
     ''data-[state=selected]:bg-muted''"

definition TableRow :: "'h widget_lib \<Rightarrow> 'h props \<Rightarrow> 'h val" where
  "TableRow lib args =
     (let className = given ''className'' args;
          props = omit [''className''] args
      in jsx (Host ''tr'')
       [Attr ''data-slot'' (Str ''table-row''),
        Attr ''className'' (cn lib [(Str TableRow_class), className]),
        Spread props] [])"

definition TableHead_class :: string where
  "TableHead_class =
     ''h-10 px-2 text-left align-middle font-medium whitespace-nowrap text-foreground '' @
     ''[&:has([role=checkbox])]:pr-0''"

definition TableHead :: "'h widget_lib \<Rightarrow> 'h props \<Rightarrow> 'h val" where
  "TableHead lib args =
     (let className = given ''className'' args;
          props = omit [''className''] args
      in jsx (Host ''th'')
       [Attr ''data-slot'' (Str ''table-head''),
        Attr ''className'' (cn lib [(Str TableHead_class), className]),
        Spread props] [])"

definition TableCell :: "'h widget_lib \<Rightarrow> 'h props \<Rightarrow> 'h val" where
  "TableCell lib args =
     (let className = given ''className'' args;
          props = omit [''className''] args
      in jsx (Host ''td'')
       [Attr ''data-slot'' (Str ''table-cell''),
        Attr ''className'' (cn lib [(Str ''p-2 align-middle whitespace-nowrap [&:has([role=checkbox])]:pr-0''), className]),
        Spread props] [])"

definition TableCaption :: "'h widget_lib \<Rightarrow> 'h props \<Rightarrow> 'h val" where
  "TableCaption lib args =
     (let className = given ''className'' args;
          props = omit [''className''] args
      in jsx (Host ''caption'')
       [Attr ''data-slot'' (Str ''table-caption''),
        Attr ''className'' (cn lib [(Str ''mt-4 text-sm text-muted-foreground''), className]),
        Spread props] [])"

subsection \<open>\<open>tabs.tsx\<close>\<close>

definition Tabs :: "'h widget_lib \<Rightarrow> 'h props \<Rightarrow> 'h val" where
  "Tabs lib args =
     (let className = given ''className'' args;
          orientation = given_or ''orientation'' (Str ''horizontal'') args;
          props = omit [''className'', ''orientation''] args
      in jsx (Lib ''Tabs'' ''Root'')
       [Attr ''data-slot'' (Str ''tabs''),
        Attr ''data-orientation'' orientation,
        Attr ''className'' (cn lib [(Str ''group/tabs flex gap-2 data-horizontal:flex-col''), className]),
        Spread props] [])"

definition tabsListVariants_base :: string where
  "tabsListVariants_base =
     ''group/tabs-list inline-flex w-fit items-center justify-center rounded-lg p-[3px] '' @
     ''text-muted-foreground group-data-horizontal/tabs:h-8 group-data-vertical/tabs:h-fit '' @
     ''group-data-vertical/tabs:flex-col data-[variant=line]:rounded-none''"

definition tabsListVariants_config :: cva_config where
  "tabsListVariants_config =
     \<lparr>variants =
      [(''variant'',
        [(''default'', ''bg-muted''),
         (''line'', ''gap-1 bg-transparent'')])],
      defaultVariants = [(''variant'', ''default'')]\<rparr>"

definition tabsListVariants :: "'h widget_lib \<Rightarrow> 'h props \<Rightarrow> string" where
  "tabsListVariants lib = cva lib tabsListVariants_base tabsListVariants_config"

definition TabsList :: "'h widget_lib \<Rightarrow> 'h props \<Rightarrow> 'h val" where
  "TabsList lib args =
     (let className = given ''className'' args;
          variant = given_or ''variant'' (Str ''default'') args;
          props = omit [''className'', ''variant''] args
      in jsx (Lib ''Tabs'' ''List'')
       [Attr ''data-slot'' (Str ''tabs-list''),
        Attr ''data-variant'' variant,
        Attr ''className'' (cn lib [(Str (tabsListVariants lib [(''variant'', variant)])), className]),
        Spread props] [])"

definition TabsTrigger_class :: string where
  "TabsTrigger_class =
     ''relative inline-flex h-[calc(100%-1px)] flex-1 items-center justify-center gap-1.5 '' @
     ''rounded-md border border-transparent px-1.5 py-0.5 text-sm font-medium '' @
     ''whitespace-nowrap text-foreground/60 transition-all group-data-vertical/tabs:w-full '' @
     ''group-data-vertical/tabs:justify-start hover:text-foreground '' @
     ''focus-visible:border-ring focus-visible:ring-[3px] focus-visible:ring-ring/50 '' @
     ''focus-visible:outline-1 focus-visible:outline-ring disabled:pointer-events-none '' @
     ''disabled:opacity-50 has-data-[icon=inline-end]:pr-1 '' @
     ''has-data-[icon=inline-start]:pl-1 dark:text-muted-foreground '' @
     ''dark:hover:text-foreground '' @
     ''group-data-[variant=default]/tabs-list:data-active:shadow-sm '' @
     ''group-data-[variant=line]/tabs-list:data-active:shadow-none '' @
     ''[&_svg]:pointer-events-none [&_svg]:shrink-0 [&_svg:not([class*='size-'])]:size-4''"

definition TabsTrigger_class2 :: string where
  "TabsTrigger_class2 =
     ''group-data-[variant=line]/tabs-list:bg-transparent '' @
     ''group-data-[variant=line]/tabs-list:data-active:bg-transparent '' @
     ''dark:group-data-[variant=line]/tabs-list:data-active:border-transparent '' @
     ''dark:group-data-[variant=line]/tabs-list:data-active:bg-transparent''"

definition TabsTrigger_class3 :: string where
  "TabsTrigger_class3 =
     ''data-active:bg-background data-active:text-foreground '' @
     ''data-[state=active]:bg-background data-[state=active]:text-foreground '' @
     ''dark:data-active:border-input dark:data-active:bg-input/30 '' @
     ''dark:data-active:text-foreground dark:data-[state=active]:border-input '' @
     ''dark:data-[state=active]:bg-input/30 dark:data-[state=active]:text-foreground''"

definition TabsTrigger_class4 :: string where
  "TabsTrigger_class4 =
     ''after:absolute after:bg-foreground after:opacity-0 after:transition-opacity '' @
     ''group-data-horizontal/tabs:after:inset-x-0 '' @
     ''group-data-horizontal/tabs:after:bottom-[-5px] '' @
     ''group-data-horizontal/tabs:after:h-0.5 group-data-vertical/tabs:after:inset-y-0 '' @
     ''group-data-vertical/tabs:after:-right-1 group-data-vertical/tabs:after:w-0.5 '' @
     ''group-data-[variant=line]/tabs-list:data-active:after:opacity-100 '' @
     ''group-data-[variant=line]/tabs-list:data-[state=active]:after:opacity-100''"

definition TabsTrigger :: "'h widget_lib \<Rightarrow> 'h props \<Rightarrow> 'h val" where
  "TabsTrigger lib args =
     (let className = given ''className'' args;
          props = omit [''className''] args
      in jsx (Lib ''Tabs'' ''Trigger'')
       [Attr ''data-slot'' (Str ''tabs-trigger''),
        Attr ''className'' (cn lib [(Str TabsTrigger_class), (Str TabsTrigger_class2), (Str TabsTrigger_class3), (Str TabsTrigger_class4), className]),
        Spread props] [])"

definition TabsContent :: "'h widget_lib \<Rightarrow> 'h props \<Rightarrow> 'h val" where
  "TabsContent lib args =
     (let className = given ''className'' args;
          props = omit [''className''] args
      in jsx (Lib ''Tabs'' ''Content'')
       [Attr ''data-slot'' (Str ''tabs-content''),
        Attr ''className'' (cn lib [(Str ''flex-1 text-sm outline-none''), className]),
        Spread props] [])"

subsection \<open>\<open>textarea.tsx\<close>\<close>

definition Textarea_class :: string where
  "Textarea_class =
     ''flex field-sizing-content min-h-16 w-full rounded-lg border border-input '' @
     ''bg-transparent px-2.5 py-2 text-base transition-colors outline-none '' @
     ''placeholder:text-muted-foreground focus-visible:border-ring focus-visible:ring-3 '' @
     ''focus-visible:ring-ring/50 disabled:cursor-not-allowed disabled:bg-input/50 '' @
     ''disabled:opacity-50 aria-invalid:border-destructive aria-invalid:ring-3 '' @
     ''aria-invalid:ring-destructive/20 md:text-sm dark:bg-input/30 '' @
     ''dark:disabled:bg-input/80 dark:aria-invalid:border-destructive/50 '' @
     ''dark:aria-invalid:ring-destructive/40''"

definition Textarea :: "'h widget_lib \<Rightarrow> 'h props \<Rightarrow> 'h val" where
  "Textarea lib args =
     (let className = given ''className'' args;
          props = omit [''className''] args
      in jsx (Host ''textarea'')
       [Attr ''data-slot'' (Str ''textarea''),
        Attr ''className'' (cn lib [(Str Textarea_class), className]),
        Spread props] [])"

subsection \<open>\<open>input.tsx\<close>\<close>

definition Input_class :: string where
  "Input_class =
     ''h-8 w-full min-w-0 rounded-lg border border-input bg-transparent px-2.5 py-1 '' @
     ''text-base transition-colors outline-none file:inline-flex file:h-6 file:border-0 '' @
     ''file:bg-transparent file:text-sm file:font-medium file:text-foreground '' @
     ''placeholder:text-muted-foreground focus-visible:border-ring focus-visible:ring-3 '' @
     ''focus-visible:ring-ring/50 disabled:pointer-events-none disabled:cursor-not-allowed '' @
     ''disabled:bg-input/50 disabled:opacity-50 aria-invalid:border-destructive '' @
     ''aria-invalid:ring-3 aria-invalid:ring-destructive/20 md:text-sm dark:bg-input/30 '' @
     ''dark:disabled:bg-input/80 dark:aria-invalid:border-destructive/50 '' @
     ''dark:aria-invalid:ring-destructive/40''"

definition Input :: "'h widget_lib \<Rightarrow> 'h props \<Rightarrow> 'h val" where
  "Input lib args =
     (let className = given ''className'' args;
          type = given ''type'' args;
          props = omit [''className'', ''type''] args
      in jsx (Host ''input'')
       [Attr ''type'' type,
        Attr ''data-slot'' (Str ''input''),
        Attr ''className'' (cn lib [(Str Input_class), className]),
        Spread props] [])"

subsection \<open>\<open>input-group.tsx\<close>\<close>

definition InputGroup_class :: string where
  "InputGroup_class =
     ''group/input-group relative flex h-8 w-full min-w-0 items-center rounded-lg border '' @
     ''border-input transition-colors outline-none '' @
     ''in-data-[slot=combobox-content]:focus-within:border-inherit '' @
     ''in-data-[slot=combobox-content]:focus-within:ring-0 has-disabled:bg-input/50 '' @
     ''has-disabled:opacity-50 has-['' @
     ''[data-slot=input-group-control]:focus-visible]:border-ring has-['' @
     ''[data-slot=input-group-control]:focus-visible]:ring-3 has-['' @
     ''[data-slot=input-group-control]:focus-visible]:ring-ring/50 has-['' @
     ''[data-slot][aria-invalid=true]]:border-destructive has-['' @
     ''[data-slot][aria-invalid=true]]:ring-3 has-['' @
     ''[data-slot][aria-invalid=true]]:ring-destructive/20 '' @
     ''has-[>[data-align=block-end]]:h-auto has-[>[data-align=block-end]]:flex-col '' @
     ''has-[>[data-align=block-start]]:h-auto has-[>[data-align=block-start]]:flex-col '' @
     ''has-[>textarea]:h-auto dark:bg-input/30 dark:has-disabled:bg-input/80 dark:has-['' @
     ''[data-slot][aria-invalid=true]]:ring-destructive/40 '' @
     ''has-[>[data-align=block-end]]:[&>input]:pt-3 '' @
     ''has-[>[data-align=block-start]]:[&>input]:pb-3 '' @
     ''has-[>[data-align=inline-end]]:[&>input]:pr-1.5 '' @
     ''has-[>[data-align=inline-start]]:[&>input]:pl-1.5''"

definition InputGroup :: "'h widget_lib \<Rightarrow> 'h props \<Rightarrow> 'h val" where
  "InputGroup lib args =
     (let className = given ''className'' args;
          props = omit [''className''] args
      in jsx (Host ''div'')
       [Attr ''data-slot'' (Str ''input-group''),
        Attr ''role'' (Str ''group''),
        Attr ''className'' (cn lib [(Str InputGroup_class), className]),
        Spread props] [])"

definition inputGroupAddonVariants_base :: string where
  "inputGroupAddonVariants_base =
     ''flex h-auto cursor-text items-center justify-center gap-2 py-1.5 text-sm '' @
     ''font-medium text-muted-foreground select-none '' @
     ''group-data-[disabled=true]/input-group:opacity-50 '' @
     ''[&>kbd]:rounded-[calc(var(--radius)-5px)] [&>svg:not([class*='size-'])]:size-4''"

definition inputGroupAddonVariants_config :: cva_config where
  "inputGroupAddonVariants_config =
     \<lparr>variants =
      [(''align'',
        [(''inline-start'', ''order-first pl-2 has-[>button]:ml-[-0.3rem] has-[>kbd]:ml-[-0.15rem]''),
         (''inline-end'', ''order-last pr-2 has-[>button]:mr-[-0.3rem] has-[>kbd]:mr-[-0.15rem]''),
         (''block-start'', ''order-first w-full justify-start px-2.5 pt-2 '' @
          ''group-has-[>input]/input-group:pt-2 [.border-b]:pb-2''),
         (''block-end'', ''order-last w-full justify-start px-2.5 pb-2 group-has-[>input]/input-group:pb-2 '' @
          ''[.border-t]:pt-2'')])],
      defaultVariants = [(''align'', ''inline-start'')]\<rparr>"

definition inputGroupAddonVariants :: "'h widget_lib \<Rightarrow> 'h props \<Rightarrow> string" where
  "inputGroupAddonVariants lib = cva lib inputGroupAddonVariants_base inputGroupAddonVariants_config"

definition InputGroupAddon :: "'h widget_lib \<Rightarrow> 'h props \<Rightarrow> 'h val" where
  "InputGroupAddon lib args =
     (let className = given ''className'' args;
          align = given_or ''align'' (Str ''inline-start'') args;
          props = omit [''className'', ''align''] args
      in jsx (Host ''div'')
       [Attr ''role'' (Str ''group''),
        Attr ''data-slot'' (Str ''input-group-addon''),
        Attr ''data-align'' align,
        Attr ''className'' (cn lib [(Str (inputGroupAddonVariants lib [(''align'', align)])), className]),
        Attr ''onClick'' (Fn FocusInput),
        Spread props] [])"

definition inputGroupButtonVariants_base :: string where
  "inputGroupButtonVariants_base =
     ''flex items-center gap-2 text-sm shadow-none''"

definition inputGroupButtonVariants_config :: cva_config where
  "inputGroupButtonVariants_config =
     \<lparr>variants =
      [(''size'',
        [(''xs'', ''h-6 gap-1 rounded-[calc(var(--radius)-3px)] px-1.5 '' @
          ''[&>svg:not([class*='size-'])]:size-3.5''),
         (''sm'', ''''),
         (''icon-xs'', ''size-6 rounded-[calc(var(--radius)-3px)] p-0 has-[>svg]:p-0''),
         (''icon-sm'', ''size-8 p-0 has-[>svg]:p-0'')])],
      defaultVariants = [(''size'', ''xs'')]\<rparr>"

definition inputGroupButtonVariants :: "'h widget_lib \<Rightarrow> 'h props \<Rightarrow> string" where
  "inputGroupButtonVariants lib = cva lib inputGroupButtonVariants_base inputGroupButtonVariants_config"

definition InputGroupButton :: "'h widget_lib \<Rightarrow> 'h props \<Rightarrow> 'h val" where
  "InputGroupButton lib args =
     (let className = given ''className'' args;
          type = given_or ''type'' (Str ''button'') args;
          variant = given_or ''variant'' (Str ''ghost'') args;
          size = given_or ''size'' (Str ''xs'') args;
          props = omit [''className'', ''type'', ''variant'', ''size''] args
      in Button lib (jsx_args
       [Attr ''type'' type,
        Attr ''data-size'' size,
        Attr ''variant'' variant,
        Attr ''className'' (cn lib [(Str (inputGroupButtonVariants lib [(''size'', size)])), className]),
        Spread props] []))"

definition InputGroupText_class :: string where
  "InputGroupText_class =
     ''flex items-center gap-2 text-sm text-muted-foreground [&_svg]:pointer-events-none '' @
     ''[&_svg:not([class*='size-'])]:size-4''"

definition InputGroupText :: "'h widget_lib \<Rightarrow> 'h props \<Rightarrow> 'h val" where
  "InputGroupText lib args =
     (let className = given ''className'' args;
          props = omit [''className''] args
      in jsx (Host ''span'')
       [Attr ''className'' (cn lib [(Str InputGroupText_class), className]),
        Spread props] [])"

definition InputGroupInput_class :: string where
  "InputGroupInput_class =
     ''flex-1 rounded-none border-0 bg-transparent shadow-none ring-0 focus-visible:ring-0 '' @
     ''disabled:bg-transparent aria-invalid:ring-0 dark:bg-transparent '' @
     ''dark:disabled:bg-transparent''"

definition InputGroupInput :: "'h widget_lib \<Rightarrow> 'h props \<Rightarrow> 'h val" where
  "InputGroupInput lib args =
     (let className = given ''className'' args;
          props = omit [''className''] args
      in Input lib (jsx_args
       [Attr ''data-slot'' (Str ''input-group-control''),
        Attr ''className'' (cn lib [(Str InputGroupInput_class), className]),
        Spread props] []))"

definition InputGroupTextarea_class :: string where
  "InputGroupTextarea_class =
     ''flex-1 resize-none rounded-none border-0 bg-transparent py-2 shadow-none ring-0 '' @
     ''focus-visible:ring-0 disabled:bg-transparent aria-invalid:ring-0 '' @
     ''dark:bg-transparent dark:disabled:bg-transparent''"

definition InputGroupTextarea :: "'h widget_lib \<Rightarrow> 'h props \<Rightarrow> 'h val" where
  "InputGroupTextarea lib args =
     (let className = given ''className'' args;
          props = omit [''className''] args
      in Textarea lib (jsx_args
       [Attr ''data-slot'' (Str ''input-group-control''),
        Attr ''className'' (cn lib [(Str InputGroupTextarea_class), className]),
        Spread props] []))"

subsection \<open>\<open>command.tsx\<close>\<close>

definition Command_class :: string where
  "Command_class =
     ''flex size-full flex-col overflow-hidden rounded-xl! bg-popover p-1 '' @
     ''text-popover-foreground''"

definition Command :: "'h widget_lib \<Rightarrow> 'h props \<Rightarrow> 'h val" where
  "Command lib args =
     (let className = given ''className'' args;
          props = omit [''className''] args
      in jsx (Lib ''Command'' '''')
       [Attr ''data-slot'' (Str ''command''),
        Attr ''className'' (cn lib [(Str Command_class), className]),
        Spread props] [])"

definition CommandDialog :: "'h widget_lib \<Rightarrow> 'h props \<Rightarrow> 'h val" where
  "CommandDialog lib args =
     (let title = given_or ''title'' (Str ''Command Palette'') args;
          description = given_or ''description'' (Str ''Search for a command to run...'') args;
          children = given ''children'' args;
          className = given ''className'' args;
          showCloseButton = given_or ''showCloseButton'' (Flag False) args;
          props = omit [''title'', ''description'', ''children'', ''className'', ''showCloseButton''] args
      in Dialog lib (jsx_args
       [Spread props]
       [DialogHeader lib (jsx_args
         [Attr ''className'' (Str ''sr-only'')]
         [DialogTitle lib (jsx_args
           []
           [title]),
          DialogDescription lib (jsx_args
           []
           [description])]),
        DialogContent lib (jsx_args
         [Attr ''className'' (cn lib [(Str ''top-1/3 translate-y-0 overflow-hidden rounded-xl! p-0''), className]),
          Attr ''showCloseButton'' showCloseButton]
         [children])]))"

definition CommandInput_class :: string where
  "CommandInput_class =
     ''h-8! rounded-lg! border-input/30 bg-input/30 shadow-none! '' @
     ''*:data-[slot=input-group-addon]:pl-2!''"

definition CommandInput_class2 :: string where
  "CommandInput_class2 =
     ''w-full text-sm outline-hidden disabled:cursor-not-allowed disabled:opacity-50''"

definition CommandInput :: "'h widget_lib \<Rightarrow> 'h props \<Rightarrow> 'h val" where
  "CommandInput lib args =
     (let className = given ''className'' args;
          props = omit [''className''] args
      in jsx (Host ''div'')
       [Attr ''data-slot'' (Str ''command-input-wrapper''),
        Attr ''className'' (Str ''p-1 pb-0'')]
       [InputGroup lib (jsx_args
         [Attr ''className'' (Str CommandInput_class)]
         [jsx (Lib ''Command'' ''Input'')
           [Attr ''data-slot'' (Str ''command-input''),
            Attr ''className'' (cn lib [(Str CommandInput_class2), className]),
            Spread props] [],
          InputGroupAddon lib (jsx_args
           []
           [jsx (Lib ''lucide'' ''SearchIcon'')
             [Attr ''className'' (Str ''size-4 shrink-0 opacity-50'')] []])])])"

definition CommandList_class :: string where
  "CommandList_class =
     ''no-scrollbar max-h-72 scroll-py-1 overflow-x-hidden overflow-y-auto outline-none''"

definition CommandList :: "'h widget_lib \<Rightarrow> 'h props \<Rightarrow> 'h val" where
  "CommandList lib args =
     (let className = given ''className'' args;
          props = omit [''className''] args
      in jsx (Lib ''Command'' ''List'')
       [Attr ''data-slot'' (Str ''command-list''),
        Attr ''className'' (cn lib [(Str CommandList_class), className]),
        Spread props] [])"

definition CommandEmpty :: "'h widget_lib \<Rightarrow> 'h props \<Rightarrow> 'h val" where
  "CommandEmpty lib args =
     (let className = given ''className'' args;
          props = omit [''className''] args
      in jsx (Lib ''Command'' ''Empty'')
       [Attr ''data-slot'' (Str ''command-empty''),
        Attr ''className'' (cn lib [(Str ''py-6 text-center text-sm''), className]),
        Spread props] [])"

definition CommandGroup_class :: string where
  "CommandGroup_class =
     ''overflow-hidden p-1 text-foreground **:['' @
     ''[cmdk-group-heading]]:px-2 **:['' @
     ''[cmdk-group-heading]]:py-1.5 **:['' @
     ''[cmdk-group-heading]]:text-xs **:['' @
     ''[cmdk-group-heading]]:font-medium **:['' @
     ''[cmdk-group-heading]]:text-muted-foreground''"

definition CommandGroup :: "'h widget_lib \<Rightarrow> 'h props \<Rightarrow> 'h val" where
  "CommandGroup lib args =
     (let className = given ''className'' args;
          props = omit [''className''] args
      in jsx (Lib ''Command'' ''Group'')
       [Attr ''data-slot'' (Str ''command-group''),
        Attr ''className'' (cn lib [(Str CommandGroup_class), className]),
        Spread props] [])"

definition CommandSeparator :: "'h widget_lib \<Rightarrow> 'h props \<Rightarrow> 'h val" where
  "CommandSeparator lib args =
     (let className = given ''className'' args;
          props = omit [''className''] args
      in jsx (Lib ''Command'' ''Separator'')
       [Attr ''data-slot'' (Str ''command-separator''),
        Attr ''className'' (cn lib [(Str ''-mx-1 h-px bg-border''), className]),
        Spread props] [])"

definition CommandItem_class :: string where
  "CommandItem_class =
     ''group/command-item relative flex cursor-default items-center gap-2 rounded-sm px-2 '' @
     ''py-1.5 text-sm outline-hidden select-none in-data-[slot=dialog-content]:rounded-lg! '' @
     ''data-[disabled=true]:pointer-events-none data-[disabled=true]:opacity-50 '' @
     ''data-selected:bg-muted data-selected:text-foreground [&_svg]:pointer-events-none '' @
     ''[&_svg]:shrink-0 [&_svg:not([class*='size-'])]:size-4 '' @
     ''data-selected:*:[svg]:text-foreground''"

definition CommandItem_class2 :: string where
  "CommandItem_class2 =
     ''ml-auto opacity-0 group-has-data-[slot=command-shortcut]/command-item:hidden '' @
     ''group-data-[checked=true]/command-item:opacity-100''"

definition CommandItem :: "'h widget_lib \<Rightarrow> 'h props \<Rightarrow> 'h val" where
  "CommandItem lib args =
     (let className = given ''className'' args;
          children = given ''children'' args;
          props = omit [''className'', ''children''] args
      in jsx (Lib ''Command'' ''Item'')
       [Attr ''data-slot'' (Str ''command-item''),
        Attr ''className'' (cn lib [(Str CommandItem_class), className]),
        Spread props]
       [children,
        jsx (Lib ''lucide'' ''CheckIcon'')
         [Attr ''className'' (Str CommandItem_class2)] []])"

definition CommandShortcut_class :: string where
  "CommandShortcut_class =
     ''ml-auto text-xs tracking-widest text-muted-foreground '' @
     ''group-data-selected/command-item:text-foreground''"

definition CommandShortcut :: "'h widget_lib \<Rightarrow> 'h props \<Rightarrow> 'h val" where
  "CommandShortcut lib args =
     (let className = given ''className'' args;
          props = omit [''className''] args
      in jsx (Host ''span'')
       [Attr ''data-slot'' (Str ''command-shortcut''),
        Attr ''className'' (cn lib [(Str CommandShortcut_class), className]),
        Spread props] [])"

subsection \<open>\<open>dropdown-menu.tsx\<close>\<close>

definition DropdownMenu :: "'h widget_lib \<Rightarrow> 'h props \<Rightarrow> 'h val" where
  "DropdownMenu lib args =
     jsx (Lib ''DropdownMenu'' ''Root'')
       [Attr ''data-slot'' (Str ''dropdown-menu''),
        Spread args] []"

definition DropdownMenuPortal :: "'h widget_lib \<Rightarrow> 'h props \<Rightarrow> 'h val" where
  "DropdownMenuPortal lib args =
     jsx (Lib ''DropdownMenu'' ''Portal'')
       [Attr ''data-slot'' (Str ''dropdown-menu-portal''),
        Spread args] []"

definition DropdownMenuTrigger :: "'h widget_lib \<Rightarrow> 'h props \<Rightarrow> 'h val" where
  "DropdownMenuTrigger lib args =
     jsx (Lib ''DropdownMenu'' ''Trigger'')
       [Attr ''data-slot'' (Str ''dropdown-menu-trigger''),
        Spread args] []"

definition DropdownMenuContent_class :: string where
  "DropdownMenuContent_class =
     ''z-50 max-h-(--radix-dropdown-menu-content-available-height) '' @
     ''w-(--radix-dropdown-menu-trigger-width) min-w-32 '' @
     ''origin-(--radix-dropdown-menu-content-transform-origin) overflow-x-hidden '' @
     ''overflow-y-auto rounded-lg bg-popover p-1 text-popover-foreground shadow-md ring-1 '' @
     ''ring-foreground/10 duration-100 data-[side=bottom]:slide-in-from-top-2 '' @
     ''data-[side=left]:slide-in-from-right-2 data-[side=right]:slide-in-from-left-2 '' @
     ''data-[side=top]:slide-in-from-bottom-2 data-[state=closed]:overflow-hidden '' @
     ''data-open:animate-in data-open:fade-in-0 data-open:zoom-in-95 '' @
     ''data-closed:animate-out data-closed:fade-out-0 data-closed:zoom-out-95''"

definition DropdownMenuContent :: "'h widget_lib \<Rightarrow> 'h props \<Rightarrow> 'h val" where
  "DropdownMenuContent lib args =
     (let className = given ''className'' args;
          align = given_or ''align'' (Str ''start'') args;
          sideOffset = given_or ''sideOffset'' (Num 4) args;
          props = omit [''className'', ''align'', ''sideOffset''] args
      in jsx (Lib ''DropdownMenu'' ''Portal'')
       []
       [jsx (Lib ''DropdownMenu'' ''Content'')
         [Attr ''data-slot'' (Str ''dropdown-menu-content''),
          Attr ''sideOffset'' sideOffset,
          Attr ''align'' align,
          Attr ''className'' (cn lib [(Str DropdownMenuContent_class), className]),
          Spread props] []])"

definition DropdownMenuGroup :: "'h widget_lib \<Rightarrow> 'h props \<Rightarrow> 'h val" where
  "DropdownMenuGroup lib args =
     jsx (Lib ''DropdownMenu'' ''Group'')
       [Attr ''data-slot'' (Str ''dropdown-menu-group''),
        Spread args] []"

definition DropdownMenuItem_class :: string where
  "DropdownMenuItem_class =
     ''group/dropdown-menu-item relative flex cursor-default items-center gap-1.5 '' @
     ''rounded-md px-1.5 py-1 text-sm outline-hidden select-none focus:bg-accent '' @
     ''focus:text-accent-foreground '' @
     ''not-data-[variant=destructive]:focus:**:text-accent-foreground data-inset:pl-7 '' @
     ''data-[variant=destructive]:text-destructive '' @
     ''data-[variant=destructive]:focus:bg-destructive/10 '' @
     ''data-[variant=destructive]:focus:text-destructive '' @
     ''dark:data-[variant=destructive]:focus:bg-destructive/20 '' @
     ''data-disabled:pointer-events-none data-disabled:opacity-50 '' @
     ''[&_svg]:pointer-events-none [&_svg]:shrink-0 [&_svg:not([class*='size-'])]:size-4 '' @
     ''data-[variant=destructive]:*:[svg]:text-destructive''"

definition DropdownMenuItem :: "'h widget_lib \<Rightarrow> 'h props \<Rightarrow> 'h val" where
  "DropdownMenuItem lib args =
     (let className = given ''className'' args;
          inset = given ''inset'' args;
          variant = given_or ''variant'' (Str ''default'') args;
          props = omit [''className'', ''inset'', ''variant''] args
      in jsx (Lib ''DropdownMenu'' ''Item'')
       [Attr ''data-slot'' (Str ''dropdown-menu-item''),
        Attr ''data-inset'' inset,
        Attr ''data-variant'' variant,
        Attr ''className'' (cn lib [(Str DropdownMenuItem_class), className]),
        Spread props] [])"

definition DropdownMenuCheckboxItem_class :: string where
  "DropdownMenuCheckboxItem_class =
     ''relative flex cursor-default items-center gap-1.5 rounded-md py-1 pr-8 pl-1.5 '' @
     ''text-sm outline-hidden select-none focus:bg-accent focus:text-accent-foreground '' @
     ''focus:**:text-accent-foreground data-inset:pl-7 data-disabled:pointer-events-none '' @
     ''data-disabled:opacity-50 [&_svg]:pointer-events-none [&_svg]:shrink-0 '' @
     ''[&_svg:not([class*='size-'])]:size-4''"

definition DropdownMenuCheckboxItem :: "'h widget_lib \<Rightarrow> 'h props \<Rightarrow> 'h val" where
  "DropdownMenuCheckboxItem lib args =
     (let className = given ''className'' args;
          children = given ''children'' args;
          checked = given ''checked'' args;
          inset = given ''inset'' args;
          props = omit [''className'', ''children'', ''checked'', ''inset''] args
      in jsx (Lib ''DropdownMenu'' ''CheckboxItem'')
       [Attr ''data-slot'' (Str ''dropdown-menu-checkbox-item''),
        Attr ''data-inset'' inset,
        Attr ''className'' (cn lib [(Str DropdownMenuCheckboxItem_class), className]),
        Attr ''checked'' checked,
        Spread props]
       [jsx (Host ''span'')
         [Attr ''className'' (Str ''pointer-events-none absolute right-2 flex items-center justify-center''),
          Attr ''data-slot'' (Str ''dropdown-menu-checkbox-item-indicator'')]
         [jsx (Lib ''DropdownMenu'' ''ItemIndicator'')
           []
           [jsx (Lib ''lucide'' ''CheckIcon'')
             [] []]],
        children])"

definition DropdownMenuRadioGroup :: "'h widget_lib \<Rightarrow> 'h props \<Rightarrow> 'h val" where
  "DropdownMenuRadioGroup lib args =
     jsx (Lib ''DropdownMenu'' ''RadioGroup'')
       [Attr ''data-slot'' (Str ''dropdown-menu-radio-group''),
        Spread args] []"

definition DropdownMenuRadioItem_class :: string where
  "DropdownMenuRadioItem_class =
     ''relative flex cursor-default items-center gap-1.5 rounded-md py-1 pr-8 pl-1.5 '' @
     ''text-sm outline-hidden select-none focus:bg-accent focus:text-accent-foreground '' @
     ''focus:**:text-accent-foreground data-inset:pl-7 data-disabled:pointer-events-none '' @
     ''data-disabled:opacity-50 [&_svg]:pointer-events-none [&_svg]:shrink-0 '' @
     ''[&_svg:not([class*='size-'])]:size-4''"

definition DropdownMenuRadioItem :: "'h widget_lib \<Rightarrow> 'h props \<Rightarrow> 'h val" where
  "DropdownMenuRadioItem lib args =
     (let className = given ''className'' args;
          children = given ''children'' args;
          inset = given ''inset'' args;
          props = omit [''className'', ''children'', ''inset''] args
      in jsx (Lib ''DropdownMenu'' ''RadioItem'')
       [Attr ''data-slot'' (Str ''dropdown-menu-radio-item''),
        Attr ''data-inset'' inset,
        Attr ''className'' (cn lib [(Str DropdownMenuRadioItem_class), className]),
        Spread props]
       [jsx (Host ''span'')
         [Attr ''className'' (Str ''pointer-events-none absolute right-2 flex items-center justify-center''),
          Attr ''data-slot'' (Str ''dropdown-menu-radio-item-indicator'')]
         [jsx (Lib ''DropdownMenu'' ''ItemIndicator'')
           []
           [jsx (Lib ''lucide'' ''CheckIcon'')
             [] []]],
        children])"

definition DropdownMenuLabel :: "'h widget_lib \<Rightarrow> 'h props \<Rightarrow> 'h val" where
  "DropdownMenuLabel lib args =
     (let className = given ''className'' args;
          inset = given ''inset'' args;
          props = omit [''className'', ''inset''] args
      in jsx (Lib ''DropdownMenu'' ''Label'')
       [Attr ''data-slot'' (Str ''dropdown-menu-label''),
        Attr ''data-inset'' inset,
        Attr ''className'' (cn lib [(Str ''px-1.5 py-1 text-xs font-medium text-muted-foreground data-inset:pl-7''), className]),
        Spread props] [])"

definition DropdownMenuSeparator :: "'h widget_lib \<Rightarrow> 'h props \<Rightarrow> 'h val" where
  "DropdownMenuSeparator lib args =
     (let className = given ''className'' args;
          props = omit [''className''] args
      in jsx (Lib ''DropdownMenu'' ''Separator'')
       [Attr ''data-slot'' (Str ''dropdown-menu-separator''),
        Attr ''className'' (cn lib [(Str ''-mx-1 my-1 h-px bg-border''), className]),
        Spread props] [])"

definition DropdownMenuShortcut_class :: string where
  "DropdownMenuShortcut_class =
     ''ml-auto text-xs tracking-widest text-muted-foreground '' @
     ''group-focus/dropdown-menu-item:text-accent-foreground''"

definition DropdownMenuShortcut :: "'h widget_lib \<Rightarrow> 'h props \<Rightarrow> 'h val" where
  "DropdownMenuShortcut lib args =
     (let className = given ''className'' args;
          props = omit [''className''] args
      in jsx (Host ''span'')
       [Attr ''data-slot'' (Str ''dropdown-menu-shortcut''),
        Attr ''className'' (cn lib [(Str DropdownMenuShortcut_class), className]),
        Spread props] [])"

definition DropdownMenuSub :: "'h widget_lib \<Rightarrow> 'h props \<Rightarrow> 'h val" where
  "DropdownMenuSub lib args =
     jsx (Lib ''DropdownMenu'' ''Sub'')
       [Attr ''data-slot'' (Str ''dropdown-menu-sub''),
        Spread args] []"

definition DropdownMenuSubTrigger_class :: string where
  "DropdownMenuSubTrigger_class =
     ''flex cursor-default items-center gap-1.5 rounded-md px-1.5 py-1 text-sm '' @
     ''outline-hidden select-none focus:bg-accent focus:text-accent-foreground '' @
     ''not-data-[variant=destructive]:focus:**:text-accent-foreground data-inset:pl-7 '' @
     ''data-open:bg-accent data-open:text-accent-foreground [&_svg]:pointer-events-none '' @
     ''[&_svg]:shrink-0 [&_svg:not([class*='size-'])]:size-4''"

definition DropdownMenuSubTrigger :: "'h widget_lib \<Rightarrow> 'h props \<Rightarrow> 'h val" where
  "DropdownMenuSubTrigger lib args =
     (let className = given ''className'' args;
          inset = given ''inset'' args;
          children = given ''children'' args;
          props = omit [''className'', ''inset'', ''children''] args
      in jsx (Lib ''DropdownMenu'' ''SubTrigger'')
       [Attr ''data-slot'' (Str ''dropdown-menu-sub-trigger''),
        Attr ''data-inset'' inset,
        Attr ''className'' (cn lib [(Str DropdownMenuSubTrigger_class), className]),
        Spread props]
       [children,
        jsx (Lib ''lucide'' ''ChevronRightIcon'')
         [Attr ''className'' (Str ''ml-auto'')] []])"

definition DropdownMenuSubContent_class :: string where
  "DropdownMenuSubContent_class =
     ''z-50 min-w-[96px] origin-(--radix-dropdown-menu-content-transform-origin) '' @
     ''overflow-hidden rounded-lg bg-popover p-1 text-popover-foreground shadow-lg ring-1 '' @
     ''ring-foreground/10 duration-100 data-[side=bottom]:slide-in-from-top-2 '' @
     ''data-[side=left]:slide-in-from-right-2 data-[side=right]:slide-in-from-left-2 '' @
     ''data-[side=top]:slide-in-from-bottom-2 data-open:animate-in data-open:fade-in-0 '' @
     ''data-open:zoom-in-95 data-closed:animate-out data-closed:fade-out-0 '' @
     ''data-closed:zoom-out-95''"

definition DropdownMenuSubContent :: "'h widget_lib \<Rightarrow> 'h props \<Rightarrow> 'h val" where
  "DropdownMenuSubContent lib args =
     (let className = given ''className'' args;
          props = omit [''className''] args
      in jsx (Lib ''DropdownMenu'' ''SubContent'')
       [Attr ''data-slot'' (Str ''dropdown-menu-sub-content''),
        Attr ''className'' (cn lib [(Str DropdownMenuSubContent_class), className]),
        Spread props] [])"

subsection \<open>\<open>select.tsx\<close>\<close>

definition Select :: "'h widget_lib \<Rightarrow> 'h props \<Rightarrow> 'h val" where
  "Select lib args =
     jsx (Lib ''Select'' ''Root'')
       [Attr ''data-slot'' (Str ''select''),
        Spread args] []"

definition SelectGroup :: "'h widget_lib \<Rightarrow> 'h props \<Rightarrow> 'h val" where
  "SelectGroup lib args =
     (let className = given ''className'' args;
          props = omit [''className''] args
      in jsx (Lib ''Select'' ''Group'')
       [Attr ''data-slot'' (Str ''select-group''),
        Attr ''className'' (cn lib [(Str ''scroll-my-1 p-1''), className]),
        Spread props] [])"

definition SelectValue :: "'h widget_lib \<Rightarrow> 'h props \<Rightarrow> 'h val" where
  "SelectValue lib args =
     jsx (Lib ''Select'' ''Value'')
       [Attr ''data-slot'' (Str ''select-value''),
        Spread args] []"

definition SelectTrigger_class :: string where
  "SelectTrigger_class =
     ''flex w-fit items-center justify-between gap-1.5 rounded-lg border border-input '' @
     ''bg-transparent py-2 pr-2 pl-2.5 text-sm whitespace-nowrap transition-colors '' @
     ''outline-none select-none focus-visible:border-ring focus-visible:ring-3 '' @
     ''focus-visible:ring-ring/50 disabled:cursor-not-allowed disabled:opacity-50 '' @
     ''aria-invalid:border-destructive aria-invalid:ring-3 '' @
     ''aria-invalid:ring-destructive/20 data-placeholder:text-muted-foreground '' @
     ''data-[size=default]:h-8 data-[size=sm]:h-7 '' @
     ''data-[size=sm]:rounded-[min(var(--radius-md),10px)] '' @
     ''*:data-[slot=select-value]:line-clamp-1 *:data-[slot=select-value]:flex '' @
     ''*:data-[slot=select-value]:items-center *:data-[slot=select-value]:gap-1.5 '' @
     ''dark:bg-input/30 dark:hover:bg-input/50 dark:aria-invalid:border-destructive/50 '' @
     ''dark:aria-invalid:ring-destructive/40 [&_svg]:pointer-events-none [&_svg]:shrink-0 '' @
     ''[&_svg:not([class*='size-'])]:size-4''"

definition SelectTrigger :: "'h widget_lib \<Rightarrow> 'h props \<Rightarrow> 'h val" where
  "SelectTrigger lib args =
     (let className = given ''className'' args;
          size = given_or ''size'' (Str ''default'') args;
          children = given ''children'' args;
          props = omit [''className'', ''size'', ''children''] args
      in jsx (Lib ''Select'' ''Trigger'')
       [Attr ''data-slot'' (Str ''select-trigger''),
        Attr ''data-size'' size,
        Attr ''className'' (cn lib [(Str SelectTrigger_class), className]),
        Spread props]
       [children,
        jsx (Lib ''Select'' ''Icon'')
         [Attr ''asChild'' (Flag True)]
         [jsx (Lib ''lucide'' ''ChevronDownIcon'')
           [Attr ''className'' (Str ''pointer-events-none size-4 text-muted-foreground'')] []]])"

definition SelectLabel :: "'h widget_lib \<Rightarrow> 'h props \<Rightarrow> 'h val" where
  "SelectLabel lib args =
     (let className = given ''className'' args;
          props = omit [''className''] args
      in jsx (Lib ''Select'' ''Label'')
       [Attr ''data-slot'' (Str ''select-label''),
        Attr ''className'' (cn lib [(Str ''px-1.5 py-1 text-xs text-muted-foreground''), className]),
        Spread props] [])"

definition SelectItem_class :: string where
  "SelectItem_class =
     ''relative flex w-full cursor-default items-center gap-1.5 rounded-md py-1 pr-8 '' @
     ''pl-1.5 text-sm outline-hidden select-none focus:bg-accent '' @
     ''focus:text-accent-foreground '' @
     ''not-data-[variant=destructive]:focus:**:text-accent-foreground '' @
     ''data-disabled:pointer-events-none data-disabled:opacity-50 '' @
     ''[&_svg]:pointer-events-none [&_svg]:shrink-0 [&_svg:not([class*='size-'])]:size-4 '' @
     ''*:[span]:last:flex *:[span]:last:items-center *:[span]:last:gap-2''"

definition SelectItem_class2 :: string where
  "SelectItem_class2 =
     ''pointer-events-none absolute right-2 flex size-4 items-center justify-center''"

definition SelectItem :: "'h widget_lib \<Rightarrow> 'h props \<Rightarrow> 'h val" where
  "SelectItem lib args =
     (let className = given ''className'' args;
          children = given ''children'' args;
          props = omit [''className'', ''children''] args
      in jsx (Lib ''Select'' ''Item'')
       [Attr ''data-slot'' (Str ''select-item''),
        Attr ''className'' (cn lib [(Str SelectItem_class), className]),
        Spread props]
       [jsx (Host ''span'')
         [Attr ''className'' (Str SelectItem_class2)]
         [jsx (Lib ''Select'' ''ItemIndicator'')
           []
           [jsx (Lib ''lucide'' ''CheckIcon'')
             [Attr ''className'' (Str ''pointer-events-none'')] []]],
        jsx (Lib ''Select'' ''ItemText'')
         []
         [children]])"

definition SelectSeparator :: "'h widget_lib \<Rightarrow> 'h props \<Rightarrow> 'h val" where
  "SelectSeparator lib args =
     (let className = given ''className'' args;
          props = omit [''className''] args
      in jsx (Lib ''Select'' ''Separator'')
       [Attr ''data-slot'' (Str ''select-separator''),
        Attr ''className'' (cn lib [(Str ''pointer-events-none -mx-1 my-1 h-px bg-border''), className]),
        Spread props] [])"

definition SelectScrollUpButton_class :: string where
  "SelectScrollUpButton_class =
     ''z-10 flex cursor-default items-center justify-center bg-popover py-1 '' @
     ''[&_svg:not([class*='size-'])]:size-4''"

definition SelectScrollUpButton :: "'h widget_lib \<Rightarrow> 'h props \<Rightarrow> 'h val" where
  "SelectScrollUpButton lib args =
     (let className = given ''className'' args;
          props = omit [''className''] args
      in jsx (Lib ''Select'' ''ScrollUpButton'')
       [Attr ''data-slot'' (Str ''select-scroll-up-button''),
        Attr ''className'' (cn lib [(Str SelectScrollUpButton_class), className]),
        Spread props]
       [jsx (Lib ''lucide'' ''ChevronUpIcon'')
         [] []])"

definition SelectScrollDownButton_class :: string where
  "SelectScrollDownButton_class =
     ''z-10 flex cursor-default items-center justify-center bg-popover py-1 '' @
     ''[&_svg:not([class*='size-'])]:size-4''"

definition SelectScrollDownButton :: "'h widget_lib \<Rightarrow> 'h props \<Rightarrow> 'h val" where
  "SelectScrollDownButton lib args =
     (let className = given ''className'' args;
          props = omit [''className''] args
      in jsx (Lib ''Select'' ''ScrollDownButton'')
       [Attr ''data-slot'' (Str ''select-scroll-down-button''),
        Attr ''className'' (cn lib [(Str SelectScrollDownButton_class), className]),
        Spread props]
       [jsx (Lib ''lucide'' ''ChevronDownIcon'')
         [] []])"

definition SelectContent_class :: string where
  "SelectContent_class =
     ''relative z-50 max-h-(--radix-select-content-available-height) min-w-36 '' @
     ''origin-(--radix-select-content-transform-origin) overflow-x-hidden overflow-y-auto '' @
     ''rounded-lg bg-popover text-popover-foreground shadow-md ring-1 ring-foreground/10 '' @
     ''duration-100 data-[align-trigger=true]:animate-none '' @
     ''data-[side=bottom]:slide-in-from-top-2 data-[side=left]:slide-in-from-right-2 '' @
     ''data-[side=right]:slide-in-from-left-2 data-[side=top]:slide-in-from-bottom-2 '' @
     ''data-open:animate-in data-open:fade-in-0 data-open:zoom-in-95 '' @
     ''data-closed:animate-out data-closed:fade-out-0 data-closed:zoom-out-95''"

definition SelectContent_class2 :: string where
  "SelectContent_class2 =
     ''data-[side=bottom]:translate-y-1 data-[side=left]:-translate-x-1 '' @
     ''data-[side=right]:translate-x-1 data-[side=top]:-translate-y-1''"

definition SelectContent_class3 :: string where
  "SelectContent_class3 =
     ''data-[position=popper]:h-(--radix-select-trigger-height) '' @
     ''data-[position=popper]:w-full '' @
     ''data-[position=popper]:min-w-(--radix-select-trigger-width)''"

definition SelectContent :: "'h widget_lib \<Rightarrow> 'h props \<Rightarrow> 'h val" where
  "SelectContent lib args =
     (let className = given ''className'' args;
          children = given ''children'' args;
          position = given_or ''position'' (Str ''item-aligned'') args;
          align = given_or ''align'' (Str ''center'') args;
          props = omit [''className'', ''children'', ''position'', ''align''] args
      in jsx (Lib ''Select'' ''Portal'')
       []
       [jsx (Lib ''Select'' ''Content'')
         [Attr ''data-slot'' (Str ''select-content''),
          Attr ''data-align-trigger'' (Flag (is_str ''item-aligned'' position)),
          Attr ''className'' (cn lib [(Str SelectContent_class), (js_and (Flag (is_str ''popper'' position)) (Str SelectContent_class2)), className]),
          Attr ''position'' position,
          Attr ''align'' align,
          Spread props]
         [SelectScrollUpButton lib [],
          jsx (Lib ''Select'' ''Viewport'')
           [Attr ''data-position'' position,
            Attr ''className'' (cn lib [(Str SelectContent_class3), (js_and (Flag (is_str ''popper'' position)) (Str ''''))])]
           [children],
          SelectScrollDownButton lib []]])"

subsection \<open>\<open>tooltip.tsx\<close>\<close>

definition TooltipProvider :: "'h widget_lib \<Rightarrow> 'h props \<Rightarrow> 'h val" where
  "TooltipProvider lib args =
     (let delayDuration = given_or ''delayDuration'' (Num 0) args;
          props = omit [''delayDuration''] args
      in jsx (Lib ''Tooltip'' ''Provider'')
       [Attr ''data-slot'' (Str ''tooltip-provider''),
        Attr ''delayDuration'' delayDuration,
        Spread props] [])"

definition Tooltip :: "'h widget_lib \<Rightarrow> 'h props \<Rightarrow> 'h val" where
  "Tooltip lib args =
     jsx (Lib ''Tooltip'' ''Root'')
       [Attr ''data-slot'' (Str ''tooltip''),
        Spread args] []"

definition TooltipTrigger :: "'h widget_lib \<Rightarrow> 'h props \<Rightarrow> 'h val" where
  "TooltipTrigger lib args =
     jsx (Lib ''Tooltip'' ''Trigger'')
       [Attr ''data-slot'' (Str ''tooltip-trigger''),
        Spread args] []"

definition TooltipContent_class :: string where
  "TooltipContent_class =
     ''z-50 inline-flex w-fit max-w-xs origin-(--radix-tooltip-content-transform-origin) '' @
     ''items-center gap-1.5 rounded-md bg-foreground px-3 py-1.5 text-xs text-background '' @
     ''has-data-[slot=kbd]:pr-1.5 data-[side=bottom]:slide-in-from-top-2 '' @
     ''data-[side=left]:slide-in-from-right-2 data-[side=right]:slide-in-from-left-2 '' @
     ''data-[side=top]:slide-in-from-bottom-2 **:data-[slot=kbd]:relative '' @
     ''**:data-[slot=kbd]:isolate **:data-[slot=kbd]:z-50 **:data-[slot=kbd]:rounded-sm '' @
     ''data-[state=delayed-open]:animate-in data-[state=delayed-open]:fade-in-0 '' @
     ''data-[state=delayed-open]:zoom-in-95 data-open:animate-in data-open:fade-in-0 '' @
     ''data-open:zoom-in-95 data-closed:animate-out data-closed:fade-out-0 '' @
     ''data-closed:zoom-out-95''"

definition TooltipContent_class2 :: string where
  "TooltipContent_class2 =
     ''z-50 size-2.5 translate-y-[calc(-50%_-_2px)] rotate-45 rounded-[2px] bg-foreground '' @
     ''fill-foreground''"

definition TooltipContent :: "'h widget_lib \<Rightarrow> 'h props \<Rightarrow> 'h val" where
  "TooltipContent lib args =
     (let className = given ''className'' args;
          sideOffset = given_or ''sideOffset'' (Num 0) args;
          children = given ''children'' args;
          props = omit [''className'', ''sideOffset'', ''children''] args
      in jsx (Lib ''Tooltip'' ''Portal'')
       []
       [jsx (Lib ''Tooltip'' ''Content'')
         [Attr ''data-slot'' (Str ''tooltip-content''),
          Attr ''sideOffset'' sideOffset,
          Attr ''className'' (cn lib [(Str TooltipContent_class), className]),
          Spread props]
         [children,
          jsx (Lib ''Tooltip'' ''Arrow'')
           [Attr ''className'' (Str TooltipContent_class2)] []]])"

subsection \<open>\<open>sonner.tsx\<close>\<close>

definition toast_icon :: "string \<Rightarrow> string \<Rightarrow> 'h val" where
  "toast_icon name cls = jsx (Lib ''lucide'' name) [Attr ''className'' (Str cls)] []"

definition Toaster :: "'h widget_lib \<Rightarrow> 'h props \<Rightarrow> 'h val" where
  "Toaster lib props =
     jsx (Lib ''sonner'' ''Toaster'')
       [Attr ''theme'' (given_or ''theme'' (Str ''system'') (theme lib)),
        Attr ''className'' (Str ''toaster group''),
        Attr ''icons'' (Obj
          [(''success'', toast_icon ''CircleCheckIcon'' ''size-4''),
           (''info'', toast_icon ''InfoIcon'' ''size-4''),
           (''warning'', toast_icon ''TriangleAlertIcon'' ''size-4''),
           (''error'', toast_icon ''OctagonXIcon'' ''size-4''),
           (''loading'', toast_icon ''Loader2Icon'' ''size-4 animate-spin'')]),
        Attr ''style'' (Obj
          [(''--normal-bg'', Str ''var(--popover)''),
           (''--normal-text'', Str ''var(--popover-foreground)''),
           (''--normal-border'', Str ''var(--border)''),
           (''--border-radius'', Str ''var(--radius)'')]),
        Attr ''toastOptions'' (Obj [(''classNames'', Obj [(''toast'', Str ''cn-toast'')])]),
        Spread props] []"

subsection \<open>The page around the console, and its brand\<close>

text \<open>
  \<open>app/layout.tsx\<close>: \<open>geistSans\<close> and \<open>geistMono\<close> are the class names the font loader generates.
\<close>

definition metadata :: "(string \<times> string) list" where
  "metadata = [(''title'', ''Peanut Console''), (''description'', ''Admin console for the Peanut backend platform'')]"

definition RootLayout :: "'h widget_lib \<Rightarrow> string \<Rightarrow> string \<Rightarrow> 'h props \<Rightarrow> 'h val" where
  "RootLayout lib geistSans geistMono args =
     (let children = given ''children'' args
      in jsx (Host ''html'')
       [Attr ''lang'' (Str ''en''),
        Attr ''className'' (Str (geistSans @ '' '' @ geistMono @ '' h-full antialiased''))]
       [jsx (Host ''body'')
         [Attr ''className'' (Str ''min-h-full flex flex-col'')]
         [TooltipProvider lib (jsx_args [] [children]),
          Toaster lib (jsx_args [Attr ''richColors'' (Flag True), Attr ''position'' (Str ''top-right'')] [])]])"

text \<open>\<open>brand.tsx\<close>: \<open>t\<close> is the translation of the messages \<open>common\<close>.\<close>

definition PeanutMark :: "'h widget_lib \<Rightarrow> 'h props \<Rightarrow> 'h val" where
  "PeanutMark lib args =
     (let className = given ''className'' args
      in jsx (Lib ''next'' ''Image'')
       [Attr ''aria-hidden'' (Str ''true''),
        Attr ''src'' (Str ''/peanut-logo.png''),
        Attr ''alt'' (Str []),
        Attr ''width'' (Num 36),
        Attr ''height'' (Num 36),
        Attr ''className'' (cn lib [Str ''h-9 w-9 object-contain drop-shadow-sm'', className])] [])"

definition PeanutLogo :: "'h widget_lib \<Rightarrow> (string \<Rightarrow> string) \<Rightarrow> 'h val" where
  "PeanutLogo lib t =
     jsx (Host ''div'')
       [Attr ''className'' (Str ''flex items-center gap-3'')]
       [PeanutMark lib [],
        jsx (Host ''div'')
         [Attr ''className'' (Str ''leading-tight'')]
         [jsx (Host ''div'') [Attr ''className'' (Str ''text-base font-semibold'')] [Str ''Peanut''],
          jsx (Host ''div'') [Attr ''className'' (Str ''text-xs text-muted-foreground'')] [Str (t ''adminConsole'')]]]"

text \<open>\<open>shared/auth-marketing.tsx\<close>: \<open>icon\<close> is the component given as the property \<open>icon\<close>.\<close>

definition FeatureSignal :: "tag \<Rightarrow> string \<Rightarrow> string \<Rightarrow> 'h val" where
  "FeatureSignal icon title description =
     jsx (Host ''div'')
       [Attr ''className'' (Str ''rounded-lg border bg-card/70 p-4'')]
       [jsx (Host ''div'')
         [Attr ''className'' (Str (''mb-3 flex h-9 w-9 items-center justify-center rounded-md '' @
            ''bg-primary/10 text-primary''))]
         [jsx icon [Attr ''className'' (Str ''h-5 w-5'')] []],
        jsx (Host ''div'') [Attr ''className'' (Str ''font-medium'')] [Str title],
        jsx (Host ''div'')
         [Attr ''className'' (Str ''mt-1 text-sm leading-6 text-muted-foreground'')] [Str description]]"

definition Signal :: "tag \<Rightarrow> string \<Rightarrow> 'h val" where
  "Signal icon label =
     jsx (Host ''div'')
       [Attr ''className'' (Str ''flex items-center gap-2 rounded-md border bg-card px-3 py-2 text-sm'')]
       [jsx icon [Attr ''className'' (Str ''h-4 w-4 text-primary'')] [], Str label]"

end
