(* ===== verification/Ui_Contract.thy ===== *)
theory Ui_Contract
  imports Ui_Widgets
begin

text \<open>
  What the widgets of \<open>Ui_Widgets\<close> promise to the pages that use them, for all of them at once:
  \<open>widgets\<close> lists every widget with the element it wraps and the properties it reads itself.
\<close>

subsection \<open>The contract of the widgets\<close>

text \<open>
  A widget with its name, the slot name of the element it wraps, the position of that element in
  what it renders, and the properties it reads itself.
\<close>

type_synonym 'h widget = "string \<times> string option \<times> nat list \<times> string list \<times> ('h props \<Rightarrow> 'h val)"

definition widgets :: "'h widget_lib \<Rightarrow> 'h widget list" where
  "widgets lib =
    [(''Alert'', Some ''alert'', [], [''className'', ''variant''], Alert lib),
     (''AlertTitle'', Some ''alert-title'', [], [''className''], AlertTitle lib),
     (''AlertDescription'', Some ''alert-description'', [], [''className''], AlertDescription lib),
     (''AlertAction'', Some ''alert-action'', [], [''className''], AlertAction lib),
     (''Badge'', Some ''badge'', [], [''className'', ''variant'', ''asChild''], Badge lib),
     (''Button'', Some ''button'', [], [''className'', ''variant'', ''size'', ''asChild''], Button lib),
     (''Card'', Some ''card'', [], [''className'', ''size''], Card lib),
     (''CardHeader'', Some ''card-header'', [], [''className''], CardHeader lib),
     (''CardTitle'', Some ''card-title'', [], [''className''], CardTitle lib),
     (''CardDescription'', Some ''card-description'', [], [''className''], CardDescription lib),
     (''CardAction'', Some ''card-action'', [], [''className''], CardAction lib),
     (''CardContent'', Some ''card-content'', [], [''className''], CardContent lib),
     (''CardFooter'', Some ''card-footer'', [], [''className''], CardFooter lib),
     (''Dialog'', Some ''dialog'', [], [], Dialog lib),
     (''DialogTrigger'', Some ''dialog-trigger'', [], [], DialogTrigger lib),
     (''DialogPortal'', Some ''dialog-portal'', [], [], DialogPortal lib),
     (''DialogClose'', Some ''dialog-close'', [], [], DialogClose lib),
     (''DialogOverlay'', Some ''dialog-overlay'', [], [''className''], DialogOverlay lib),
     (''DialogContent'', Some ''dialog-content'', [1], [''className'', ''children'', ''showCloseButton''], DialogContent lib),
     (''DialogHeader'', Some ''dialog-header'', [], [''className''], DialogHeader lib),
     (''DialogFooter'', Some ''dialog-footer'', [], [''className'', ''showCloseButton'', ''children''], DialogFooter lib),
     (''DialogTitle'', Some ''dialog-title'', [], [''className''], DialogTitle lib),
     (''DialogDescription'', Some ''dialog-description'', [], [''className''], DialogDescription lib),
     (''Separator'', Some ''separator'', [], [''className'', ''orientation'', ''decorative''], Separator lib),
     (''Sheet'', Some ''sheet'', [], [], Sheet lib),
     (''SheetTrigger'', Some ''sheet-trigger'', [], [], SheetTrigger lib),
     (''SheetClose'', Some ''sheet-close'', [], [], SheetClose lib),
     (''SheetPortal'', Some ''sheet-portal'', [], [], SheetPortal lib),
     (''SheetOverlay'', Some ''sheet-overlay'', [], [''className''], SheetOverlay lib),
     (''SheetContent'', Some ''sheet-content'', [1], [''className'', ''children'', ''side'', ''showCloseButton''], SheetContent lib),
     (''SheetHeader'', Some ''sheet-header'', [], [''className''], SheetHeader lib),
     (''SheetFooter'', Some ''sheet-footer'', [], [''className''], SheetFooter lib),
     (''SheetTitle'', Some ''sheet-title'', [], [''className''], SheetTitle lib),
     (''SheetDescription'', Some ''sheet-description'', [], [''className''], SheetDescription lib),
     (''Skeleton'', Some ''skeleton'', [], [''className''], Skeleton lib),
     (''Table'', Some ''table'', [0], [''className''], Table lib),
     (''TableHeader'', Some ''table-header'', [], [''className''], TableHeader lib),
     (''TableBody'', Some ''table-body'', [], [''className''], TableBody lib),
     (''TableFooter'', Some ''table-footer'', [], [''className''], TableFooter lib),
     (''TableRow'', Some ''table-row'', [], [''className''], TableRow lib),
     (''TableHead'', Some ''table-head'', [], [''className''], TableHead lib),
     (''TableCell'', Some ''table-cell'', [], [''className''], TableCell lib),
     (''TableCaption'', Some ''table-caption'', [], [''className''], TableCaption lib),
     (''Tabs'', Some ''tabs'', [], [''className'', ''orientation''], Tabs lib),
     (''TabsList'', Some ''tabs-list'', [], [''className'', ''variant''], TabsList lib),
     (''TabsTrigger'', Some ''tabs-trigger'', [], [''className''], TabsTrigger lib),
     (''TabsContent'', Some ''tabs-content'', [], [''className''], TabsContent lib),
     (''Textarea'', Some ''textarea'', [], [''className''], Textarea lib),
     (''Input'', Some ''input'', [], [''className'', ''type''], Input lib),
     (''InputGroup'', Some ''input-group'', [], [''className''], InputGroup lib),
     (''InputGroupAddon'', Some ''input-group-addon'', [], [''className'', ''align''], InputGroupAddon lib),
     (''InputGroupButton'', Some ''button'', [], [''className'', ''type'', ''variant'', ''size'', ''asChild''], InputGroupButton lib),
     (''InputGroupText'', None, [], [''className''], InputGroupText lib),
     (''InputGroupInput'', Some ''input-group-control'', [], [''className'', ''type''], InputGroupInput lib),
     (''InputGroupTextarea'', Some ''input-group-control'', [], [''className''], InputGroupTextarea lib),
     (''Command'', Some ''command'', [], [''className''], Command lib),
     (''CommandDialog'', Some ''dialog'', [], [''title'', ''description'', ''children'', ''className'', ''showCloseButton''], CommandDialog lib),
     (''CommandInput'', Some ''command-input'', [0,0], [''className''], CommandInput lib),
     (''CommandList'', Some ''command-list'', [], [''className''], CommandList lib),
     (''CommandEmpty'', Some ''command-empty'', [], [''className''], CommandEmpty lib),
     (''CommandGroup'', Some ''command-group'', [], [''className''], CommandGroup lib),
     (''CommandSeparator'', Some ''command-separator'', [], [''className''], CommandSeparator lib),
     (''CommandItem'', Some ''command-item'', [], [''className'', ''children''], CommandItem lib),
     (''CommandShortcut'', Some ''command-shortcut'', [], [''className''], CommandShortcut lib),
     (''DropdownMenu'', Some ''dropdown-menu'', [], [], DropdownMenu lib),
     (''DropdownMenuPortal'', Some ''dropdown-menu-portal'', [], [], DropdownMenuPortal lib),
     (''DropdownMenuTrigger'', Some ''dropdown-menu-trigger'', [], [], DropdownMenuTrigger lib),
     (''DropdownMenuContent'', Some ''dropdown-menu-content'', [0], [''className'', ''align'', ''sideOffset''], DropdownMenuContent lib),
     (''DropdownMenuGroup'', Some ''dropdown-menu-group'', [], [], DropdownMenuGroup lib),
     (''DropdownMenuItem'', Some ''dropdown-menu-item'', [], [''className'', ''inset'', ''variant''], DropdownMenuItem lib),
     (''DropdownMenuCheckboxItem'', Some ''dropdown-menu-checkbox-item'', [], [''className'', ''children'', ''checked'', ''inset''], DropdownMenuCheckboxItem lib),
     (''DropdownMenuRadioGroup'', Some ''dropdown-menu-radio-group'', [], [], DropdownMenuRadioGroup lib),
     (''DropdownMenuRadioItem'', Some ''dropdown-menu-radio-item'', [], [''className'', ''children'', ''inset''], DropdownMenuRadioItem lib),
     (''DropdownMenuLabel'', Some ''dropdown-menu-label'', [], [''className'', ''inset''], DropdownMenuLabel lib),
     (''DropdownMenuSeparator'', Some ''dropdown-menu-separator'', [], [''className''], DropdownMenuSeparator lib),
     (''DropdownMenuShortcut'', Some ''dropdown-menu-shortcut'', [], [''className''], DropdownMenuShortcut lib),
     (''DropdownMenuSub'', Some ''dropdown-menu-sub'', [], [], DropdownMenuSub lib),
     (''DropdownMenuSubTrigger'', Some ''dropdown-menu-sub-trigger'', [], [''className'', ''inset'', ''children''], DropdownMenuSubTrigger lib),
     (''DropdownMenuSubContent'', Some ''dropdown-menu-sub-content'', [], [''className''], DropdownMenuSubContent lib),
     (''Select'', Some ''select'', [], [], Select lib),
     (''SelectGroup'', Some ''select-group'', [], [''className''], SelectGroup lib),
     (''SelectValue'', Some ''select-value'', [], [], SelectValue lib),
     (''SelectTrigger'', Some ''select-trigger'', [], [''className'', ''size'', ''children''], SelectTrigger lib),
     (''SelectContent'', Some ''select-content'', [0], [''className'', ''children'', ''position'', ''align''], SelectContent lib),
     (''SelectLabel'', Some ''select-label'', [], [''className''], SelectLabel lib),
     (''SelectItem'', Some ''select-item'', [], [''className'', ''children''], SelectItem lib),
     (''SelectSeparator'', Some ''select-separator'', [], [''className''], SelectSeparator lib),
     (''SelectScrollUpButton'', Some ''select-scroll-up-button'', [], [''className'', ''children''], SelectScrollUpButton lib),
     (''SelectScrollDownButton'', Some ''select-scroll-down-button'', [], [''className'', ''children''], SelectScrollDownButton lib),
     (''TooltipProvider'', Some ''tooltip-provider'', [], [''delayDuration''], TooltipProvider lib),
     (''Tooltip'', Some ''tooltip'', [], [], Tooltip lib),
     (''TooltipTrigger'', Some ''tooltip-trigger'', [], [], TooltipTrigger lib),
     (''TooltipContent'', Some ''tooltip-content'', [0], [''className'', ''sideOffset'', ''children''], TooltipContent lib),
     (''Toaster'', None, [], [], Toaster lib)]"

text \<open>
  The contract: what the page gives and the widget does not read arrives, and the wrapped element
  is marked with the slot.
\<close>

locale widget_contract =
  fixes slot :: "string option" and path :: "nat list" and own :: "string list" and render :: "'h props \<Rightarrow> 'h val"
  assumes forwarded: "k \<notin> set own \<Longrightarrow> map_of args k = Some v \<Longrightarrow> map_of (props_at path (render args)) k = Some v"
    and marked: "map_of args ''data-slot'' = None \<Longrightarrow>
      map_of (props_at path (render args)) ''data-slot'' = map_option Str slot"
begin

text \<open>
  A widget that returns this one, with attributes of its own and then the rest of its properties,
  keeps the contract: it reads what both read, and its slot is the one it sets, if it sets one.
\<close>

lemma wrapped_forwards:
  assumes "k \<notin> set (own' @ own)" "map_of args k = Some v"
  shows "map_of (props_at path (render (jsx_args (as @ [Spread (omit own' args)]) []))) k = Some v"
  using assms by (intro forwarded) (simp_all add: jsx_args_def)

lemma wrapped_marks:
  assumes "map_of args ''data-slot'' = None" "''data-slot'' \<notin> set own"
    and "map_of (fold put_attr as []) ''data-slot'' = map_option Str s"
  shows "map_of (props_at path (render (jsx_args (as @ [Spread (omit own' args)]) []))) ''data-slot''
    = (case s of None \<Rightarrow> map_option Str slot | Some n \<Rightarrow> Some (Str n))"
  using assms by (cases s) (simp_all add: marked forwarded jsx_args_def map_add_def)

lemma wrapped_contract:
  fixes render' :: "'h props \<Rightarrow> 'h val"
  assumes eq: "\<And>args. render' args = render (jsx_args (as args @ [Spread (omit own' args)]) [])"
    and own: "set own'' = set (own' @ own)"
    and slot: "''data-slot'' \<notin> set own" "\<And>args. map_of (fold put_attr (as args) []) ''data-slot'' = map_option Str s"
  shows "widget_contract (case s of None \<Rightarrow> slot | Some n \<Rightarrow> Some n) path own'' render'"
proof
  fix k v and args :: "'h props"
  assume "k \<notin> set own''" "map_of args k = Some v"
  then show "map_of (props_at path (render' args)) k = Some v"
    unfolding eq own by (rule wrapped_forwards)
next
  fix args :: "'h props"
  assume "map_of args ''data-slot'' = None"
  then have "map_of (props_at path (render' args)) ''data-slot''
      = (case s of None \<Rightarrow> map_option Str slot | Some n \<Rightarrow> Some (Str n))"
    unfolding eq using slot by (rule wrapped_marks)
  then show "map_of (props_at path (render' args)) ''data-slot'' = map_option Str (case s of None \<Rightarrow> slot | Some n \<Rightarrow> Some n)"
    by (cases s) simp_all
qed

end

fun contract :: "'h widget \<Rightarrow> bool" where
  "contract (name, slot, path, own, render) \<longleftrightarrow> widget_contract slot path own render"

lemmas contract_simps = widget_contract_def jsx_def jsx_args_def children_of_eq map_add_def Let_def

lemma alert_contracts:
  "contract (''Alert'', Some ''alert'', [], [''className'', ''variant''], Alert lib)"
  "contract (''AlertTitle'', Some ''alert-title'', [], [''className''], AlertTitle lib)"
  "contract (''AlertDescription'', Some ''alert-description'', [], [''className''], AlertDescription lib)"
  "contract (''AlertAction'', Some ''alert-action'', [], [''className''], AlertAction lib)"
  by (simp_all add: contract_simps Alert_def AlertTitle_def AlertDescription_def AlertAction_def)

lemma badge_contracts:
  "contract (''Badge'', Some ''badge'', [], [''className'', ''variant'', ''asChild''], Badge lib)"
  by (simp_all add: contract_simps Badge_def)

lemma button_contracts:
  "contract (''Button'', Some ''button'', [], [''className'', ''variant'', ''size'', ''asChild''], Button lib)"
  by (simp_all add: contract_simps Button_def)

lemma card_contracts:
  "contract (''Card'', Some ''card'', [], [''className'', ''size''], Card lib)"
  "contract (''CardHeader'', Some ''card-header'', [], [''className''], CardHeader lib)"
  "contract (''CardTitle'', Some ''card-title'', [], [''className''], CardTitle lib)"
  "contract (''CardDescription'', Some ''card-description'', [], [''className''], CardDescription lib)"
  "contract (''CardAction'', Some ''card-action'', [], [''className''], CardAction lib)"
  "contract (''CardContent'', Some ''card-content'', [], [''className''], CardContent lib)"
  "contract (''CardFooter'', Some ''card-footer'', [], [''className''], CardFooter lib)"
  by (simp_all add: contract_simps Card_def CardHeader_def CardTitle_def CardDescription_def CardAction_def CardContent_def CardFooter_def)

lemma dialog_contracts:
  "contract (''Dialog'', Some ''dialog'', [], [], Dialog lib)"
  "contract (''DialogTrigger'', Some ''dialog-trigger'', [], [], DialogTrigger lib)"
  "contract (''DialogPortal'', Some ''dialog-portal'', [], [], DialogPortal lib)"
  "contract (''DialogClose'', Some ''dialog-close'', [], [], DialogClose lib)"
  "contract (''DialogOverlay'', Some ''dialog-overlay'', [], [''className''], DialogOverlay lib)"
  "contract (''DialogContent'', Some ''dialog-content'', [1], [''className'', ''children'', ''showCloseButton''], DialogContent lib)"
  "contract (''DialogHeader'', Some ''dialog-header'', [], [''className''], DialogHeader lib)"
  "contract (''DialogFooter'', Some ''dialog-footer'', [], [''className'', ''showCloseButton'', ''children''], DialogFooter lib)"
  "contract (''DialogTitle'', Some ''dialog-title'', [], [''className''], DialogTitle lib)"
  "contract (''DialogDescription'', Some ''dialog-description'', [], [''className''], DialogDescription lib)"
  by (simp_all add: contract_simps Dialog_def DialogTrigger_def DialogPortal_def DialogClose_def DialogOverlay_def DialogContent_def DialogHeader_def DialogFooter_def DialogTitle_def DialogDescription_def)

lemma separator_contracts:
  "contract (''Separator'', Some ''separator'', [], [''className'', ''orientation'', ''decorative''], Separator lib)"
  by (simp_all add: contract_simps Separator_def)

lemma sheet_contracts:
  "contract (''Sheet'', Some ''sheet'', [], [], Sheet lib)"
  "contract (''SheetTrigger'', Some ''sheet-trigger'', [], [], SheetTrigger lib)"
  "contract (''SheetClose'', Some ''sheet-close'', [], [], SheetClose lib)"
  "contract (''SheetPortal'', Some ''sheet-portal'', [], [], SheetPortal lib)"
  "contract (''SheetOverlay'', Some ''sheet-overlay'', [], [''className''], SheetOverlay lib)"
  "contract (''SheetContent'', Some ''sheet-content'', [1], [''className'', ''children'', ''side'', ''showCloseButton''], SheetContent lib)"
  "contract (''SheetHeader'', Some ''sheet-header'', [], [''className''], SheetHeader lib)"
  "contract (''SheetFooter'', Some ''sheet-footer'', [], [''className''], SheetFooter lib)"
  "contract (''SheetTitle'', Some ''sheet-title'', [], [''className''], SheetTitle lib)"
  "contract (''SheetDescription'', Some ''sheet-description'', [], [''className''], SheetDescription lib)"
  by (simp_all add: contract_simps Sheet_def SheetTrigger_def SheetClose_def SheetPortal_def SheetOverlay_def SheetContent_def SheetHeader_def SheetFooter_def SheetTitle_def SheetDescription_def)

lemma skeleton_contracts:
  "contract (''Skeleton'', Some ''skeleton'', [], [''className''], Skeleton lib)"
  by (simp_all add: contract_simps Skeleton_def)

lemma table_contracts:
  "contract (''Table'', Some ''table'', [0], [''className''], Table lib)"
  "contract (''TableHeader'', Some ''table-header'', [], [''className''], TableHeader lib)"
  "contract (''TableBody'', Some ''table-body'', [], [''className''], TableBody lib)"
  "contract (''TableFooter'', Some ''table-footer'', [], [''className''], TableFooter lib)"
  "contract (''TableRow'', Some ''table-row'', [], [''className''], TableRow lib)"
  "contract (''TableHead'', Some ''table-head'', [], [''className''], TableHead lib)"
  "contract (''TableCell'', Some ''table-cell'', [], [''className''], TableCell lib)"
  "contract (''TableCaption'', Some ''table-caption'', [], [''className''], TableCaption lib)"
  by (simp_all add: contract_simps Table_def TableHeader_def TableBody_def TableFooter_def TableRow_def TableHead_def TableCell_def TableCaption_def)

lemma tabs_contracts:
  "contract (''Tabs'', Some ''tabs'', [], [''className'', ''orientation''], Tabs lib)"
  "contract (''TabsList'', Some ''tabs-list'', [], [''className'', ''variant''], TabsList lib)"
  "contract (''TabsTrigger'', Some ''tabs-trigger'', [], [''className''], TabsTrigger lib)"
  "contract (''TabsContent'', Some ''tabs-content'', [], [''className''], TabsContent lib)"
  by (simp_all add: contract_simps Tabs_def TabsList_def TabsTrigger_def TabsContent_def)

lemma textarea_contracts:
  "contract (''Textarea'', Some ''textarea'', [], [''className''], Textarea lib)"
  by (simp_all add: contract_simps Textarea_def)

lemma input_contracts:
  "contract (''Input'', Some ''input'', [], [''className'', ''type''], Input lib)"
  by (simp_all add: contract_simps Input_def)

lemma input_group_contracts:
  "contract (''InputGroup'', Some ''input-group'', [], [''className''], InputGroup lib)"
  "contract (''InputGroupAddon'', Some ''input-group-addon'', [], [''className'', ''align''], InputGroupAddon lib)"
  "contract (''InputGroupText'', None, [], [''className''], InputGroupText lib)"
  by (simp_all add: contract_simps InputGroup_def InputGroupAddon_def InputGroupText_def)

interpretation button: widget_contract "Some ''button''" "[]" "[''className'', ''variant'', ''size'', ''asChild'']" "Button lib"
  for lib
  using button_contracts by simp

interpretation input: widget_contract "Some ''input''" "[]" "[''className'', ''type'']" "Input lib" for lib
  using input_contracts by simp

interpretation textarea: widget_contract "Some ''textarea''" "[]" "[''className'']" "Textarea lib" for lib
  using textarea_contracts by simp

text \<open>The controls of an input group wrap another widget, whose contract they inherit.\<close>

lemma InputGroupButton_contract:
  "contract (''InputGroupButton'', Some ''button'', [], [''className'', ''type'', ''variant'', ''size'', ''asChild''], InputGroupButton lib)"
proof -
  have "widget_contract (case None of None \<Rightarrow> Some ''button'' | Some n \<Rightarrow> Some n) []
      [''className'', ''type'', ''variant'', ''size'', ''asChild''] (InputGroupButton lib)"
    by (rule button.wrapped_contract [where lib = lib and own' = "[''className'', ''type'', ''variant'', ''size'']"
        and as = "\<lambda>args. [Attr ''type'' (given_or ''type'' (Str ''button'') args),
      Attr ''data-size'' (given_or ''size'' (Str ''xs'') args),
      Attr ''variant'' (given_or ''variant'' (Str ''ghost'') args),
      Attr ''className'' (cn lib [Str (inputGroupButtonVariants lib [(''size'', given_or ''size'' (Str ''xs'') args)]),
        given ''className'' args])]"])
      (auto simp: InputGroupButton_def Let_def)
  then show ?thesis by simp
qed

lemma InputGroupInput_contract:
  "contract (''InputGroupInput'', Some ''input-group-control'', [], [''className'', ''type''], InputGroupInput lib)"
proof -
  have "widget_contract (case Some ''input-group-control'' of None \<Rightarrow> Some ''input'' | Some n \<Rightarrow> Some n) []
      [''className'', ''type''] (InputGroupInput lib)"
    by (rule input.wrapped_contract [where lib = lib and own' = "[''className'']"
        and as = "\<lambda>args. [Attr ''data-slot'' (Str ''input-group-control''), Attr ''className'' (cn lib [Str InputGroupInput_class, given ''className'' args])]"])
      (auto simp: InputGroupInput_def Let_def)
  then show ?thesis by simp
qed

lemma InputGroupTextarea_contract:
  "contract (''InputGroupTextarea'', Some ''input-group-control'', [], [''className''], InputGroupTextarea lib)"
proof -
  have "widget_contract (case Some ''input-group-control'' of None \<Rightarrow> Some ''textarea'' | Some n \<Rightarrow> Some n) []
      [''className''] (InputGroupTextarea lib)"
    by (rule textarea.wrapped_contract [where lib = lib and own' = "[''className'']"
        and as = "\<lambda>args. [Attr ''data-slot'' (Str ''input-group-control''), Attr ''className'' (cn lib [Str InputGroupTextarea_class, given ''className'' args])]"])
      (auto simp: InputGroupTextarea_def Let_def)
  then show ?thesis by simp
qed

lemma command_contracts:
  "contract (''Command'', Some ''command'', [], [''className''], Command lib)"
  "contract (''CommandDialog'', Some ''dialog'', [], [''title'', ''description'', ''children'', ''className'', ''showCloseButton''], CommandDialog lib)"
  "contract (''CommandInput'', Some ''command-input'', [0,0], [''className''], CommandInput lib)"
  "contract (''CommandList'', Some ''command-list'', [], [''className''], CommandList lib)"
  "contract (''CommandEmpty'', Some ''command-empty'', [], [''className''], CommandEmpty lib)"
  "contract (''CommandGroup'', Some ''command-group'', [], [''className''], CommandGroup lib)"
  "contract (''CommandSeparator'', Some ''command-separator'', [], [''className''], CommandSeparator lib)"
  "contract (''CommandItem'', Some ''command-item'', [], [''className'', ''children''], CommandItem lib)"
  "contract (''CommandShortcut'', Some ''command-shortcut'', [], [''className''], CommandShortcut lib)"
  by (simp_all add: contract_simps Command_def CommandDialog_def CommandInput_def CommandList_def CommandEmpty_def CommandGroup_def CommandSeparator_def CommandItem_def CommandShortcut_def Dialog_def InputGroup_def)

lemma dropdown_menu_contracts:
  "contract (''DropdownMenu'', Some ''dropdown-menu'', [], [], DropdownMenu lib)"
  "contract (''DropdownMenuPortal'', Some ''dropdown-menu-portal'', [], [], DropdownMenuPortal lib)"
  "contract (''DropdownMenuTrigger'', Some ''dropdown-menu-trigger'', [], [], DropdownMenuTrigger lib)"
  "contract (''DropdownMenuContent'', Some ''dropdown-menu-content'', [0], [''className'', ''align'', ''sideOffset''], DropdownMenuContent lib)"
  "contract (''DropdownMenuGroup'', Some ''dropdown-menu-group'', [], [], DropdownMenuGroup lib)"
  "contract (''DropdownMenuItem'', Some ''dropdown-menu-item'', [], [''className'', ''inset'', ''variant''], DropdownMenuItem lib)"
  "contract (''DropdownMenuCheckboxItem'', Some ''dropdown-menu-checkbox-item'', [], [''className'', ''children'', ''checked'', ''inset''], DropdownMenuCheckboxItem lib)"
  "contract (''DropdownMenuRadioGroup'', Some ''dropdown-menu-radio-group'', [], [], DropdownMenuRadioGroup lib)"
  "contract (''DropdownMenuRadioItem'', Some ''dropdown-menu-radio-item'', [], [''className'', ''children'', ''inset''], DropdownMenuRadioItem lib)"
  "contract (''DropdownMenuLabel'', Some ''dropdown-menu-label'', [], [''className'', ''inset''], DropdownMenuLabel lib)"
  "contract (''DropdownMenuSeparator'', Some ''dropdown-menu-separator'', [], [''className''], DropdownMenuSeparator lib)"
  "contract (''DropdownMenuShortcut'', Some ''dropdown-menu-shortcut'', [], [''className''], DropdownMenuShortcut lib)"
  "contract (''DropdownMenuSub'', Some ''dropdown-menu-sub'', [], [], DropdownMenuSub lib)"
  "contract (''DropdownMenuSubTrigger'', Some ''dropdown-menu-sub-trigger'', [], [''className'', ''inset'', ''children''], DropdownMenuSubTrigger lib)"
  "contract (''DropdownMenuSubContent'', Some ''dropdown-menu-sub-content'', [], [''className''], DropdownMenuSubContent lib)"
  by (simp_all add: contract_simps DropdownMenu_def DropdownMenuPortal_def DropdownMenuTrigger_def DropdownMenuContent_def DropdownMenuGroup_def DropdownMenuItem_def DropdownMenuCheckboxItem_def DropdownMenuRadioGroup_def DropdownMenuRadioItem_def DropdownMenuLabel_def DropdownMenuSeparator_def DropdownMenuShortcut_def DropdownMenuSub_def DropdownMenuSubTrigger_def DropdownMenuSubContent_def)

lemma select_contracts:
  "contract (''Select'', Some ''select'', [], [], Select lib)"
  "contract (''SelectGroup'', Some ''select-group'', [], [''className''], SelectGroup lib)"
  "contract (''SelectValue'', Some ''select-value'', [], [], SelectValue lib)"
  "contract (''SelectTrigger'', Some ''select-trigger'', [], [''className'', ''size'', ''children''], SelectTrigger lib)"
  "contract (''SelectContent'', Some ''select-content'', [0], [''className'', ''children'', ''position'', ''align''], SelectContent lib)"
  "contract (''SelectLabel'', Some ''select-label'', [], [''className''], SelectLabel lib)"
  "contract (''SelectItem'', Some ''select-item'', [], [''className'', ''children''], SelectItem lib)"
  "contract (''SelectSeparator'', Some ''select-separator'', [], [''className''], SelectSeparator lib)"
  "contract (''SelectScrollUpButton'', Some ''select-scroll-up-button'', [], [''className'', ''children''], SelectScrollUpButton lib)"
  "contract (''SelectScrollDownButton'', Some ''select-scroll-down-button'', [], [''className'', ''children''], SelectScrollDownButton lib)"
  by (simp_all add: contract_simps Select_def SelectGroup_def SelectValue_def SelectTrigger_def SelectContent_def SelectLabel_def SelectItem_def SelectSeparator_def SelectScrollUpButton_def SelectScrollDownButton_def)

lemma tooltip_contracts:
  "contract (''TooltipProvider'', Some ''tooltip-provider'', [], [''delayDuration''], TooltipProvider lib)"
  "contract (''Tooltip'', Some ''tooltip'', [], [], Tooltip lib)"
  "contract (''TooltipTrigger'', Some ''tooltip-trigger'', [], [], TooltipTrigger lib)"
  "contract (''TooltipContent'', Some ''tooltip-content'', [0], [''className'', ''sideOffset'', ''children''], TooltipContent lib)"
  by (simp_all add: contract_simps TooltipProvider_def Tooltip_def TooltipTrigger_def TooltipContent_def)

lemma sonner_contracts:
  "contract (''Toaster'', None, [], [], Toaster lib)"
  by (simp_all add: contract_simps Toaster_def)

lemmas widget_contracts = alert_contracts badge_contracts button_contracts card_contracts dialog_contracts separator_contracts sheet_contracts skeleton_contracts table_contracts tabs_contracts textarea_contracts input_contracts input_group_contracts InputGroupButton_contract InputGroupInput_contract InputGroupTextarea_contract command_contracts dropdown_menu_contracts select_contracts tooltip_contracts sonner_contracts

lemma widgets_contract: "list_all contract (widgets lib)"
  by (simp only: widgets_def list.pred_inject widget_contracts simp_thms)

text \<open>No two entries of the list have the same name.\<close>

lemma widget_names_distinct: "distinct (map fst (widgets lib))"
  by (simp add: widgets_def)

text \<open>
  C32: every property that a page gives to a widget and that the widget does not read itself
  arrives unchanged at the element the widget wraps, whatever the widget sets on it before; and
  unless the page names a slot, that element carries the slot name of its widget.
\<close>

theorem widgets_forward_props:
  assumes "(name, slot, path, own, render) \<in> set (widgets lib)"
  shows "(k \<notin> set own \<longrightarrow> map_of args k = Some v \<longrightarrow> map_of (props_at path (render args)) k = Some v)
    \<and> (map_of args ''data-slot'' = None \<longrightarrow>
         map_of (props_at path (render args)) ''data-slot'' = map_option Str slot)"
proof -
  have "widget_contract slot path own render"
    using assms widgets_contract [of lib] by (auto simp: list_all_iff)
  then show ?thesis by (blast dest: widget_contract.forwarded widget_contract.marked)
qed

text \<open>A library that joins class names with spaces and takes the base of every variant.\<close>

definition plain_lib :: "unit widget_lib" where
  "plain_lib = \<lparr>clsx = \<lambda>vs. concat (map (\<lambda>v. case v of Str s \<Rightarrow> s @ '' '' | _ \<Rightarrow> []) vs),
     twMerge = (\<lambda>s. s), cva = (\<lambda>base config ps. base), theme = []\<rparr>"

text \<open>
  A disabled button of an input group with a handler: the handler arrives at the \<open>button\<close> although
  two widgets are between them, and the slot is the button's.
\<close>

theorem widgets_forward_props_witness:
  "map_of (props_at [] (InputGroupButton plain_lib [(''onClick'', Fn (Given ())), (''disabled'', Flag True)])) ''onClick''
     = Some (Fn (Given ()))
   \<and> map_of (props_at [] (InputGroupButton plain_lib [(''onClick'', Fn (Given ())), (''disabled'', Flag True)])) ''data-slot''
     = Some (Str ''button'')"
proof -
  have "(''InputGroupButton'', Some ''button'', [], [''className'', ''type'', ''variant'', ''size'', ''asChild''],
      InputGroupButton plain_lib) \<in> set (widgets plain_lib)"
    by (simp add: widgets_def)
  from widgets_forward_props [OF this, of "''onClick''" "[(''onClick'', Fn (Given ())), (''disabled'', Flag True)]"]
  show ?thesis by simp
qed

subsection \<open>Single widgets\<close>

text \<open>
  \<open>Tabs\<close> reads the orientation only to mark its element: the wrapped component never gets it, so its
  keyboard navigation stays that of horizontal tabs. \<open>Separator\<close> hands its orientation on.
\<close>

lemma tabs_orientation_not_forwarded:
  "map_of (props_of (Tabs lib args)) ''orientation'' = None"
  by (simp add: Tabs_def contract_simps)

lemma separator_orientation:
  "map_of (props_of (Separator lib args)) ''orientation'' = Some (given_or ''orientation'' (Str ''horizontal'') args)"
  by (simp add: Separator_def contract_simps)

text \<open>The mark of a small button is its own size, also the one \<open>Button\<close> would set.\<close>

lemma input_group_button_size:
  "map_of args ''data-size'' = None \<Longrightarrow>
   map_of (props_of (InputGroupButton lib args)) ''data-size'' = Some (given_or ''size'' (Str ''xs'') args)"
  by (simp add: InputGroupButton_def Button_def contract_simps)

text \<open>Dialogs and sheets end with a close button unless it is switched off.\<close>

lemma dialog_close_button:
  assumes "render = DialogContent \<or> render = SheetContent" and "given_or ''showCloseButton'' (Flag True) args = Flag b"
  shows "tag_of (last (children_of (children_of (render lib args) ! 1))) = Some (Lib ''Dialog'' ''Close'') \<longleftrightarrow> b"
  using assms
  by (auto simp: DialogContent_def SheetContent_def DialogPortal_def SheetPortal_def contract_simps js_and_def split: if_splits)

end
