(* ===== verification/Prelude.thy ===== *)
theory Prelude
  imports Main "HOL-Library.Word" "HOL-Library.Sublist"
begin

text \<open>
  Shared vocabulary of the development.

  \<^item> Strings of the program are sequences of UTF-16 code units, as in ECMAScript: a value of
    \<open>jsstr\<close> is a list of 16-bit words. Source literals are written \<open>js ''...''\<close>.
  \<^item> A computation that may throw and that changes a state of type \<open>'s\<close> is a function
    \<open>'s \<Rightarrow> (exn + 'a) \<times> 's\<close>: \<open>Inl\<close> is a thrown value or a rejected promise, and the state
    reached before the throw is kept, as it is in the program.
  \<^item> Generic lemmas on lists and options, and the collections of rewrite rules
    that the component theories share.
\<close>

subsection \<open>Collections\<close>

named_theorems prog_simps \<open>unfolding of the combinators for stateful computations\<close>
named_theorems jsstr_defs \<open>string operations of the language\<close>

subsection \<open>Strings\<close>

type_synonym code_unit = "16 word"
type_synonym jsstr = "code_unit list"
type_synonym bytes = "8 word list"

definition cu :: "char \<Rightarrow> code_unit" where
  "cu c = of_char c"

definition js :: "string \<Rightarrow> jsstr" where
  "js s = map cu s"

lemma unat_cu [simp]: "unat (cu c) = of_char c"
proof -
  have "unat (of_nat (of_char c) :: code_unit) = (of_char c :: nat) mod 2 ^ 16"
    by (simp add: unat_of_nat)
  also have "\<dots> = of_char c"
    by (simp add: mod_less order_less_le_trans [OF nat_of_char_less_256])
  finally show ?thesis unfolding cu_def of_nat_of_char [symmetric, where ?'a = code_unit] .
qed

lemma cu_eq_iff [simp]: "cu a = cu b \<longleftrightarrow> a = b"
  by (metis unat_cu of_char_eq_iff)

lemma js_Nil [simp]: "js [] = []"
  by (simp add: js_def)

lemma js_eq_iff [simp]: "js a = js b \<longleftrightarrow> a = b"
  by (simp add: js_def inj_map_eq_map inj_def)

lemma js_eq_Nil [simp]: "js a = [] \<longleftrightarrow> a = []" and Nil_eq_js [simp]: "[] = js a \<longleftrightarrow> a = []"
  by (auto simp: js_def)

lemma length_js [simp]: "length (js a) = length a"
  by (simp add: js_def)

lemma js_append: "js (a @ b) = js a @ js b"
  by (simp add: js_def)

lemma prefix_js [simp]: "prefix (js a) (js b) \<longleftrightarrow> prefix a b"
  by (induction a b rule: list_induct2') (auto simp: js_def)

subsection \<open>Computations that may throw\<close>

type_synonym ('e, 's, 'a) prog = "'s \<Rightarrow> ('e + 'a) \<times> 's"

definition ret :: "'a \<Rightarrow> ('e, 's, 'a) prog" where
  [prog_simps]: "ret x = (\<lambda>s. (Inr x, s))"

definition throw :: "'e \<Rightarrow> ('e, 's, 'a) prog" where
  [prog_simps]: "throw e = (\<lambda>s. (Inl e, s))"

definition bnd :: "('e, 's, 'a) prog \<Rightarrow> ('a \<Rightarrow> ('e, 's, 'b) prog) \<Rightarrow> ('e, 's, 'b) prog" where
  [prog_simps]: "bnd m f = (\<lambda>s. case m s of (Inl e, s') \<Rightarrow> (Inl e, s') | (Inr x, s') \<Rightarrow> f x s')"

text \<open>A pure result (a value or a thrown error) as a computation, and \<open>try ... catch\<close>.\<close>

definition lift_res :: "'e + 'a \<Rightarrow> ('e, 's, 'a) prog" where
  [prog_simps]: "lift_res r = (\<lambda>s. (r, s))"

definition try_catch :: "('e, 's, 'a) prog \<Rightarrow> ('e \<Rightarrow> ('e, 's, 'a) prog) \<Rightarrow> ('e, 's, 'a) prog" where
  [prog_simps]: "try_catch m h = (\<lambda>s. case m s of (Inl e, s') \<Rightarrow> h e s' | (Inr x, s') \<Rightarrow> (Inr x, s'))"

definition gets :: "('s \<Rightarrow> 'a) \<Rightarrow> ('e, 's, 'a) prog" where
  [prog_simps]: "gets f = (\<lambda>s. (Inr (f s), s))"

definition modify :: "('s \<Rightarrow> 's) \<Rightarrow> ('e, 's, unit) prog" where
  [prog_simps]: "modify f = (\<lambda>s. (Inr (), f s))"

lemma bnd_ret [simp]: "bnd (ret x) f = f x"
  by (simp add: prog_simps)

lemma bnd_throw [simp]: "bnd (throw e) f = throw e"
  by (simp add: prog_simps)

lemma bnd_assoc: "bnd (bnd m f) g = bnd m (\<lambda>x. bnd (f x) g)"
  by (rule ext) (simp add: prog_simps split: prod.split sum.split)

lemma bnd_lift_res_Inr [simp]: "bnd (lift_res (Inr x)) f = f x"
  and bnd_lift_res_Inl [simp]: "bnd (lift_res (Inl e)) f = throw e"
  by (simp_all add: prog_simps)

text \<open>
  \<open>preserves P m\<close>: the computation keeps the state predicate, whether it returns or throws.
  The rules below decompose a computation along its structure.
\<close>

definition preserves :: "('s \<Rightarrow> bool) \<Rightarrow> ('e, 's, 'a) prog \<Rightarrow> bool" where
  "preserves P m \<longleftrightarrow> (\<forall>s. P s \<longrightarrow> P (snd (m s)))"

named_theorems preserves_intros \<open>structural rules for \<open>preserves\<close>\<close>

lemma preservesI: "(\<And>s. P s \<Longrightarrow> P (snd (m s))) \<Longrightarrow> preserves P m"
  by (simp add: preserves_def)

lemma preservesD: "preserves P m \<Longrightarrow> P s \<Longrightarrow> P (snd (m s))"
  by (simp add: preserves_def)

lemma preserves_ret [preserves_intros]: "preserves P (ret x)"
  and preserves_throw [preserves_intros]: "preserves P (throw e)"
  and preserves_lift_res [preserves_intros]: "preserves P (lift_res r)"
  and preserves_gets [preserves_intros]: "preserves P (gets f)"
  by (simp_all add: preserves_def prog_simps)

lemma preserves_bnd [preserves_intros]:
  "preserves P m \<Longrightarrow> (\<And>x. preserves P (f x)) \<Longrightarrow> preserves P (bnd m f)"
  unfolding preserves_def bnd_def by (auto split: prod.split sum.split)

lemma preserves_try_catch [preserves_intros]:
  "preserves P m \<Longrightarrow> (\<And>e. preserves P (h e)) \<Longrightarrow> preserves P (try_catch m h)"
  unfolding preserves_def try_catch_def by (auto split: prod.split sum.split)

lemma preserves_modify: "(\<And>s. P s \<Longrightarrow> P (f s)) \<Longrightarrow> preserves P (modify f)"
  by (simp add: preserves_def prog_simps)

lemma preserves_if [preserves_intros]:
  "(b \<Longrightarrow> preserves P m) \<Longrightarrow> (\<not> b \<Longrightarrow> preserves P n) \<Longrightarrow> preserves P (if b then m else n)"
  by simp

subsection \<open>Results\<close>

definition bind_res :: "'e + 'a \<Rightarrow> ('a \<Rightarrow> 'e + 'b) \<Rightarrow> 'e + 'b" where
  "bind_res r f = (case r of Inl e \<Rightarrow> Inl e | Inr x \<Rightarrow> f x)"

lemma bind_res_simps [simp]: "bind_res (Inl e) f = Inl e" "bind_res (Inr x) f = f x"
  by (simp_all add: bind_res_def)

lemma bind_res_eq_Inr: "bind_res r f = Inr y \<longleftrightarrow> (\<exists>x. r = Inr x \<and> f x = Inr y)"
  by (cases r) simp_all

text \<open>\<open>map\<close> with a function that may throw stops at the first error.\<close>

fun map_res :: "('a \<Rightarrow> 'e + 'b) \<Rightarrow> 'a list \<Rightarrow> 'e + 'b list" where
  "map_res f [] = Inr []"
| "map_res f (x # xs) = bind_res (f x) (\<lambda>y. bind_res (map_res f xs) (\<lambda>ys. Inr (y # ys)))"

lemma map_res_eq_Inr:
  "map_res f xs = Inr ys \<longleftrightarrow> list_all2 (\<lambda>x y. f x = Inr y) xs ys"
  by (induction xs arbitrary: ys) (auto simp: bind_res_eq_Inr list_all2_Cons1)

lemma map_res_Inr [simp]: "map_res (\<lambda>x. Inr (f x)) xs = Inr (map f xs)"
  by (induction xs) simp_all

lemma map_res_mem: "map_res f xs = Inr ys \<Longrightarrow> y \<in> set ys \<Longrightarrow> \<exists>x \<in> set xs. f x = Inr y"
  by (induction xs arbitrary: ys) (auto simp: bind_res_eq_Inr)

end
