(* ===== verification/Js_String.thy ===== *)
theory Js_String
  imports Prelude
begin

text \<open>
  The string operations of ECMAScript that the sources call: \<open>split\<close>, \<open>join\<close>, \<open>includes\<close>,
  \<open>startsWith\<close>, \<open>slice\<close>, \<open>trim\<close>, ASCII case folding (header names) and the anchored
  removal of trailing slashes (\<open>replace(/\/+$/, "")\<close> and \<open>replace(/\/$/, "")\<close>).
  Lemmas: \<open>join\<close> inverts \<open>split\<close>, \<open>split\<close> inverts \<open>join\<close> on parts free of the separator, and
  splitting is online: splitting a longer text only continues the last part.
\<close>

subsection \<open>Definitions\<close>

text \<open>The first occurrence of \<open>sep\<close>: the text before and the text after it.\<close>

fun breakStr :: "'a list \<Rightarrow> 'a list \<Rightarrow> ('a list \<times> 'a list) option" where
  "breakStr sep [] = (if sep = [] then Some ([], []) else None)"
| "breakStr sep (c # s) =
     (if prefix sep (c # s) then Some ([], drop (length sep) (c # s))
      else map_option (\<lambda>(a, b). (c # a, b)) (breakStr sep s))"

lemma breakStr_Some: "breakStr sep s = Some (a, b) \<Longrightarrow> s = a @ sep @ b"
proof (induction s arbitrary: a b)
  case Nil
  then show ?case by (simp split: if_splits)
next
  case (Cons c s)
  then show ?case by (auto split: if_splits elim: prefixE)
qed

text \<open>\<open>s.split(sep)\<close>; the empty separator splits into code units.\<close>

function js_split :: "'a list \<Rightarrow> 'a list \<Rightarrow> 'a list list" where
  "js_split sep s =
     (if sep = [] then map (\<lambda>c. [c]) s
      else case breakStr sep s of None \<Rightarrow> [s] | Some (a, b) \<Rightarrow> a # js_split sep b)"
  by pat_completeness auto
termination
  by (relation "measure (\<lambda>(sep, s). length s)") (auto dest!: breakStr_Some)

declare js_split.simps [simp del]

fun js_join :: "'a list \<Rightarrow> 'a list list \<Rightarrow> 'a list" where
  "js_join sep [] = []"
| "js_join sep [x] = x"
| "js_join sep (x # y # ys) = x @ sep @ js_join sep (y # ys)"

definition js_includes :: "'a list \<Rightarrow> 'a list \<Rightarrow> bool" where
  "js_includes s sub \<longleftrightarrow> breakStr sub s \<noteq> None"

definition js_startsWith :: "'a list \<Rightarrow> 'a list \<Rightarrow> bool" where
  "js_startsWith s p \<longleftrightarrow> prefix p s"

text \<open>\<open>s.slice(a, b)\<close> and \<open>s.slice(a)\<close> for non-negative positions.\<close>

definition js_slice :: "nat \<Rightarrow> nat \<Rightarrow> 'a list \<Rightarrow> 'a list" where
  "js_slice a b s = take (b - a) (drop a s)"

text \<open>White space and line terminators, the set that \<open>trim\<close> removes.\<close>

definition js_space :: "code_unit \<Rightarrow> bool" where
  "js_space c \<longleftrightarrow> c \<in> {9, 10, 11, 12, 13, 32, 160, 0x1680, 0x2028, 0x2029, 0x202F, 0x205F, 0x3000, 0xFEFF}
     \<or> (0x2000 \<le> c \<and> c \<le> 0x200A)"

definition js_trim :: "jsstr \<Rightarrow> jsstr" where
  "js_trim s = rev (dropWhile js_space (rev (dropWhile js_space s)))"

definition cu_lower :: "code_unit \<Rightarrow> code_unit" where
  "cu_lower c = (if 65 \<le> c \<and> c \<le> 90 then c + 32 else c)"

definition ascii_lower :: "jsstr \<Rightarrow> jsstr" where
  "ascii_lower s = map cu_lower s"

text \<open>\<open>s.replace(/\/+$/, "")\<close> and \<open>s.replace(/\/$/, "")\<close>.\<close>

definition strip_slashes :: "jsstr \<Rightarrow> jsstr" where
  "strip_slashes s = rev (dropWhile (\<lambda>c. c = 47) (rev s))"

definition strip_slash :: "jsstr \<Rightarrow> jsstr" where
  "strip_slash s = (if s \<noteq> [] \<and> last s = 47 then butlast s else s)"

subsection \<open>Splitting and joining\<close>

lemma breakStr_append:
  "breakStr sep s = Some (a, b) \<Longrightarrow> breakStr sep (s @ t) = Some (a, b @ t)"
proof (induction s arbitrary: a b)
  case Nil
  then show ?case by (cases t) (auto split: if_splits)
next
  case (Cons c s)
  show ?case
  proof (cases "prefix sep (c # s)")
    case True
    then have p: "prefix sep (c # s @ t)" by (metis append_Cons prefix_append prefix_def)
    have "length sep \<le> length (c # s)" using True by (rule prefix_length_le)
    then have "drop (length sep) ((c # s) @ t) = drop (length sep) (c # s) @ t"
      by (simp only: drop_append) simp
    with p show ?thesis using True Cons.prems by auto
  next
    case False
    then obtain a' where a': "breakStr sep s = Some (a', b)" "a = c # a'"
      using Cons.prems by (auto split: if_splits)
    show ?thesis
    proof (cases "prefix sep (c # s @ t)")
      case True
      then have "\<not> length sep \<le> length (c # s)"
        using False by (metis append_Cons prefix_length_prefix prefix_def)
      moreover have "length sep \<le> length s" using breakStr_Some [OF a'(1)] by simp
      ultimately show ?thesis by simp
    next
      case no: False
      then show ?thesis using a' Cons.IH [OF a'(1)] by simp
    qed
  qed
qed

lemma js_split_not_Nil [simp]: "sep \<noteq> [] \<Longrightarrow> js_split sep s \<noteq> []"
  by (subst js_split.simps) (auto split: option.split)

lemma js_join_Cons: "xs \<noteq> [] \<Longrightarrow> js_join sep (x # xs) = x @ sep @ js_join sep xs"
  by (cases xs) simp_all

lemma js_join_split: "sep \<noteq> [] \<Longrightarrow> js_join sep (js_split sep s) = s"
proof (induction sep s rule: js_split.induct)
  case (1 sep s)
  show ?case
  proof (cases "breakStr sep s")
    case None
    then show ?thesis using "1.prems" by (subst js_split.simps) simp
  next
    case (Some ab)
    then obtain a b where ab: "breakStr sep s = Some (a, b)" by (cases ab) auto
    then have "js_join sep (js_split sep b) = b" using "1" by auto
    then show ?thesis using ab breakStr_Some [OF ab] "1.prems"
      by (subst js_split.simps) (simp add: js_join_Cons)
  qed
qed

text \<open>Splitting is online: a longer text only continues the last, incomplete part.\<close>

lemma js_split_append:
  assumes "sep \<noteq> []"
  shows "js_split sep (s @ t) = butlast (js_split sep s) @ js_split sep (last (js_split sep s) @ t)"
  using assms
proof (induction sep s rule: js_split.induct)
  case (1 sep s)
  show ?case
  proof (cases "breakStr sep s")
    case None
    then have "js_split sep s = [s]" using "1.prems" by (subst js_split.simps) simp
    then show ?thesis by simp
  next
    case (Some ab)
    then obtain a b where ab: "breakStr sep s = Some (a, b)" by (cases ab) auto
    have st: "js_split sep (s @ t) = a # js_split sep (b @ t)"
      using breakStr_append [OF ab] "1.prems" by (subst js_split.simps) simp
    have s: "js_split sep s = a # js_split sep b"
      using ab "1.prems" by (subst js_split.simps) simp
    show ?thesis using "1" ab st s by auto
  qed
qed

lemma breakStr_single_None: "breakStr [c] s = None \<longleftrightarrow> c \<notin> set s"
  by (induction s) auto

lemma breakStr_single_free:
  "breakStr [c] s = Some (a, b) \<Longrightarrow> c \<notin> set a"
  by (induction s arbitrary: a b) (auto split: if_splits)

lemma breakStr_single_append: "c \<notin> set a \<Longrightarrow> breakStr [c] (a @ c # b) = Some (a, b)"
  by (induction a) auto

lemma js_split_single_free: "p \<in> set (js_split [c] s) \<Longrightarrow> c \<notin> set p"
proof (induction "[c]" s rule: js_split.induct)
  case (1 s)
  show ?case
  proof (cases "breakStr [c] s")
    case None
    then show ?thesis using "1.prems" breakStr_single_None [of c s] by (simp add: js_split.simps [of _ s])
  next
    case (Some ab)
    then obtain a b where ab: "breakStr [c] s = Some (a, b)" by (cases ab) auto
    then show ?thesis using "1" breakStr_single_free [OF ab]
      by (auto simp: js_split.simps [of _ s])
  qed
qed

lemma js_split_free [simp]: "c \<notin> set s \<Longrightarrow> js_split [c] s = [s]"
  using breakStr_single_None [of c s] by (subst js_split.simps) simp

lemma js_split_join:
  "xs \<noteq> [] \<Longrightarrow> \<forall>x \<in> set xs. c \<notin> set x \<Longrightarrow> js_split [c] (js_join [c] xs) = xs"
proof (induction "[c]" xs rule: js_join.induct)
  case (3 x y ys)
  have "js_split [c] (x @ c # js_join [c] (y # ys)) = x # js_split [c] (js_join [c] (y # ys))"
    using "3.prems" by (subst js_split.simps) (simp add: breakStr_single_append)
  then show ?case using 3 by simp
qed simp_all

subsection \<open>Trailing slashes, case folding\<close>

lemma strip_slashes_last: "strip_slashes s \<noteq> [] \<Longrightarrow> last (strip_slashes s) \<noteq> 47"
  using hd_dropWhile [of "\<lambda>c. c = 47" "rev s"] by (simp add: strip_slashes_def last_rev)

lemma strip_slashes_prefix: "prefix (strip_slashes s) s"
  using suffix_dropWhile [of "\<lambda>c. c = 47" "rev s"] by (simp add: strip_slashes_def suffix_to_prefix)

lemma strip_slashes_idem [simp]: "strip_slashes (strip_slashes s) = strip_slashes s"
  by (simp add: strip_slashes_def dropWhile_idem)

lemma ascii_lower_js [simp]: "ascii_lower (js s) = js (map (\<lambda>c. char_of (let n = (of_char c :: nat)
    in if 65 \<le> n \<and> n \<le> 90 then n + 32 else n)) s)"
proof -
  have "cu_lower (cu c) = cu (char_of (let n = (of_char c :: nat)
      in if 65 \<le> n \<and> n \<le> 90 then n + 32 else n))" for c
    by (cases "65 \<le> (of_char c :: nat) \<and> (of_char c :: nat) \<le> 90")
      (auto simp: cu_lower_def word_le_nat_alt word_unat_eq_iff unat_word_ariths Let_def)
  then show ?thesis by (simp add: ascii_lower_def js_def)
qed

end
