(* ===== verification/Js_Utf8.thy ===== *)
theory Js_Utf8
  imports Js_String
begin

text \<open>
  Code points, UTF-16 and UTF-8, as the language and the platform use them: the code points of
  a string (failing on a lone surrogate, where \<open>encodeURIComponent\<close> throws), the UTF-8
  encoding, and the incremental UTF-8 decoder behind \<open>TextDecoder.decode(_, { stream: true })\<close>.
  Lemmas: the decoder is a homomorphism on concatenated chunks, and it inverts the encoder on
  every well-formed string, wherever the bytes are cut.
\<close>

subsection \<open>Code points of a string\<close>

definition high_surrogate :: "code_unit \<Rightarrow> bool" where
  "high_surrogate c \<longleftrightarrow> 0xD800 \<le> unat c \<and> unat c \<le> 0xDBFF"

definition low_surrogate :: "code_unit \<Rightarrow> bool" where
  "low_surrogate c \<longleftrightarrow> 0xDC00 \<le> unat c \<and> unat c \<le> 0xDFFF"

definition surrogate_pair :: "code_unit \<Rightarrow> code_unit \<Rightarrow> nat" where
  "surrogate_pair h l = (unat h - 0xD800) * 0x400 + (unat l - 0xDC00) + 0x10000"

fun code_points :: "jsstr \<Rightarrow> nat list option" where
  "code_points [] = Some []"
| "code_points (c # cs) =
     (if low_surrogate c then None
      else if high_surrogate c then
        (case cs of [] \<Rightarrow> None
         | d # ds \<Rightarrow> if low_surrogate d then map_option (Cons (surrogate_pair c d)) (code_points ds)
                    else None)
      else map_option (Cons (unat c)) (code_points cs))"

definition well_formed :: "jsstr \<Rightarrow> bool" where
  "well_formed s \<longleftrightarrow> code_points s \<noteq> None"

text \<open>The code units of a code point, and the scalar values that have a UTF-8 encoding.\<close>

definition utf16 :: "nat \<Rightarrow> jsstr" where
  "utf16 cp = (if cp < 0x10000 then [of_nat cp]
     else [of_nat (0xD800 + (cp - 0x10000) div 0x400), of_nat (0xDC00 + (cp - 0x10000) mod 0x400)])"

definition scalar :: "nat \<Rightarrow> bool" where
  "scalar cp \<longleftrightarrow> cp < 0xD800 \<or> (0xE000 \<le> cp \<and> cp < 0x110000)"

definition utf8 :: "nat \<Rightarrow> nat list" where
  "utf8 cp =
     (if cp < 0x80 then [cp]
      else if cp < 0x800 then [0xC0 + cp div 0x40, 0x80 + cp mod 0x40]
      else if cp < 0x10000 then [0xE0 + cp div 0x1000, 0x80 + cp div 0x40 mod 0x40, 0x80 + cp mod 0x40]
      else [0xF0 + cp div 0x40000, 0x80 + cp div 0x1000 mod 0x40, 0x80 + cp div 0x40 mod 0x40, 0x80 + cp mod 0x40])"

subsection \<open>The streaming decoder\<close>

record decoder =
  need :: nat
  seen :: nat
  point :: nat
  lower :: nat
  upper :: nat
  bom_seen :: bool

definition new_decoder :: decoder where
  "new_decoder = \<lparr>need = 0, seen = 0, point = 0, lower = 0x80, upper = 0xBF, bom_seen = False\<rparr>"

definition reset :: "decoder \<Rightarrow> decoder" where
  "reset d = d\<lparr>need := 0, seen := 0, point := 0, lower := 0x80, upper := 0xBF\<rparr>"

text \<open>One decoded code point; a byte order mark at the very start is dropped.\<close>

definition emit :: "nat \<Rightarrow> decoder \<Rightarrow> jsstr \<times> decoder" where
  "emit cp d = (if \<not> bom_seen d \<and> cp = 0xFEFF then [] else utf16 cp, d\<lparr>bom_seen := True\<rparr>)"

definition lead_byte :: "nat \<Rightarrow> decoder \<Rightarrow> jsstr \<times> decoder" where
  "lead_byte b d =
     (if b < 0x80 then emit b d
      else if 0xC2 \<le> b \<and> b \<le> 0xDF then ([], d\<lparr>need := 1, point := b - 0xC0\<rparr>)
      else if 0xE0 \<le> b \<and> b \<le> 0xEF then
        ([], d\<lparr>need := 2, point := b - 0xE0, lower := (if b = 0xE0 then 0xA0 else lower d),
               upper := (if b = 0xED then 0x9F else upper d)\<rparr>)
      else if 0xF0 \<le> b \<and> b \<le> 0xF4 then
        ([], d\<lparr>need := 3, point := b - 0xF0, lower := (if b = 0xF0 then 0x90 else lower d),
               upper := (if b = 0xF4 then 0x8F else upper d)\<rparr>)
      else emit 0xFFFD d)"

definition decode_byte :: "nat \<Rightarrow> decoder \<Rightarrow> jsstr \<times> decoder" where
  "decode_byte b d =
     (if need d = 0 then lead_byte b d
      else if b < lower d \<or> upper d < b then
        (let (o1, d1) = emit 0xFFFD (reset d); (o2, d2) = lead_byte b d1 in (o1 @ o2, d2))
      else let cp = point d * 0x40 + (b - 0x80) in
        if Suc (seen d) \<noteq> need d
        then ([], d\<lparr>lower := 0x80, upper := 0xBF, point := cp, seen := Suc (seen d)\<rparr>)
        else emit cp (reset d))"

fun decode_bytes :: "decoder \<Rightarrow> nat list \<Rightarrow> jsstr \<times> decoder" where
  "decode_bytes d [] = ([], d)"
| "decode_bytes d (b # bs) =
     (let (o1, d1) = decode_byte b d; (o2, d2) = decode_bytes d1 bs in (o1 @ o2, d2))"

text \<open>\<open>decoder.decode(value, { stream: true })\<close>\<close>

definition decode_stream :: "decoder \<Rightarrow> bytes \<Rightarrow> jsstr \<times> decoder" where
  "decode_stream d bs = decode_bytes d (map unat bs)"

definition utf8_bytes :: "nat list \<Rightarrow> bytes" where
  "utf8_bytes cps = map of_nat (concat (map utf8 cps))"

subsection \<open>Lemmas\<close>

lemma decode_bytes_append:
  "decode_bytes d (xs @ ys) =
     (fst (decode_bytes d xs) @ fst (decode_bytes (snd (decode_bytes d xs)) ys),
      snd (decode_bytes (snd (decode_bytes d xs)) ys))"
  by (induction xs arbitrary: d) (auto simp: Let_def case_prod_beta)

lemma decode_stream_append:
  "decode_stream d (xs @ ys) =
     (fst (decode_stream d xs) @ fst (decode_stream (snd (decode_stream d xs)) ys),
      snd (decode_stream (snd (decode_stream d xs)) ys))"
  by (simp add: decode_stream_def decode_bytes_append)

lemma utf8_byte: "scalar cp \<Longrightarrow> b \<in> set (utf8 cp) \<Longrightarrow> b < 256"
  by (auto simp: utf8_def scalar_def split: if_splits)

definition idle :: "decoder \<Rightarrow> bool" where
  "idle d \<longleftrightarrow> need d = 0 \<and> seen d = 0 \<and> point d = 0 \<and> lower d = 0x80 \<and> upper d = 0xBF"

lemma idle_new [simp]: "idle new_decoder"
  by (simp add: idle_def new_decoder_def)

lemma idle_emit [simp]: "idle d \<Longrightarrow> idle (snd (emit cp d))"
  by (simp add: idle_def emit_def)

text \<open>A decoder state written out; one rewrite step per kind of byte.\<close>

abbreviation (input) dstate :: "nat \<Rightarrow> nat \<Rightarrow> nat \<Rightarrow> nat \<Rightarrow> nat \<Rightarrow> bool \<Rightarrow> decoder" where
  "dstate n k p l u bom \<equiv> \<lparr>need = n, seen = k, point = p, lower = l, upper = u, bom_seen = bom\<rparr>"

lemma decode_more:
  "n \<noteq> 0 \<Longrightarrow> l \<le> b \<Longrightarrow> b \<le> u \<Longrightarrow> Suc k \<noteq> n \<Longrightarrow>
   decode_bytes (dstate n k p l u bom) (b # bs) =
   decode_bytes (dstate n (Suc k) (p * 0x40 + (b - 0x80)) 0x80 0xBF bom) bs"
  by (simp add: decode_byte_def case_prod_beta)

lemma decode_last:
  "n = Suc k \<Longrightarrow> l \<le> b \<Longrightarrow> b \<le> u \<Longrightarrow>
   decode_bytes (dstate n k p l u bom) [b] =
   emit (p * 0x40 + (b - 0x80)) (dstate 0 0 0 0x80 0xBF bom)"
  by (simp add: decode_byte_def reset_def case_prod_beta)

lemma decode_lead:
  "0xC2 \<le> b \<Longrightarrow> b \<le> 0xF4 \<Longrightarrow>
   decode_bytes (dstate 0 0 0 0x80 0xBF bom) (b # bs) =
   decode_bytes (dstate (if b \<le> 0xDF then 1 else if b \<le> 0xEF then 2 else 3) 0
      (if b \<le> 0xDF then b - 0xC0 else if b \<le> 0xEF then b - 0xE0 else b - 0xF0)
      (if b = 0xE0 then 0xA0 else if b = 0xF0 then 0x90 else 0x80)
      (if b = 0xED then 0x9F else if b = 0xF4 then 0x8F else 0xBF) bom) bs"
  by (simp add: decode_byte_def lead_byte_def case_prod_beta)

lemma decode_utf8_three:
  assumes "scalar cp" "0x800 \<le> cp" "cp < 0x10000"
  shows "decode_bytes (dstate 0 0 0 0x80 0xBF bom) (utf8 cp) = emit cp (dstate 0 0 0 0x80 0xBF bom)"
proof -
  define x p m r where "x = cp div 0x40" and "p = x div 0x40" and "m = x mod 0x40" and "r = cp mod 0x40"
  have key: "utf8 cp = [0xE0 + p, 0x80 + m, 0x80 + r]"
    using assms(2,3) by (simp add: utf8_def x_def p_def m_def r_def div_mult2_eq [of cp 64 64, simplified])
  have x: "x = p * 0x40 + m" and cp: "cp = (p * 0x40 + m) * 0x40 + r" and lt: "m < 0x40" "r < 0x40"
    by (simp_all add: x_def p_def m_def r_def)
  have lin: "cp = p * 0x1000 + m * 0x40 + r" using cp by simp
  have "p < 0x10" using assms lin by linarith
  moreover have "p = 0 \<Longrightarrow> 0x20 \<le> m" using assms lin lt by linarith
  moreover have "p = 13 \<Longrightarrow> m \<le> 0x1F" using lin lt assms(1) unfolding scalar_def by linarith
  ultimately show ?thesis using lt unfolding key
    by (simp add: cp decode_lead decode_more decode_last del: decode_bytes.simps)
qed

lemma decode_utf8_four:
  assumes "scalar cp" "0x10000 \<le> cp"
  shows "decode_bytes (dstate 0 0 0 0x80 0xBF bom) (utf8 cp) = emit cp (dstate 0 0 0 0x80 0xBF bom)"
proof -
  define x y p n m r where "x = cp div 0x40" and "y = x div 0x40" and "p = y div 0x40"
    and "n = y mod 0x40" and "m = x mod 0x40" and "r = cp mod 0x40"
  have key: "utf8 cp = [0xF0 + p, 0x80 + n, 0x80 + m, 0x80 + r]"
    using assms(2) by (simp add: utf8_def x_def y_def p_def n_def m_def r_def
      div_mult2_eq [of cp 64 64, simplified] div_mult2_eq [of cp 4096 64, simplified])
  have cp: "cp = ((p * 0x40 + n) * 0x40 + m) * 0x40 + r" and lt: "n < 0x40" "m < 0x40" "r < 0x40"
    by (simp_all add: x_def y_def p_def n_def m_def r_def)
  have lin: "cp = p * 0x40000 + n * 0x1000 + m * 0x40 + r" using cp by simp
  have "p \<le> 4" using lin assms(1) unfolding scalar_def by linarith
  moreover have "p = 0 \<Longrightarrow> 0x10 \<le> n" using assms lin lt by linarith
  moreover have "p = 4 \<Longrightarrow> n \<le> 0xF" using lin assms(1) unfolding scalar_def by linarith
  ultimately show ?thesis using lt unfolding key
    by (simp add: cp decode_lead decode_more decode_last del: decode_bytes.simps)
qed

lemma decode_utf8:
  assumes "idle d" "scalar cp"
  shows "decode_bytes d (utf8 cp) = emit cp d"
proof -
  obtain bom where d: "d = dstate 0 0 0 0x80 0xBF bom"
    using assms(1) by (cases d) (auto simp: idle_def)
  consider "cp < 0x80" | "0x80 \<le> cp" "cp < 0x800" | "0x800 \<le> cp" "cp < 0x10000" | "0x10000 \<le> cp"
    by linarith
  then show ?thesis
  proof cases
    case 1
    then show ?thesis by (simp add: d utf8_def decode_byte_def lead_byte_def case_prod_beta)
  next
    case 2
    then have "2 \<le> cp div 0x40" "cp div 0x40 < 0x20" by auto
    then show ?thesis using 2
      by (simp add: d utf8_def decode_lead decode_last del: decode_bytes.simps)
  qed (simp_all add: d assms(2) decode_utf8_three decode_utf8_four del: decode_bytes.simps)
qed

lemma code_points_scalar: "code_points s = Some cps \<Longrightarrow> cp \<in> set cps \<Longrightarrow> scalar cp"
proof (induction s arbitrary: cps rule: code_points.induct)
  case (2 c cs)
  have "unat c < 0x10000" using unsigned_less [of c] by simp
  then show ?case using 2
    by (auto simp: scalar_def low_surrogate_def high_surrogate_def surrogate_pair_def
      split: if_splits list.splits)
qed simp

lemma utf16_unit: "\<not> low_surrogate c \<Longrightarrow> \<not> high_surrogate c \<Longrightarrow> utf16 (unat c) = [c]"
  using unsigned_less [of c] by (simp add: utf16_def)

lemma utf16_pair: "high_surrogate h \<Longrightarrow> low_surrogate l \<Longrightarrow> utf16 (surrogate_pair h l) = [h, l]"
proof -
  assume hl: "high_surrogate h" "low_surrogate l"
  define a b where "a = unat h - 0xD800" and "b = unat l - 0xDC00"
  have ab: "unat h = 0xD800 + a" "unat l = 0xDC00 + b" "b < 0x400"
    using hl by (auto simp: a_def b_def high_surrogate_def low_surrogate_def)
  have "h = of_nat (0xD800 + a)" "l = of_nat (0xDC00 + b)"
    using ab hl by (simp_all add: word_unat_eq_iff unat_of_nat high_surrogate_def low_surrogate_def del: of_nat_add)
  then show ?thesis using ab by (simp add: utf16_def surrogate_pair_def)
qed

lemma code_points_utf16: "code_points s = Some cps \<Longrightarrow> concat (map utf16 cps) = s"
  by (induction s arbitrary: cps rule: code_points.induct)
    (auto simp: utf16_unit utf16_pair split: if_splits list.splits)

lemma decode_utf8_all:
  assumes "idle d" "bom_seen d" "\<forall>cp \<in> set cps. scalar cp"
  shows "decode_bytes d (concat (map utf8 cps)) = (concat (map utf16 cps), d)"
  using assms(3)
proof (induction cps)
  case (Cons cp cps)
  have "emit cp d = (utf16 cp, d)" using assms(2) by (simp add: emit_def)
  then show ?case using Cons assms(1) by (simp add: decode_bytes_append decode_utf8)
qed simp

lemma decode_stream_utf8_bytes:
  assumes "idle d" "bom_seen d" "code_points s = Some cps"
  shows "decode_stream d (utf8_bytes cps) = (s, d)"
proof -
  have sc: "\<forall>cp \<in> set cps. scalar cp" using code_points_scalar [OF assms(3)] by blast
  then have "map unat (utf8_bytes cps) = concat (map utf8 cps)"
    by (auto simp: utf8_bytes_def unat_of_nat intro!: map_idI mod_less utf8_byte)
  then show ?thesis
    using decode_utf8_all [OF assms(1,2) sc] code_points_utf16 [OF assms(3)]
    by (simp add: decode_stream_def)
qed

lemma well_formed_js [simp]: "well_formed (js s)"
proof (induction s)
  case (Cons c s)
  have "unat (cu c) < 256" using nat_of_char_less_256 [of c] by simp
  then show ?case using Cons
    by (auto simp: well_formed_def js_def high_surrogate_def low_surrogate_def simp del: unat_cu)
qed (simp add: well_formed_def)

end
