(* ===== verification/Js_Uri.thy ===== *)
theory Js_Uri
  imports Js_Utf8
begin

text \<open>
  \<open>encodeURIComponent\<close> and the serialiser of \<open>URLSearchParams\<close>, with what a receiver does to
  read them back (percent-decoding to bytes, UTF-8 decoding, splitting at \<open>&\<close> and \<open>=\<close>).
  The locale \<open>component_codec\<close> states what the URL builders of the clients need of an encoder
  (a reader that inverts it, an alphabet that avoids the delimiters); it is interpreted on
  \<open>encodeURIComponent\<close>.
\<close>

subsection \<open>Percent-encoding\<close>

definition hex_digit :: "nat \<Rightarrow> code_unit" where
  "hex_digit n = (if n < 10 then of_nat (48 + n) else of_nat (55 + n))"

definition hex_value :: "code_unit \<Rightarrow> nat option" where
  "hex_value c = (let n = unat c in
     if 48 \<le> n \<and> n \<le> 57 then Some (n - 48)
     else if 65 \<le> n \<and> n \<le> 70 then Some (n - 55)
     else if 97 \<le> n \<and> n \<le> 102 then Some (n - 87) else None)"

definition pct :: "nat \<Rightarrow> jsstr" where
  "pct b = [37, hex_digit (b div 16), hex_digit (b mod 16)]"

definition alnum :: "nat \<Rightarrow> bool" where
  "alnum n \<longleftrightarrow> (48 \<le> n \<and> n \<le> 57) \<or> (65 \<le> n \<and> n \<le> 90) \<or> (97 \<le> n \<and> n \<le> 122)"

text \<open>The characters \<open>encodeURIComponent\<close> leaves alone: letters, digits and \<open>- _ . ! ~ * ' ( )\<close>.\<close>

definition unescaped :: "nat \<Rightarrow> bool" where
  "unescaped n \<longleftrightarrow> alnum n \<or> n \<in> {45, 95, 46, 33, 126, 42, 39, 40, 41}"

text \<open>\<open>encodeURIComponent(s)\<close>; \<open>None\<close> is the URIError thrown on a lone surrogate.\<close>

fun encodeURIComponent :: "jsstr \<Rightarrow> jsstr option" where
  "encodeURIComponent [] = Some []"
| "encodeURIComponent (c # cs) =
     (if unescaped (unat c) then map_option (Cons c) (encodeURIComponent cs)
      else if low_surrogate c then None
      else if high_surrogate c then
        (case cs of [] \<Rightarrow> None
         | d # ds \<Rightarrow>
             if low_surrogate d
             then map_option (append (concat (map pct (utf8 (surrogate_pair c d))))) (encodeURIComponent ds)
             else None)
      else map_option (append (concat (map pct (utf8 (unat c))))) (encodeURIComponent cs))"

text \<open>Percent-decoding to bytes, as a receiver reads a path segment.\<close>

fun pct_decode :: "jsstr \<Rightarrow> nat list option" where
  "pct_decode [] = Some []"
| "pct_decode (c # cs) =
     (if c = 37 then
        (case cs of h # l # r \<Rightarrow>
           (case (hex_value h, hex_value l) of
              (Some x, Some y) \<Rightarrow> map_option (Cons (16 * x + y)) (pct_decode r)
            | _ \<Rightarrow> None)
         | _ \<Rightarrow> None)
      else if unat c < 128 then map_option (Cons (unat c)) (pct_decode cs) else None)"

definition raw_decoder :: decoder where
  "raw_decoder = new_decoder\<lparr>bom_seen := True\<rparr>"

definition read_component :: "jsstr \<Rightarrow> jsstr option" where
  "read_component s = map_option (\<lambda>bs. fst (decode_bytes raw_decoder bs)) (pct_decode s)"

subsection \<open>URLSearchParams\<close>

text \<open>Code points of a \<open>USVString\<close>: a lone surrogate becomes U+FFFD.\<close>

fun usv :: "jsstr \<Rightarrow> nat list" where
  "usv [] = []"
| "usv (c # cs) =
     (if low_surrogate c then 0xFFFD # usv cs
      else if high_surrogate c then
        (case cs of [] \<Rightarrow> [0xFFFD]
         | d # ds \<Rightarrow> if low_surrogate d then surrogate_pair c d # usv ds else 0xFFFD # usv cs)
      else unat c # usv cs)"

definition form_byte :: "nat \<Rightarrow> jsstr" where
  "form_byte b = (if b = 32 then [43]
     else if alnum b \<or> b \<in> {42, 45, 46, 95} then [of_nat b] else pct b)"

definition form_string :: "jsstr \<Rightarrow> jsstr" where
  "form_string s = concat (map form_byte (concat (map utf8 (usv s))))"

text \<open>\<open>params.set(k, v)\<close>: the first entry of that name is replaced, later ones are dropped.\<close>

fun params_set :: "jsstr \<Rightarrow> jsstr \<Rightarrow> (jsstr \<times> jsstr) list \<Rightarrow> (jsstr \<times> jsstr) list" where
  "params_set k v [] = [(k, v)]"
| "params_set k v ((k', v') # ps) =
     (if k = k' then (k, v) # filter (\<lambda>(q, _). q \<noteq> k) ps else (k', v') # params_set k v ps)"

definition params_toString :: "(jsstr \<times> jsstr) list \<Rightarrow> jsstr" where
  "params_toString ps = js_join [38] (map (\<lambda>(k, v). form_string k @ [61] @ form_string v) ps)"

text \<open>A receiver of \<open>application/x-www-form-urlencoded\<close> data.\<close>

definition form_read_string :: "jsstr \<Rightarrow> jsstr option" where
  "form_read_string s =
     map_option (\<lambda>bs. fst (decode_bytes raw_decoder bs)) (pct_decode (map (\<lambda>c. if c = 43 then 32 else c) s))"

definition form_read_pair :: "jsstr \<Rightarrow> (jsstr \<times> jsstr) option" where
  "form_read_pair s =
     (case breakStr [61] s of
        None \<Rightarrow> map_option (\<lambda>k. (k, [])) (form_read_string s)
      | Some (a, b) \<Rightarrow> (case (form_read_string a, form_read_string b) of
          (Some k, Some v) \<Rightarrow> Some (k, v) | _ \<Rightarrow> None))"

definition form_read :: "jsstr \<Rightarrow> (jsstr \<times> jsstr) option list" where
  "form_read s = (if s = [] then [] else map form_read_pair (js_split [38] s))"

subsection \<open>Bytes and hexadecimal digits\<close>

lemma hex_value_digit [simp]: "n < 16 \<Longrightarrow> hex_value (hex_digit n) = Some n"
  by (auto simp: hex_value_def hex_digit_def Let_def unat_of_nat simp del: of_nat_add)

lemma pct_decode_pct: "b < 256 \<Longrightarrow> pct_decode (pct b @ r) = map_option (Cons b) (pct_decode r)"
  by (simp add: pct_def)

definition pct_byte :: "nat \<Rightarrow> jsstr" where
  "pct_byte b = (if unescaped b then [of_nat b] else pct b)"

lemma unescaped_ascii: "unescaped b \<Longrightarrow> b < 128 \<and> b \<noteq> 37"
  by (auto simp: unescaped_def alnum_def)

lemma of_nat_ascii: "b < 128 \<Longrightarrow> unat (of_nat b :: code_unit) = b"
  by (simp add: unat_of_nat)

lemma of_nat_ascii_eq: "b < 128 \<Longrightarrow> (of_nat b :: code_unit) = c \<longleftrightarrow> b = unat c"
  by (auto simp: word_unat_eq_iff unat_of_nat)

lemma pct_decode_bytes:
  "\<forall>b \<in> set bs. b < 256 \<Longrightarrow> pct_decode (concat (map pct_byte bs)) = Some bs"
proof (induction bs)
  case (Cons b bs)
  show ?case
  proof (cases "unescaped b")
    case True
    then show ?thesis using Cons unescaped_ascii [OF True]
      by (simp add: pct_byte_def of_nat_ascii of_nat_ascii_eq)
  next
    case False
    then show ?thesis using Cons by (simp add: pct_byte_def pct_decode_pct)
  qed
qed simp

lemma pct_byte_utf8:
  "\<not> unescaped cp \<Longrightarrow> concat (map pct_byte (utf8 cp)) = concat (map pct (utf8 cp))"
proof -
  assume no: "\<not> unescaped cp"
  have "\<forall>b \<in> set (utf8 cp). \<not> unescaped b"
    using no by (auto simp: utf8_def dest: unescaped_ascii split: if_splits)
  then show ?thesis by (simp add: pct_byte_def cong: map_cong)
qed

lemma unescaped_unit:
  assumes "unescaped (unat (c :: code_unit))"
  shows "\<not> low_surrogate c" "\<not> high_surrogate c" "utf8 (unat c) = [unat c]" "pct_byte (unat c) = [c]"
  using unescaped_ascii [OF assms] assms
  by (auto simp: low_surrogate_def high_surrogate_def utf8_def pct_byte_def)

text \<open>The encoder, seen as UTF-8 followed by percent-encoding of each byte.\<close>

lemma encodeURIComponent_eq:
  "encodeURIComponent s = map_option (\<lambda>cps. concat (map pct_byte (concat (map utf8 cps)))) (code_points s)"
proof (induction s rule: encodeURIComponent.induct)
  case (2 c cs)
  have pair: "\<not> unescaped (surrogate_pair h l)" for h l
    by (auto simp: surrogate_pair_def dest: unescaped_ascii)
  show ?case
  proof (cases "unescaped (unat c)")
    case True
    then show ?thesis using 2 unescaped_unit [OF True] by (cases "code_points cs") auto
  next
    case False
    then show ?thesis using 2 pair
      by (auto simp: pct_byte_utf8 option.map_comp comp_def split: list.split)
  qed
qed simp

lemma encodeURIComponent_Some:
  "(\<exists>e. encodeURIComponent s = Some e) \<longleftrightarrow> well_formed s"
  by (auto simp: encodeURIComponent_eq well_formed_def)

lemma read_encodeURIComponent:
  assumes "encodeURIComponent s = Some e"
  shows "read_component e = Some s"
proof -
  obtain cps where cps: "code_points s = Some cps" and e: "e = concat (map pct_byte (concat (map utf8 cps)))"
    using assms by (auto simp: encodeURIComponent_eq)
  have sc: "\<forall>cp \<in> set cps. scalar cp" using code_points_scalar [OF cps] by blast
  then have "\<forall>b \<in> set (concat (map utf8 cps)). b < 256" by (auto dest: utf8_byte)
  then have "pct_decode e = Some (concat (map utf8 cps))" using e by (simp add: pct_decode_bytes)
  moreover have "decode_bytes raw_decoder (concat (map utf8 cps)) = (concat (map utf16 cps), raw_decoder)"
    using sc by (intro decode_utf8_all) (auto simp: raw_decoder_def idle_def new_decoder_def)
  ultimately show ?thesis using code_points_utf16 [OF cps] by (simp add: read_component_def)
qed

lemma hex_digit_alnum: "n < 16 \<Longrightarrow> alnum (unat (hex_digit n))"
  by (auto simp: hex_digit_def alnum_def unat_of_nat simp del: of_nat_add)

lemma unescaped_hex: "n < 16 \<Longrightarrow> unescaped (unat (hex_digit n))"
  by (simp add: unescaped_def hex_digit_alnum)

lemma pct_byte_alphabet:
  assumes "c \<in> set (pct_byte b)" "b < 256"
  shows "unescaped (unat c) \<or> c = 37"
proof (cases "unescaped b")
  case True
  then show ?thesis using assms unescaped_ascii [OF True] by (simp add: pct_byte_def of_nat_ascii)
next
  case False
  then show ?thesis using assms unescaped_hex [of "b div 16"] unescaped_hex [of "b mod 16"]
    by (auto simp: pct_byte_def pct_def)
qed

lemma encodeURIComponent_alphabet:
  assumes "encodeURIComponent s = Some e" "c \<in> set e"
  shows "unescaped (unat c) \<or> c = 37"
  using assms code_points_scalar utf8_byte pct_byte_alphabet
  by (auto simp: encodeURIComponent_eq) blast

subsection \<open>The contract of a component encoder\<close>

locale component_codec =
  fixes enc :: "jsstr \<Rightarrow> jsstr option" and dec :: "jsstr \<Rightarrow> jsstr option" and delim :: code_unit
  assumes dec_enc: "enc s = Some e \<Longrightarrow> dec e = Some s"
    and enc_avoids: "enc s = Some e \<Longrightarrow> delim \<notin> set e"
begin

lemma enc_inj: "enc s = Some e \<Longrightarrow> enc t = Some e \<Longrightarrow> s = t"
  by (metis dec_enc option.inject)

text \<open>A sequence of encoded components, separated by the delimiter, can be taken apart again.\<close>

lemma split_components:
  assumes "list_all2 (\<lambda>s e. enc s = Some e) ss es" "ss \<noteq> []"
  shows "map dec (js_split [delim] (js_join [delim] es)) = map Some ss"
proof -
  have "\<forall>e \<in> set es. delim \<notin> set e"
    using assms(1) by (induction rule: list_all2_induct) (auto dest: enc_avoids)
  moreover have "es \<noteq> []" using assms by auto
  moreover have "map dec es = map Some ss"
    using assms(1) by (induction rule: list_all2_induct) (auto simp: dec_enc)
  ultimately show ?thesis by (simp add: js_split_join)
qed

lemma components_inj:
  assumes "list_all2 (\<lambda>s e. enc s = Some e) ss es" "list_all2 (\<lambda>s e. enc s = Some e) ts fs"
    and "ss \<noteq> []" "ts \<noteq> []" "js_join [delim] es = js_join [delim] fs"
  shows "ss = ts"
  using split_components [OF assms(1,3)] split_components [OF assms(2,4)] assms(5)
  by (metis map_injective option.inject injI)

end

interpretation uri: component_codec encodeURIComponent read_component 47
proof unfold_locales
  show "read_component e = Some s" if "encodeURIComponent s = Some e" for s e
    using that by (rule read_encodeURIComponent)
  show "47 \<notin> set e" if "encodeURIComponent s = Some e" for s e
    using encodeURIComponent_alphabet [OF that, of 47] by (auto simp: unescaped_def alnum_def)
qed

subsection \<open>Query strings\<close>

lemma usv_code_points: "code_points s = Some cps \<Longrightarrow> usv s = cps"
proof (induction s arbitrary: cps rule: code_points.induct)
  case (2 c cs)
  show ?case
  proof (cases "high_surrogate c")
    case True
    then obtain d ds where "cs = d # ds" "low_surrogate d" using "2.prems" by (auto split: if_splits list.splits)
    then show ?thesis using 2 True by (auto split: if_splits)
  next
    case False
    then show ?thesis using 2 by (auto split: if_splits)
  qed
qed simp

lemma form_byte_decode:
  assumes "b < 256"
  shows "pct_decode (map (\<lambda>c. if c = 43 then 32 else c) (form_byte b) @ r) = map_option (Cons b) (pct_decode r)"
proof -
  have hex: "hex_digit n \<noteq> 43" if "n < 16" for n
    using hex_digit_alnum [OF that] by (auto simp: alnum_def)
  consider "b = 32" | "b \<noteq> 32" "alnum b \<or> b \<in> {42, 45, 46, 95}" | "b \<noteq> 32" "\<not> (alnum b \<or> b \<in> {42, 45, 46, 95})"
    by blast
  then show ?thesis
  proof cases
    case 2
    then have "b < 128" "b \<noteq> 43" "b \<noteq> 37" by (auto simp: alnum_def)
    then show ?thesis using 2 by (simp add: form_byte_def of_nat_ascii of_nat_ascii_eq)
  next
    case 3
    then show ?thesis using assms hex by (simp add: form_byte_def pct_def)
  qed (simp add: form_byte_def)
qed

lemma form_bytes_decode:
  "\<forall>b \<in> set bs. b < 256 \<Longrightarrow>
   pct_decode (map (\<lambda>c. if c = 43 then 32 else c) (concat (map form_byte bs))) = Some bs"
  by (induction bs) (simp_all add: form_byte_decode)

lemma form_read_form_string:
  assumes "well_formed s"
  shows "form_read_string (form_string s) = Some s"
proof -
  obtain cps where cps: "code_points s = Some cps" using assms by (auto simp: well_formed_def)
  have sc: "\<forall>cp \<in> set cps. scalar cp" using code_points_scalar [OF cps] by blast
  then have "\<forall>b \<in> set (concat (map utf8 cps)). b < 256" by (auto dest: utf8_byte)
  moreover have "decode_bytes raw_decoder (concat (map utf8 cps)) = (concat (map utf16 cps), raw_decoder)"
    using sc by (intro decode_utf8_all) (auto simp: raw_decoder_def idle_def new_decoder_def)
  ultimately show ?thesis using code_points_utf16 [OF cps]
    by (simp add: form_read_string_def form_string_def usv_code_points [OF cps] form_bytes_decode)
qed

lemma usv_scalar: "cp \<in> set (usv s) \<Longrightarrow> scalar cp"
proof (induction s rule: usv.induct)
  case (2 c cs)
  have c: "unat c < 0x10000" using unsigned_less [of c] by simp
  have fffd: "scalar 0xFFFD" by (simp add: scalar_def)
  consider "low_surrogate c" | "\<not> low_surrogate c" "\<not> high_surrogate c"
    | "\<not> low_surrogate c" "high_surrogate c" "cs = []"
    | d ds where "\<not> low_surrogate c" "high_surrogate c" "cs = d # ds" "low_surrogate d"
    | d ds where "\<not> low_surrogate c" "high_surrogate c" "cs = d # ds" "\<not> low_surrogate d"
    by (cases cs) auto
  then show ?case
  proof cases
    case 2
    then show ?thesis using "2.IH" "2.prems" c
      by (auto simp: scalar_def low_surrogate_def high_surrogate_def)
  next
    case 4
    then have "scalar (surrogate_pair c d)"
      by (auto simp: scalar_def low_surrogate_def high_surrogate_def surrogate_pair_def)
    then show ?thesis using 4 "2.IH" "2.prems" by auto
  next
    case 5
    then have "cp = 0xFFFD \<or> cp \<in> set (usv cs)" using "2.prems" by simp
    then show ?thesis using 5 "2.IH" fffd by auto
  qed (use "2.IH" "2.prems" fffd in auto)
qed simp

lemma hex_digit_delim: "n < 16 \<Longrightarrow> hex_digit n \<noteq> 38" "n < 16 \<Longrightarrow> hex_digit n \<noteq> 61"
  using hex_digit_alnum [of n] by (auto simp: alnum_def)

lemma form_byte_avoids: "b < 256 \<Longrightarrow> 38 \<notin> set (form_byte b) \<and> 61 \<notin> set (form_byte b)"
proof (cases "alnum b \<or> b \<in> {42, 45, 46, 95}")
  case True
  then have "b < 128" "b \<noteq> 38" "b \<noteq> 61" by (auto simp: alnum_def)
  then show ?thesis using True of_nat_ascii_eq [of b 38] of_nat_ascii_eq [of b 61]
    by (auto simp: form_byte_def)
next
  case False
  assume "b < 256"
  then have "b div 16 < 16" "b mod 16 < 16" by auto
  then show ?thesis using False hex_digit_delim by (auto simp: form_byte_def pct_def)
qed

lemma form_string_avoids: "38 \<notin> set (form_string s)" "61 \<notin> set (form_string s)"
  using form_byte_avoids utf8_byte [OF usv_scalar] by (auto simp: form_string_def)

lemma form_read_params:
  assumes "\<forall>(k, v) \<in> set ps. well_formed k \<and> well_formed v"
  shows "form_read (params_toString ps) = map Some ps"
proof (cases "ps = []")
  case False
  let ?pair = "\<lambda>(k, v). form_string k @ [61] @ form_string v"
  have free: "\<forall>x \<in> set (map ?pair ps). 38 \<notin> set x"
    using form_string_avoids(1) by auto
  have "params_toString ps \<noteq> []"
    using False by (cases ps; cases "tl ps") (auto simp: params_toString_def)
  moreover have "form_read_pair (?pair p) = Some p" if "p \<in> set ps" for p
    using that assms form_read_form_string breakStr_single_append [OF form_string_avoids(2)]
    by (auto simp: form_read_pair_def split: prod.splits)
  ultimately show ?thesis using False free
    by (simp add: form_read_def params_toString_def js_split_join cong: map_cong)
qed (simp add: form_read_def params_toString_def)

end
