(* ===== verification/Js_Json.thy ===== *)
theory Js_Json
  imports Js_Uri
begin

text \<open>
  JSON values, \<open>JSON.stringify\<close> (compact and with indentation 2) and \<open>JSON.parse\<close>.

  Numbers are decimals \<open>m * 10 ^ e\<close> in normal form (no trailing zero in \<open>m\<close>). A number with at
  most fifteen significant digits is printed by ECMAScript with exactly those digits, so for
  them the model is exact; negative zero is identified with zero, as both print as \<open>0\<close>.
  Objects are lists of members in the property order of the language: array indices first, in
  ascending order, then the other names in order of insertion; a repeated name overwrites the value.
\<close>

subsection \<open>Numbers\<close>

datatype number = Fin int int | NaN | Infinity bool

fun digits :: "nat \<Rightarrow> jsstr" where
  "digits n = (if n < 10 then [of_nat (48 + n)] else digits (n div 10) @ [of_nat (48 + n mod 10)])"

declare digits.simps [simp del]

definition is_digit :: "code_unit \<Rightarrow> bool" where
  "is_digit c \<longleftrightarrow> 48 \<le> unat c \<and> unat c \<le> 57"

definition digits_value :: "jsstr \<Rightarrow> nat" where
  "digits_value ds = foldl (\<lambda>n c. 10 * n + (unat c - 48)) 0 ds"

text \<open>Normal form: strip the trailing zeros of the significand.\<close>

function normal :: "nat \<Rightarrow> int \<Rightarrow> nat \<times> int" where
  "normal m e = (if m = 0 then (0, 0) else if m mod 10 = 0 then normal (m div 10) (e + 1) else (m, e))"
  by pat_completeness auto
termination
  by (relation "measure (\<lambda>(m, e). m)") auto

declare normal.simps [simp del]

definition mk_number :: "bool \<Rightarrow> nat \<Rightarrow> int \<Rightarrow> number" where
  "mk_number neg m e = (case normal m e of (m', e') \<Rightarrow> Fin (if neg then - int m' else int m') e')"

definition normal_number :: "number \<Rightarrow> bool" where
  "normal_number x = (case x of Fin m e \<Rightarrow> (m = 0 \<and> e = 0) \<or> m mod 10 \<noteq> 0 | _ \<Rightarrow> False)"

text \<open>
  \<open>String(x)\<close> (Number::toString): with \<open>k\<close> digits \<open>ds\<close> and decimal point after \<open>n\<close> of them,
  positional notation for \<open>-6 < n \<le> 21\<close> and exponential notation outside.
\<close>

definition decimal_string :: "jsstr \<Rightarrow> int \<Rightarrow> jsstr" where
  "decimal_string ds e =
     (let k = int (length ds); n = k + e in
      if k \<le> n \<and> n \<le> 21 then ds @ replicate (nat e) 48
      else if 0 < n \<and> n \<le> 21 then take (nat n) ds @ [46] @ drop (nat n) ds
      else if -6 < n \<and> n \<le> 0 then [48, 46] @ replicate (nat (- n)) 48 @ ds
      else (let x = n - 1; ex = (if x < 0 then 45 else 43) # digits (nat \<bar>x\<bar>) in
        hd ds # (if k = 1 then [] else 46 # tl ds) @ [101] @ ex))"

definition number_string :: "number \<Rightarrow> jsstr" where
  "number_string x =
     (case x of
        Fin m e \<Rightarrow> if m = 0 then [48]
          else (if m < 0 then [45] else []) @ decimal_string (digits (nat \<bar>m\<bar>)) e
      | NaN \<Rightarrow> js ''NaN''
      | Infinity neg \<Rightarrow> js (if neg then ''-Infinity'' else ''Infinity''))"

subsection \<open>Values\<close>

datatype json = JNull | JBool bool | JNum number | JStr jsstr | JArr "json list" | JObj "(jsstr \<times> json) list"

text \<open>Array indices among the property names: canonical decimals below \<open>2^32 - 1\<close>.\<close>

definition array_index :: "jsstr \<Rightarrow> nat option" where
  "array_index s =
     (if s \<noteq> [] \<and> list_all is_digit s \<and> digits (digits_value s) = s \<and> int (digits_value s) < 4294967295
      then Some (digits_value s) else None)"

definition key_before :: "jsstr \<Rightarrow> jsstr \<Rightarrow> bool" where
  "key_before k k' = (case (array_index k, array_index k') of
     (Some i, Some j) \<Rightarrow> i < j | (Some i, None) \<Rightarrow> True | _ \<Rightarrow> False)"

text \<open>Creating or overwriting a property; a new array index goes to its place in the order.\<close>

fun insert_member :: "jsstr \<Rightarrow> 'v \<Rightarrow> (jsstr \<times> 'v) list \<Rightarrow> (jsstr \<times> 'v) list" where
  "insert_member k v [] = [(k, v)]"
| "insert_member k v ((k', v') # ms) =
     (if key_before k k' then (k, v) # (k', v') # ms else (k', v') # insert_member k v ms)"

definition set_member :: "jsstr \<Rightarrow> 'v \<Rightarrow> (jsstr \<times> 'v) list \<Rightarrow> (jsstr \<times> 'v) list" where
  "set_member k v ms =
     (if k \<in> fst ` set ms then map (\<lambda>(q, w). if q = k then (q, v) else (q, w)) ms
      else insert_member k v ms)"

definition members_of :: "(jsstr \<times> 'v) list \<Rightarrow> (jsstr \<times> 'v) list" where
  "members_of ms = foldl (\<lambda>acc (k, v). set_member k v acc) [] ms"

subsection \<open>JSON.stringify\<close>

definition hex_lower :: "nat \<Rightarrow> code_unit" where
  "hex_lower n = (if n < 10 then of_nat (48 + n) else of_nat (87 + n))"

definition unicode_escape :: "code_unit \<Rightarrow> jsstr" where
  "unicode_escape c = (let n = unat c in
     [92, 117, hex_lower (n div 0x1000), hex_lower (n div 0x100 mod 16), hex_lower (n div 16 mod 16), hex_lower (n mod 16)])"

definition escape_unit :: "code_unit \<Rightarrow> jsstr" where
  "escape_unit c =
     (if c = 8 then [92, 98] else if c = 9 then [92, 116] else if c = 10 then [92, 110]
      else if c = 12 then [92, 102] else if c = 13 then [92, 114]
      else if c = 34 then [92, 34] else if c = 92 then [92, 92]
      else if unat c < 32 then unicode_escape c else [c])"

fun escape_string :: "jsstr \<Rightarrow> jsstr" where
  "escape_string [] = []"
| "escape_string (c # cs) =
     (if high_surrogate c then
        (case cs of [] \<Rightarrow> unicode_escape c
         | d # ds \<Rightarrow> if low_surrogate d then [c, d] @ escape_string ds else unicode_escape c @ escape_string cs)
      else if low_surrogate c then unicode_escape c @ escape_string cs
      else escape_unit c @ escape_string cs)"

definition quote :: "jsstr \<Rightarrow> jsstr" where
  "quote s = [34] @ escape_string s @ [34]"

text \<open>
  Serialisation with a line break \<open>nl d\<close> for nesting depth \<open>d\<close> and a separator \<open>colon\<close> after a
  member name; a number that is not finite prints as \<open>null\<close>.
\<close>

fun render :: "(nat \<Rightarrow> jsstr) \<Rightarrow> jsstr \<Rightarrow> nat \<Rightarrow> json \<Rightarrow> jsstr" where
  "render nl colon d JNull = js ''null''"
| "render nl colon d (JBool b) = js (if b then ''true'' else ''false'')"
| "render nl colon d (JNum x) = (case x of Fin m e \<Rightarrow> number_string x | _ \<Rightarrow> js ''null'')"
| "render nl colon d (JStr s) = quote s"
| "render nl colon d (JArr vs) = (if vs = [] then [91, 93]
     else [91] @ nl (Suc d) @ js_join ([44] @ nl (Suc d)) (map (render nl colon (Suc d)) vs) @ nl d @ [93])"
| "render nl colon d (JObj ms) = (if ms = [] then [123, 125]
     else [123] @ nl (Suc d) @
       js_join ([44] @ nl (Suc d)) (map (\<lambda>(k, v). quote k @ colon @ render nl colon (Suc d) v) ms) @ nl d @ [125])"

text \<open>\<open>JSON.stringify(v)\<close> and \<open>JSON.stringify(v, null, 2)\<close>.\<close>

definition stringify :: "json \<Rightarrow> jsstr" where
  "stringify v = render (\<lambda>_. []) [58] 0 v"

definition indent :: "nat \<Rightarrow> jsstr" where
  "indent d = 10 # replicate (2 * d) 32"

definition stringify2 :: "json \<Rightarrow> jsstr" where
  "stringify2 v = render indent [58, 32] 0 v"

subsection \<open>JSON.parse\<close>

definition json_space :: "code_unit \<Rightarrow> bool" where
  "json_space c \<longleftrightarrow> c = 32 \<or> c = 9 \<or> c = 10 \<or> c = 13"

definition skip :: "jsstr \<Rightarrow> jsstr" where
  "skip s = dropWhile json_space s"

text \<open>A number token: sign, integer part without leading zero, optional fraction and exponent.\<close>

definition parse_int_part :: "jsstr \<Rightarrow> (jsstr \<times> jsstr) option" where
  "parse_int_part s =
     (case s of [] \<Rightarrow> None
      | c # r \<Rightarrow> if c = 48 then Some ([48], r)
                 else if is_digit c then Some (takeWhile is_digit s, dropWhile is_digit s) else None)"

definition parse_frac :: "jsstr \<Rightarrow> (jsstr \<times> jsstr) option" where
  "parse_frac s =
     (case s of [] \<Rightarrow> Some ([], [])
      | c # r \<Rightarrow> if c = 46
                 then (if takeWhile is_digit r = [] then None else Some (takeWhile is_digit r, dropWhile is_digit r))
                 else Some ([], s))"

definition parse_exp :: "jsstr \<Rightarrow> (int \<times> jsstr) option" where
  "parse_exp s =
     (case s of [] \<Rightarrow> Some (0, [])
      | c # r \<Rightarrow>
          if c = 101 \<or> c = 69 then
            (let (neg, r') = (case r of [] \<Rightarrow> (False, r)
               | d # q \<Rightarrow> if d = 45 then (True, q) else if d = 43 then (False, q) else (False, r));
                 ds = takeWhile is_digit r' in
             if ds = [] then None
             else Some (if neg then - int (digits_value ds) else int (digits_value ds), dropWhile is_digit r'))
          else Some (0, s))"

definition parse_number :: "jsstr \<Rightarrow> (number \<times> jsstr) option" where
  "parse_number s =
     (let (neg, s1) = (case s of c # r \<Rightarrow> if c = 45 then (True, r) else (False, s) | [] \<Rightarrow> (False, s)) in
      case parse_int_part s1 of None \<Rightarrow> None | Some (ip, s2) \<Rightarrow>
      case parse_frac s2 of None \<Rightarrow> None | Some (fp, s3) \<Rightarrow>
      case parse_exp s3 of None \<Rightarrow> None | Some (ex, s4) \<Rightarrow>
        Some (mk_number neg (digits_value (ip @ fp)) (ex - int (length fp)), s4))"

text \<open>The characters of a string literal after its opening quote.\<close>

definition simple_escape :: "code_unit \<Rightarrow> code_unit option" where
  "simple_escape c =
     (if c = 34 then Some 34 else if c = 92 then Some 92 else if c = 47 then Some 47
      else if c = 98 then Some 8 else if c = 102 then Some 12 else if c = 110 then Some 10
      else if c = 114 then Some 13 else if c = 116 then Some 9 else None)"

definition hex4 :: "code_unit \<Rightarrow> code_unit \<Rightarrow> code_unit \<Rightarrow> code_unit \<Rightarrow> code_unit option" where
  "hex4 a b c d =
     (case (hex_value a, hex_value b, hex_value c, hex_value d) of
        (Some w, Some x, Some y, Some z) \<Rightarrow> Some (of_nat (((w * 16 + x) * 16 + y) * 16 + z))
      | _ \<Rightarrow> None)"

fun parse_string_body :: "jsstr \<Rightarrow> (jsstr \<times> jsstr) option" where
  "parse_string_body [] = None"
| "parse_string_body (c # cs) =
     (if c = 34 then Some ([], cs)
      else if c = 92 then
        (case cs of [] \<Rightarrow> None
         | e # r \<Rightarrow>
             if e = 117 then
               (case r of p # q # u # v # r' \<Rightarrow>
                  (case hex4 p q u v of None \<Rightarrow> None
                   | Some x \<Rightarrow> map_option (apfst (Cons x)) (parse_string_body r'))
                | _ \<Rightarrow> None)
             else (case simple_escape e of None \<Rightarrow> None
                   | Some x \<Rightarrow> map_option (apfst (Cons x)) (parse_string_body r)))
      else if unat c < 32 then None
      else map_option (apfst (Cons c)) (parse_string_body cs))"

text \<open>
  One level of the recursive descent: a value, given readers for the elements of an array and
  the members of an object; the elements and members, given a reader for values.
\<close>

definition value_step :: "(jsstr \<Rightarrow> (json list \<times> jsstr) option) \<Rightarrow> (jsstr \<Rightarrow> ((jsstr \<times> json) list \<times> jsstr) option)
    \<Rightarrow> jsstr \<Rightarrow> (json \<times> jsstr) option" where
  "value_step elems mems s =
     (case skip s of [] \<Rightarrow> None
      | c # r \<Rightarrow>
          if c = 34 then map_option (apfst JStr) (parse_string_body r)
          else if c = 91 then
            (case skip r of [] \<Rightarrow> None
             | d # q \<Rightarrow> if d = 93 then Some (JArr [], q) else map_option (apfst JArr) (elems r))
          else if c = 123 then
            (case skip r of [] \<Rightarrow> None
             | d # q \<Rightarrow> if d = 125 then Some (JObj [], q)
                        else map_option (apfst (\<lambda>ms. JObj (members_of ms))) (mems r))
          else if prefix (js ''null'') (c # r) then Some (JNull, drop 4 (c # r))
          else if prefix (js ''true'') (c # r) then Some (JBool True, drop 4 (c # r))
          else if prefix (js ''false'') (c # r) then Some (JBool False, drop 5 (c # r))
          else map_option (apfst JNum) (parse_number (c # r)))"

definition elements_step :: "(jsstr \<Rightarrow> (json \<times> jsstr) option) \<Rightarrow> (jsstr \<Rightarrow> (json list \<times> jsstr) option)
    \<Rightarrow> jsstr \<Rightarrow> (json list \<times> jsstr) option" where
  "elements_step val elems s =
     (case val s of None \<Rightarrow> None
      | Some (v, r) \<Rightarrow>
          (case skip r of [] \<Rightarrow> None
           | d # q \<Rightarrow> if d = 44 then map_option (apfst (Cons v)) (elems q)
                      else if d = 93 then Some ([v], q) else None))"

definition member_name :: "jsstr \<Rightarrow> (jsstr \<times> jsstr) option" where
  "member_name s =
     (case skip s of [] \<Rightarrow> None
      | c # r \<Rightarrow>
          if c \<noteq> 34 then None
          else (case parse_string_body r of None \<Rightarrow> None
                | Some (k, r1) \<Rightarrow>
                    (case skip r1 of [] \<Rightarrow> None | d # q \<Rightarrow> if d \<noteq> 58 then None else Some (k, q))))"

definition members_step :: "(jsstr \<Rightarrow> (json \<times> jsstr) option) \<Rightarrow> (jsstr \<Rightarrow> ((jsstr \<times> json) list \<times> jsstr) option)
    \<Rightarrow> jsstr \<Rightarrow> ((jsstr \<times> json) list \<times> jsstr) option" where
  "members_step val mems s =
     (case member_name s of None \<Rightarrow> None
      | Some (k, q) \<Rightarrow>
          (case val q of None \<Rightarrow> None
           | Some (v, r) \<Rightarrow>
               (case skip r of [] \<Rightarrow> None
                | x # z \<Rightarrow> if x = 44 then map_option (apfst (Cons (k, v))) (mems z)
                           else if x = 125 then Some ([(k, v)], z) else None)))"

fun parse_value :: "nat \<Rightarrow> jsstr \<Rightarrow> (json \<times> jsstr) option"
and parse_elements :: "nat \<Rightarrow> jsstr \<Rightarrow> (json list \<times> jsstr) option"
and parse_members :: "nat \<Rightarrow> jsstr \<Rightarrow> ((jsstr \<times> json) list \<times> jsstr) option" where
  "parse_value 0 s = None"
| "parse_value (Suc n) s = value_step (parse_elements n) (parse_members n) s"
| "parse_elements 0 s = None"
| "parse_elements (Suc n) s = elements_step (parse_value n) (parse_elements n) s"
| "parse_members 0 s = None"
| "parse_members (Suc n) s = members_step (parse_value n) (parse_members n) s"

text \<open>\<open>JSON.parse(s)\<close>; \<open>None\<close> is the SyntaxError it throws.\<close>

definition parse :: "jsstr \<Rightarrow> json option" where
  "parse s = (case parse_value (2 * length s + 1) s of
     None \<Rightarrow> None | Some (v, r) \<Rightarrow> if skip r = [] then Some v else None)"

subsection \<open>Decimal digits\<close>

lemma digit_unit: "n < 10 \<Longrightarrow> unat (of_nat (48 + n) :: code_unit) = 48 + n"
  by (simp add: unat_of_nat del: of_nat_add)

lemma is_digit_unit: "n < 10 \<Longrightarrow> is_digit (of_nat (48 + n))"
  using digit_unit [of n] by (simp add: is_digit_def del: of_nat_add)

lemma digit_unit_zero: "n < 10 \<Longrightarrow> of_nat (48 + n) = (48 :: code_unit) \<longleftrightarrow> n = 0"
  by (simp add: word_unat_eq_iff unat_of_nat del: of_nat_add)

lemma digits_value_append:
  "digits_value (a @ b) = digits_value a * 10 ^ length b + digits_value b"
proof (induction b rule: rev_induct)
  case (snoc x b)
  have "digits_value (xs @ [y]) = 10 * digits_value xs + (unat y - 48)" for xs y
    by (simp add: digits_value_def)
  from this [of "a @ b" x] this [of b x] show ?case using snoc by (simp add: algebra_simps)
qed (simp add: digits_value_def)

lemma digits_value_digits [simp]: "digits_value (digits n) = n"
proof (induction n rule: digits.induct)
  case (1 n)
  show ?case
  proof (cases "n < 10")
    case True
    then show ?thesis by (simp add: digits.simps [of n] digits_value_def digit_unit del: of_nat_add)
  next
    case False
    then show ?thesis using 1 digit_unit [of "n mod 10"]
      by (simp add: digits.simps [of n] digits_value_append digits_value_def [of "[_]"] del: of_nat_add)
  qed
qed

lemma digits_all: "list_all is_digit (digits n)"
proof (induction n rule: digits.induct)
  case (1 n)
  then show ?case by (subst digits.simps) (simp add: is_digit_unit del: of_nat_add)
qed

lemma digits_not_Nil [simp]: "digits n \<noteq> []"
  by (subst digits.simps) simp

lemma hd_digits: "0 < n \<Longrightarrow> hd (digits n) \<noteq> 48"
proof (induction n rule: digits.induct)
  case (1 n)
  show ?case
  proof (cases "n < 10")
    case True
    then show ?thesis using "1.prems" by (simp add: digits.simps [of n] digit_unit_zero del: of_nat_add)
  next
    case False
    then show ?thesis using 1 by (simp add: digits.simps [of n] hd_append del: of_nat_add)
  qed
qed

lemma digits_value_zeros [simp]: "digits_value (replicate k 48) = 0"
  by (induction k) (simp_all add: digits_value_def)

lemma normal_power: "m mod 10 \<noteq> 0 \<Longrightarrow> normal (m * 10 ^ k) e = (m, e + int k)"
proof (induction k arbitrary: e)
  case 0
  then show ?case by (subst normal.simps) auto
next
  case (Suc k)
  have "m * 10 ^ Suc k div 10 = m * 10 ^ k" "m * 10 ^ Suc k mod 10 = 0" "m \<noteq> 0"
    using Suc.prems by (auto simp: mult.assoc [symmetric] mult.commute)
  then show ?case using Suc by (subst normal.simps) simp
qed

lemma normal_id: "m mod 10 \<noteq> 0 \<Longrightarrow> normal m e = (m, e)"
  using normal_power [of m 0 e] by simp

subsection \<open>Number tokens\<close>

text \<open>What may follow a number token so that the token ends there.\<close>

definition number_end :: "jsstr \<Rightarrow> bool" where
  "number_end r \<longleftrightarrow> (case r of [] \<Rightarrow> True | c # _ \<Rightarrow> \<not> is_digit c \<and> c \<noteq> 46 \<and> c \<noteq> 101 \<and> c \<noteq> 69)"

lemma takeWhile_digits:
  assumes "list_all is_digit ds" "r = [] \<or> \<not> is_digit (hd r)"
  shows "takeWhile is_digit (ds @ r) = ds" "dropWhile is_digit (ds @ r) = r"
proof -
  have ds: "\<forall>x \<in> set ds. is_digit x" using assms(1) by (simp add: list_all_iff)
  moreover have "takeWhile is_digit r = []" "dropWhile is_digit r = r"
    using assms(2) by (cases r; simp)+
  ultimately show "takeWhile is_digit (ds @ r) = ds" "dropWhile is_digit (ds @ r) = r"
    by (simp_all add: takeWhile_append2 dropWhile_append2)
qed

lemma parse_int_part_digits:
  assumes "list_all is_digit ds" "ds \<noteq> []" "hd ds \<noteq> 48 \<or> ds = [48]" "r = [] \<or> \<not> is_digit (hd r)"
  shows "parse_int_part (ds @ r) = Some (ds, r)"
proof (cases "ds = [48]")
  case True
  then show ?thesis by (simp add: parse_int_part_def)
next
  case False
  obtain c cs where "ds = c # cs" using assms(2) by (cases ds) auto
  then show ?thesis using False assms takeWhile_digits [OF assms(1,4)]
    by (simp add: parse_int_part_def)
qed

lemma parse_frac_none: "r = [] \<or> hd r \<noteq> 46 \<Longrightarrow> parse_frac r = Some ([], r)"
  by (cases r) (simp_all add: parse_frac_def)

lemma parse_frac_digits:
  assumes "list_all is_digit ds" "ds \<noteq> []" "r = [] \<or> \<not> is_digit (hd r)"
  shows "parse_frac (46 # ds @ r) = Some (ds, r)"
  using assms takeWhile_digits [OF assms(1,3)] by (simp add: parse_frac_def)

lemma parse_exp_none: "number_end r \<Longrightarrow> parse_exp r = Some (0, r)"
  by (cases r) (simp_all add: parse_exp_def number_end_def)

lemma number_endD: "number_end r \<Longrightarrow> r = [] \<or> \<not> is_digit (hd r)" "number_end r \<Longrightarrow> r = [] \<or> hd r \<noteq> 46"
  by (cases r; simp add: number_end_def)+

lemma parse_exp_digits:
  assumes "number_end r"
  shows "parse_exp (101 # (if x < 0 then 45 else 43) # digits (nat \<bar>x\<bar>) @ r) = Some (x, r)"
  using takeWhile_digits [OF digits_all number_endD(1) [OF assms], of "nat \<bar>x\<bar>"]
  by (cases "x < 0") (simp_all add: parse_exp_def Let_def)

lemma parse_number_shape:
  assumes "parse_int_part (t @ r) = Some (ip, s2)" "parse_frac s2 = Some (fp, s3)" "parse_exp s3 = Some (ex, r)"
    and "t \<noteq> []" "hd t \<noteq> 45" "digits_value (ip @ fp) = m * 10 ^ k" "m mod 10 \<noteq> 0" "ex - int (length fp) + int k = e"
  shows "parse_number ((if neg then [45] else []) @ t @ r) = Some (Fin (if neg then - int m else int m) e, r)"
proof -
  obtain c cs where t: "t = c # cs" "c \<noteq> 45" using assms(4,5) by (cases t) auto
  have "(case (if neg then [45] else []) @ t @ r of c # r \<Rightarrow> if c = 45 then (True, r) else (False, (if neg then [45] else []) @ t @ r')
       | [] \<Rightarrow> x) = (neg, t @ r)" if "r' = r" for r' x
    using t that by (cases neg) simp_all
  then show ?thesis using assms(1-3,6-8) normal_power [OF assms(7), of k]
    by (simp add: parse_number_def mk_number_def t)
qed

lemma zero_digit [simp]: "is_digit 48"
  by (simp add: is_digit_def)

lemma not_digit [simp]: "\<not> is_digit 46" "\<not> is_digit 101" "\<not> is_digit 45"
  by (simp_all add: is_digit_def)

text \<open>The token \<open>t\<close>, followed by \<open>r\<close>, reads as \<open>m * 10 ^ e\<close>.\<close>

definition reads_as :: "jsstr \<Rightarrow> jsstr \<Rightarrow> nat \<Rightarrow> int \<Rightarrow> bool" where
  "reads_as t r m e \<longleftrightarrow> t \<noteq> [] \<and> hd t \<noteq> 45 \<and>
     (\<exists>ip s2 fp s3 ex j. parse_int_part (t @ r) = Some (ip, s2) \<and> parse_frac s2 = Some (fp, s3)
        \<and> parse_exp s3 = Some (ex, r) \<and> digits_value (ip @ fp) = m * 10 ^ j \<and> ex - int (length fp) + int j = e)"

lemma reads_asI:
  assumes "parse_int_part (t @ r) = Some (ip, s2)" "parse_frac s2 = Some (fp, s3)" "parse_exp s3 = Some (ex, r)"
    and "digits_value (ip @ fp) = m * 10 ^ j" "ex - int (length fp) + int j = e" "t \<noteq> []" "hd t \<noteq> 45"
  shows "reads_as t r m e"
  using assms unfolding reads_as_def by blast

lemma reads_as_number:
  assumes "reads_as t r m e" "m mod 10 \<noteq> 0"
  shows "parse_number ((if neg then [45] else []) @ t @ r) = Some (Fin (if neg then - int m else int m) e, r)"
  using assms unfolding reads_as_def by (blast intro: parse_number_shape)

definition significand :: "jsstr \<Rightarrow> bool" where
  "significand ds \<longleftrightarrow> list_all is_digit ds \<and> ds \<noteq> [] \<and> hd ds \<noteq> 48 \<and> hd ds \<noteq> 45"

lemma significand_digits: "m mod 10 \<noteq> 0 \<Longrightarrow> significand (digits m)"
  using digits_all [of m] hd_digits [of m] not_digit(3)
  by (cases "digits m") (auto simp: significand_def intro: gr0I)

lemma reads_as_int:
  assumes "significand ds" "number_end r"
  shows "reads_as (ds @ replicate k 48) r (digits_value ds) (int k)"
proof (rule reads_asI)
  let ?t = "ds @ replicate k 48"
  have "list_all is_digit ?t" "hd ?t = hd ds" using assms(1) by (auto simp: significand_def list_all_iff)
  then show "parse_int_part (?t @ r) = Some (?t, r)"
    using assms number_endD(1) [OF assms(2)] by (intro parse_int_part_digits) (auto simp: significand_def)
  show "parse_frac r = Some ([], r)" using number_endD(2) [OF assms(2)] by (rule parse_frac_none)
  show "parse_exp r = Some (0, r)" using assms(2) by (rule parse_exp_none)
  show "digits_value (?t @ []) = digits_value ds * 10 ^ k" by (simp add: digits_value_append)
qed (use assms in \<open>auto simp: significand_def\<close>)

lemma reads_as_point:
  assumes "significand ds" "number_end r" "0 < k" "k < length ds"
  shows "reads_as (take k ds @ [46] @ drop k ds) r (digits_value ds) (int k - int (length ds))"
proof (rule reads_asI)
  let ?i = "take k ds" and ?f = "drop k ds"
  have i: "list_all is_digit ?i" "?i \<noteq> []" "hd ?i = hd ds" and f: "list_all is_digit ?f" "?f \<noteq> []"
    using assms by (auto simp: significand_def list_all_iff dest: in_set_takeD in_set_dropD)
  have "parse_int_part (?i @ 46 # ?f @ r) = Some (?i, 46 # ?f @ r)"
    using i assms(1) by (intro parse_int_part_digits) (auto simp: significand_def)
  then show "parse_int_part ((?i @ [46] @ ?f) @ r) = Some (?i, 46 # ?f @ r)" by simp
  show "parse_frac (46 # ?f @ r) = Some (?f, r)"
    using f number_endD(1) [OF assms(2)] by (rule parse_frac_digits)
  show "parse_exp r = Some (0, r)" using assms(2) by (rule parse_exp_none)
  show "digits_value (?i @ ?f) = digits_value ds * 10 ^ 0" by simp
qed (use assms in \<open>auto simp: significand_def\<close>)

lemma reads_as_small:
  assumes "significand ds" "number_end r"
  shows "reads_as ([48, 46] @ replicate k 48 @ ds) r (digits_value ds) (- int (length ds) - int k)"
proof (rule reads_asI)
  let ?f = "replicate k 48 @ ds"
  have f: "list_all is_digit ?f" "?f \<noteq> []" using assms(1) by (auto simp: significand_def list_all_iff)
  have "parse_int_part ([48] @ 46 # ?f @ r) = Some ([48], 46 # ?f @ r)"
    by (intro parse_int_part_digits) auto
  then show "parse_int_part (([48, 46] @ ?f) @ r) = Some ([48], 46 # ?f @ r)" by simp
  show "parse_frac (46 # ?f @ r) = Some (?f, r)"
    using f number_endD(1) [OF assms(2)] by (rule parse_frac_digits)
  show "parse_exp r = Some (0, r)" using assms(2) by (rule parse_exp_none)
  show "digits_value ([48] @ ?f) = digits_value ds * 10 ^ 0"
    using digits_value_append [of "replicate (Suc k) 48" ds] digits_value_zeros [of "Suc k"] by simp
qed auto

lemma reads_as_exp:
  assumes "significand (d # ds)" "number_end r"
  shows "reads_as (d # (if ds = [] then [] else 46 # ds) @ [101] @ (if x < 0 then 45 else 43) # digits (nat \<bar>x\<bar>)) r
           (digits_value (d # ds)) (x - int (length ds))"
proof (rule reads_asI)
  let ?e = "101 # (if x < 0 then 45 else 43) # digits (nat \<bar>x\<bar>) @ r"
  let ?s = "(if ds = [] then [] else 46 # ds) @ ?e"
  have "parse_int_part ([d] @ ?s) = Some ([d], ?s)"
    using assms(1) by (intro parse_int_part_digits) (auto simp: significand_def)
  then show "parse_int_part ((d # (if ds = [] then [] else 46 # ds) @ [101] @ (if x < 0 then 45 else 43)
      # digits (nat \<bar>x\<bar>)) @ r) = Some ([d], ?s)" by simp
  show "parse_frac ?s = Some (ds, ?e)"
    using assms(1) parse_frac_none [of ?e] parse_frac_digits [of ds ?e]
    by (cases "ds = []") (auto simp: significand_def)
  show "parse_exp ?e = Some (x, r)" using assms(2) by (rule parse_exp_digits)
  show "digits_value ([d] @ ds) = digits_value (d # ds) * 10 ^ 0" by simp
qed (use assms in \<open>auto simp: significand_def\<close>)

lemma reads_as_decimal:
  assumes "significand ds" "number_end r"
  shows "reads_as (decimal_string ds e) r (digits_value ds) e"
proof -
  define n where "n = int (length ds) + e"
  have pos: "0 < int (length ds)" using assms(1) by (simp add: significand_def)
  obtain d ds' where ds: "ds = d # ds'" using assms(1) by (cases ds) (auto simp: significand_def)
  consider (int) "0 \<le> e" "n \<le> 21" | (point) "e < 0" "0 < n" "n \<le> 21" | (small) "e < 0" "-6 < n" "n \<le> 0"
    | (exp) "\<not> (0 \<le> e \<and> n \<le> 21)" "\<not> (0 < n \<and> n \<le> 21)" "\<not> (-6 < n \<and> n \<le> 0)" by linarith
  then show ?thesis
  proof cases
    case int
    then show ?thesis using reads_as_int [OF assms, of "nat e"]
      by (simp add: decimal_string_def n_def Let_def)
  next
    case point
    then have "0 < nat n" "nat n < length ds" by (auto simp: n_def nat_less_iff)
    from reads_as_point [OF assms this] point show ?thesis
      by (simp add: decimal_string_def n_def Let_def)
  next
    case small
    then show ?thesis using reads_as_small [OF assms, of "nat (- n)"] pos
      by (simp add: decimal_string_def n_def Let_def)
  next
    case exp
    have one: "(int (length ds) = 1) = (ds' = [])" and hd: "hd ds = d" "tl ds = ds'" by (simp_all add: ds)
    have no: "(int (length ds) \<le> n \<and> n \<le> 21) = False" using exp(1) by (auto simp: n_def)
    have "decimal_string ds e = d # (if ds' = [] then [] else 46 # ds') @ [101] @
        (if n - 1 < 0 then 45 else 43) # digits (nat \<bar>n - 1\<bar>)"
      unfolding decimal_string_def Let_def n_def [symmetric] no using exp(2,3) one hd by auto
    then show ?thesis using reads_as_exp [OF assms(1) [unfolded ds] assms(2), of "n - 1"]
      by (simp add: ds n_def)
  qed
qed

lemma parse_number_string:
  assumes "normal_number x" "number_end r"
  shows "parse_number (number_string x @ r) = Some (x, r)"
proof (cases x)
  case (Fin m e)
  show ?thesis
  proof (cases "m = 0")
    case True
    have "parse_int_part ([48] @ r) = Some ([48], r)" by (simp add: parse_int_part_def)
    then show ?thesis
      using Fin True assms parse_frac_none [OF number_endD(2)] parse_exp_none
      by (simp add: number_string_def parse_number_def mk_number_def normal_number_def normal.simps digits_value_def)
  next
    case False
    then have "\<not> 10 dvd m" using Fin assms(1) by (auto simp: normal_number_def dvd_eq_mod_eq_0)
    then have m: "nat \<bar>m\<bar> mod 10 \<noteq> 0"
      by (simp flip: dvd_eq_mod_eq_0)
    have "reads_as (decimal_string (digits (nat \<bar>m\<bar>)) e) r (nat \<bar>m\<bar>) e"
      using reads_as_decimal [OF significand_digits [OF m] assms(2)] by simp
    from reads_as_number [OF this m, of "m < 0"] show ?thesis using Fin False
      by (simp add: number_string_def split: if_splits)
  qed
qed (use assms in \<open>auto simp: normal_number_def\<close>)

end
