(* ===== verification/Js_Json_Roundtrip.thy ===== *)
theory Js_Json_Roundtrip
  imports Js_Json
begin

text \<open>
  What \<open>JSON.stringify\<close> prints, compactly or indented, \<open>JSON.parse\<close> reads back. On the way: a
  string literal is read back whatever it contains, the parser consumes input at every step,
  and the fuel it is given is enough (more fuel never changes its answer).
\<close>

subsection \<open>String literals\<close>

lemma hex_value_lower [simp]: "n < 16 \<Longrightarrow> hex_value (hex_lower n) = Some n"
  by (auto simp: hex_value_def hex_lower_def Let_def unat_of_nat simp del: of_nat_add)

lemma parse_unicode_escape:
  "parse_string_body (unicode_escape c @ s) = map_option (apfst (Cons c)) (parse_string_body s)"
proof -
  define n where "n = unat c"
  have n: "n < 0x10000" using unsigned_less [of c] by (simp add: n_def)
  have "((n div 0x1000 * 16 + n div 0x100 mod 16) * 16 + n div 16 mod 16) * 16 + n mod 16 = n"
    using div_mult2_eq [of n 256 16] div_mult2_eq [of n 16 16] by simp
  moreover have "n div 0x1000 < 16" using n by (simp add: less_mult_imp_div_less)
  moreover have "of_nat n = c" by (simp add: n_def)
  ultimately have "hex4 (hex_lower (n div 0x1000)) (hex_lower (n div 0x100 mod 16))
      (hex_lower (n div 16 mod 16)) (hex_lower (n mod 16)) = Some c"
    by (simp add: hex4_def del: of_nat_add of_nat_mult)
  then show ?thesis by (simp add: unicode_escape_def n_def [symmetric] Let_def)
qed

lemma parse_escape_unit:
  "parse_string_body (escape_unit c @ s) = map_option (apfst (Cons c)) (parse_string_body s)"
  using parse_unicode_escape [of c s] by (simp add: escape_unit_def simple_escape_def)

lemma parse_escape_string: "parse_string_body (escape_string s @ 34 # r) = Some (s, r)"
proof (induction s rule: escape_string.induct)
  case (2 c cs)
  have plain: "parse_string_body (x # t) = map_option (apfst (Cons x)) (parse_string_body t)"
    if "high_surrogate x \<or> low_surrogate x" for x t
    using that by (auto simp: high_surrogate_def low_surrogate_def)
  consider "high_surrogate c" "cs = []"
    | d ds where "high_surrogate c" "cs = d # ds" "low_surrogate d"
    | d ds where "high_surrogate c" "cs = d # ds" "\<not> low_surrogate d"
    | "\<not> high_surrogate c" "low_surrogate c" | "\<not> high_surrogate c" "\<not> low_surrogate c"
    by (cases cs) auto
  then show ?case
  proof cases
    case 2
    then show ?thesis using "2.IH" plain [of c] plain [of d] by simp
  next
    case 3
    then have "escape_string (c # cs) = unicode_escape c @ escape_string cs" by simp
    then show ?thesis using 3 "2.IH" parse_unicode_escape by simp
  qed (use "2.IH" parse_unicode_escape parse_escape_unit in auto)
qed simp

lemma skip_nonspace: "s \<noteq> [] \<Longrightarrow> \<not> json_space (hd s) \<Longrightarrow> skip s = s"
  by (cases s) (simp_all add: skip_def)

lemma skip_space_append: "list_all json_space w \<Longrightarrow> skip (w @ s) = skip s"
  by (simp add: skip_def dropWhile_append2 list_all_iff)

lemma length_skip: "length (skip s) \<le> length s"
  by (simp add: skip_def length_dropWhile_le)

lemma skip_Cons_length: "skip s = c # r \<Longrightarrow> length r < length s"
  using length_skip [of s] by simp

subsection \<open>The parser consumes input; its fuel is enough\<close>

lemma parse_string_body_length: "parse_string_body s = Some (t, r) \<Longrightarrow> length r < length s"
proof (induction s arbitrary: t r rule: parse_string_body.induct)
  case (2 c cs)
  show ?case
  proof (cases "c = 34 \<or> c \<noteq> 92")
    case True
    then show ?thesis using 2 by (fastforce split: if_splits)
  next
    case False
    then obtain e q where cs: "cs = e # q" using "2.prems" by (auto split: list.splits)
    show ?thesis
    proof (cases "e = 117")
      case True
      then obtain h1 h2 h3 h4 q' where "q = h1 # h2 # h3 # h4 # q'"
        using "2.prems" False cs by (auto split: list.splits)
      then show ?thesis using 2 False True cs by (fastforce split: option.splits)
    next
      case no: False
      then show ?thesis using 2 False cs by (fastforce split: option.splits)
    qed
  qed
qed simp

lemma parse_number_length: "parse_number s = Some (x, r) \<Longrightarrow> length r < length s"
proof -
  assume p: "parse_number s = Some (x, r)"
  have dw: "length (dropWhile is_digit q) \<le> length q" for q by (rule length_dropWhile_le)
  have i: "parse_int_part q = Some (a, b) \<Longrightarrow> length b < length q" for q a b
    using dw by (auto simp: parse_int_part_def le_imp_less_Suc split: list.splits if_splits)
  have f: "parse_frac q = Some (a, b) \<Longrightarrow> length b \<le> length q" for q a b
    using dw le_Suc_eq by (auto simp: parse_frac_def split: list.splits if_splits) 
  have e: "parse_exp q = Some (a, b) \<Longrightarrow> length b \<le> length q" for q a b
    using dw by (auto simp: parse_exp_def Let_def le_SucI split: list.splits if_splits prod.splits)
  obtain neg s1 where s1: "(case s of c # r \<Rightarrow> if c = 45 then (True, r) else (False, s) | [] \<Rightarrow> (False, s)) = (neg, s1)"
    by fastforce
  then have "length s1 \<le> length s" by (auto split: list.splits if_splits)
  with p s1 show ?thesis unfolding parse_number_def
    by (auto split: option.splits dest!: i f e)
qed

lemma member_name_length: "member_name s = Some (k, r) \<Longrightarrow> length r < length s"
  by (auto simp: member_name_def split: list.splits if_splits option.splits
    dest!: parse_string_body_length skip_Cons_length)

lemma prefix_drop_length: "prefix p s \<Longrightarrow> p \<noteq> [] \<Longrightarrow> n = length p \<Longrightarrow> length (drop n s) < length s"
  by (auto simp: prefix_def)

lemma value_step_length:
  assumes "value_step E M s = Some (v, r)"
    and "\<And>t vs q. E t = Some (vs, q) \<Longrightarrow> length q \<le> length t"
    and "\<And>t ms q. M t = Some (ms, q) \<Longrightarrow> length q \<le> length t"
  shows "length r < length s"
proof -
  obtain c t where c: "skip s = c # t" using assms(1) by (auto simp: value_step_def split: list.splits)
  have len: "length (c # t) \<le> length s" using length_skip [of s] c by simp
  have "length r < length (c # t)"
    using assms(1) c assms(2,3) [THEN le_imp_less_Suc] prefix_drop_length [of _ "c # t"]
    by (auto simp: value_step_def less_Suc_eq_le split: list.splits if_splits
        dest!: parse_string_body_length parse_number_length skip_Cons_length)
  then show ?thesis using len by simp
qed

lemma elements_step_length:
  assumes "elements_step V E s = Some (vs, r)"
    and "\<And>v q. V s = Some (v, q) \<Longrightarrow> length q < length s"
    and "\<And>t ws q. E t = Some (ws, q) \<Longrightarrow> length q \<le> length t"
  shows "length r < length s"
  using assms by (fastforce simp: elements_step_def split: option.splits list.splits if_splits
    dest!: skip_Cons_length)

lemma members_step_length:
  assumes "members_step V M s = Some (ms, r)"
    and "\<And>t v q. V t = Some (v, q) \<Longrightarrow> length q < length t"
    and "\<And>t ns q. M t = Some (ns, q) \<Longrightarrow> length q \<le> length t"
  shows "length r < length s"
  using assms by (fastforce simp: members_step_def split: option.splits list.splits if_splits
    dest!: skip_Cons_length member_name_length)

lemma parse_length:
  "parse_value n s = Some (v, r) \<Longrightarrow> length r < length s"
  "parse_elements n s = Some (vs, r) \<Longrightarrow> length r < length s"
  "parse_members n s = Some (ms, r) \<Longrightarrow> length r < length s"
proof (induction n arbitrary: s v vs ms r)
  case (Suc n)
  {
    case 1
    show ?case using Suc.IH(2,3) [THEN less_imp_le] by (intro value_step_length [OF 1 [simplified]])
  next
    case 2
    show ?case using Suc.IH(1) Suc.IH(2) [THEN less_imp_le] by (intro elements_step_length [OF 2 [simplified]])
  next
    case 3
    show ?case using Suc.IH(1) Suc.IH(3) [THEN less_imp_le] by (intro members_step_length [OF 3 [simplified]])
  }
qed auto

text \<open>The steps depend on their readers only at shorter inputs.\<close>

lemma value_step_cong:
  assumes "\<And>t. length t < length s \<Longrightarrow> E t = E' t" "\<And>t. length t < length s \<Longrightarrow> M t = M' t"
  shows "value_step E M s = value_step E' M' s"
  using assms by (auto simp: value_step_def split: list.split dest!: skip_Cons_length)

lemma elements_step_cong:
  assumes "V s = V' s" "\<And>v q. V s = Some (v, q) \<Longrightarrow> length q < length s"
    and "\<And>t. length t < length s \<Longrightarrow> E t = E' t"
  shows "elements_step V E s = elements_step V' E' s"
proof (cases "V s")
  case (Some vq)
  then obtain v q where v: "V s = Some (v, q)" by (cases vq) auto
  have "E t = E' t" if "skip q = c # t" for c t
    using assms(2) [OF v] skip_Cons_length [OF that] by (intro assms(3)) simp
  then show ?thesis using v assms(1) by (auto simp: elements_step_def split: list.split)
qed (use assms in \<open>simp add: elements_step_def\<close>)

lemma members_step_cong:
  assumes "\<And>t. length t < length s \<Longrightarrow> V t = V' t" "\<And>t v q. V t = Some (v, q) \<Longrightarrow> length q < length t"
    and "\<And>t. length t < length s \<Longrightarrow> M t = M' t"
  shows "members_step V M s = members_step V' M' s"
proof (cases "member_name s")
  case (Some kq)
  then obtain k p where k: "member_name s = Some (k, p)" by (cases kq) auto
  note p = member_name_length [OF k]
  have "M t = M' t" if "V p = Some (v, q)" "skip q = c # t" for v q c t
    using assms(2) [OF that(1)] skip_Cons_length [OF that(2)] p by (intro assms(3)) simp
  then show ?thesis using k assms(1) [OF p]
    by (auto simp: members_step_def split: list.split option.split)
qed (simp add: members_step_def)

lemma parse_fuel:
  "2 * length s \<le> n \<Longrightarrow> n \<noteq> 0 \<Longrightarrow> parse_value (Suc n) s = parse_value n s"
  "2 * length s < n \<Longrightarrow> parse_elements (Suc n) s = parse_elements n s"
  "2 * length s < n \<Longrightarrow> parse_members (Suc n) s = parse_members n s"
proof (induction n arbitrary: s)
  case (Suc n)
  {
    case 1
    show ?case unfolding parse_value.simps(2) using 1 Suc.IH(2,3) by (intro value_step_cong) auto
  next
    case 2
    have "parse_value (Suc n) s = parse_value n s"
      using 2 Suc.IH(1) by (cases "n = 0") (auto simp: value_step_def skip_def)
    moreover have "parse_elements (Suc n) t = parse_elements n t" if "length t < length s" for t
      using 2 that by (intro Suc.IH(2)) simp
    ultimately show ?case unfolding parse_elements.simps(2) [of "Suc n"] parse_elements.simps(2) [of n]
      by (intro elements_step_cong) (erule parse_length(1) | simp only:)+
  next
    case 3
    have "parse_value (Suc n) t = parse_value n t" if "length t < length s" for t
      using 3 that by (intro Suc.IH(1)) auto
    moreover have "parse_members (Suc n) t = parse_members n t" if "length t < length s" for t
      using 3 that by (intro Suc.IH(3)) simp
    ultimately show ?case unfolding parse_members.simps(2) [of "Suc n"] parse_members.simps(2) [of n]
      by (intro members_step_cong) (erule parse_length(1) | simp only:)+
  }
qed auto

lemma parse_fuel_enough: "2 * length s < n \<Longrightarrow> parse_value n s = parse_value (2 * length s + 1) s"
proof (induction n)
  case (Suc n)
  show ?case
  proof (cases "2 * length s < n")
    case True
    then show ?thesis using Suc.IH parse_fuel(1) [of s n] by simp
  next
    case False
    then have "n = 2 * length s" using Suc.prems by simp
    then show ?thesis by simp
  qed
qed simp

text \<open>A result found with any fuel is the result of \<open>parse\<close>.\<close>

lemma value_step_mono:
  assumes "value_step E M s = Some x"
    and "\<And>t y. E t = Some y \<Longrightarrow> E' t = Some y" "\<And>t z. M t = Some z \<Longrightarrow> M' t = Some z"
  shows "value_step E' M' s = Some x"
  using assms by (auto simp: value_step_def split: list.splits if_splits)

lemma elements_step_mono:
  assumes "elements_step V E s = Some y"
    and "\<And>t x. V t = Some x \<Longrightarrow> V' t = Some x" "\<And>t y. E t = Some y \<Longrightarrow> E' t = Some y"
  shows "elements_step V' E' s = Some y"
proof -
  obtain v r where v: "V s = Some (v, r)" using assms(1) by (auto simp: elements_step_def split: option.splits)
  then show ?thesis using assms(1,3) assms(2) [OF v] by (auto simp: elements_step_def split: list.splits if_splits)
qed

lemma members_step_mono:
  assumes "members_step V M s = Some z"
    and "\<And>t x. V t = Some x \<Longrightarrow> V' t = Some x" "\<And>t z. M t = Some z \<Longrightarrow> M' t = Some z"
  shows "members_step V' M' s = Some z"
proof -
  obtain k q v r where k: "member_name s = Some (k, q)" and v: "V q = Some (v, r)"
    using assms(1) by (auto simp: members_step_def split: option.splits)
  then show ?thesis using assms(1,3) assms(2) [OF v] by (auto simp: members_step_def split: list.splits if_splits)
qed

lemma parse_mono_Suc:
  "parse_value n s = Some x \<Longrightarrow> parse_value (Suc n) s = Some x"
  "parse_elements n s = Some y \<Longrightarrow> parse_elements (Suc n) s = Some y"
  "parse_members n s = Some z \<Longrightarrow> parse_members (Suc n) s = Some z"
proof (induction n arbitrary: s x y z)
  case (Suc n)
  {
    case 1
    then show ?case unfolding parse_value.simps(2) using Suc.IH(2,3) by (rule value_step_mono)
  next
    case 2
    then have "elements_step (parse_value n) (parse_elements n) s = Some y" by (simp only: parse_elements.simps(2))
    then have "elements_step (parse_value (Suc n)) (parse_elements (Suc n)) s = Some y"
      using Suc.IH(1,2) by (rule elements_step_mono)
    then show ?case by (simp only: parse_elements.simps(2) [of "Suc n"])
  next
    case 3
    then have "members_step (parse_value n) (parse_members n) s = Some z" by (simp only: parse_members.simps(2))
    then have "members_step (parse_value (Suc n)) (parse_members (Suc n)) s = Some z"
      using Suc.IH(1,3) by (rule members_step_mono)
    then show ?case by (simp only: parse_members.simps(2) [of "Suc n"])
  }
qed auto

lemma parse_mono:
  "n \<le> m \<Longrightarrow> parse_value n s = Some x \<Longrightarrow> parse_value m s = Some x"
  "n \<le> m \<Longrightarrow> parse_elements n s = Some y \<Longrightarrow> parse_elements m s = Some y"
  "n \<le> m \<Longrightarrow> parse_members n s = Some z \<Longrightarrow> parse_members m s = Some z"
  by (induction rule: dec_induct; blast intro: parse_mono_Suc)+

lemma parseI:
  assumes "parse_value n s = Some (v, r)" "skip r = []"
  shows "parse s = Some v"
proof -
  have "parse_value (max n (2 * length s + 1)) s = Some (v, r)"
    using assms(1) by (rule parse_mono(1) [rotated]) simp
  then have "parse_value (2 * length s + 1) s = Some (v, r)"
    using parse_fuel_enough [of s "max n (2 * length s + 1)"] by simp
  then show ?thesis using assms(2) by (simp only: parse_def option.case prod.case simp_thms if_True)
qed

lemma parse_value_skip: "list_all json_space w \<Longrightarrow> parse_value n (w @ s) = parse_value n s"
  by (cases n) (simp_all add: value_step_def skip_space_append)


subsection \<open>Parsing what was printed\<close>

text \<open>Values in the normal form that \<open>JSON.parse\<close> builds.\<close>

fun wf_json :: "json \<Rightarrow> bool" where
  "wf_json (JNum x) = normal_number x"
| "wf_json (JArr vs) = list_all wf_json vs"
| "wf_json (JObj ms) = (members_of ms = ms \<and> list_all (\<lambda>(k, v). wf_json v) ms)"
| "wf_json v = True"

text \<open>The layout of a printer: line breaks are white space, the name separator starts with a colon.\<close>

definition layout :: "(nat \<Rightarrow> jsstr) \<Rightarrow> jsstr \<Rightarrow> bool" where
  "layout nl colon \<longleftrightarrow> (\<forall>d. list_all json_space (nl d)) \<and> (\<exists>w. colon = 58 # w \<and> list_all json_space w)"

lemma number_string_hd:
  assumes "normal_number x"
  obtains c t where "number_string x = c # t" "c = 45 \<or> is_digit c"
proof (cases "number_string x")
  case Nil
  then show ?thesis using parse_number_string [OF assms, of "[]"]
    by (simp add: number_end_def parse_number_def parse_int_part_def)
next
  case (Cons c t)
  have "parse_number (c # t) = Some (x, [])"
    using parse_number_string [OF assms, of "[]"] Cons by (simp add: number_end_def)
  then have "c = 45 \<or> is_digit c"
    by (auto simp: parse_number_def parse_int_part_def split: if_splits option.splits)
  then show ?thesis using that Cons by blast
qed

lemma render_hd:
  assumes "wf_json v"
  shows "\<exists>c t. render nl colon d v = c # t \<and> \<not> json_space c \<and> c \<noteq> 93"
proof (cases v)
  case (JNum x)
  then obtain c t where "number_string x = c # t" "c = 45 \<or> is_digit c"
    using assms by (auto elim: number_string_hd)
  moreover have "render nl colon d v = number_string x"
    using JNum assms by (cases x) (auto simp: normal_number_def)
  ultimately show ?thesis by (auto simp: json_space_def is_digit_def)
qed (auto simp: js_def cu_def quote_def json_space_def)

lemma js_join_append: "xs \<noteq> [] \<Longrightarrow> js_join sep (x # xs) @ r = x @ sep @ (js_join sep xs @ r)"
  by (simp add: js_join_Cons)

lemma number_end_close [simp]: "number_end (93 # r)" "number_end (125 # r)" "number_end (44 # r)" "number_end []"
  by (simp_all add: number_end_def is_digit_def)

lemma number_end_space: "list_all json_space w \<Longrightarrow> number_end r \<Longrightarrow> number_end (w @ r)"
  by (cases w) (auto simp: number_end_def json_space_def is_digit_def)

lemma skip_close: "list_all json_space w \<Longrightarrow> \<not> json_space c \<Longrightarrow> skip (w @ c # r) = c # r"
  by (subst skip_space_append) (simp_all add: skip_nonspace)

text \<open>The array and object cases, for elements that are already known to be read back.\<close>

lemma parse_elements_render:
  assumes w: "list_all json_space w" "list_all json_space w'" and "vs \<noteq> []"
    and IH: "\<And>v q. v \<in> set vs \<Longrightarrow> number_end q \<Longrightarrow> \<exists>n. parse_value n (p v @ q) = Some (v, q)"
  shows "\<exists>n. parse_elements n (w @ js_join (44 # w) (map p vs) @ w' @ 93 # r) = Some (vs, r)"
  using assms(3) IH
proof (induction vs)
  case (Cons v vs)
  show ?case
  proof (cases "vs = []")
    case True
    obtain n where "parse_value n (p v @ w' @ 93 # r) = Some (v, w' @ 93 # r)"
      using Cons.prems(2) number_end_space [OF w(2)] by force
    then have "parse_elements (Suc n) (w @ p v @ w' @ 93 # r) = Some ([v], r)"
      using w by (simp add: elements_step_def parse_value_skip skip_close json_space_def)
    then show ?thesis using True by (intro exI [of _ "Suc n"]) simp
  next
    case False
    define rest where "rest = w @ js_join (44 # w) (map p vs) @ w' @ 93 # r"
    obtain m where m: "parse_elements m rest = Some (vs, r)"
      using Cons.IH [OF False] Cons.prems(2) by (auto simp: rest_def)
    obtain n where n: "parse_value n (p v @ 44 # rest) = Some (v, 44 # rest)"
      using Cons.prems(2) by force
    have "parse_elements (Suc (max n m)) (w @ p v @ 44 # rest) = Some (v # vs, r)"
      using w parse_mono(1) [OF max.cobounded1 n] parse_mono(2) [OF max.cobounded2 m]
      by (simp add: elements_step_def parse_value_skip skip_def json_space_def)
    then show ?thesis using False
      by (intro exI [of _ "Suc (max n m)"]) (simp add: js_join_Cons rest_def)
  qed
qed simp

lemma member_name_quote:
  "list_all json_space w \<Longrightarrow> member_name (w @ quote k @ 58 # q) = Some (k, q)"
  by (simp add: member_name_def skip_close quote_def parse_escape_string json_space_def skip_nonspace)

lemma parse_members_render:
  assumes w: "list_all json_space w" "list_all json_space w'" and c: "colon = 58 # u" "list_all json_space u"
    and "ms \<noteq> []"
    and IH: "\<And>k v q. (k, v) \<in> set ms \<Longrightarrow> number_end q \<Longrightarrow> \<exists>n. parse_value n (p v @ q) = Some (v, q)"
  shows "\<exists>n. parse_members n (w @ js_join (44 # w) (map (\<lambda>(k, v). quote k @ colon @ p v) ms) @ w' @ 125 # r)
     = Some (ms, r)"
  using assms(5) IH
proof (induction ms)
  case (Cons kv ms)
  obtain k v where kv: "kv = (k, v)" by (cases kv)
  show ?case
  proof (cases "ms = []")
    case True
    obtain n where "parse_value n (p v @ w' @ 125 # r) = Some (v, w' @ 125 # r)"
      using Cons.prems(2) number_end_space [OF w(2)] kv by force
    then have "parse_members (Suc n) (w @ quote k @ 58 # u @ p v @ w' @ 125 # r) = Some ([(k, v)], r)"
      using w c by (simp add: members_step_def member_name_quote parse_value_skip skip_close json_space_def)
    then show ?thesis using True c kv by (intro exI [of _ "Suc n"]) simp
  next
    case False
    define rest where "rest = w @ js_join (44 # w) (map (\<lambda>(k, v). quote k @ colon @ p v) ms) @ w' @ 125 # r"
    have "\<exists>m. parse_members m rest = Some (ms, r)"
      unfolding rest_def by (rule Cons.IH [OF False], rule Cons.prems(2)) auto
    then obtain m where m: "parse_members m rest = Some (ms, r)" ..
    obtain n where n: "parse_value n (p v @ 44 # rest) = Some (v, 44 # rest)"
      using Cons.prems(2) kv by force
    have "parse_members (Suc (max n m)) (w @ quote k @ 58 # u @ p v @ 44 # rest) = Some ((k, v) # ms, r)"
      using w c parse_mono(1) [OF max.cobounded1 n] parse_mono(3) [OF max.cobounded2 m]
      by (simp add: members_step_def member_name_quote parse_value_skip skip_def json_space_def)
    then show ?thesis using False c kv
      by (intro exI [of _ "Suc (max n m)"]) (simp add: js_join_Cons rest_def)
  qed
qed simp

lemma parse_word:
  assumes "\<not> json_space c" "c \<noteq> 34" "c \<noteq> 91" "c \<noteq> 123"
  shows "parse_value (Suc n) (c # r) =
     (if prefix (js ''null'') (c # r) then Some (JNull, drop 4 (c # r))
      else if prefix (js ''true'') (c # r) then Some (JBool True, drop 4 (c # r))
      else if prefix (js ''false'') (c # r) then Some (JBool False, drop 5 (c # r))
      else map_option (apfst JNum) (parse_number (c # r)))"
  using assms by (simp add: value_step_def skip_def)

lemma parse_value_number:
  assumes "normal_number x" "number_end r"
  shows "\<exists>n. parse_value n (number_string x @ r) = Some (JNum x, r)"
proof -
  obtain c t where c: "number_string x = c # t" "c = 45 \<or> is_digit c" using number_string_hd [OF assms(1)] by blast
  have "parse_number (c # t @ r) = Some (x, r)" using parse_number_string [OF assms] c by simp
  moreover have "\<not> json_space c" "c \<noteq> 34" "c \<noteq> 91" "c \<noteq> 123" "c \<noteq> cu (CHR ''n'')" "c \<noteq> cu (CHR ''t'')" "c \<noteq> cu (CHR ''f'')"
    using c(2) by (auto simp: json_space_def is_digit_def cu_def)
  ultimately have "parse_value (Suc 0) (c # t @ r) = Some (JNum x, r)"
    by (simp add: parse_word js_def del: parse_value.simps)
  then show ?thesis using c by (intro exI [of _ "Suc 0"]) (simp del: parse_value.simps)
qed

lemma parse_value_array:
  assumes "layout nl colon" "list_all wf_json vs" "vs \<noteq> []"
    and elements: "\<And>v r. v \<in> set vs \<Longrightarrow> number_end r \<Longrightarrow> \<exists>n. parse_value n (render nl colon (Suc d) v @ r) = Some (v, r)"
  shows "\<exists>n. parse_value n (render nl colon d (JArr vs) @ r) = Some (JArr vs, r)"
proof -
  note nl = assms(1) [unfolded layout_def]
  let ?body = "nl (Suc d) @ js_join (44 # nl (Suc d)) (map (render nl colon (Suc d)) vs) @ nl d @ 93 # r"
  obtain n where n: "parse_elements n ?body = Some (vs, r)"
    using parse_elements_render [of "nl (Suc d)" "nl d" vs "render nl colon (Suc d)" r] nl assms(3) elements by auto
  obtain c t where "render nl colon (Suc d) (hd vs) = c # t" "\<not> json_space c" "c \<noteq> 93"
    using render_hd [of "hd vs" nl colon "Suc d"] assms(2,3) by (cases vs) auto
  then have "\<exists>q. skip ?body = c # q"
    using nl assms(3) by (cases vs; cases "tl vs") (auto simp: skip_close)
  then have "parse_value (Suc n) (91 # ?body) = Some (JArr vs, r)"
    using n \<open>c \<noteq> 93\<close> by (auto simp: value_step_def skip_nonspace json_space_def)
  then show ?thesis using assms(3) by (intro exI [of _ "Suc n"]) simp
qed

lemma parse_value_object:
  assumes "layout nl colon" "wf_json (JObj ms)" "ms \<noteq> []"
    and elements: "\<And>k v r. (k, v) \<in> set ms \<Longrightarrow> number_end r \<Longrightarrow> \<exists>n. parse_value n (render nl colon (Suc d) v @ r) = Some (v, r)"
  shows "\<exists>n. parse_value n (render nl colon d (JObj ms) @ r) = Some (JObj ms, r)"
proof -
  note nl = assms(1) [unfolded layout_def]
  let ?body = "nl (Suc d) @ js_join (44 # nl (Suc d))
     (map (\<lambda>(k, v). quote k @ colon @ render nl colon (Suc d) v) ms) @ nl d @ 125 # r"
  obtain u where u: "colon = 58 # u" "list_all json_space u" using nl by blast
  obtain n where n: "parse_members n ?body = Some (ms, r)"
    using parse_members_render [of "nl (Suc d)" "nl d" colon u ms "render nl colon (Suc d)" r] nl u assms(2,3) elements by fastforce
  have "\<exists>q. skip ?body = 34 # q"
    using nl assms(3) by (cases ms; cases "tl ms") (auto simp: skip_close quote_def json_space_def)
  then have "parse_value (Suc n) (123 # ?body) = Some (JObj ms, r)"
    using n assms(2) by (auto simp: value_step_def skip_nonspace json_space_def)
  then show ?thesis using assms(3) by (intro exI [of _ "Suc n"]) simp
qed

lemma parse_value_render:
  assumes "layout nl colon" "wf_json v" "number_end r"
  shows "\<exists>n. parse_value n (render nl colon d v @ r) = Some (v, r)"
  using assms(2,3)
proof (induction v arbitrary: d r)
  case JNull
  have "parse_value (Suc 0) (js ''null'' @ r) = Some (JNull, r)"
    by (simp add: js_def cu_def parse_word json_space_def del: parse_value.simps)
  then show ?case by (metis render.simps(1))
next
  case (JBool b)
  have "parse_value (Suc 0) (js (if b then ''true'' else ''false'') @ r) = Some (JBool b, r)"
    by (simp add: js_def cu_def parse_word json_space_def del: parse_value.simps)
  then show ?case by (metis render.simps(2))
next
  case (JNum x)
  then have "normal_number x" by simp
  then show ?case using parse_value_number [OF _ JNum.prems(2)] by (auto simp: normal_number_def split: number.splits)
next
  case (JStr s)
  then show ?case by (intro exI [of _ 1]) (simp add: value_step_def skip_def json_space_def quote_def parse_escape_string)
next
  case (JArr vs)
  show ?case
  proof (cases "vs = []")
    case True
    then show ?thesis by (intro exI [of _ 1]) (simp add: value_step_def skip_def json_space_def)
  next
    case False
    then show ?thesis using JArr by (intro parse_value_array [OF assms(1)]) (auto simp: list_all_iff)
  qed
next
  case (JObj ms)
  show ?case
  proof (cases "ms = []")
    case True
    then show ?thesis by (intro exI [of _ 1]) (simp add: value_step_def skip_def json_space_def)
  next
    case False
    then show ?thesis using JObj by (intro parse_value_object [OF assms(1)]) (fastforce simp: list_all_iff)+
  qed
qed

lemma layout_compact: "layout (\<lambda>_. []) [58]" and layout_indent: "layout indent [58, 32]"
  by (auto simp: layout_def indent_def json_space_def list_all_iff)

lemma parse_stringify: "wf_json v \<Longrightarrow> parse (stringify v) = Some v"
  using parse_value_render [OF layout_compact, of v "[]" 0]
  by (auto simp: stringify_def skip_def intro: parseI)

lemma parse_stringify2: "wf_json v \<Longrightarrow> parse (stringify2 v) = Some v"
  using parse_value_render [OF layout_indent, of v "[]" 0]
  by (auto simp: stringify2_def skip_def intro: parseI)

end
