(* ===== verification/Http.thy ===== *)
theory Http
  imports Complex_Main Js_Json_Roundtrip
begin

text \<open>
  What the clients share: the values they throw, requests, responses, \<open>Headers\<close>, and the
  conversions of \<open>JSON\<close> bodies. The server and the network are a parameter: a fetch
  implementation takes a request and the state \<open>'w\<close> of the outside world, and rejects or
  answers with a response.
\<close>

subsection \<open>Thrown values\<close>

datatype exn =
    PeanutError nat jsstr json
  | ApiError jsstr nat "json option"
  | JsError jsstr
  | TypeError
  | SyntaxError
  | URIError
  | FetchFailure jsstr
  | ThrownUndefined

definition or_throw :: "exn \<Rightarrow> 'a option \<Rightarrow> exn + 'a" where
  "or_throw e x = (case x of None \<Rightarrow> Inl e | Some y \<Rightarrow> Inr y)"

lemma or_throw_simps [simp]: "or_throw e None = Inl e" "or_throw e (Some x) = Inr x"
  by (simp_all add: or_throw_def)

lemma or_throw_eq_Inr [simp]: "or_throw e x = Inr y \<longleftrightarrow> x = Some y"
  by (cases x) simp_all

subsection \<open>Headers\<close>

text \<open>Header names are compared without regard to case; they are kept in lower case.\<close>

type_synonym headers = "(jsstr \<times> jsstr) list"

fun headers_put :: "jsstr \<Rightarrow> jsstr \<Rightarrow> headers \<Rightarrow> headers" where
  "headers_put n v [] = [(n, v)]"
| "headers_put n v ((n', v') # hs) = (if n = n' then (n, v) # hs else (n', v') # headers_put n v hs)"

text \<open>
  A value is stripped of HTTP white space at both ends; what is left must be made of bytes other
  than NUL, LF and CR. A name is a non-empty token. Otherwise \<open>set\<close> throws a \<open>TypeError\<close>.
\<close>

definition header_space :: "code_unit \<Rightarrow> bool" where
  "header_space c \<longleftrightarrow> c \<in> {9, 10, 13, 32}"

definition header_value :: "jsstr \<Rightarrow> jsstr" where
  "header_value v = rev (dropWhile header_space (rev (dropWhile header_space v)))"

definition header_value_ok :: "jsstr \<Rightarrow> bool" where
  "header_value_ok v \<longleftrightarrow> list_all (\<lambda>c. unat c < 256 \<and> c \<notin> {0, 10, 13}) v"

definition header_name_ok :: "jsstr \<Rightarrow> bool" where
  "header_name_ok n \<longleftrightarrow> n \<noteq> []
     \<and> list_all (\<lambda>c. alnum (unat c) \<or> c \<in> set (js ''!#$%&*+-.^_`|~'') \<or> c = 39) n"

definition headers_set :: "jsstr \<Rightarrow> jsstr \<Rightarrow> headers \<Rightarrow> exn + headers" where
  "headers_set n v hs = (if header_name_ok n \<and> header_value_ok (header_value v)
     then Inr (headers_put (ascii_lower n) (header_value v) hs) else Inl TypeError)"

definition headers_get :: "jsstr \<Rightarrow> headers \<Rightarrow> jsstr option" where
  "headers_get n hs = map_of hs (ascii_lower n)"

definition headers_has :: "jsstr \<Rightarrow> headers \<Rightarrow> bool" where
  "headers_has n hs \<longleftrightarrow> headers_get n hs \<noteq> None"

text \<open>\<open>new Headers(init)\<close>: a repeated name is combined into one comma-separated value.\<close>

definition headers_append :: "jsstr \<Rightarrow> jsstr \<Rightarrow> headers \<Rightarrow> exn + headers" where
  "headers_append n v hs = (if header_name_ok n \<and> header_value_ok (header_value v)
     then Inr (headers_put (ascii_lower n)
       (case headers_get n hs of None \<Rightarrow> header_value v | Some u \<Rightarrow> u @ js '', '' @ header_value v) hs)
     else Inl TypeError)"

fun headers_fill :: "(jsstr \<times> jsstr) list \<Rightarrow> headers \<Rightarrow> exn + headers" where
  "headers_fill [] hs = Inr hs"
| "headers_fill ((n, v) # init) hs = bind_res (headers_append n v hs) (headers_fill init)"

definition headers_new :: "(jsstr \<times> jsstr) list \<Rightarrow> exn + headers" where
  "headers_new init = headers_fill init []"

lemma map_of_headers_put: "map_of (headers_put n v hs) = (map_of hs)(n \<mapsto> v)"
  by (induction hs) auto

lemma headers_set_Inr:
  "headers_set n v hs = Inr hs' \<longleftrightarrow> header_name_ok n \<and> header_value_ok (header_value v)
     \<and> hs' = headers_put (ascii_lower n) (header_value v) hs"
  by (auto simp: headers_set_def)

lemma headers_get_set:
  "headers_set m v hs = Inr hs' \<Longrightarrow>
   headers_get n hs' = (if ascii_lower n = ascii_lower m then Some (header_value v) else headers_get n hs)"
  by (auto simp: headers_get_def headers_set_Inr map_of_headers_put)

lemma headers_new_Nil [simp]: "headers_new [] = Inr []"
  by (simp add: headers_new_def)

lemma headers_get_Nil [simp]: "headers_get n [] = None"
  by (simp add: headers_get_def)

subsection \<open>Requests and responses\<close>

datatype body_init = BodyText jsstr | BodyBytes bytes

record request =
  req_url :: jsstr
  req_method :: jsstr
  req_headers :: headers
  req_body :: "body_init option"
  req_timeout :: "rat option"

text \<open>A body arrives as text or the reading rejects; a streamed body is a list of reads.\<close>

datatype read_result = Chunk bytes | ReadFailure exn

record response =
  resp_status :: nat
  resp_headers :: headers
  resp_text :: "exn + jsstr"
  resp_stream :: "read_result list option"

type_synonym 'w fetch = "request \<Rightarrow> 'w \<Rightarrow> (exn + response) \<times> 'w"

definition resp_ok :: "response \<Rightarrow> bool" where
  "resp_ok r \<longleftrightarrow> 200 \<le> resp_status r \<and> resp_status r \<le> 299"

text \<open>\<open>response.json()\<close>\<close>

definition resp_json :: "response \<Rightarrow> exn + json" where
  "resp_json r = bind_res (resp_text r) (\<lambda>t. or_throw SyntaxError (parse t))"

subsection \<open>Values\<close>

text \<open>\<open>v.k\<close> on a parsed value: \<open>None\<close> is \<open>undefined\<close>.\<close>

definition member :: "jsstr \<Rightarrow> json \<Rightarrow> json option" where
  "member k v = (case v of JObj ms \<Rightarrow> map_of ms k | _ \<Rightarrow> None)"

text \<open>\<open>String(v)\<close>; \<open>null\<close> elements of an array print as the empty string.\<close>

fun js_String :: "json \<Rightarrow> jsstr" where
  "js_String JNull = js ''null''"
| "js_String (JBool b) = js (if b then ''true'' else ''false'')"
| "js_String (JNum x) = number_string x"
| "js_String (JStr s) = s"
| "js_String (JArr vs) = js_join [44] (map (\<lambda>v. if v = JNull then [] else js_String v) vs)"
| "js_String (JObj ms) = js ''[object Object]''"

text \<open>\<open>Boolean(v)\<close>\<close>

definition truthy :: "json \<Rightarrow> bool" where
  "truthy v = (case v of JNull \<Rightarrow> False | JBool b \<Rightarrow> b | JNum x \<Rightarrow> x \<noteq> NaN \<and> x \<noteq> Fin 0 0
     | JStr s \<Rightarrow> s \<noteq> [] | _ \<Rightarrow> True)"

text \<open>An object literal; members whose value is \<open>undefined\<close> are dropped when it is serialised.\<close>

definition object :: "(string \<times> json option) list \<Rightarrow> json" where
  "object ms = JObj (List.map_filter (\<lambda>(k, v). map_option (Pair (js k)) v) ms)"

text \<open>URLs below \<open>/api/apps/<app>/\<close> of a base URL.\<close>

definition app_root :: "jsstr \<Rightarrow> jsstr \<Rightarrow> jsstr option" where
  "app_root base app = map_option (\<lambda>e. base @ js ''/api/apps/'' @ e @ [47]) (encodeURIComponent app)"

definition in_app :: "jsstr \<Rightarrow> jsstr \<Rightarrow> jsstr \<Rightarrow> bool" where
  "in_app base app url = (case app_root base app of None \<Rightarrow> False | Some p \<Rightarrow> prefix p url)"

subsection \<open>What a computation sends\<close>

text \<open>
  \<open>appends lg keep P m s\<close>: started in \<open>s\<close>, the computation appends only requests satisfying \<open>P\<close>
  to the log \<open>lg\<close> and keeps the part \<open>keep\<close> of the state, whether it returns or throws. The rules
  decompose a computation along its structure.
\<close>

definition appends :: "('s \<Rightarrow> request list) \<Rightarrow> ('s \<Rightarrow> 'c) \<Rightarrow> (request \<Rightarrow> bool) \<Rightarrow> (exn, 's, 'a) prog \<Rightarrow> 's \<Rightarrow> bool" where
  "appends lg keep P m s \<longleftrightarrow> (\<exists>rs. lg (snd (m s)) = lg s @ rs \<and> list_all P rs) \<and> keep (snd (m s)) = keep s"

named_theorems appends_intros \<open>structural rules for \<open>appends\<close>\<close>

lemma appends_ret [appends_intros]: "appends lg keep P (ret x) s"
  and appends_throw [appends_intros]: "appends lg keep P (throw e) s"
  and appends_lift_res [appends_intros]: "appends lg keep P (lift_res y) s"
  and appends_gets [appends_intros]: "appends lg keep P (gets g) s"
  by (simp_all add: appends_def prog_simps)

lemma appends_modify: "lg (g s) = lg s \<Longrightarrow> keep (g s) = keep s \<Longrightarrow> appends lg keep P (modify g) s"
  by (simp add: appends_def prog_simps)

lemma appends_bnd:
  assumes "appends lg keep P m s" and "\<And>x s'. m s = (Inr x, s') \<Longrightarrow> appends lg keep P (k x) s'"
  shows "appends lg keep P (bnd m k) s"
proof (cases "m s")
  case (Pair y s')
  show ?thesis
  proof (cases y)
    case (Inl e)
    then show ?thesis using assms(1) Pair by (simp add: appends_def bnd_def)
  next
    case (Inr x)
    then have "appends lg keep P (k x) s'" using assms(2) Pair by simp
    then show ?thesis using assms(1) Pair Inr by (fastforce simp: appends_def bnd_def)
  qed
qed

lemma appends_bnd_gets [appends_intros]: "appends lg keep P (k (g s)) s \<Longrightarrow> appends lg keep P (bnd (gets g) k) s"
  by (simp add: appends_def prog_simps)

lemma appends_bnd_lift [appends_intros]:
  "(\<And>x. y = Inr x \<Longrightarrow> appends lg keep P (k x) s) \<Longrightarrow> appends lg keep P (bnd (lift_res y) k) s"
  by (cases y) (simp_all add: appends_throw)

lemma appends_bnd_any [appends_intros]:
  "appends lg keep P m s \<Longrightarrow> (\<And>x s'. appends lg keep P (k x) s') \<Longrightarrow> appends lg keep P (bnd m k) s"
  by (rule appends_bnd)

lemma appends_if [appends_intros]:
  "(b \<Longrightarrow> appends lg keep P m s) \<Longrightarrow> (\<not> b \<Longrightarrow> appends lg keep P n s) \<Longrightarrow> appends lg keep P (if b then m else n) s"
  by simp

lemma appends_case_option [appends_intros]:
  "(x = None \<Longrightarrow> appends lg keep P m s) \<Longrightarrow> (\<And>y. x = Some y \<Longrightarrow> appends lg keep P (k y) s) \<Longrightarrow>
   appends lg keep P (case x of None \<Rightarrow> m | Some y \<Rightarrow> k y) s"
  by (cases x) simp_all

lemma appends_try_catch [appends_intros]:
  assumes "appends lg keep P m s" and "\<And>e s'. appends lg keep P (h e) s'"
  shows "appends lg keep P (try_catch m h) s"
proof (cases "m s")
  case (Pair y s')
  show ?thesis
  proof (cases y)
    case (Inl e)
    then show ?thesis using assms(1) assms(2) [of e s'] Pair by (fastforce simp: appends_def try_catch_def)
  next
    case (Inr x)
    then show ?thesis using assms(1) Pair by (simp add: appends_def try_catch_def)
  qed
qed

lemma appends_mono:
  "appends lg keep P m s \<Longrightarrow> (\<And>r. P r \<Longrightarrow> Q r) \<Longrightarrow> appends lg keep Q m s"
  by (auto simp: appends_def list_all_iff)

text \<open>\<open>at_most lg n m\<close>: the computation sends no more than \<open>n\<close> requests.\<close>

definition at_most :: "('s \<Rightarrow> request list) \<Rightarrow> nat \<Rightarrow> (exn, 's, 'a) prog \<Rightarrow> bool" where
  "at_most lg n m \<longleftrightarrow> (\<forall>s. length (lg (snd (m s))) \<le> length (lg s) + n)"

lemma at_most_0:
  "at_most lg 0 (ret x)" "at_most lg 0 (throw e)" "at_most lg 0 (lift_res y)" "at_most lg 0 (gets g)"
  by (simp_all add: at_most_def prog_simps)

lemma at_most_bnd:
  assumes "at_most lg n m" "\<And>x. at_most lg k (g x)" "n + k \<le> l"
  shows "at_most lg l (bnd m g)"
  unfolding at_most_def
proof
  fix s
  show "length (lg (snd (bnd m g s))) \<le> length (lg s) + l"
  proof (cases "m s")
    case (Pair y s')
    then have m: "length (lg s') \<le> length (lg s) + n"
      using assms(1) by (auto simp: at_most_def dest: spec [of _ s])
    show ?thesis
    proof (cases y)
      case (Inl e)
      then show ?thesis using Pair m assms(3) by (simp add: bnd_def)
    next
      case (Inr x)
      have "length (lg (snd (g x s'))) \<le> length (lg s') + k"
        using assms(2) by (simp add: at_most_def)
      then show ?thesis using Pair Inr m assms(3) by (simp add: bnd_def)
    qed
  qed
qed

lemma at_most_if: "at_most lg n m \<Longrightarrow> at_most lg k m' \<Longrightarrow> n \<le> l \<Longrightarrow> k \<le> l \<Longrightarrow> at_most lg l (if b then m else m')"
  by (auto simp: at_most_def intro: order_trans)

lemma at_most_try_catch:
  assumes "at_most lg n m" "\<And>e. at_most lg 0 (h e)"
  shows "at_most lg n (try_catch m h)"
  unfolding at_most_def
proof
  fix s
  have "length (lg (snd (h e (snd (m s))))) \<le> length (lg (snd (m s)))" for e
    using assms(2) by (simp add: at_most_def)
  moreover have "length (lg (snd (m s))) \<le> length (lg s) + n" using assms(1) by (simp add: at_most_def)
  ultimately show "length (lg (snd (try_catch m h s))) \<le> length (lg s) + n"
    by (cases "m s"; cases "fst (m s)") (auto simp: try_catch_def intro: order_trans)
qed

lemma at_most_weaken: "at_most lg n m \<Longrightarrow> n \<le> k \<Longrightarrow> at_most lg k m"
  by (auto simp: at_most_def intro: order_trans)

lemma at_most_one_new:
  assumes "at_most lg 1 m" "appends lg keep P m s"
  shows "lg (snd (m s)) = lg s \<or> (\<exists>r. lg (snd (m s)) = lg s @ [r] \<and> P r)"
proof -
  obtain rs where rs: "lg (snd (m s)) = lg s @ rs" "list_all P rs"
    using assms(2) by (auto simp: appends_def)
  moreover have "length rs \<le> 1" using assms(1) rs(1) by (auto simp: at_most_def dest: spec [of _ s])
  ultimately show ?thesis by (cases rs) auto
qed

subsection \<open>Clients with a request log\<close>

text \<open>
  The interface every client of the server offers to its callers: operations that may throw, a log
  of the requests they sent, and a configuration that only some operations change. An operation
  only appends requests that are allowed under the configuration; the lemmas lift this to runs of
  operations that keep it.
\<close>

locale logged_client =
  fixes exec :: "'op \<Rightarrow> (exn, 's, 'a) prog"
    and stable :: "'op \<Rightarrow> bool"
    and log :: "'s \<Rightarrow> request list"
    and fixed :: "'s \<Rightarrow> 'c"
    and allowed :: "'c \<Rightarrow> request \<Rightarrow> bool"
  assumes fixed_kept: "stable op \<Longrightarrow> fixed (snd (exec op s)) = fixed s"
    and log_grows: "\<exists>rs. log (snd (exec op s)) = log s @ rs \<and> list_all (allowed (fixed s)) rs"
begin

lemma run_fixed: "list_all stable ops \<Longrightarrow> fixed (fold (\<lambda>op s. snd (exec op s)) ops s) = fixed s"
  by (induction ops arbitrary: s) (simp_all add: fixed_kept)

lemma run_log:
  "list_all stable ops \<Longrightarrow>
   \<exists>rs. log (fold (\<lambda>op s. snd (exec op s)) ops s) = log s @ rs \<and> list_all (allowed (fixed s)) rs"
proof (induction ops arbitrary: s)
  case (Cons op ops)
  obtain rs where rs: "log (snd (exec op s)) = log s @ rs" "list_all (allowed (fixed s)) rs"
    using log_grows by blast
  moreover obtain rs' where "log (fold (\<lambda>op s. snd (exec op s)) ops (snd (exec op s))) = log (snd (exec op s)) @ rs'"
      "list_all (allowed (fixed s)) rs'"
    using Cons.IH [of "snd (exec op s)"] Cons.prems by (auto simp: fixed_kept)
  ultimately show ?case by (intro exI [of _ "rs @ rs'"]) simp
qed simp

lemma run_all_allowed:
  assumes "log s = []" "list_all stable ops"
  shows "list_all (allowed (fixed s)) (log (fold (\<lambda>op s. snd (exec op s)) ops s))"
  using run_log [of ops s] assms by auto

end

end
