(* ===== verification/Sdk_Client.thy ===== *)
theory Sdk_Client
  imports Http
begin

text \<open>
  The JavaScript SDK's \<open>PeanutClient\<close> (\<open>src/sdks/js/src/index.ts\<close>): the constructor, the
  headers of a request, the retry loop, and the four ways of sending a request. The state of a
  client in use is a \<open>'w sdk\<close>: its fields, the outside world, the log of the requests handed to
  the fetch implementation, and the log of the delays awaited between two attempts.
\<close>

subsection \<open>State\<close>

record retry_options =
  maxRetries :: rat
  baseDelayMs :: rat

record sdk_client =
  baseUrl :: jsstr
  appId :: jsstr
  apiKey :: jsstr
  accessToken :: "json option"
  timeoutMs :: rat
  retry :: retry_options

record client_options =
  opt_baseUrl :: jsstr
  opt_appId :: jsstr
  opt_apiKey :: jsstr
  opt_accessToken :: "json option"
  opt_timeoutMs :: "rat option"
  opt_maxRetries :: "rat option"
  opt_baseDelayMs :: "rat option"

record 'w sdk =
  client :: sdk_client
  world :: 'w
  sent :: "request list"
  slept :: "rat list"

text \<open>The constructor; the flag says whether \<open>options.fetch ?? globalThis.fetch\<close> exists.\<close>

definition new_client :: "bool \<Rightarrow> client_options \<Rightarrow> exn + sdk_client" where
  "new_client has_fetch opts =
     (let c = \<lparr>baseUrl = strip_slashes (opt_baseUrl opts), appId = opt_appId opts,
        apiKey = opt_apiKey opts, accessToken = opt_accessToken opts,
        timeoutMs = (case opt_timeoutMs opts of None \<Rightarrow> 30000 | Some t \<Rightarrow> t),
        retry = \<lparr>maxRetries = (case opt_maxRetries opts of None \<Rightarrow> 0 | Some n \<Rightarrow> n),
                 baseDelayMs = (case opt_baseDelayMs opts of None \<Rightarrow> 200 | Some d \<Rightarrow> d)\<rparr>\<rparr>
      in if \<not> has_fetch then Inl (JsError (js ''A fetch implementation is required'')) else Inr c)"

definition setAccessToken :: "json option \<Rightarrow> (exn, 'w sdk, unit) prog" where
  "setAccessToken t = modify (\<lambda>s. s\<lparr>client := (client s)\<lparr>accessToken := t\<rparr>\<rparr>)"

subsection \<open>Small helpers\<close>

definition encodePath :: "jsstr \<Rightarrow> exn + jsstr" where
  "encodePath v = or_throw URIError (encodeURIComponent v)"

definition encodeKey :: "jsstr \<Rightarrow> exn + jsstr" where
  "encodeKey v = bind_res (map_res (\<lambda>p. or_throw URIError (encodeURIComponent p)) (js_split [47] v))
     (\<lambda>ps. Inr (js_join [47] ps))"

text \<open>The parameters are the entries of the object in order; \<open>None\<close> is \<open>undefined\<close>.\<close>

fun search_params :: "(jsstr \<times> json option) list \<Rightarrow> (jsstr \<times> jsstr) list \<Rightarrow> (jsstr \<times> jsstr) list" where
  "search_params [] search = search"
| "search_params ((k, v) # ps) search = search_params ps
     (case v of None \<Rightarrow> search | Some x \<Rightarrow> params_set k (js_String x) search)"

definition toQuery :: "(jsstr \<times> json option) list \<Rightarrow> jsstr" where
  "toQuery params = (let query = params_toString (search_params params [])
     in if query \<noteq> [] then 63 # query else [])"

text \<open>
  \<open>errorMessage\<close>; the inherited properties of objects do not include \<open>error\<close>, so
  \<open>"error" in value\<close> is membership.
\<close>

definition errorMessage :: "json \<Rightarrow> jsstr" where
  "errorMessage v = (case member (js ''error'') v of
     Some e \<Rightarrow> js_String e
   | None \<Rightarrow> (case v of JStr s \<Rightarrow> if s \<noteq> [] then s else js ''Peanut request failed''
                      | _ \<Rightarrow> js ''Peanut request failed''))"

definition isTransientStatus :: "nat \<Rightarrow> bool" where
  "isTransientStatus st \<longleftrightarrow> st = 408 \<or> st = 429 \<or> st \<ge> 500"

definition delay :: "rat \<Rightarrow> 'w sdk \<Rightarrow> 'w sdk" where
  "delay ms s = s\<lparr>slept := slept s @ [ms]\<rparr>"

definition appPath :: "sdk_client \<Rightarrow> jsstr \<Rightarrow> exn + jsstr" where
  "appPath c path = bind_res (or_throw URIError (encodeURIComponent (appId c)))
     (\<lambda>a. Inr (js ''/api/apps/'' @ a @ path))"

subsection \<open>Sending\<close>

definition fetchImpl :: "'w fetch \<Rightarrow> request \<Rightarrow> (exn, 'w sdk, response) prog" where
  "fetchImpl f r s = (case f r (world s) of (x, w) \<Rightarrow> (x, s\<lparr>world := w, sent := sent s @ [r]\<rparr>))"

text \<open>
  The loop of \<open>fetchWithRetry\<close> from a given attempt on. \<open>c\<close> is the client, whose retry options are
  read-only; \<open>lastError\<close> is the error of the last attempt that threw.
\<close>

function retry_loop :: "'w fetch \<Rightarrow> sdk_client \<Rightarrow> request \<Rightarrow> nat \<Rightarrow> exn option \<Rightarrow> (exn, 'w sdk, response) prog" where
  "retry_loop f c r attempt lastError s =
     (if of_nat attempt \<le> maxRetries (retry c) then
        (case fetchImpl f (r\<lparr>req_timeout := Some (timeoutMs c)\<rparr>) s of
           (Inr response, s') \<Rightarrow>
             if \<not> isTransientStatus (resp_status response) \<or> of_nat attempt = maxRetries (retry c)
             then (Inr response, s')
             else retry_loop f c r (attempt + 1) lastError
                    (delay (baseDelayMs (retry c) * max 1 (of_nat attempt + 1)) s')
         | (Inl err, s') \<Rightarrow>
             if of_nat attempt = maxRetries (retry c) then (Inl err, s')
             else retry_loop f c r (attempt + 1) (Some err)
                    (delay (baseDelayMs (retry c) * max 1 (of_nat attempt + 1)) s'))
      else (Inl (case lastError of None \<Rightarrow> ThrownUndefined | Some e \<Rightarrow> e), s))"
  by pat_completeness auto

termination
proof (relation "measure (\<lambda>(f, c, r, attempt, lastError, s). nat (\<lfloor>maxRetries (retry c)\<rfloor> + 1 - int attempt))", goal_cases)
  case (2 f c r attempt lastError s)
  then have "int attempt \<le> \<lfloor>maxRetries (retry c)\<rfloor>" by (simp add: le_floor_iff)
  then show ?case by simp
next
  case (3 f c r attempt lastError s)
  then have "int attempt \<le> \<lfloor>maxRetries (retry c)\<rfloor>" by (simp add: le_floor_iff)
  then show ?case by simp
qed simp

declare retry_loop.simps [simp del]

definition fetchWithRetry :: "'w fetch \<Rightarrow> request \<Rightarrow> (exn, 'w sdk, response) prog" where
  "fetchWithRetry f r = bnd (gets client) (\<lambda>c. retry_loop f c r 0 None)"

text \<open>The headers every request gets.\<close>

definition auth_headers :: "sdk_client \<Rightarrow> headers \<Rightarrow> exn + headers" where
  "auth_headers c hs =
     bind_res (headers_set (js ''X-Peanut-Api-Key'') (apiKey c) hs) (\<lambda>hs.
     case accessToken c of
       Some t \<Rightarrow> if truthy t then headers_set (js ''Authorization'') (js ''Bearer '' @ js_String t) hs else Inr hs
     | None \<Rightarrow> Inr hs)"

definition read_value :: "response \<Rightarrow> exn + json" where
  "read_value resp =
     (let contentType = (case headers_get (js ''content-type'') (resp_headers resp) of None \<Rightarrow> [] | Some t \<Rightarrow> t)
      in if js_includes contentType (js ''application/json'') then resp_json resp
         else bind_res (resp_text resp) (\<lambda>t. Inr (JStr t)))"

record request_options =
  opt_body :: "json option"
  opt_headers :: "(jsstr \<times> jsstr) list"
  opt_rawBody :: "body_init option"

definition no_options :: request_options where
  "no_options = \<lparr>opt_body = None, opt_headers = [], opt_rawBody = None\<rparr>"

definition json_body :: "json \<Rightarrow> request_options" where
  "json_body v = no_options\<lparr>opt_body := Some v\<rparr>"

text \<open>The request \<open>request\<close> hands to \<open>fetchWithRetry\<close>.\<close>

definition make_request :: "sdk_client \<Rightarrow> jsstr \<Rightarrow> jsstr \<Rightarrow> request_options \<Rightarrow> exn + request" where
  "make_request c method path options =
     bind_res (headers_new (opt_headers options)) (\<lambda>hs.
     bind_res (auth_headers c hs) (\<lambda>hs.
     bind_res (case opt_body options of
         None \<Rightarrow> Inr (hs, opt_rawBody options)
       | Some v \<Rightarrow> bind_res (headers_set (js ''Content-Type'') (js ''application/json'') hs)
                     (\<lambda>hs. Inr (hs, Some (BodyText (stringify v))))) (\<lambda>(hs, body).
     Inr \<lparr>req_url = baseUrl c @ path, req_method = method, req_headers = hs, req_body = body,
          req_timeout = None\<rparr>)))"

definition request :: "'w fetch \<Rightarrow> jsstr \<Rightarrow> jsstr \<Rightarrow> request_options \<Rightarrow> (exn, 'w sdk, json option) prog" where
  "request f method path options =
     bnd (gets client) (\<lambda>c.
     bnd (lift_res (make_request c method path options)) (\<lambda>r.
     bnd (fetchWithRetry f r) (\<lambda>response.
     if resp_status response = 204 then ret None
     else bnd (lift_res (read_value response)) (\<lambda>v.
       if \<not> resp_ok response then throw (PeanutError (resp_status response) (errorMessage v) v)
       else ret (Some v)))))"

text \<open>The error path \<open>requestBinary\<close>, \<open>requestBinaryWithBody\<close> and \<open>streamRequest\<close> repeat.\<close>

definition ok_or_throw :: "response \<Rightarrow> (exn, 's, response) prog" where
  "ok_or_throw response =
     (if \<not> resp_ok response
      then bnd (lift_res (read_value response)) (\<lambda>v.
             throw (PeanutError (resp_status response) (errorMessage v) v))
      else ret response)"

definition requestBinary :: "'w fetch \<Rightarrow> jsstr \<Rightarrow> jsstr \<Rightarrow> (exn, 'w sdk, response) prog" where
  "requestBinary f method path =
     bnd (gets client) (\<lambda>c.
     bnd (lift_res (bind_res (headers_new []) (auth_headers c))) (\<lambda>hs.
     bnd (fetchWithRetry f \<lparr>req_url = baseUrl c @ path, req_method = method, req_headers = hs,
            req_body = None, req_timeout = None\<rparr>) ok_or_throw))"

definition requestBinaryWithBody ::
  "'w fetch \<Rightarrow> jsstr \<Rightarrow> jsstr \<Rightarrow> body_init \<Rightarrow> jsstr \<Rightarrow> (exn, 'w sdk, response) prog" where
  "requestBinaryWithBody f method path body contentType =
     bnd (gets client) (\<lambda>c.
     bnd (lift_res (bind_res (headers_new [(js ''Content-Type'', contentType)]) (auth_headers c))) (\<lambda>hs.
     bnd (fetchWithRetry f \<lparr>req_url = baseUrl c @ path, req_method = method, req_headers = hs,
            req_body = Some body, req_timeout = None\<rparr>) ok_or_throw))"

text \<open>\<open>streamRequest\<close> calls the fetch implementation once, with the caller's abort signal.\<close>

definition streamRequest :: "'w fetch \<Rightarrow> jsstr \<Rightarrow> (exn, 'w sdk, response) prog" where
  "streamRequest f path =
     bnd (gets client) (\<lambda>c.
     bnd (lift_res (bind_res (headers_new [(js ''Accept'', js ''text/event-stream'')]) (auth_headers c))) (\<lambda>hs.
     bnd (fetchImpl f \<lparr>req_url = baseUrl c @ path, req_method = js ''GET'', req_headers = hs,
            req_body = None, req_timeout = None\<rparr>) ok_or_throw))"

subsection \<open>The retry loop\<close>

text \<open>
  Specification of the retries: the world after \<open>k\<close> calls with the same request, the outcome of the
  call after those, and the first of at most \<open>n + 1\<close> calls that is worth returning.
\<close>

primrec world_after :: "'w fetch \<Rightarrow> request \<Rightarrow> nat \<Rightarrow> 'w \<Rightarrow> 'w" where
  "world_after f r 0 w = w"
| "world_after f r (Suc k) w = world_after f r k (snd (f r w))"

definition outcome :: "'w fetch \<Rightarrow> request \<Rightarrow> nat \<Rightarrow> 'w \<Rightarrow> exn + response" where
  "outcome f r k w = fst (f r (world_after f r k w))"

definition settled :: "exn + response \<Rightarrow> bool" where
  "settled x = (case x of Inr response \<Rightarrow> \<not> isTransientStatus (resp_status response) | Inl _ \<Rightarrow> False)"

primrec first_settled :: "'w fetch \<Rightarrow> request \<Rightarrow> nat \<Rightarrow> 'w \<Rightarrow> nat" where
  "first_settled f r 0 w = 0"
| "first_settled f r (Suc n) w = (if settled (fst (f r w)) then 0 else Suc (first_settled f r n (snd (f r w))))"

lemma outcome_Suc: "outcome f r (Suc k) w = outcome f r k (snd (f r w))"
  by (simp add: outcome_def)

lemma first_settled_le: "first_settled f r n w \<le> n"
  by (induction n arbitrary: w) auto

lemma first_settled_settled: "first_settled f r n w < n \<Longrightarrow> settled (outcome f r (first_settled f r n w) w)"
  by (induction n arbitrary: w) (auto simp: outcome_Suc outcome_def split: if_splits)

lemma before_first_settled: "i < first_settled f r n w \<Longrightarrow> \<not> settled (outcome f r i w)"
proof (induction n arbitrary: w i)
  case (Suc n)
  then show ?case by (cases i) (auto simp: outcome_Suc outcome_def split: if_splits)
qed simp

lemma outcome_0: "outcome f r 0 w = fst (f r w)"
  by (simp add: outcome_def)

lemma fetchImpl_eq:
  "fetchImpl f r s = (fst (f r (world s)), s\<lparr>world := snd (f r (world s)), sent := sent s @ [r]\<rparr>)"
  by (simp add: fetchImpl_def split: prod.split)

lemma retry_loop_spec:
  assumes "maxRetries (retry c) = of_nat (a + n)"
    and r': "r' = r\<lparr>req_timeout := Some (timeoutMs c)\<rparr>"
  shows "retry_loop f c r a e s =
    (let k = first_settled f r' n (world s) in
     (outcome f r' k (world s),
      s\<lparr>world := world_after f r' (Suc k) (world s), sent := sent s @ replicate (Suc k) r',
        slept := slept s @ map (\<lambda>i. baseDelayMs (retry c) * of_nat (a + i + 1)) [0..<k]\<rparr>))"
  using assms(1)
proof (induction n arbitrary: a e s)
  case 0
  then show ?case
    by (subst retry_loop.simps) (auto simp: fetchImpl_eq outcome_def r' Let_def split: sum.split)
next
  case (Suc n)
  let ?s = "delay (baseDelayMs (retry c) * of_nat (a + 1)) (snd (fetchImpl f r' s))"
  have ih: "retry_loop f c r (a + 1) e' ?s =
    (let k = first_settled f r' n (snd (f r' (world s))) in
     (outcome f r' k (snd (f r' (world s))),
      ?s\<lparr>world := world_after f r' (Suc k) (snd (f r' (world s))), sent := sent ?s @ replicate (Suc k) r',
        slept := slept ?s @ map (\<lambda>i. baseDelayMs (retry c) * of_nat ((a + 1) + i + 1)) [0..<k]\<rparr>))" for e'
    using Suc.IH [of "a + 1" e' ?s] Suc.prems by (simp add: fetchImpl_eq delay_def)
  have max: "max 1 (of_nat a + 1) = (of_nat (a + 1) :: rat)" by simp
  have unsettled: "retry_loop f c r a e s = retry_loop f c r (a + 1) (case fst (f r' (world s)) of Inl x \<Rightarrow> Some x | Inr _ \<Rightarrow> e) ?s"
    if "\<not> settled (fst (f r' (world s)))"
    using that Suc.prems unfolding max [symmetric]
    by (subst retry_loop.simps) (auto simp: fetchImpl_eq r' settled_def split: sum.split)
  show ?case
  proof (cases "settled (fst (f r' (world s)))")
    case True
    then show ?thesis using Suc.prems
      by (subst retry_loop.simps) (auto simp: fetchImpl_eq r' settled_def outcome_def split: sum.splits)
  next
    case False
    then show ?thesis unfolding unsettled [OF False] ih
      by (simp add: Let_def fetchImpl_eq delay_def outcome_Suc map_upt_Suc ac_simps replicate_append_same del: upt_Suc)
  qed
qed

lemma retry_loop_log:
  "\<exists>k. sent (snd (retry_loop f c r a e s)) = sent s @ replicate k (r\<lparr>req_timeout := Some (timeoutMs c)\<rparr>)
     \<and> client (snd (retry_loop f c r a e s)) = client s"
proof (induction f c r a e s rule: retry_loop.induct)
  case (1 f c r a e s)
  let ?r = "r\<lparr>req_timeout := Some (timeoutMs c)\<rparr>"
  let ?s = "delay (baseDelayMs (retry c) * max 1 (of_nat a + 1)) (snd (fetchImpl f ?r s))"
  have ih: "\<exists>k. sent (snd (retry_loop f c r (a + 1) e' ?s)) = sent s @ replicate k ?r
      \<and> client (snd (retry_loop f c r (a + 1) e' ?s)) = client s"
    if "of_nat a \<le> maxRetries (retry c)" "\<not> settled (fst (f ?r (world s)))" "of_nat a \<noteq> maxRetries (retry c)"
      "e' = (case fst (f ?r (world s)) of Inl x \<Rightarrow> Some x | Inr _ \<Rightarrow> e)" for e'
  proof -
    have "\<exists>k. sent (snd (retry_loop f c r (a + 1) e' ?s)) = sent ?s @ replicate k ?r
      \<and> client (snd (retry_loop f c r (a + 1) e' ?s)) = client ?s"
      using that 1 by (cases "fst (f ?r (world s))") (simp_all add: fetchImpl_eq settled_def)
    then obtain k where "sent (snd (retry_loop f c r (a + 1) e' ?s)) = sent s @ replicate (Suc k) ?r
      \<and> client (snd (retry_loop f c r (a + 1) e' ?s)) = client s"
      by (auto simp: fetchImpl_eq delay_def)
    then show ?thesis by blast
  qed
  have one: "\<exists>k. sent s @ [?r] = sent s @ replicate k ?r" by (rule exI [of _ 1]) simp
  have none: "\<exists>k. sent s = sent s @ replicate k ?r" by (rule exI [of _ 0]) simp
  show ?case
    using ih one none
    by (subst (1 2) retry_loop.simps) (auto simp: fetchImpl_eq settled_def split: sum.split)
qed
subsection \<open>What an operation sends\<close>

text \<open>
  \<open>cfg\<close> is the read-only part of a client that identifies it to the server. \<open>sends P m s\<close>: started
  in \<open>s\<close>, the computation appends only requests satisfying \<open>P\<close> to the log and keeps \<open>cfg\<close>,
  whether it returns or throws.
\<close>

definition cfg :: "sdk_client \<Rightarrow> jsstr \<times> jsstr \<times> jsstr" where
  "cfg c = (baseUrl c, appId c, apiKey c)"

abbreviation sends :: "(request \<Rightarrow> bool) \<Rightarrow> (exn, 'w sdk, 'a) prog \<Rightarrow> 'w sdk \<Rightarrow> bool" where
  "sends \<equiv> appends sent (\<lambda>s. cfg (client s))"

lemma sends_setAccessToken [appends_intros]: "sends P (setAccessToken t) s"
  by (simp add: appends_def prog_simps setAccessToken_def cfg_def)

lemma sends_ok_or_throw [appends_intros]: "sends P (ok_or_throw response) s"
  unfolding ok_or_throw_def by (intro appends_intros)

lemma sends_fetchImpl: "P r \<Longrightarrow> sends P (fetchImpl f r) s"
  by (simp add: appends_def fetchImpl_eq)

lemma fetchWithRetry_log:
  "\<exists>k. sent (snd (fetchWithRetry f r s)) = sent s @ replicate k (r\<lparr>req_timeout := Some (timeoutMs (client s))\<rparr>)
     \<and> client (snd (fetchWithRetry f r s)) = client s"
  using retry_loop_log [of f "client s" r 0 None s] by (simp add: fetchWithRetry_def prog_simps)

lemma sends_fetchWithRetry:
  assumes "\<And>t. P (r\<lparr>req_timeout := t\<rparr>)"
  shows "sends P (fetchWithRetry f r) s"
  using fetchWithRetry_log [of f r s] assms by (auto simp: appends_def list_all_iff)

subsection \<open>Authorised requests\<close>

text \<open>
  A request of the client \<open>c\<close> addressed to \<open>path\<close>: its URL, the API key, and the bearer token
  exactly when the client holds a (truthy) one.
\<close>

definition bearer :: "sdk_client \<Rightarrow> jsstr option" where
  "bearer c = (case accessToken c of
     Some t \<Rightarrow> if truthy t then Some (header_value (js ''Bearer '' @ js_String t)) else None
   | None \<Rightarrow> None)"

definition carries :: "sdk_client \<Rightarrow> headers \<Rightarrow> bool" where
  "carries c hs \<longleftrightarrow> headers_get (js ''X-Peanut-Api-Key'') hs = Some (header_value (apiKey c))
     \<and> headers_get (js ''Authorization'') hs = bearer c"

definition addressed :: "sdk_client \<Rightarrow> jsstr \<Rightarrow> request \<Rightarrow> bool" where
  "addressed c path r \<longleftrightarrow> req_url r = baseUrl c @ path \<and> carries c (req_headers r)"

lemma header_names_distinct:
  "ascii_lower (js ''X-Peanut-Api-Key'') \<noteq> ascii_lower (js ''Authorization'')"
  "ascii_lower (js ''X-Peanut-Api-Key'') \<noteq> ascii_lower (js ''Content-Type'')"
  "ascii_lower (js ''Authorization'') \<noteq> ascii_lower (js ''Content-Type'')"
  by (simp_all add: ascii_lower_js)

lemma auth_headers_carries:
  assumes "auth_headers c hs = Inr hs'" and none: "headers_get (js ''Authorization'') hs = None"
  shows "carries c hs'"
proof -
  let ?K = "js ''X-Peanut-Api-Key''" and ?A = "js ''Authorization''"
  obtain h where h: "headers_set ?K (apiKey c) hs = Inr h"
    and rest: "(case accessToken c of
       Some t \<Rightarrow> if truthy t then headers_set ?A (js ''Bearer '' @ js_String t) h else Inr h
     | None \<Rightarrow> Inr h) = Inr hs'"
    using assms(1) unfolding auth_headers_def bind_res_eq_Inr by blast
  have key: "headers_get ?K h = Some (header_value (apiKey c))" and no: "headers_get ?A h = None"
    using headers_get_set [OF h] none header_names_distinct(1) by auto
  show ?thesis
  proof (cases "\<exists>t. accessToken c = Some t \<and> truthy t")
    case True
    then obtain t where t: "accessToken c = Some t" "truthy t" by blast
    then have set: "headers_set ?A (js ''Bearer '' @ js_String t) h = Inr hs'" using rest by simp
    show ?thesis
      using t key header_names_distinct(1) unfolding carries_def bearer_def headers_get_set [OF set] by simp
  next
    case False
    then have "hs' = h" using rest by (auto split: option.splits if_splits)
    then show ?thesis using False key no by (auto simp: carries_def bearer_def split: option.split)
  qed
qed

lemma carries_content_type:
  "carries c hs \<Longrightarrow> headers_set (js ''Content-Type'') v hs = Inr hs' \<Longrightarrow> carries c hs'"
  by (simp add: carries_def headers_get_set header_names_distinct)

lemma make_request_addressed:
  assumes "make_request c method path options = Inr r" and "opt_headers options = []"
  shows "addressed c path r"
proof -
  obtain hs where hs: "auth_headers c [] = Inr hs"
    using assms by (auto simp: make_request_def bind_res_eq_Inr)
  then have "carries c hs" by (rule auth_headers_carries) simp
  then show ?thesis
    using assms hs by (auto simp: make_request_def addressed_def bind_res_eq_Inr carries_content_type split: option.splits)
qed

lemma sends_request:
  assumes "opt_headers options = []"
  shows "sends (addressed (client s) path) (request f method path options) s"
proof -
  have "sends (addressed (client s) path) (fetchWithRetry f r) s" if "make_request (client s) method path options = Inr r" for r
    using make_request_addressed [OF that assms] by (intro sends_fetchWithRetry) (simp add: addressed_def)
  then show ?thesis unfolding request_def by (intro appends_intros)
qed

lemma sends_requestBinary: "sends (addressed (client s) path) (requestBinary f method path) s"
proof -
  have "sends (addressed (client s) path) (fetchWithRetry f r) s"
    if "bind_res (headers_new []) (auth_headers (client s)) = Inr hs" "req_url r = baseUrl (client s) @ path" "req_headers r = hs" for r hs
    using that by (intro sends_fetchWithRetry) (simp add: addressed_def auth_headers_carries)
  then show ?thesis unfolding requestBinary_def by (intro appends_intros) simp_all
qed

lemma headers_new_one:
  "headers_new [(n, v)] = Inr hs \<Longrightarrow> ascii_lower m \<noteq> ascii_lower n \<Longrightarrow> headers_get m hs = None"
  by (auto simp: headers_new_def headers_append_def headers_get_def split: if_splits)

lemma sends_requestBinaryWithBody:
  "sends (addressed (client s) path) (requestBinaryWithBody f method path body contentType) s"
proof -
  have "sends (addressed (client s) path) (fetchWithRetry f r) s"
    if "bind_res (headers_new [(js ''Content-Type'', contentType)]) (auth_headers (client s)) = Inr hs"
      "req_url r = baseUrl (client s) @ path" "req_headers r = hs" for r hs
    using that by (intro sends_fetchWithRetry)
      (auto simp: addressed_def bind_res_eq_Inr header_names_distinct headers_new_one intro!: auth_headers_carries)
  then show ?thesis unfolding requestBinaryWithBody_def by (intro appends_intros) simp_all
qed

lemma sends_streamRequest: "sends (addressed (client s) path) (streamRequest f path) s"
proof -
  have "ascii_lower (js ''Authorization'') \<noteq> ascii_lower (js ''Accept'')" by (simp add: ascii_lower_js)
  then have "sends (addressed (client s) path) (fetchImpl f r) s"
    if "bind_res (headers_new [(js ''Accept'', js ''text/event-stream'')]) (auth_headers (client s)) = Inr hs"
      "req_url r = baseUrl (client s) @ path" "req_headers r = hs" for r hs
    using that by (intro sends_fetchImpl)
      (auto simp: addressed_def bind_res_eq_Inr headers_new_one intro!: auth_headers_carries)
  then show ?thesis unfolding streamRequest_def by (intro appends_intros) simp_all
qed

lemma first_settled_eq:
  assumes "\<And>i. i < k \<Longrightarrow> \<not> settled (outcome f r i w)" "settled (outcome f r k w)" "k \<le> n"
  shows "first_settled f r n w = k"
proof -
  have "\<not> first_settled f r n w < k"
    using assms(1,3) first_settled_settled [of f r n w] by force
  moreover have "\<not> k < first_settled f r n w"
    using before_first_settled [of k f r n w] assms(2) by auto
  ultimately show ?thesis by simp
qed

lemma fetchWithRetry_eq:
  assumes "maxRetries (retry (client s)) = of_nat n"
    and "r' = r\<lparr>req_timeout := Some (timeoutMs (client s))\<rparr>" and "k = first_settled f r' n (world s)"
  shows "fetchWithRetry f r s =
    (outcome f r' k (world s),
     s\<lparr>world := world_after f r' (Suc k) (world s), sent := sent s @ replicate (Suc k) r',
       slept := slept s @ map (\<lambda>i. baseDelayMs (retry (client s)) * of_nat (Suc i)) [0..<k]\<rparr>)"
  using retry_loop_spec [of "client s" 0 n r' r f None s] assms
  by (simp add: fetchWithRetry_def prog_simps Let_def)

lemma fetchWithRetry_answer:
  assumes "maxRetries (retry (client s)) = of_nat n"
    and "r' = r\<lparr>req_timeout := Some (timeoutMs (client s))\<rparr>"
    and "\<And>i. i < k \<Longrightarrow> \<not> settled (outcome f r' i (world s))" "k \<le> n"
    and "outcome f r' k (world s) = Inr response" "\<not> isTransientStatus (resp_status response)"
  shows "fst (fetchWithRetry f r s) = Inr response"
    and "sent (snd (fetchWithRetry f r s)) = sent s @ replicate (Suc k) r'"
proof -
  have k: "k = first_settled f r' n (world s)"
    using first_settled_eq [of k f r' "world s" n] assms by (simp add: settled_def)
  show "fst (fetchWithRetry f r s) = Inr response"
    and "sent (snd (fetchWithRetry f r s)) = sent s @ replicate (Suc k) r'"
    unfolding fetchWithRetry_eq [OF assms(1,2) k] using assms(5) by simp_all
qed

lemma request_eq:
  assumes "make_request (client s) method path options = Inr r"
  shows "request f method path options s =
    bnd (fetchWithRetry f r) (\<lambda>response.
     if resp_status response = 204 then ret None
     else bnd (lift_res (read_value response)) (\<lambda>v.
       if \<not> resp_ok response then throw (PeanutError (resp_status response) (errorMessage v) v)
       else ret (Some v))) s"
  using assms by (simp add: request_def prog_simps)

lemma request_log:
  "make_request (client s) method path options = Inr r \<Longrightarrow>
   sent (snd (request f method path options s)) = sent (snd (fetchWithRetry f r s))
   \<and> client (snd (request f method path options s)) = client (snd (fetchWithRetry f r s))"
  unfolding request_eq by (simp add: prog_simps split: prod.split sum.split)

lemma request_value:
  assumes "make_request (client s) method path options = Inr r"
    and "fst (fetchWithRetry f r s) = Inr response" "resp_status response \<noteq> 204" "read_value response = Inr v"
  shows "fst (request f method path options s) =
    (if resp_ok response then Inr (Some v) else Inl (PeanutError (resp_status response) (errorMessage v) v))"
  unfolding request_eq [OF assms(1)] using assms(2-4) by (auto simp: prog_simps split: prod.split)

lemma read_value_json:
  assumes "headers_get (js ''content-type'') (resp_headers response) = Some t"
    and "js_includes t (js ''application/json'')" "resp_text response = Inr (stringify v)" "wf_json v"
  shows "read_value response = Inr v"
  using assms by (simp add: read_value_def resp_json_def parse_stringify)

subsection \<open>Properties\<close>

text \<open>A server that fails a given number of times before it answers, for the examples below.\<close>

definition ok_json :: "json \<Rightarrow> response" where
  "ok_json v = \<lparr>resp_status = 200, resp_headers = [(js ''content-type'', js ''application/json'')],
     resp_text = Inr (stringify v), resp_stream = None\<rparr>"

definition flaky :: "response \<Rightarrow> nat fetch" where
  "flaky answer r w = (case w of 0 \<Rightarrow> (Inr answer, 0)
     | Suc n \<Rightarrow> (if n = 0 then Inl (FetchFailure (js ''network'')) else Inr (answer\<lparr>resp_status := 503\<rparr>), n))"

lemma ok_json_facts:
  "resp_status (ok_json v) = 200" "resp_ok (ok_json v)" "resp_text (ok_json v) = Inr (stringify v)"
  by (simp_all add: ok_json_def resp_ok_def)

lemma ok_json_type:
  "headers_get (js ''content-type'') (resp_headers (ok_json v)) = Some (js ''application/json'')"
  "js_includes (js ''application/json'') (js ''application/json'')"
  by (simp_all add: ok_json_def headers_get_def ascii_lower_def cu_lower_def js_includes_def js_def cu_def)

definition sample_client :: sdk_client where
  "sample_client = \<lparr>baseUrl = js ''https://host'', appId = js ''a b'', apiKey = js ''key'',
     accessToken = Some (JStr (js ''tok'')), timeoutMs = 30000, retry = \<lparr>maxRetries = 3, baseDelayMs = 200\<rparr>\<rparr>"

definition sample_sdk :: "'w \<Rightarrow> 'w sdk" where
  "sample_sdk w = \<lparr>client = sample_client, world = w, sent = [], slept = []\<rparr>"

definition sample_request :: request where
  "sample_request = \<lparr>req_url = js ''https://host/x'', req_method = js ''GET'', req_headers = [],
     req_body = None, req_timeout = None\<rparr>"

text \<open>
  C1: with \<open>n\<close> retries, \<open>fetchWithRetry\<close> implements its specification for every fetch
  implementation: it makes \<open>k + 1 \<le> n + 1\<close> attempts with the same request and the timeout,
  stops at the first attempt that is neither a failure nor a transient status (or at the last one),
  returns that attempt's outcome, and waits a linearly growing delay between two attempts.
\<close>

theorem fetchWithRetry_refines:
  assumes "maxRetries (retry (client s)) = of_nat n"
    and "r' = r\<lparr>req_timeout := Some (timeoutMs (client s))\<rparr>"
  shows "\<exists>k \<le> n. fetchWithRetry f r s =
      (outcome f r' k (world s),
       s\<lparr>world := world_after f r' (Suc k) (world s), sent := sent s @ replicate (Suc k) r',
         slept := slept s @ map (\<lambda>i. baseDelayMs (retry (client s)) * of_nat (Suc i)) [0..<k]\<rparr>)
    \<and> (\<forall>i < k. \<not> settled (outcome f r' i (world s))) \<and> (k < n \<longrightarrow> settled (outcome f r' k (world s)))"
  using fetchWithRetry_eq [OF assms refl] first_settled_le [of f r' n "world s"]
    first_settled_settled [of f r' n "world s"]
  by (intro exI [of _ "first_settled f r' n (world s)"]) (simp add: before_first_settled)

theorem fetchWithRetry_refines_witness:
  "\<exists>k \<le> 3. fetchWithRetry (flaky (ok_json JNull)) sample_request (sample_sdk 2) =
      (outcome (flaky (ok_json JNull)) (sample_request\<lparr>req_timeout := Some 30000\<rparr>) k 2,
       (sample_sdk 2)\<lparr>world := world_after (flaky (ok_json JNull)) (sample_request\<lparr>req_timeout := Some 30000\<rparr>) (Suc k) 2,
         sent := replicate (Suc k) (sample_request\<lparr>req_timeout := Some 30000\<rparr>),
         slept := map (\<lambda>i. 200 * of_nat (Suc i)) [0..<k]\<rparr>)"
  using fetchWithRetry_refines [of "sample_sdk (2::nat)" 3 _ sample_request "flaky (ok_json JNull)", OF _ refl]
  by (auto simp: sample_sdk_def sample_client_def)



text \<open>
  With a negative number of retries the loop body never runs: nothing is sent, and the promise
  rejects with \<open>undefined\<close>.
\<close>

theorem fetchWithRetry_negative:
  assumes "maxRetries (retry (client s)) < 0"
  shows "fetchWithRetry f r s = (Inl ThrownUndefined, s)"
  using assms by (subst fetchWithRetry_def, subst prog_simps) (simp add: prog_simps retry_loop.simps [of f _ r 0])

definition no_attempts :: "nat sdk" where
  "no_attempts = (sample_sdk 0)\<lparr>client := sample_client\<lparr>retry := \<lparr>maxRetries = - 1, baseDelayMs = 200\<rparr>\<rparr>\<rparr>"

theorem fetchWithRetry_negative_witness:
  "fetchWithRetry (flaky (ok_json JNull)) sample_request no_attempts = (Inl ThrownUndefined, no_attempts)"
  using fetchWithRetry_negative [of no_attempts "flaky (ok_json JNull)" sample_request]
  by (simp add: no_attempts_def)

end
