(* ===== verification/Sdk_Services.thy ===== *)
theory Sdk_Services
  imports Sdk_Client
begin

text \<open>
  The service clients of the JavaScript SDK (\<open>src/sdks/js/src/index.ts\<close>): auth, data, storage,
  push and functions. Every method is one request under the application's path; \<open>login\<close>,
  \<open>refresh\<close> and \<open>logout\<close> also change the client's access token.
\<close>

text \<open>\<open>this.client.request(method, this.client.appPath(path), options)\<close> and its binary variants.\<close>

definition app_request :: "'w fetch \<Rightarrow> string \<Rightarrow> jsstr \<Rightarrow> request_options \<Rightarrow> (exn, 'w sdk, json option) prog" where
  "app_request f method path options =
     bnd (gets client) (\<lambda>c. bnd (lift_res (appPath c path)) (\<lambda>p. request f (js method) p options))"

definition app_requestBinary :: "'w fetch \<Rightarrow> string \<Rightarrow> jsstr \<Rightarrow> (exn, 'w sdk, response) prog" where
  "app_requestBinary f method path =
     bnd (gets client) (\<lambda>c. bnd (lift_res (appPath c path)) (\<lambda>p. requestBinary f (js method) p))"

definition app_requestBinaryWithBody ::
  "'w fetch \<Rightarrow> string \<Rightarrow> jsstr \<Rightarrow> body_init \<Rightarrow> jsstr \<Rightarrow> (exn, 'w sdk, response) prog" where
  "app_requestBinaryWithBody f method path body contentType =
     bnd (gets client) (\<lambda>c. bnd (lift_res (appPath c path))
       (\<lambda>p. requestBinaryWithBody f (js method) p body contentType))"

subsection \<open>Auth\<close>

text \<open>\<open>response.access_token\<close> throws when the response is \<open>undefined\<close> or \<open>null\<close>.\<close>

definition property_of :: "string \<Rightarrow> json option \<Rightarrow> exn + json option" where
  "property_of k v = (case v of None \<Rightarrow> Inl TypeError
     | Some x \<Rightarrow> if x = JNull then Inl TypeError else Inr (member (js k) x))"

definition register :: "'w fetch \<Rightarrow> jsstr \<Rightarrow> jsstr \<Rightarrow> (exn, 'w sdk, json option) prog" where
  "register f email password = app_request f ''POST'' (js ''/auth/register'')
     (json_body (object [(''email'', Some (JStr email)), (''password'', Some (JStr password))]))"

definition login :: "'w fetch \<Rightarrow> jsstr \<Rightarrow> jsstr \<Rightarrow> (exn, 'w sdk, json option) prog" where
  "login f email password =
     bnd (app_request f ''POST'' (js ''/auth/login'')
       (json_body (object [(''email'', Some (JStr email)), (''password'', Some (JStr password))]))) (\<lambda>response.
     bnd (lift_res (property_of ''access_token'' response)) (\<lambda>t.
     bnd (setAccessToken t) (\<lambda>_. ret response)))"

definition refresh :: "'w fetch \<Rightarrow> jsstr \<Rightarrow> (exn, 'w sdk, json option) prog" where
  "refresh f refreshToken =
     bnd (app_request f ''POST'' (js ''/auth/refresh'')
       (json_body (object [(''refresh_token'', Some (JStr refreshToken))]))) (\<lambda>response.
     bnd (lift_res (property_of ''access_token'' response)) (\<lambda>t.
     bnd (setAccessToken t) (\<lambda>_. ret response)))"

definition logout :: "'w fetch \<Rightarrow> jsstr \<Rightarrow> (exn, 'w sdk, unit) prog" where
  "logout f refreshToken =
     bnd (app_request f ''POST'' (js ''/auth/logout'')
       (json_body (object [(''refresh_token'', Some (JStr refreshToken))]))) (\<lambda>_.
     setAccessToken None)"

definition me :: "'w fetch \<Rightarrow> (exn, 'w sdk, json option) prog" where
  "me f = app_request f ''GET'' (js ''/auth/me'') no_options"

subsection \<open>Data\<close>

definition listTables :: "'w fetch \<Rightarrow> (exn, 'w sdk, json option) prog" where
  "listTables f = app_request f ''GET'' (js ''/data/tables'') no_options"

definition getTable :: "'w fetch \<Rightarrow> jsstr \<Rightarrow> (exn, 'w sdk, json option) prog" where
  "getTable f table = bnd (lift_res (encodePath table)) (\<lambda>t.
     app_request f ''GET'' (js ''/data/tables/'' @ t) no_options)"

definition listRows :: "'w fetch \<Rightarrow> jsstr \<Rightarrow> (jsstr \<times> json option) list \<Rightarrow> (exn, 'w sdk, json option) prog" where
  "listRows f table params = (let query = toQuery params in
     bnd (lift_res (encodePath table)) (\<lambda>t.
     app_request f ''GET'' (js ''/data/tables/'' @ t @ js ''/rows'' @ query) no_options))"

definition createRow :: "'w fetch \<Rightarrow> jsstr \<Rightarrow> json \<Rightarrow> (exn, 'w sdk, json option) prog" where
  "createRow f table data = bnd (lift_res (encodePath table)) (\<lambda>t.
     app_request f ''POST'' (js ''/data/tables/'' @ t @ js ''/rows'') (json_body (object [(''data'', Some data)])))"

definition row_request :: "'w fetch \<Rightarrow> string \<Rightarrow> jsstr \<Rightarrow> jsstr \<Rightarrow> request_options \<Rightarrow> (exn, 'w sdk, json option) prog" where
  "row_request f method table rowId options =
     bnd (lift_res (encodePath table)) (\<lambda>t. bnd (lift_res (encodePath rowId)) (\<lambda>i.
     app_request f method (js ''/data/tables/'' @ t @ js ''/rows/'' @ i) options))"

definition getRow :: "'w fetch \<Rightarrow> jsstr \<Rightarrow> jsstr \<Rightarrow> (exn, 'w sdk, json option) prog" where
  "getRow f table rowId = row_request f ''GET'' table rowId no_options"

definition updateRow :: "'w fetch \<Rightarrow> jsstr \<Rightarrow> jsstr \<Rightarrow> json \<Rightarrow> (exn, 'w sdk, json option) prog" where
  "updateRow f table rowId data = row_request f ''PATCH'' table rowId (json_body (object [(''data'', Some data)]))"

definition deleteRow :: "'w fetch \<Rightarrow> jsstr \<Rightarrow> jsstr \<Rightarrow> (exn, 'w sdk, json option) prog" where
  "deleteRow f table rowId = row_request f ''DELETE'' table rowId no_options"

subsection \<open>Storage\<close>

definition listObjects :: "'w fetch \<Rightarrow> jsstr \<Rightarrow> jsstr option \<Rightarrow> (exn, 'w sdk, json option) prog" where
  "listObjects f bucket pre =
     bnd (lift_res (case pre of
         None \<Rightarrow> Inr []
       | Some p \<Rightarrow> if p = [] then Inr []
           else bind_res (or_throw URIError (encodeURIComponent p)) (\<lambda>q. Inr (js ''?prefix='' @ q)))) (\<lambda>query.
     bnd (lift_res (encodePath bucket)) (\<lambda>b.
     app_request f ''GET'' (js ''/storage/buckets/'' @ b @ js ''/objects'' @ query) no_options))"

text \<open>The path of an object: the key keeps its slashes, everything between them is encoded.\<close>

definition object_path :: "jsstr \<Rightarrow> jsstr \<Rightarrow> exn + jsstr" where
  "object_path bucket key = bind_res (encodePath bucket) (\<lambda>b. bind_res (encodeKey key) (\<lambda>k.
     Inr (js ''/storage/buckets/'' @ b @ js ''/objects/'' @ k)))"

definition getObject :: "'w fetch \<Rightarrow> jsstr \<Rightarrow> jsstr \<Rightarrow> (exn, 'w sdk, response) prog" where
  "getObject f bucket key = bnd (lift_res (object_path bucket key)) (\<lambda>p. app_requestBinary f ''GET'' p)"

definition putObject :: "'w fetch \<Rightarrow> jsstr \<Rightarrow> jsstr \<Rightarrow> body_init \<Rightarrow> jsstr \<Rightarrow> (exn, 'w sdk, response) prog" where
  "putObject f bucket key body contentType =
     bnd (lift_res (object_path bucket key)) (\<lambda>p. app_requestBinaryWithBody f ''PUT'' p body contentType)"

definition deleteObject :: "'w fetch \<Rightarrow> jsstr \<Rightarrow> jsstr \<Rightarrow> (exn, 'w sdk, json option) prog" where
  "deleteObject f bucket key = bnd (lift_res (object_path bucket key)) (\<lambda>p. app_request f ''DELETE'' p no_options)"

subsection \<open>Push\<close>

definition listSubscriptions :: "'w fetch \<Rightarrow> (exn, 'w sdk, json option) prog" where
  "listSubscriptions f = app_request f ''GET'' (js ''/push/subscriptions'') no_options"

definition createNtfySubscription :: "'w fetch \<Rightarrow> jsstr \<Rightarrow> (exn, 'w sdk, json option) prog" where
  "createNtfySubscription f topic = app_request f ''POST'' (js ''/push/subscriptions'')
     (json_body (object [(''topic'', Some (JStr topic))]))"

definition createWebPushSubscription :: "'w fetch \<Rightarrow> jsstr \<Rightarrow> json \<Rightarrow> (exn, 'w sdk, json option) prog" where
  "createWebPushSubscription f endpoint keys = app_request f ''POST'' (js ''/push/subscriptions'')
     (json_body (object [(''endpoint'', Some (JStr endpoint)), (''keys'', Some keys)]))"

definition deleteSubscription :: "'w fetch \<Rightarrow> number \<Rightarrow> (exn, 'w sdk, json option) prog" where
  "deleteSubscription f subscriptionId =
     app_request f ''DELETE'' (js ''/push/subscriptions/'' @ number_string subscriptionId) no_options"

definition getVapidPublicKey :: "'w fetch \<Rightarrow> (exn, 'w sdk, json option) prog" where
  "getVapidPublicKey f = app_request f ''GET'' (js ''/push/vapid-public-key'') no_options"

definition enqueueMessage :: "'w fetch \<Rightarrow> json \<Rightarrow> (exn, 'w sdk, json option) prog" where
  "enqueueMessage f payload = app_request f ''POST'' (js ''/push/messages'') (json_body payload)"

definition enqueueBatch :: "'w fetch \<Rightarrow> json list \<Rightarrow> (exn, 'w sdk, json option) prog" where
  "enqueueBatch f messages = app_request f ''POST'' (js ''/push/messages/batch'')
     (json_body (object [(''messages'', Some (JArr messages))]))"

definition getMessageStatus :: "'w fetch \<Rightarrow> number \<Rightarrow> (exn, 'w sdk, json option) prog" where
  "getMessageStatus f messageId =
     app_request f ''GET'' (js ''/push/messages/'' @ number_string messageId) no_options"

subsection \<open>Functions\<close>

definition invoke :: "'w fetch \<Rightarrow> jsstr \<Rightarrow> json \<Rightarrow> jsstr option \<Rightarrow> bool option \<Rightarrow> (exn, 'w sdk, json option) prog" where
  "invoke f endpointSlug input key async =
     bnd (lift_res (encodePath endpointSlug)) (\<lambda>e.
     app_request f ''POST'' (js ''/function-endpoints/'' @ e) (json_body (object
       [(''input'', Some input), (''api_key'', map_option JStr key), (''async_invoke'', map_option JBool async)])))"

end
