(* ===== verification/Sdk_Realtime.thy ===== *)
theory Sdk_Realtime
  imports Sdk_Client
begin

text \<open>
  \<open>PeanutRealtimeClient.subscribeTable\<close> (\<open>src/sdks/js/src/index.ts\<close>): the asynchronous reading
  loop as a state machine. Its inputs are what the stream and the caller do, in the order in which
  they happen; the caller's \<open>onEvent\<close> and \<open>onError\<close> are parameters acting on a state \<open>'h\<close> of their
  own. The lemmas show that what the handlers observe depends on the bytes received, not on how
  the network cuts them into chunks, and that the server's frames arrive complete and in order.
\<close>

subsection \<open>The subscription\<close>

text \<open>
  \<open>onEvent\<close> may throw, may call \<open>close\<close> on the subscription, and changes its own state.
\<close>

record 'h handlers =
  onEvent :: "json \<Rightarrow> 'h \<Rightarrow> exn option \<times> bool \<times> 'h"
  onError :: "(exn \<Rightarrow> 'h \<Rightarrow> 'h) option"

datatype phase = Reading | Finished | Failed

record 'h subscription =
  sub_decoder :: decoder
  sub_buffer :: jsstr
  sub_aborted :: bool
  sub_phase :: phase
  sub_user :: 'h

datatype stream_event = ReadChunk bytes | ReadDone | ReadError exn | Close

text \<open>The payload of one part: the first line that starts with \<open>data:\<close>, trimmed; \<open>None\<close> is \<open>continue\<close>.\<close>

definition part_payload :: "jsstr \<Rightarrow> jsstr option" where
  "part_payload part =
     (case List.find (\<lambda>line. js_startsWith line (js ''data:'')) (js_split [10] part) of
        None \<Rightarrow> None
      | Some dataLine \<Rightarrow>
          (let payload = js_trim (drop (length (js ''data:'')) dataLine)
           in if payload = [] then None else Some payload))"

text \<open>The loop over the complete parts: an error stops it.\<close>

fun deliver :: "'h handlers \<Rightarrow> jsstr list \<Rightarrow> bool \<Rightarrow> 'h \<Rightarrow> exn option \<times> bool \<times> 'h" where
  "deliver on [] aborted h = (None, aborted, h)"
| "deliver on (part # parts) aborted h =
     (case part_payload part of
        None \<Rightarrow> deliver on parts aborted h
      | Some payload \<Rightarrow>
          (case parse payload of
             None \<Rightarrow> (Some SyntaxError, aborted, h)
           | Some v \<Rightarrow>
               (case onEvent on v h of
                  (Some e, closes, h') \<Rightarrow> (Some e, aborted \<or> closes, h')
                | (None, closes, h') \<Rightarrow> deliver on parts (aborted \<or> closes) h')))"

text \<open>The \<open>catch\<close> clause; a thrown value that is not an \<open>Error\<close> is wrapped.\<close>

definition to_error :: "exn \<Rightarrow> exn" where
  "to_error e = (if e = ThrownUndefined then JsError (js ''undefined'') else e)"

definition fail_with :: "'h handlers \<Rightarrow> exn \<Rightarrow> 'h subscription \<Rightarrow> 'h subscription" where
  "fail_with on e s =
     (if sub_aborted s then s\<lparr>sub_phase := Failed\<rparr>
      else case onError on of
          None \<Rightarrow> s\<lparr>sub_phase := Failed\<rparr>
        | Some g \<Rightarrow> s\<lparr>sub_phase := Failed, sub_user := g (to_error e) (sub_user s)\<rparr>)"

definition on_chunk :: "'h handlers \<Rightarrow> bytes \<Rightarrow> 'h subscription \<Rightarrow> 'h subscription" where
  "on_chunk on value s =
     (let (text, d) = decode_stream (sub_decoder s) value;
          parts = js_split [10, 10] (sub_buffer s @ text);
          s' = s\<lparr>sub_decoder := d, sub_buffer := last parts\<rparr>
      in case deliver on (butlast parts) (sub_aborted s) (sub_user s) of
           (None, a, h) \<Rightarrow> s'\<lparr>sub_aborted := a, sub_user := h\<rparr>
         | (Some e, a, h) \<Rightarrow> fail_with on e (s'\<lparr>sub_aborted := a, sub_user := h\<rparr>))"

definition sub_step :: "'h handlers \<Rightarrow> stream_event \<Rightarrow> 'h subscription \<Rightarrow> 'h subscription" where
  "sub_step on ev s =
     (case ev of
        Close \<Rightarrow> s\<lparr>sub_aborted := True\<rparr>
      | ReadChunk value \<Rightarrow> if sub_phase s = Reading then on_chunk on value s else s
      | ReadDone \<Rightarrow> if sub_phase s = Reading then s\<lparr>sub_phase := Finished\<rparr> else s
      | ReadError e \<Rightarrow> if sub_phase s = Reading then fail_with on e s else s)"

definition new_subscription :: "bool \<Rightarrow> 'h \<Rightarrow> 'h subscription" where
  "new_subscription early h = \<lparr>sub_decoder = new_decoder, sub_buffer = [], sub_aborted = early,
     sub_phase = Reading, sub_user = h\<rparr>"

text \<open>
  \<open>subscribeTable\<close> up to the first read; \<open>early\<close> says whether \<open>close\<close> was called while the
  response was pending. An encoding error of the path is thrown to the caller.
\<close>

definition subscribeTable ::
  "'w fetch \<Rightarrow> 'h handlers \<Rightarrow> jsstr \<Rightarrow> bool \<Rightarrow> 'h \<Rightarrow> (exn, 'w sdk, 'h subscription) prog" where
  "subscribeTable f on table early h =
     bnd (lift_res (encodePath table)) (\<lambda>t.
     bnd (gets client) (\<lambda>c.
     bnd (lift_res (appPath c (js ''/data/tables/'' @ t @ js ''/events/stream''))) (\<lambda>path.
     try_catch
       (bnd (streamRequest f path) (\<lambda>response.
        case resp_stream response of
          None \<Rightarrow> throw (JsError (js ''Streaming response body unavailable''))
        | Some _ \<Rightarrow> ret (new_subscription early h)))
       (\<lambda>e. ret (fail_with on e (new_subscription early h))))))"

subsection \<open>Independence of chunking\<close>

text \<open>
  What a user of the subscription can observe, and its specification over the whole text received:
  the parts before the last separator, delivered in order until an error.
\<close>

definition observe :: "'h subscription \<Rightarrow> phase \<times> bool \<times> 'h" where
  "observe s = (sub_phase s, sub_aborted s, sub_user s)"

definition deliver_all :: "'h handlers \<Rightarrow> jsstr list \<Rightarrow> bool \<Rightarrow> 'h \<Rightarrow> phase \<times> bool \<times> 'h" where
  "deliver_all on parts aborted h =
     (case deliver on parts aborted h of
        (None, a, h') \<Rightarrow> (Reading, a, h')
      | (Some e, a, h') \<Rightarrow> (Failed, a, if a then h' else case onError on of None \<Rightarrow> h' | Some g \<Rightarrow> g (to_error e) h'))"

lemma deliver_append:
  "deliver on (ps @ qs) a h =
     (case deliver on ps a h of (None, a', h') \<Rightarrow> deliver on qs a' h' | r \<Rightarrow> r)"
  by (induction on ps a h rule: deliver.induct) (auto split: option.split prod.split)

lemma observe_on_chunk:
  "sub_phase s = Reading \<Longrightarrow> observe (on_chunk on bs s) =
     deliver_all on (butlast (js_split [10, 10] (sub_buffer s @ fst (decode_stream (sub_decoder s) bs))))
       (sub_aborted s) (sub_user s)"
  by (auto simp: observe_def on_chunk_def deliver_all_def fail_with_def Let_def split: prod.split option.split)

definition one_part :: "'h subscription \<Rightarrow> bool" where
  "one_part s \<longleftrightarrow> js_split [10, 10] (sub_buffer s) = [sub_buffer s]"

lemma js_split_last: "sep \<noteq> [] \<Longrightarrow> js_split sep (last (js_split sep s)) = [last (js_split sep s)]"
  using js_split_append [of sep s "[]"]
  by (metis append_Nil2 append_butlast_last_id js_split_not_Nil same_append_eq)

lemma buffer_on_chunk: "sub_buffer (on_chunk on bs s) = last (js_split [10, 10] (sub_buffer s @ fst (decode_stream (sub_decoder s) bs)))"
  by (auto simp: on_chunk_def Let_def fail_with_def split: prod.split option.split)

lemma decoder_on_chunk: "sub_decoder (on_chunk on bs s) = snd (decode_stream (sub_decoder s) bs)"
  by (auto simp: on_chunk_def Let_def fail_with_def split: prod.split option.split)

lemma one_part_on_chunk: "one_part (on_chunk on bs s)"
  by (simp add: one_part_def buffer_on_chunk js_split_last)

lemma sub_step_chunk:
  "sub_phase s = Reading \<Longrightarrow> sub_step on (ReadChunk bs) s = on_chunk on bs s"
  "sub_phase s \<noteq> Reading \<Longrightarrow> sub_step on (ReadChunk bs) s = s"
  by (simp_all add: sub_step_def)

lemma observe_chunks:
  assumes "sub_phase s = Reading" "one_part s"
  shows "observe (fold (sub_step on) (map ReadChunk cs) s) = observe (sub_step on (ReadChunk (concat cs)) s)"
  using assms
proof (induction cs arbitrary: s)
  case Nil
  then show ?case
    by (simp add: sub_step_chunk observe_on_chunk decode_stream_def one_part_def) (simp add: deliver_all_def observe_def)
next
  case (Cons c cs)
  let ?s = "on_chunk on c s" and ?sep = "[10, 10] :: jsstr"
  let ?t = "fst (decode_stream (sub_decoder s) c)"
  let ?u = "fst (decode_stream (sub_decoder ?s) (concat cs))"
  let ?ps = "butlast (js_split ?sep (sub_buffer s @ ?t))"
  let ?qs = "butlast (js_split ?sep (sub_buffer ?s @ ?u))"
  have parts: "butlast (js_split ?sep (sub_buffer s @ ?t @ ?u)) = ?ps @ ?qs"
    using js_split_append [of ?sep "sub_buffer s @ ?t" ?u] by (simp add: buffer_on_chunk butlast_append)
  have whole: "observe (on_chunk on (c @ concat cs) s) = deliver_all on (?ps @ ?qs) (sub_aborted s) (sub_user s)"
    using Cons.prems(1) parts by (simp add: observe_on_chunk decode_stream_append decoder_on_chunk)
  have first: "observe ?s = deliver_all on ?ps (sub_aborted s) (sub_user s)"
    using Cons.prems(1) by (rule observe_on_chunk)
  show ?case
  proof (cases "sub_phase ?s = Reading")
    case True
    have "observe (fold (sub_step on) (map ReadChunk cs) ?s) = deliver_all on ?qs (sub_aborted ?s) (sub_user ?s)"
      using Cons.IH [OF True one_part_on_chunk] True by (simp add: sub_step_chunk observe_on_chunk)
    also have "\<dots> = deliver_all on (?ps @ ?qs) (sub_aborted s) (sub_user s)"
      using first True by (auto simp: observe_def deliver_all_def deliver_append split: prod.splits option.splits)
    finally show ?thesis using Cons.prems(1) whole by (simp add: sub_step_chunk)
  next
    case False
    have stop: "observe (fold (sub_step on) (map ReadChunk ds) ?s) = observe ?s" for ds
      using False by (induction ds) (simp_all add: sub_step_chunk)
    have "deliver_all on (?ps @ ?qs) (sub_aborted s) (sub_user s) = observe ?s"
      using first False by (auto simp: observe_def deliver_all_def deliver_append split: prod.splits option.splits)
    then show ?thesis using Cons.prems(1) whole stop by (simp add: sub_step_chunk)
  qed
qed

subsection \<open>The server's frames\<close>

text \<open>
  The event stream of the server: an event frame with its payload on one \<open>data:\<close> line, or the
  keep-alive comment.
\<close>

fun server_frame :: "jsstr option \<Rightarrow> jsstr" where
  "server_frame (Some p) = js ''event: data.row_changed'' @ [10] @ js ''data: '' @ p @ [10, 10]"
| "server_frame None = js '':'' @ [10, 10]"

fun frame_body :: "jsstr option \<Rightarrow> jsstr" where
  "frame_body (Some p) = js ''event: data.row_changed'' @ [10] @ js ''data: '' @ p"
| "frame_body None = js '':''"

lemma server_frame_body: "server_frame x = frame_body x @ [10, 10]"
  by (cases x) simp_all

text \<open>A text without an empty line, not ending in a line break.\<close>

fun no_empty_line :: "jsstr \<Rightarrow> bool" where
  "no_empty_line [] = True"
| "no_empty_line [c] = (c \<noteq> 10)"
| "no_empty_line (c # d # cs) = ((c \<noteq> 10 \<or> d \<noteq> 10) \<and> no_empty_line (d # cs))"

lemma break_no_empty_line: "no_empty_line a \<Longrightarrow> breakStr [10, 10] (a @ 10 # 10 # b) = Some (a, b)"
  by (induction a rule: no_empty_line.induct) auto

lemma no_empty_line_free: "10 \<notin> set p \<Longrightarrow> no_empty_line p"
  by (induction p rule: no_empty_line.induct) auto

lemma no_empty_line_append: "no_empty_line a \<Longrightarrow> no_empty_line b \<Longrightarrow> no_empty_line (a @ b)"
proof (induction a rule: no_empty_line.induct)
  case (2 c)
  then show ?case by (cases b) auto
qed auto

lemma frame_body_no_empty_line: "pred_option (\<lambda>p. 10 \<notin> set p) x \<Longrightarrow> no_empty_line (frame_body x)"
proof (cases x)
  case (Some p)
  assume "pred_option (\<lambda>p. 10 \<notin> set p) x"
  then have "no_empty_line p" using Some by (simp add: no_empty_line_free)
  then show ?thesis using Some
    using no_empty_line_append [of "js ''event: data.row_changed'' @ [10] @ js ''data: ''" p]
    by (simp add: js_def cu_def)
qed (simp add: js_def cu_def)

lemma split_frames:
  assumes "list_all (pred_option (\<lambda>p. 10 \<notin> set p)) xs"
  shows "js_split [10, 10] (concat (map server_frame xs)) = map frame_body xs @ [[]]"
  using assms
proof (induction xs)
  case Nil
  then show ?case by (simp add: js_split.simps)
next
  case (Cons x xs)
  then show ?case
    using break_no_empty_line [OF frame_body_no_empty_line, of x "concat (map server_frame xs)"]
    by (subst js_split.simps) (simp add: server_frame_body [of x])
qed

lemma part_payload_frame:
  assumes "10 \<notin> set p"
  shows "part_payload (frame_body (Some p)) = (if js_trim (32 # p) = [] then None else Some (js_trim (32 # p)))"
proof -
  have "10 \<notin> set (js ''event: data.row_changed'')" "10 \<notin> set (js ''data: '' @ p)"
    using assms by (simp_all add: js_def cu_def)
  then have "js_split [10] (frame_body (Some p)) = [js ''event: data.row_changed'', js ''data: '' @ p]"
    using js_split_join [of "[js ''event: data.row_changed'', js ''data: '' @ p]" 10] by simp
  then show ?thesis
    by (simp add: part_payload_def js_startsWith_def js_def cu_def)
qed

lemma part_payload_keep_alive: "part_payload (frame_body None) = None"
  by (simp add: part_payload_def js_startsWith_def js_def cu_def)

lemma trim_space: "js_trim (32 # p) = js_trim p"
  by (simp add: js_trim_def js_space_def)

lemma deliver_frames:
  assumes "\<And>v h. onEvent on v h = (None, False, g v h)"
    and "list_all2 (\<lambda>p v. 10 \<notin> set p \<and> parse (js_trim p) = Some v) (List.map_filter (\<lambda>x. x) xs) vs"
  shows "deliver on (map frame_body xs) a h = (None, a, fold g vs h)"
  using assms(2)
proof (induction xs arbitrary: vs h)
  case (Cons x xs)
  show ?case
  proof (cases x)
    case None
    then show ?thesis using Cons by (simp add: part_payload_keep_alive List.map_filter_simps del: frame_body.simps)
  next
    case (Some p)
    then obtain v ws where v: "vs = v # ws" "10 \<notin> set p" "parse (js_trim p) = Some v"
      and ws: "list_all2 (\<lambda>p v. 10 \<notin> set p \<and> parse (js_trim p) = Some v) (List.map_filter (\<lambda>x. x) xs) ws"
      using Cons.prems by (auto simp: List.map_filter_simps list_all2_Cons1)
    have "js_trim p \<noteq> []" using v(3) by (auto simp: parse_def value_step_def skip_def)
    then have "part_payload (frame_body (Some p)) = Some (js_trim p)"
      using v(2) part_payload_frame by (simp add: trim_space)
    then show ?thesis using Some v Cons.IH [OF ws] assms(1) by (simp del: frame_body.simps)
  qed
qed (simp add: List.map_filter_simps)

lemma decode_new_ascii:
  assumes "n < 128"
  shows "decode_stream new_decoder (utf8_bytes [n]) = ([of_nat n], new_decoder\<lparr>bom_seen := True\<rparr>)"
proof -
  have "unat (of_nat n :: 8 word) = n" using assms by (simp add: unat_of_nat)
  then show ?thesis using assms
    by (simp add: decode_stream_def utf8_bytes_def utf8_def decode_byte_def lead_byte_def emit_def
        new_decoder_def utf16_def del: unsigned_of_nat)
qed

lemma decode_new_text:
  assumes "code_points s = Some cps" "s = [] \<or> unat (hd s) < 128"
  shows "fst (decode_stream new_decoder (utf8_bytes cps)) = s"
proof (cases s)
  case Nil
  then show ?thesis using assms by (simp add: decode_stream_def utf8_bytes_def)
next
  case (Cons c s')
  let ?d = "new_decoder\<lparr>bom_seen := True\<rparr>"
  have c: "unat c < 128" using assms(2) Cons by simp
  then obtain cps' where cps': "code_points s' = Some cps'" "cps = unat c # cps'"
    using assms(1) Cons by (auto simp: high_surrogate_def low_surrogate_def split: list.splits)
  have "decode_stream new_decoder (utf8_bytes [unat c]) = ([c], ?d)"
    using decode_new_ascii [OF c] by simp
  moreover have "decode_stream ?d (utf8_bytes cps') = (s', ?d)"
    using cps'(1) by (intro decode_stream_utf8_bytes) (simp_all add: idle_def new_decoder_def)
  moreover have "utf8_bytes cps = utf8_bytes [unat c] @ utf8_bytes cps'"
    using cps'(2) by (simp add: utf8_bytes_def)
  ultimately show ?thesis using Cons by (simp add: decode_stream_append)
qed

lemma frames_start: "concat (map server_frame xs) = [] \<or> unat (hd (concat (map server_frame xs))) < 128"
proof (cases xs)
  case (Cons x ys)
  then show ?thesis by (cases x) (simp_all add: js_def cu_def)
qed simp

lemma frames_observed:
  assumes "\<And>v h. onEvent on v h = (None, False, g v h)"
    and "list_all2 (\<lambda>p v. 10 \<notin> set p \<and> parse (js_trim p) = Some v) (List.map_filter (\<lambda>x. x) xs) vs"
    and "code_points (concat (map server_frame xs)) = Some cps" and "concat cs = utf8_bytes cps"
  shows "observe (fold (sub_step on) (map ReadChunk cs) (new_subscription False h)) = (Reading, False, fold g vs h)"
proof -
  let ?s = "new_subscription False h"
  have free: "list_all (pred_option (\<lambda>p. 10 \<notin> set p)) xs"
    using assms(2)
  proof (induction xs arbitrary: vs)
    case (Cons x xs)
    then show ?case by (cases x) (auto simp: List.map_filter_simps list_all2_Cons1)
  qed simp
  have start: "sub_phase ?s = Reading" "one_part ?s"
    by (simp_all add: new_subscription_def one_part_def js_split.simps)
  have "fst (decode_stream new_decoder (concat cs)) = concat (map server_frame xs)"
    using decode_new_text [OF assms(3) frames_start] assms(4) by simp
  then have "observe (on_chunk on (concat cs) ?s) = deliver_all on (map frame_body xs) False h"
    using split_frames [OF free] observe_on_chunk [OF start(1)]
    by (simp add: new_subscription_def butlast_append)
  also have "\<dots> = (Reading, False, fold g vs h)"
    using deliver_frames [OF assms(1,2)] by (simp add: deliver_all_def)
  finally show ?thesis using observe_chunks [OF start] start(1) by (simp add: sub_step_chunk)
qed

subsection \<open>Closing\<close>

lemma step_ended:
  assumes "sub_phase s \<noteq> Reading"
  shows "sub_phase (sub_step on ev s) = sub_phase s" "sub_user (sub_step on ev s) = sub_user s"
  using assms by (auto simp: sub_step_def split: stream_event.split)

lemma run_ended:
  assumes "sub_phase s \<noteq> Reading"
  shows "sub_phase (fold (sub_step on) evs s) = sub_phase s \<and> sub_user (fold (sub_step on) evs s) = sub_user s"
  using assms by (induction evs arbitrary: s) (simp_all add: step_ended)

lemma fail_with_aborted: "sub_aborted s \<Longrightarrow> fail_with on e s = s\<lparr>sub_phase := Failed\<rparr>"
  by (simp add: fail_with_def)

lemma fail_with_ended: "sub_phase (fail_with on e s) = Failed"
  by (simp add: fail_with_def split: option.split)

subsection \<open>Properties\<close>

text \<open>A subscription that collects the events it receives and the errors it is told about.\<close>

definition collector :: "(json list \<times> exn list) handlers" where
  "collector = \<lparr>onEvent = \<lambda>v (vs, es). (None, False, (vs @ [v], es)), onError = Some (\<lambda>e (vs, es). (vs, es @ [e]))\<rparr>"

lemma fold_collect: "fold (\<lambda>v (vs, es). (vs @ [v], es)) ws (vs, es) = (vs @ ws, es)"
  by (induction ws arbitrary: vs) simp_all

text \<open>
  C3: what the handlers of \<open>subscribeTable\<close> observe (the events, the error, the end) depends only on
  the bytes received: any division of the same bytes into chunks, even inside a UTF-8 sequence or a
  separator, gives the same calls in the same order, also when a payload is malformed or a handler
  throws.
\<close>

theorem subscription_chunk_independent:
  assumes "concat cs = concat ds"
  shows "observe (fold (sub_step on) (map ReadChunk cs) (new_subscription early h)) =
    observe (fold (sub_step on) (map ReadChunk ds) (new_subscription early h))"
proof -
  have "sub_phase (new_subscription early h) = Reading" "one_part (new_subscription early h)"
    by (simp_all add: new_subscription_def one_part_def js_split.simps)
  then show ?thesis using assms by (simp add: observe_chunks)
qed

theorem subscription_chunk_independent_witness:
  "observe (fold (sub_step collector) (map ReadChunk [[100], [97, 116, 97], [58, 49, 10, 10]]) (new_subscription False ([], []))) =
   observe (fold (sub_step collector) (map ReadChunk [[100, 97, 116, 97, 58, 49, 10], [10]]) (new_subscription False ([], [])))"
  by (rule subscription_chunk_independent) simp

text \<open>
  C10: when the server sends event frames (with keep-alive comments anywhere between them) and the
  handler does not throw, \<open>onEvent\<close> is called exactly once per event frame, in order, with the value
  of its payload; no error is reported and the subscription keeps reading. The bytes may arrive in
  any chunks.
\<close>

theorem subscription_delivers_frames:
  assumes "list_all2 (\<lambda>p v. 10 \<notin> set p \<and> parse (js_trim p) = Some v) (List.map_filter (\<lambda>x. x) xs) vs"
    and "code_points (concat (map server_frame xs)) = Some cps" "concat cs = utf8_bytes cps"
  shows "observe (fold (sub_step collector) (map ReadChunk cs) (new_subscription False ([], []))) =
    (Reading, False, (vs, []))"
  using frames_observed [of collector "\<lambda>v (vs, es). (vs @ [v], es)", OF _ assms] fold_collect [of vs "[]" "[]"]
  by (simp add: collector_def split: prod.split)

theorem subscription_delivers_frames_witness:
  "\<exists>cps. code_points (concat (map server_frame [Some (js ''[1]''), None, Some (js ''{}'')])) = Some cps \<and>
    observe (fold (sub_step collector) (map (\<lambda>b. ReadChunk [b]) (utf8_bytes cps)) (new_subscription False ([], []))) =
    (Reading, False, ([JArr [JNum (Fin 1 0)], JObj []], []))"
proof -
  let ?xs = "[Some (js ''[1]''), None, Some (js ''{}'')]"
  have "concat (map server_frame ?xs) = js (concat [''event: data.row_changed'', [CHR 0x0A], ''data: [1]'', [CHR 0x0A, CHR 0x0A],
      '':'', [CHR 0x0A, CHR 0x0A], ''event: data.row_changed'', [CHR 0x0A], ''data: {}'', [CHR 0x0A, CHR 0x0A]])"
    by (simp add: js_def cu_def)
  then have "code_points (concat (map server_frame ?xs)) \<noteq> None"
    by (simp add: js_def cu_def high_surrogate_def low_surrogate_def)
  then obtain cps where cps: "code_points (concat (map server_frame ?xs)) = Some cps" by blast
  have parse: "parse (js ''[1]'') = Some (JArr [JNum (Fin 1 0)])" "parse (js ''{}'') = Some (JObj [])" by code_simp+
  have trim: "js_trim (js ''[1]'') = js ''[1]''" "js_trim (js ''{}'') = js ''{}''" by code_simp+
  have free: "10 \<notin> set (js ''[1]'')" "10 \<notin> set (js ''{}'')" by (simp_all add: js_def cu_def)
  have "concat (map (\<lambda>b. [b]) (utf8_bytes cps)) = utf8_bytes cps" by simp
  from subscription_delivers_frames [OF _ cps this, of "[JArr [JNum (Fin 1 0)], JObj []]"]
  show ?thesis using cps parse trim free by (simp add: List.map_filter_simps comp_def)
qed

text \<open>
  Closing silences errors: once the caller has closed the subscription, a failing read ends it
  without a call to \<open>onError\<close>, and nothing that happens afterwards changes the handlers' state.
\<close>

theorem subscription_close_silent:
  assumes "sub_phase s = Reading"
  shows "sub_user (fold (sub_step on) (Close # ReadError e # evs) s) = sub_user s
    \<and> sub_phase (fold (sub_step on) (Close # ReadError e # evs) s) = Failed"
proof -
  let ?s = "sub_step on (ReadError e) (sub_step on Close s)"
  have "?s = s\<lparr>sub_aborted := True, sub_phase := Failed\<rparr>"
    using assms by (simp add: sub_step_def fail_with_aborted)
  then show ?thesis using run_ended [of ?s on evs] by simp
qed

theorem subscription_close_silent_witness:
  "sub_user (fold (sub_step collector) [Close, ReadError (FetchFailure (js ''AbortError'')), ReadDone] (new_subscription False ([], []))) = ([], [])"
  using subscription_close_silent [of "new_subscription False ([], [])" collector "FetchFailure (js ''AbortError'')" "[ReadDone]"]
  by (simp add: new_subscription_def)

text \<open>
  An error that ends an open subscription is reported to \<open>onError\<close> exactly once: after the read
  that failed, no event changes the list of reported errors again.
\<close>

theorem subscription_error_once:
  assumes "sub_phase s = Reading" "\<not> sub_aborted s" "sub_user s = (vs, es)"
  shows "sub_user (fold (sub_step collector) (ReadError e # evs) s) = (vs, es @ [to_error e])"
proof -
  let ?s = "sub_step collector (ReadError e) s"
  have "sub_user ?s = (vs, es @ [to_error e])" "sub_phase ?s = Failed"
    using assms by (simp_all add: sub_step_def fail_with_def collector_def)
  then show ?thesis using run_ended [of ?s collector evs] by simp
qed

theorem subscription_error_once_witness:
  "sub_user (fold (sub_step collector) [ReadError SyntaxError, ReadError TypeError] (new_subscription False ([], []))) =
    ([], [to_error SyntaxError])"
  using subscription_error_once [of "new_subscription False ([], [])" "[]" "[]" SyntaxError "[ReadError TypeError]"]
  by (simp add: new_subscription_def)

end
