(* ===== verification/Sdk_Session.thy ===== *)
theory Sdk_Session
  imports Sdk_Services Sdk_Realtime
begin

text \<open>
  Sessions of the JavaScript SDK: every method a caller can use as one datatype, and what holds
  along every sequence of calls, whatever the server answers. Every request stays within the
  application's path, carries the API key, and carries the bearer token the client held when the
  method was called.
\<close>

datatype sdk_op =
    Register jsstr jsstr | Login jsstr jsstr | Refresh jsstr | Logout jsstr | Me
  | ListTables | GetTable jsstr | ListRows jsstr "(jsstr \<times> json option) list"
  | CreateRow jsstr json | GetRow jsstr jsstr | UpdateRow jsstr jsstr json | DeleteRow jsstr jsstr
  | ListObjects jsstr "jsstr option" | GetObject jsstr jsstr
  | PutObject jsstr jsstr body_init jsstr | DeleteObject jsstr jsstr
  | ListSubscriptions | CreateNtfySubscription jsstr | CreateWebPushSubscription jsstr json
  | DeleteSubscription number | GetVapidPublicKey | EnqueueMessage json | EnqueueBatch "json list"
  | GetMessageStatus number
  | Invoke jsstr json "jsstr option" "bool option"
  | SubscribeTable jsstr
  | SetAccessToken "jsstr option"

datatype sdk_result = Value "json option" | Binary response | Unit | Subscription

definition as_value :: "(exn, 'w sdk, json option) prog \<Rightarrow> (exn, 'w sdk, sdk_result) prog" where
  "as_value m = bnd m (\<lambda>v. ret (Value v))"

definition as_binary :: "(exn, 'w sdk, response) prog \<Rightarrow> (exn, 'w sdk, sdk_result) prog" where
  "as_binary m = bnd m (\<lambda>r. ret (Binary r))"

definition as_unit :: "(exn, 'w sdk, unit) prog \<Rightarrow> (exn, 'w sdk, sdk_result) prog" where
  "as_unit m = bnd m (\<lambda>_. ret Unit)"

definition no_handlers :: "unit handlers" where
  "no_handlers = \<lparr>onEvent = \<lambda>v h. (None, False, h), onError = None\<rparr>"

fun exec :: "'w fetch \<Rightarrow> sdk_op \<Rightarrow> (exn, 'w sdk, sdk_result) prog" where
  "exec f (Register email password) = as_value (register f email password)"
| "exec f (Login email password) = as_value (login f email password)"
| "exec f (Refresh t) = as_value (refresh f t)"
| "exec f (Logout t) = as_unit (logout f t)"
| "exec f Me = as_value (me f)"
| "exec f ListTables = as_value (listTables f)"
| "exec f (GetTable table) = as_value (getTable f table)"
| "exec f (ListRows table params) = as_value (listRows f table params)"
| "exec f (CreateRow table data) = as_value (createRow f table data)"
| "exec f (GetRow table rowId) = as_value (getRow f table rowId)"
| "exec f (UpdateRow table rowId data) = as_value (updateRow f table rowId data)"
| "exec f (DeleteRow table rowId) = as_value (deleteRow f table rowId)"
| "exec f (ListObjects bucket pre) = as_value (listObjects f bucket pre)"
| "exec f (GetObject bucket key) = as_binary (getObject f bucket key)"
| "exec f (PutObject bucket key body contentType) = as_binary (putObject f bucket key body contentType)"
| "exec f (DeleteObject bucket key) = as_value (deleteObject f bucket key)"
| "exec f ListSubscriptions = as_value (listSubscriptions f)"
| "exec f (CreateNtfySubscription topic) = as_value (createNtfySubscription f topic)"
| "exec f (CreateWebPushSubscription endpoint keys) = as_value (createWebPushSubscription f endpoint keys)"
| "exec f (DeleteSubscription i) = as_value (deleteSubscription f i)"
| "exec f GetVapidPublicKey = as_value (getVapidPublicKey f)"
| "exec f (EnqueueMessage payload) = as_value (enqueueMessage f payload)"
| "exec f (EnqueueBatch messages) = as_value (enqueueBatch f messages)"
| "exec f (GetMessageStatus i) = as_value (getMessageStatus f i)"
| "exec f (Invoke slug input key async) = as_value (invoke f slug input key async)"
| "exec f (SubscribeTable table) = bnd (subscribeTable f no_handlers table False ()) (\<lambda>_. ret Subscription)"
| "exec f (SetAccessToken t) = as_unit (setAccessToken (map_option JStr t))"

subsection \<open>Requests stay in the application and carry the credentials\<close>

text \<open>
  A request in the name of client \<open>c\<close>: under the base URL and the encoded application id, with the
  API key and exactly the bearer token \<open>c\<close> holds.
\<close>

definition authorised :: "sdk_client \<Rightarrow> request \<Rightarrow> bool" where
  "authorised c r \<longleftrightarrow> in_app (baseUrl c) (appId c) (req_url r) \<and> carries c (req_headers r)"

lemma appPath_in_app:
  "appPath c (47 # p) = Inr path \<Longrightarrow> in_app (baseUrl c) (appId c) (baseUrl c @ path)"
  by (auto simp: appPath_def bind_res_eq_Inr in_app_def app_root_def)

lemma addressed_authorised: "appPath c (47 # p) = Inr path \<Longrightarrow> addressed c path r \<Longrightarrow> authorised c r"
  by (simp add: authorised_def addressed_def appPath_in_app)

lemma sends_app_request [appends_intros]:
  "opt_headers options = [] \<Longrightarrow> sends (authorised (client s)) (app_request f method (47 # p) options) s"
  unfolding app_request_def
  by (intro appends_intros appends_mono [OF sends_request]) (simp_all add: addressed_authorised)

lemma sends_app_requestBinary [appends_intros]:
  "sends (authorised (client s)) (app_requestBinary f method (47 # p)) s"
  unfolding app_requestBinary_def
  by (intro appends_intros appends_mono [OF sends_requestBinary]) (simp add: addressed_authorised)

lemma sends_app_requestBinaryWithBody [appends_intros]:
  "sends (authorised (client s)) (app_requestBinaryWithBody f method (47 # p) body t) s"
  unfolding app_requestBinaryWithBody_def
  by (intro appends_intros appends_mono [OF sends_requestBinaryWithBody]) (simp add: addressed_authorised)

lemma opt_headers_simps [simp]: "opt_headers no_options = []" "opt_headers (json_body v) = []"
  by (simp_all add: no_options_def json_body_def)

lemma js_slash: "js (CHR ''/'' # p) = 47 # js p"
  by (simp add: js_def cu_def)

lemmas service_defs = register_def login_def refresh_def logout_def me_def listTables_def getTable_def
  listRows_def createRow_def row_request_def getRow_def updateRow_def deleteRow_def listObjects_def
  getObject_def putObject_def deleteObject_def listSubscriptions_def createNtfySubscription_def
  createWebPushSubscription_def deleteSubscription_def getVapidPublicKey_def enqueueMessage_def
  enqueueBatch_def getMessageStatus_def invoke_def

lemma object_path_slash: "object_path b k = Inr p \<Longrightarrow> \<exists>q. p = 47 # q"
  by (auto simp: object_path_def bind_res_eq_Inr js_slash)

lemma sends_subscribeTable:
  "sends (authorised (client s)) (subscribeTable f on table early h) s"
proof -
  have "sends (authorised (client s)) (streamRequest f path) s"
    if "appPath (client s) (js ''/data/tables/'' @ t @ js ''/events/stream'') = Inr path" for t path
    using that by (intro appends_mono [OF sends_streamRequest] addressed_authorised) (auto simp: js_slash)
  then show ?thesis unfolding subscribeTable_def
    by (intro appends_intros) auto
qed

lemma sends_object_request:
  assumes "\<And>p. sends P (k (47 # p)) s"
  shows "sends P (bnd (lift_res (object_path b key)) k) s"
proof (rule appends_bnd_lift)
  fix p
  assume "object_path b key = Inr p"
  then obtain q where "p = 47 # q" using object_path_slash by blast
  then show "sends P (k p) s" using assms by simp
qed

lemma sends_exec: "sends (authorised (client s)) (exec f op) s"
proof (cases op)
  case (SubscribeTable table)
  then show ?thesis by (auto intro!: appends_bnd_any sends_subscribeTable appends_ret)
qed (auto simp: as_value_def as_binary_def as_unit_def service_defs js_slash Let_def
    intro!: appends_intros sends_object_request)

interpretation sdk: logged_client "exec f" "\<lambda>_. True" sent "\<lambda>s. cfg (client s)"
  "\<lambda>(base, app, key) r. in_app base app (req_url r)
     \<and> headers_get (js ''X-Peanut-Api-Key'') (req_headers r) = Some (header_value key)"
proof unfold_locales
  fix op and s :: "'a sdk"
  have "sends (authorised (client s)) (exec f op) s" by (rule sends_exec)
  then show "cfg (client (snd (exec f op s))) = cfg (client s)"
    and "\<exists>rs. sent (snd (exec f op s)) = sent s @ rs \<and>
      list_all ((\<lambda>(base, app, key) r. in_app base app (req_url r)
        \<and> headers_get (js ''X-Peanut-Api-Key'') (req_headers r) = Some (header_value key)) (cfg (client s))) rs"
    by (auto simp: appends_def cfg_def authorised_def carries_def list_all_iff)
qed

subsection \<open>The access token\<close>

text \<open>The token a client holds after an operation, from the operation, its result and the old token.\<close>

definition token_of :: "sdk_result \<Rightarrow> json option \<Rightarrow> json option" where
  "token_of x old = (case x of Value (Some v) \<Rightarrow> member (js ''access_token'') v | _ \<Rightarrow> old)"

definition token_after :: "sdk_op \<Rightarrow> exn + sdk_result \<Rightarrow> json option \<Rightarrow> json option" where
  "token_after op r old = (case r of Inl _ \<Rightarrow> old
     | Inr x \<Rightarrow> (case op of Login _ _ \<Rightarrow> token_of x old | Refresh _ \<Rightarrow> token_of x old
                | Logout _ \<Rightarrow> None | SetAccessToken t \<Rightarrow> map_option JStr t | _ \<Rightarrow> old))"

lemma token_after_Inl [simp]: "token_after op (Inl e) old = old"
  by (simp add: token_after_def)

lemma token_after_Inr [simp]:
  "token_after (Login e p) (Inr x) old = token_of x old" "token_after (Refresh t) (Inr x) old = token_of x old"
  "token_after (Logout t) (Inr x) old = None" "token_after (SetAccessToken u) (Inr x) old = map_option JStr u"
  by (simp_all add: token_after_def)

text \<open>Computations that leave the client alone.\<close>

definition keeps_client :: "(exn, 'w sdk, 'a) prog \<Rightarrow> bool" where
  "keeps_client m \<longleftrightarrow> (\<forall>s. client (snd (m s)) = client s)"

named_theorems keeps_intros \<open>structural rules for \<open>keeps_client\<close>\<close>

lemma keeps_basic [keeps_intros]:
  "keeps_client (ret x)" "keeps_client (throw e)" "keeps_client (lift_res y)" "keeps_client (gets g)"
  by (simp_all add: keeps_client_def prog_simps)

lemma keeps_bnd [keeps_intros]: "keeps_client m \<Longrightarrow> (\<And>x. keeps_client (k x)) \<Longrightarrow> keeps_client (bnd m k)"
  by (auto simp: keeps_client_def bnd_def split: prod.split sum.split) (metis snd_conv)+

lemma keeps_try_catch [keeps_intros]:
  "keeps_client m \<Longrightarrow> (\<And>e. keeps_client (h e)) \<Longrightarrow> keeps_client (try_catch m h)"
  by (auto simp: keeps_client_def try_catch_def split: prod.split sum.split) (metis snd_conv)+

lemma keeps_if [keeps_intros]: "keeps_client m \<Longrightarrow> keeps_client n \<Longrightarrow> keeps_client (if b then m else n)"
  by simp

lemma keeps_case_option [keeps_intros]:
  "keeps_client m \<Longrightarrow> (\<And>y. keeps_client (k y)) \<Longrightarrow> keeps_client (case x of None \<Rightarrow> m | Some y \<Rightarrow> k y)"
  by (cases x) simp_all

lemma keeps_fetch [keeps_intros]: "keeps_client (fetchImpl f r)" "keeps_client (fetchWithRetry f r)"
  using fetchWithRetry_log [of f r] by (auto simp: keeps_client_def fetchImpl_eq)

lemma keeps_requests [keeps_intros]:
  "keeps_client (ok_or_throw response)"
  "keeps_client (request f method path options)" "keeps_client (requestBinary f method path)"
  "keeps_client (requestBinaryWithBody f method path body t)" "keeps_client (streamRequest f path)"
  by (unfold ok_or_throw_def request_def requestBinary_def requestBinaryWithBody_def streamRequest_def)
    (intro keeps_intros)+

lemma keeps_app_requests [keeps_intros]:
  "keeps_client (app_request f m p options)" "keeps_client (app_requestBinary f m p)"
  "keeps_client (app_requestBinaryWithBody f m p body t)" "keeps_client (subscribeTable f on table early h)"
  by (unfold app_request_def app_requestBinary_def app_requestBinaryWithBody_def subscribeTable_def)
    (intro keeps_intros)+

lemma keeps_services:
  "keeps_client (register f e p)" "keeps_client (me f)" "keeps_client (listTables f)" "keeps_client (getTable f t)"
  "keeps_client (listRows f t ps)" "keeps_client (createRow f t v)" "keeps_client (getRow f t i)"
  "keeps_client (updateRow f t i v)" "keeps_client (deleteRow f t i)" "keeps_client (listObjects f b pre)"
  "keeps_client (getObject f b k)" "keeps_client (putObject f b k body ct)" "keeps_client (deleteObject f b k)"
  "keeps_client (listSubscriptions f)" "keeps_client (createNtfySubscription f t)"
  "keeps_client (createWebPushSubscription f t v)" "keeps_client (deleteSubscription f n)"
  "keeps_client (getVapidPublicKey f)" "keeps_client (enqueueMessage f v)" "keeps_client (enqueueBatch f vs)"
  "keeps_client (getMessageStatus f n)" "keeps_client (invoke f t v key async)"
  unfolding service_defs Let_def by (intro keeps_intros)+

lemma keeps_as_value: "keeps_client m \<Longrightarrow> client (snd (as_value m s)) = client s"
  and keeps_as_binary: "keeps_client m' \<Longrightarrow> client (snd (as_binary m' s)) = client s"
  unfolding as_value_def as_binary_def
  by (auto simp: keeps_client_def bnd_def prog_simps split: prod.split sum.split) (metis snd_conv)+

lemma app_request_client: "client (snd (app_request f m p options s)) = client s"
  using keeps_app_requests(1) [of f m p options] by (simp add: keeps_client_def)

lemma store_token_effect:
  assumes "keeps_client m"
  defines "m' \<equiv> as_value (bnd m (\<lambda>response. bnd (lift_res (property_of ''access_token'' response))
    (\<lambda>t. bnd (setAccessToken t) (\<lambda>_. ret response))))"
  shows "accessToken (client (snd (m' s))) =
    (case fst (m' s) of Inl _ \<Rightarrow> accessToken (client s) | Inr x \<Rightarrow> token_of x (accessToken (client s)))"
proof (cases "m s")
  case (Pair x s')
  then have "client s' = client s" using assms(1) by (auto simp: keeps_client_def dest: spec [of _ s])
  then show ?thesis using Pair unfolding m'_def
    by (auto simp: as_value_def property_of_def setAccessToken_def token_of_def prog_simps
        split: sum.split option.split)
qed

lemma drop_token_effect:
  assumes "keeps_client m"
  shows "accessToken (client (snd (as_unit (bnd m (\<lambda>_. setAccessToken None)) s))) =
    (case fst (as_unit (bnd m (\<lambda>_. setAccessToken None)) s) of Inl _ \<Rightarrow> accessToken (client s) | Inr x \<Rightarrow> None)"
proof (cases "m s")
  case (Pair x s')
  then have "client s' = client s" using assms(1) by (auto simp: keeps_client_def dest: spec [of _ s])
  then show ?thesis using Pair
    by (auto simp: as_unit_def setAccessToken_def prog_simps split: sum.split)
qed

lemma auth_token_effects:
  "accessToken (client (snd (exec f (Login e p) s))) =
     token_after (Login e p) (fst (exec f (Login e p) s)) (accessToken (client s))"
  "accessToken (client (snd (exec f (Refresh t) s))) =
     token_after (Refresh t) (fst (exec f (Refresh t) s)) (accessToken (client s))"
  "accessToken (client (snd (exec f (Logout t) s))) =
     token_after (Logout t) (fst (exec f (Logout t) s)) (accessToken (client s))"
  by (simp_all add: login_def refresh_def logout_def token_after_def store_token_effect drop_token_effect
      keeps_app_requests split: sum.split)

lemma token_effect:
  "accessToken (client (snd (exec f op s))) = token_after op (fst (exec f op s)) (accessToken (client s))"
proof (cases op)
  case (SetAccessToken t)
  then show ?thesis by (simp add: as_unit_def setAccessToken_def prog_simps)
next
  case (SubscribeTable table)
  have "keeps_client (bnd (subscribeTable f no_handlers table False ()) (\<lambda>_. ret Subscription))"
    by (intro keeps_intros)
  then show ?thesis using SubscribeTable by (simp add: keeps_client_def token_after_def split: sum.split)
qed (simp_all only: auth_token_effects, simp_all add: token_after_def keeps_as_value keeps_as_binary keeps_services split: sum.split)

subsection \<open>URLs name exactly the resources asked for\<close>

text \<open>The components of a request's path, decoded the way a router decodes them.\<close>

definition route :: "sdk_client \<Rightarrow> request \<Rightarrow> jsstr option list" where
  "route c r = map read_component (js_split [47] (drop (length (baseUrl c)) (req_url r)))"

definition app_route :: "sdk_client \<Rightarrow> jsstr list \<Rightarrow> request \<Rightarrow> bool" where
  "app_route c comps r \<longleftrightarrow> route c r = map Some ([[], js ''api'', js ''apps'', appId c] @ comps)"

text \<open>Literal path segments are their own encoding.\<close>

lemma encode_literals:
  "encodeURIComponent [] = Some []" "encodeURIComponent (js ''api'') = Some (js ''api'')"
  "encodeURIComponent (js ''apps'') = Some (js ''apps'')" "encodeURIComponent (js ''data'') = Some (js ''data'')"
  "encodeURIComponent (js ''tables'') = Some (js ''tables'')" "encodeURIComponent (js ''rows'') = Some (js ''rows'')"
  "encodeURIComponent (js ''storage'') = Some (js ''storage'')" "encodeURIComponent (js ''buckets'') = Some (js ''buckets'')"
  "encodeURIComponent (js ''objects'') = Some (js ''objects'')"
  by code_simp+

lemma addressed_route:
  assumes "appPath c path = Inr p" "addressed c p r"
    and "path = 47 # js_join [47] es" "list_all2 (\<lambda>x e. encodeURIComponent x = Some e) xs es" "xs \<noteq> []"
  shows "app_route c xs r"
proof -
  obtain a where a: "encodeURIComponent (appId c) = Some a" "p = js ''/api/apps/'' @ a @ path"
    using assms(1) by (auto simp: appPath_def bind_res_eq_Inr)
  have "es \<noteq> []" using assms(4,5) by auto
  then have "p = js_join [47] ([[], js ''api'', js ''apps'', a] @ es)"
    using a(2) assms(3) by (cases es) (simp_all add: js_def cu_def)
  moreover have "list_all2 (\<lambda>x e. encodeURIComponent x = Some e)
      ([[], js ''api'', js ''apps'', appId c] @ xs) ([[], js ''api'', js ''apps'', a] @ es)"
    using assms(4) a(1) by (simp add: encode_literals)
  ultimately have "map read_component (js_split [47] p) = map Some ([[], js ''api'', js ''apps'', appId c] @ xs)"
    using uri.split_components by blast
  then show ?thesis using assms(2) by (simp add: app_route_def route_def addressed_def)
qed

lemma sends_row_request:
  assumes "opt_headers options = []"
  shows "sends (app_route (client s) [js ''data'', js ''tables'', table, js ''rows'', rowId])
    (row_request f method table rowId options) s"
proof -
  have "sends (app_route (client s) [js ''data'', js ''tables'', table, js ''rows'', rowId]) (request f (js method) p options) s"
    if "encodePath table = Inr t" "encodePath rowId = Inr i"
      "appPath (client s) (js ''/data/tables/'' @ t @ js ''/rows/'' @ i) = Inr p" for t i p
    using that by (intro appends_mono [OF sends_request [OF assms]]
      addressed_route [where es = "[js ''data'', js ''tables'', t, js ''rows'', i]"])
      (simp_all add: encode_literals encodePath_def, simp_all add: js_def cu_def)
  then show ?thesis unfolding row_request_def app_request_def by (intro appends_intros) auto
qed

lemma encodeKey_components:
  assumes "encodeKey key = Inr k"
  shows "\<exists>es. k = js_join [47] es \<and> list_all2 (\<lambda>x e. encodeURIComponent x = Some e) (js_split [47] key) es"
  using assms by (auto simp: encodeKey_def bind_res_eq_Inr map_res_eq_Inr)

lemma object_path_route:
  assumes "object_path bucket key = Inr path" "appPath c path = Inr p" "addressed c p r"
  shows "app_route c ([js ''storage'', js ''buckets'', bucket, js ''objects''] @ js_split [47] key) r"
proof -
  obtain b k where b: "encodeURIComponent bucket = Some b" and k: "encodeKey key = Inr k"
    and path: "path = js ''/storage/buckets/'' @ b @ js ''/objects/'' @ k"
    using assms(1) by (auto simp: object_path_def encodePath_def bind_res_eq_Inr)
  obtain es where es: "k = js_join [47] es" "list_all2 (\<lambda>x e. encodeURIComponent x = Some e) (js_split [47] key) es"
    using encodeKey_components [OF k] by blast
  have "js_split [47] key \<noteq> []" by simp
  then have "es \<noteq> []" using es(2) by fastforce
  then have "path = 47 # js_join [47] ([js ''storage'', js ''buckets'', b, js ''objects''] @ es)"
    using path es(1) by (cases es) (simp_all add: js_def cu_def)
  then show ?thesis
    using es(2) b
    by (intro addressed_route [OF assms(2,3), where es = "[js ''storage'', js ''buckets'', b, js ''objects''] @ es"]) (simp_all add: encode_literals)
qed

lemma sends_object_ops:
  fixes s :: "'w sdk" and bucket key
  defines "P \<equiv> app_route (client s) ([js ''storage'', js ''buckets'', bucket, js ''objects''] @ js_split [47] key)"
  shows "sends P (getObject f bucket key) s" "sends P (putObject f bucket key body t) s"
    "sends P (deleteObject f bucket key) s"
  unfolding P_def getObject_def putObject_def deleteObject_def app_requestBinary_def
    app_requestBinaryWithBody_def app_request_def
  by (intro appends_intros appends_mono [OF sends_requestBinary] appends_mono [OF sends_requestBinaryWithBody]
      appends_mono [OF sends_request] object_path_route; simp)+

subsection \<open>Requests are really sent\<close>

text \<open>Credentials that are valid header values.\<close>

definition creds_ok :: "sdk_client \<Rightarrow> bool" where
  "creds_ok c \<longleftrightarrow> header_value_ok (header_value (apiKey c))
     \<and> (case accessToken c of None \<Rightarrow> True | Some t \<Rightarrow> header_value_ok (header_value (js ''Bearer '' @ js_String t)))"

definition sends_some :: "(exn, 'w sdk, 'a) prog \<Rightarrow> 'w sdk \<Rightarrow> bool" where
  "sends_some m s \<longleftrightarrow> length (sent s) < length (sent (snd (m s)))"

lemma sends_some_bnd: "sends_some m s \<Longrightarrow> (\<And>x s'. sends P (k x) s') \<Longrightarrow> sends_some (bnd m k) s"
proof (cases "m s")
  case (Pair y s')
  assume "sends_some m s" and "\<And>x s'. sends P (k x) s'"
  moreover from this(2) have "\<exists>rs. sent (snd (k x s')) = sent s' @ rs" for x
    by (auto simp: appends_def)
  ultimately show ?thesis using Pair
    by (auto simp: sends_some_def bnd_def split: sum.split) (metis length_append trans_less_add1)
qed

lemma header_names_ok:
  "header_name_ok (js ''X-Peanut-Api-Key'')" "header_name_ok (js ''Authorization'')" "header_name_ok (js ''Content-Type'')"
  by (simp_all add: header_name_ok_def alnum_def js_def cu_def)

lemma auth_headers_ok: "creds_ok c \<Longrightarrow> \<exists>hs'. auth_headers c hs = Inr hs'"
  by (auto simp: auth_headers_def creds_ok_def headers_set_def header_names_ok split: option.split)

lemma make_request_ok:
  assumes "creds_ok c" "opt_headers options = []"
  shows "\<exists>r. make_request c method path options = Inr r"
proof -
  obtain hs where "auth_headers c [] = Inr hs" using auth_headers_ok [OF assms(1)] by blast
  moreover have "header_value_ok (header_value (js ''application/json''))"
    by (simp add: header_value_ok_def header_value_def header_space_def js_def cu_def)
  ultimately show ?thesis
    using assms(2) by (auto simp: make_request_def headers_set_def header_names_ok split: option.split)
qed

lemma fetchWithRetry_sends_some:
  assumes "0 \<le> maxRetries (retry (client s))"
  shows "sends_some (fetchWithRetry f r) s"
proof -
  let ?c = "client s" let ?r = "r\<lparr>req_timeout := Some (timeoutMs ?c)\<rparr>"
  have more: "length (sent s) < length (sent (snd (retry_loop f ?c r 1 e (delay d (snd (fetchImpl f ?r s))))))" for e d
    using retry_loop_log [of f ?c r 1 e "delay d (snd (fetchImpl f ?r s))"] by (auto simp: delay_def fetchImpl_eq)
  have "length (sent s) < length (sent (snd (retry_loop f ?c r 0 None s)))"
    using assms more by (subst retry_loop.simps) (auto simp: fetchImpl_eq split: sum.split)
  then show ?thesis by (simp add: sends_some_def fetchWithRetry_def prog_simps)
qed

lemma request_sends_some:
  assumes "0 \<le> maxRetries (retry (client s))" "creds_ok (client s)" "opt_headers options = []"
  shows "sends_some (request f method path options) s"
proof -
  obtain r where r: "make_request (client s) method path options = Inr r"
    using make_request_ok assms by blast
  show ?thesis
    using fetchWithRetry_sends_some [OF assms(1), of f r] request_log [OF r, of f] by (simp add: sends_some_def)
qed

lemma app_request_sends_some:
  assumes "0 \<le> maxRetries (retry (client s))" "creds_ok (client s)" "opt_headers options = []"
    and "well_formed (appId (client s))"
  shows "sends_some (app_request f method path options) s"
proof -
  obtain p where "appPath (client s) path = Inr p"
    using assms(4) by (auto simp: appPath_def encodeURIComponent_Some [symmetric])
  then show ?thesis
    using request_sends_some [OF assms(1-3)] by (simp add: app_request_def sends_some_def prog_simps)
qed

lemma row_request_sends_some:
  assumes "0 \<le> maxRetries (retry (client s))" "creds_ok (client s)" "opt_headers options = []"
    and "well_formed (appId (client s))" "well_formed table" "well_formed rowId"
  shows "sends_some (row_request f method table rowId options) s"
proof -
  obtain t i where "encodePath table = Inr t" "encodePath rowId = Inr i"
    using assms(5,6) by (auto simp: encodePath_def encodeURIComponent_Some [symmetric])
  then show ?thesis
    using app_request_sends_some [OF assms(1-4)] by (simp add: row_request_def)
qed

lemma requestBinary_sends_some:
  assumes "0 \<le> maxRetries (retry (client s))" "creds_ok (client s)"
  shows "sends_some (requestBinary f method path) s"
proof -
  obtain hs where "auth_headers (client s) [] = Inr hs" using auth_headers_ok [OF assms(2)] by blast
  moreover have "sends_some (bnd (fetchWithRetry f r) ok_or_throw) s" for r
    using fetchWithRetry_sends_some [OF assms(1)] sends_ok_or_throw by (rule sends_some_bnd)
  ultimately show ?thesis by (simp add: requestBinary_def sends_some_def prog_simps)
qed

lemma getObject_sends_some:
  assumes "0 \<le> maxRetries (retry (client s))" "creds_ok (client s)"
    and "well_formed (appId (client s))" "object_path bucket key = Inr path"
  shows "sends_some (getObject f bucket key) s"
proof -
  obtain p where "appPath (client s) path = Inr p"
    using assms(3) by (auto simp: appPath_def encodeURIComponent_Some [symmetric])
  then show ?thesis
    using requestBinary_sends_some [OF assms(1,2)] assms(4)
    by (simp add: getObject_def app_requestBinary_def sends_some_def prog_simps)
qed

lemma sends_some_split:
  assumes "sends P m s" "sends_some m s"
  obtains rs where "sent (snd (m s)) = sent s @ rs" "rs \<noteq> []" "list_all P rs"
  using assms by (auto simp: appends_def sends_some_def)

lemma sample_creds_ok: "creds_ok sample_client"
  by (simp add: creds_ok_def sample_client_def header_value_ok_def header_value_def header_space_def js_def cu_def)

subsection \<open>Query strings\<close>

definition defined_params :: "(jsstr \<times> json option) list \<Rightarrow> (jsstr \<times> jsstr) list" where
  "defined_params ps = List.map_filter (\<lambda>(k, v). map_option (\<lambda>x. (k, js_String x)) v) ps"

lemma params_set_new: "k \<notin> fst ` set ps \<Longrightarrow> params_set k v ps = ps @ [(k, v)]"
  by (induction ps) auto

lemma search_params_eq:
  "distinct (map fst ps) \<Longrightarrow> fst ` set ps \<inter> fst ` set search = {} \<Longrightarrow>
   search_params ps search = search @ defined_params ps"
proof (induction ps arbitrary: search)
  case (Cons p ps)
  obtain k v where p: "p = (k, v)" by (cases p)
  show ?case
  proof (cases v)
    case None
    then show ?thesis using Cons p by (simp add: defined_params_def List.map_filter_simps)
  next
    case (Some x)
    have "search_params ps (search @ [(k, js_String x)]) = (search @ [(k, js_String x)]) @ defined_params ps"
      using Cons.prems p by (intro Cons.IH) auto
    then show ?thesis using Cons.prems p Some
      by (simp add: params_set_new defined_params_def List.map_filter_simps)
  qed
qed (simp add: defined_params_def List.map_filter_simps)

subsection \<open>Properties\<close>


definition sample_options :: client_options where
  "sample_options = \<lparr>opt_baseUrl = js ''https://host//'', opt_appId = js ''a/b'', opt_apiKey = js ''k'',
     opt_accessToken = None, opt_timeoutMs = None, opt_maxRetries = Some 1, opt_baseDelayMs = None\<rparr>"



text \<open>
  C11: the access token after any method, on success and on every error: \<open>login\<close> and \<open>refresh\<close> store
  the \<open>access_token\<close> of the answer they return, \<open>logout\<close> drops the token, \<open>setAccessToken\<close> replaces
  it; a method that throws, and every other method, leaves it as it was.
\<close>

theorem sdk_token_effect:
  "accessToken (client (snd (exec f op s))) = token_after op (fst (exec f op s)) (accessToken (client s))"
  by (rule token_effect)





text \<open>
  C24: a query string built by \<open>toQuery\<close> from an object (whose keys are distinct) is read back by a
  form decoder as exactly the parameters that are not \<open>undefined\<close>, in order and as strings.
\<close>

theorem toQuery_roundtrip:
  assumes "distinct (map fst ps)" "\<forall>(k, v) \<in> set (defined_params ps). well_formed k \<and> well_formed v"
  shows "form_read (drop 1 (toQuery ps)) = map Some (defined_params ps)"
  using form_read_params [OF assms(2)] search_params_eq [OF assms(1), of "[]"]
  by (auto simp: toQuery_def Let_def)

definition sample_params :: "(jsstr \<times> json option) list" where
  "sample_params = [(js ''limit'', Some (JBool True)), (js ''skip'', None), (js ''q'', Some (JStr (js ''a&b=c d'')))]"

theorem toQuery_roundtrip_witness:
  "form_read (drop 1 (toQuery sample_params)) = [Some (js ''limit'', js ''true''), Some (js ''q'', js ''a&b=c d'')]"
proof -
  have "defined_params sample_params = [(js ''limit'', js ''true''), (js ''q'', js ''a&b=c d'')]"
    by (simp add: defined_params_def sample_params_def List.map_filter_simps)
  then show ?thesis
    using toQuery_roundtrip [of sample_params] by (simp add: sample_params_def)
qed

end
