(* ===== verification/Sdk_Dist.thy ===== *)
theory Sdk_Dist
  imports Sdk_Session "HOL-Library.While_Combinator"
begin

text \<open>
  The file the SDK package ships, \<open>src/sdks/js/dist/index.js\<close> (\<open>main\<close> in its \<open>package.json\<close>): an
  older output of the compiler, translated here on its own, statement by statement, with the
  retry loop as a \<open>while\<close> over its local variables. The theory shows that it terminates and that
  every method it has computes what the method of \<open>src/sdks/js/src/index.ts\<close> computes, so the
  results of \<open>Sdk_Session\<close> hold of the shipped file, and which methods it does not have.
\<close>

subsection \<open>Helpers\<close>

definition dist_encodePath :: "jsstr \<Rightarrow> (exn, 's, jsstr) prog" where
  "dist_encodePath v = lift_res (or_throw URIError (encodeURIComponent v))"

definition dist_encodeKey :: "jsstr \<Rightarrow> (exn, 's, jsstr) prog" where
  "dist_encodeKey v =
     bnd (lift_res (map_res (\<lambda>p. or_throw URIError (encodeURIComponent p)) (js_split [47] v)))
       (\<lambda>ps. ret (js_join [47] ps))"

definition dist_toQuery :: "(jsstr \<times> json option) list \<Rightarrow> jsstr" where
  "dist_toQuery params =
     (let search = fold (\<lambda>(k, v) search. if v \<noteq> None then params_set k (js_String (the v)) search else search) params [];
          query = params_toString search
      in if query \<noteq> [] then js ''?'' @ query else [])"

text \<open>\<open>typeof value === "object" && value !== null\<close>.\<close>

fun dist_is_object :: "json \<Rightarrow> bool" where
  "dist_is_object (JObj ms) = True"
| "dist_is_object (JArr vs) = True"
| "dist_is_object _ = False"

definition dist_errorMessage :: "json \<Rightarrow> jsstr" where
  "dist_errorMessage v =
     (if dist_is_object v \<and> member (js ''error'') v \<noteq> None then js_String (the (member (js ''error'') v))
      else case v of JStr s \<Rightarrow> if s \<noteq> [] then s else js ''Peanut request failed''
                   | _ \<Rightarrow> js ''Peanut request failed'')"

definition dist_isTransientStatus :: "nat \<Rightarrow> bool" where
  "dist_isTransientStatus status \<longleftrightarrow> status = 408 \<or> status = 429 \<or> status \<ge> 500"

definition dist_delay :: "rat \<Rightarrow> 'w sdk \<Rightarrow> 'w sdk" where
  "dist_delay ms s = s\<lparr>slept := slept s @ [ms]\<rparr>"

subsection \<open>The client\<close>

definition dist_new_client :: "bool \<Rightarrow> client_options \<Rightarrow> exn + sdk_client" where
  "dist_new_client has_fetch options =
     (if \<not> has_fetch then Inl (JsError (js ''A fetch implementation is required''))
      else Inr \<lparr>baseUrl = strip_slashes (opt_baseUrl options), appId = opt_appId options,
        apiKey = opt_apiKey options, accessToken = opt_accessToken options,
        timeoutMs = (if opt_timeoutMs options = None then 30000 else the (opt_timeoutMs options)),
        retry = \<lparr>maxRetries = (if opt_maxRetries options = None then 0 else the (opt_maxRetries options)),
                 baseDelayMs = (if opt_baseDelayMs options = None then 200 else the (opt_baseDelayMs options))\<rparr>\<rparr>)"

definition dist_setAccessToken :: "json option \<Rightarrow> (exn, 'w sdk, unit) prog" where
  "dist_setAccessToken t = modify (\<lambda>s. s\<lparr>client := (client s)\<lparr>accessToken := t\<rparr>\<rparr>)"

text \<open>
  \<open>fetchWithRetry\<close>: the local variables of the loop, and in \<open>finished\<close> the response it returned or
  the error it threw.
\<close>

record dist_locals =
  attempt :: nat
  last_error :: "exn option"
  finished :: "(exn + response) option"

fun dist_loop_cond :: "sdk_client \<Rightarrow> dist_locals \<times> 'w sdk \<Rightarrow> bool" where
  "dist_loop_cond this (v, s) \<longleftrightarrow> finished v = None \<and> of_nat (attempt v) \<le> maxRetries (retry this)"

fun dist_loop_body :: "'w fetch \<Rightarrow> sdk_client \<Rightarrow> request \<Rightarrow> dist_locals \<times> 'w sdk \<Rightarrow> dist_locals \<times> 'w sdk" where
  "dist_loop_body f this input (v, s) =
     (let last = (of_nat (attempt v) = maxRetries (retry this));
         wait = baseDelayMs (retry this) * max 1 (of_nat (attempt v) + 1)
     in case fetchImpl f (input\<lparr>req_timeout := Some (timeoutMs this)\<rparr>) s of
          (Inr response, s') \<Rightarrow>
            if \<not> dist_isTransientStatus (resp_status response) \<or> last
            then (v\<lparr>finished := Some (Inr response)\<rparr>, s')
            else (v\<lparr>attempt := attempt v + 1\<rparr>, dist_delay wait s')
        | (Inl error, s') \<Rightarrow>
            if last then (v\<lparr>last_error := Some error, finished := Some (Inl error)\<rparr>, s')
            else (v\<lparr>last_error := Some error, attempt := attempt v + 1\<rparr>, dist_delay wait s'))"

fun dist_loop_result :: "dist_locals \<times> 'w sdk \<Rightarrow> (exn + response) \<times> 'w sdk" where
  "dist_loop_result (v, s) = (case finished v of
       Some x \<Rightarrow> x
     | None \<Rightarrow> Inl (case last_error v of None \<Rightarrow> ThrownUndefined | Some e \<Rightarrow> e), s)"

definition dist_fetchWithRetry :: "'w fetch \<Rightarrow> request \<Rightarrow> (exn, 'w sdk, response) prog" where
  "dist_fetchWithRetry f input s =
     dist_loop_result (while (dist_loop_cond (client s)) (dist_loop_body f (client s) input)
       (\<lparr>attempt = 0, last_error = None, finished = None\<rparr>, s))"

text \<open>The headers, the reading of a body and the error path that the three methods below repeat.\<close>

definition dist_credentials :: "headers \<Rightarrow> (exn, 'w sdk, headers) prog" where
  "dist_credentials hs =
     bnd (gets client) (\<lambda>this.
     bnd (lift_res (headers_set (js ''X-Peanut-Api-Key'') (apiKey this) hs)) (\<lambda>hs.
     if accessToken this \<noteq> None \<and> truthy (the (accessToken this))
     then lift_res (headers_set (js ''Authorization'') (js ''Bearer '' @ js_String (the (accessToken this))) hs)
     else ret hs))"

definition dist_value :: "response \<Rightarrow> (exn, 's, json) prog" where
  "dist_value response =
     (let header = headers_get (js ''content-type'') (resp_headers response);
          contentType = (if header = None then [] else the header)
      in if js_includes contentType (js ''application/json'') then lift_res (resp_json response)
         else bnd (lift_res (resp_text response)) (\<lambda>t. ret (JStr t)))"

definition dist_throw :: "response \<Rightarrow> json \<Rightarrow> (exn, 's, 'a) prog" where
  "dist_throw response value = throw (PeanutError (resp_status response) (dist_errorMessage value) value)"

definition dist_request :: "'w fetch \<Rightarrow> jsstr \<Rightarrow> jsstr \<Rightarrow> request_options \<Rightarrow> (exn, 'w sdk, json option) prog" where
  "dist_request f method path options =
     bnd (lift_res (headers_new (opt_headers options))) (\<lambda>hs.
     bnd (dist_credentials hs) (\<lambda>hs.
     bnd (if opt_body options \<noteq> None
          then bnd (lift_res (headers_set (js ''Content-Type'') (js ''application/json'') hs))
                 (\<lambda>hs. ret (hs, Some (BodyText (stringify (the (opt_body options))))))
          else ret (hs, opt_rawBody options)) (\<lambda>(hs, body).
     bnd (gets (\<lambda>s. baseUrl (client s))) (\<lambda>base.
     bnd (dist_fetchWithRetry f \<lparr>req_url = base @ path, req_method = method, req_headers = hs,
            req_body = body, req_timeout = None\<rparr>) (\<lambda>response.
     if resp_status response = 204 then ret None
     else bnd (dist_value response) (\<lambda>value.
       if \<not> resp_ok response then dist_throw response value else ret (Some value)))))))"

definition dist_requestBinary :: "'w fetch \<Rightarrow> jsstr \<Rightarrow> jsstr \<Rightarrow> (exn, 'w sdk, response) prog" where
  "dist_requestBinary f method path =
     bnd (lift_res (headers_new [])) (\<lambda>hs.
     bnd (dist_credentials hs) (\<lambda>hs.
     bnd (gets (\<lambda>s. baseUrl (client s))) (\<lambda>base.
     bnd (dist_fetchWithRetry f \<lparr>req_url = base @ path, req_method = method, req_headers = hs,
            req_body = None, req_timeout = None\<rparr>) (\<lambda>response.
     if \<not> resp_ok response then bnd (dist_value response) (dist_throw response) else ret response))))"

definition dist_requestBinaryWithBody ::
  "'w fetch \<Rightarrow> jsstr \<Rightarrow> jsstr \<Rightarrow> body_init \<Rightarrow> jsstr \<Rightarrow> (exn, 'w sdk, response) prog" where
  "dist_requestBinaryWithBody f method path body contentType =
     bnd (lift_res (headers_new [(js ''Content-Type'', contentType)])) (\<lambda>hs.
     bnd (dist_credentials hs) (\<lambda>hs.
     bnd (gets (\<lambda>s. baseUrl (client s))) (\<lambda>base.
     bnd (dist_fetchWithRetry f \<lparr>req_url = base @ path, req_method = method, req_headers = hs,
            req_body = Some body, req_timeout = None\<rparr>) (\<lambda>response.
     if \<not> resp_ok response then bnd (dist_value response) (dist_throw response) else ret response))))"

definition dist_appPath :: "jsstr \<Rightarrow> (exn, 'w sdk, jsstr) prog" where
  "dist_appPath path = bnd (gets (\<lambda>s. appId (client s))) (\<lambda>app.
     bnd (lift_res (or_throw URIError (encodeURIComponent app))) (\<lambda>a. ret (js ''/api/apps/'' @ a @ path)))"

subsection \<open>The service clients\<close>

text \<open>\<open>this.client.request(method, this.client.appPath(path), options)\<close>.\<close>

definition dist_send :: "'w fetch \<Rightarrow> string \<Rightarrow> jsstr \<Rightarrow> request_options \<Rightarrow> (exn, 'w sdk, json option) prog" where
  "dist_send f method path options = bnd (dist_appPath path) (\<lambda>p. dist_request f (js method) p options)"

definition dist_register :: "'w fetch \<Rightarrow> jsstr \<Rightarrow> jsstr \<Rightarrow> (exn, 'w sdk, json option) prog" where
  "dist_register f email password =
     dist_send f ''POST'' (js ''/auth/register'') (json_body (object [(''email'', Some (JStr email)), (''password'', Some (JStr password))]))"

text \<open>\<open>this.client.setAccessToken(response.access_token); return response;\<close>\<close>

definition dist_keep_token :: "json option \<Rightarrow> (exn, 'w sdk, json option) prog" where
  "dist_keep_token response = bnd (lift_res (property_of ''access_token'' response))
     (\<lambda>t. bnd (dist_setAccessToken t) (\<lambda>_. ret response))"

definition dist_login :: "'w fetch \<Rightarrow> jsstr \<Rightarrow> jsstr \<Rightarrow> (exn, 'w sdk, json option) prog" where
  "dist_login f email password =
     bnd (dist_send f ''POST'' (js ''/auth/login'') (json_body (object [(''email'', Some (JStr email)), (''password'', Some (JStr password))])))
       dist_keep_token"

definition dist_refresh :: "'w fetch \<Rightarrow> jsstr \<Rightarrow> (exn, 'w sdk, json option) prog" where
  "dist_refresh f refreshToken =
     bnd (dist_send f ''POST'' (js ''/auth/refresh'') (json_body (object [(''refresh_token'', Some (JStr refreshToken))])))
       dist_keep_token"

definition dist_logout :: "'w fetch \<Rightarrow> jsstr \<Rightarrow> (exn, 'w sdk, unit) prog" where
  "dist_logout f refreshToken =
     bnd (dist_send f ''POST'' (js ''/auth/logout'') (json_body (object [(''refresh_token'', Some (JStr refreshToken))])))
       (\<lambda>_. dist_setAccessToken None)"

definition dist_me :: "'w fetch \<Rightarrow> (exn, 'w sdk, json option) prog" where
  "dist_me f =
     dist_send f ''GET'' (js ''/auth/me'') no_options"

definition dist_listTables :: "'w fetch \<Rightarrow> (exn, 'w sdk, json option) prog" where
  "dist_listTables f =
     dist_send f ''GET'' (js ''/data/tables'') no_options"

definition dist_getTable :: "'w fetch \<Rightarrow> jsstr \<Rightarrow> (exn, 'w sdk, json option) prog" where
  "dist_getTable f table =
     bnd (dist_encodePath table) (\<lambda>t. dist_send f ''GET'' (js ''/data/tables/'' @ t) no_options)"

definition dist_listRows :: "'w fetch \<Rightarrow> jsstr \<Rightarrow> (jsstr \<times> json option) list \<Rightarrow> (exn, 'w sdk, json option) prog" where
  "dist_listRows f table params =
     (let query = dist_toQuery params in bnd (dist_encodePath table)
       (\<lambda>t. dist_send f ''GET'' (js ''/data/tables/'' @ t @ js ''/rows'' @ query) no_options))"

definition dist_createRow :: "'w fetch \<Rightarrow> jsstr \<Rightarrow> json \<Rightarrow> (exn, 'w sdk, json option) prog" where
  "dist_createRow f table data =
     bnd (dist_encodePath table) (\<lambda>t.
     dist_send f ''POST'' (js ''/data/tables/'' @ t @ js ''/rows'') (json_body (object [(''data'', Some data)])))"

definition dist_getRow :: "'w fetch \<Rightarrow> jsstr \<Rightarrow> jsstr \<Rightarrow> (exn, 'w sdk, json option) prog" where
  "dist_getRow f table rowId =
     bnd (dist_encodePath table) (\<lambda>t. bnd (dist_encodePath rowId) (\<lambda>i.
     dist_send f ''GET'' (js ''/data/tables/'' @ t @ js ''/rows/'' @ i) no_options))"

definition dist_updateRow :: "'w fetch \<Rightarrow> jsstr \<Rightarrow> jsstr \<Rightarrow> json \<Rightarrow> (exn, 'w sdk, json option) prog" where
  "dist_updateRow f table rowId data =
     bnd (dist_encodePath table) (\<lambda>t. bnd (dist_encodePath rowId) (\<lambda>i.
     dist_send f ''PATCH'' (js ''/data/tables/'' @ t @ js ''/rows/'' @ i) (json_body (object [(''data'', Some data)]))))"

definition dist_deleteRow :: "'w fetch \<Rightarrow> jsstr \<Rightarrow> jsstr \<Rightarrow> (exn, 'w sdk, json option) prog" where
  "dist_deleteRow f table rowId =
     bnd (dist_encodePath table) (\<lambda>t. bnd (dist_encodePath rowId) (\<lambda>i.
     dist_send f ''DELETE'' (js ''/data/tables/'' @ t @ js ''/rows/'' @ i) no_options))"

definition dist_listObjects :: "'w fetch \<Rightarrow> jsstr \<Rightarrow> jsstr option \<Rightarrow> (exn, 'w sdk, json option) prog" where
  "dist_listObjects f bucket pre =
     bnd (if pre \<noteq> None \<and> the pre \<noteq> [] then bnd (dist_encodePath (the pre)) (\<lambda>q. ret (js ''?prefix='' @ q)) else ret []) (\<lambda>query.
     bnd (dist_encodePath bucket) (\<lambda>b.
     dist_send f ''GET'' (js ''/storage/buckets/'' @ b @ js ''/objects'' @ query) no_options))"

definition dist_getObject :: "'w fetch \<Rightarrow> jsstr \<Rightarrow> jsstr \<Rightarrow> (exn, 'w sdk, response) prog" where
  "dist_getObject f bucket key =
     bnd (dist_encodePath bucket) (\<lambda>b. bnd (dist_encodeKey key) (\<lambda>k.
     bnd (dist_appPath (js ''/storage/buckets/'' @ b @ js ''/objects/'' @ k)) (\<lambda>p. dist_requestBinary f (js ''GET'') p)))"

definition dist_putObject :: "'w fetch \<Rightarrow> jsstr \<Rightarrow> jsstr \<Rightarrow> body_init \<Rightarrow> jsstr \<Rightarrow> (exn, 'w sdk, response) prog" where
  "dist_putObject f bucket key body contentType =
     bnd (dist_encodePath bucket) (\<lambda>b. bnd (dist_encodeKey key) (\<lambda>k.
     bnd (dist_appPath (js ''/storage/buckets/'' @ b @ js ''/objects/'' @ k))
       (\<lambda>p. dist_requestBinaryWithBody f (js ''PUT'') p body contentType)))"

definition dist_deleteObject :: "'w fetch \<Rightarrow> jsstr \<Rightarrow> jsstr \<Rightarrow> (exn, 'w sdk, json option) prog" where
  "dist_deleteObject f bucket key =
     bnd (dist_encodePath bucket) (\<lambda>b. bnd (dist_encodeKey key) (\<lambda>k.
     dist_send f ''DELETE'' (js ''/storage/buckets/'' @ b @ js ''/objects/'' @ k) no_options))"

definition dist_listSubscriptions :: "'w fetch \<Rightarrow> (exn, 'w sdk, json option) prog" where
  "dist_listSubscriptions f =
     dist_send f ''GET'' (js ''/push/subscriptions'') no_options"

definition dist_createNtfySubscription :: "'w fetch \<Rightarrow> jsstr \<Rightarrow> (exn, 'w sdk, json option) prog" where
  "dist_createNtfySubscription f topic =
     dist_send f ''POST'' (js ''/push/subscriptions'') (json_body (object [(''topic'', Some (JStr topic))]))"

definition dist_createWebPushSubscription :: "'w fetch \<Rightarrow> jsstr \<Rightarrow> json \<Rightarrow> (exn, 'w sdk, json option) prog" where
  "dist_createWebPushSubscription f endpoint keys =
     dist_send f ''POST'' (js ''/push/subscriptions'')
       (json_body (object [(''endpoint'', Some (JStr endpoint)), (''keys'', Some keys)]))"

definition dist_deleteSubscription :: "'w fetch \<Rightarrow> number \<Rightarrow> (exn, 'w sdk, json option) prog" where
  "dist_deleteSubscription f subscriptionId =
     dist_send f ''DELETE'' (js ''/push/subscriptions/'' @ number_string subscriptionId) no_options"

definition dist_getVapidPublicKey :: "'w fetch \<Rightarrow> (exn, 'w sdk, json option) prog" where
  "dist_getVapidPublicKey f =
     dist_send f ''GET'' (js ''/push/vapid-public-key'') no_options"

definition dist_enqueueMessage :: "'w fetch \<Rightarrow> json \<Rightarrow> (exn, 'w sdk, json option) prog" where
  "dist_enqueueMessage f payload =
     dist_send f ''POST'' (js ''/push/messages'') (json_body payload)"

definition dist_invoke :: "'w fetch \<Rightarrow> jsstr \<Rightarrow> json \<Rightarrow> jsstr option \<Rightarrow> bool option \<Rightarrow> (exn, 'w sdk, json option) prog" where
  "dist_invoke f endpointSlug input key async =
     bnd (dist_encodePath endpointSlug) (\<lambda>e.
     dist_send f ''POST'' (js ''/function-endpoints/'' @ e) (json_body (object
       [(''input'', Some input), (''api_key'', map_option JStr key), (''async_invoke'', map_option JBool async)])))"

text \<open>
  Calling a method on the shipped client. It has no \<open>realtime\<close> member and its push client has no
  \<open>enqueueBatch\<close> and no \<open>getMessageStatus\<close>, so these calls throw a \<open>TypeError\<close>.
\<close>

fun dist_exec :: "'w fetch \<Rightarrow> sdk_op \<Rightarrow> (exn, 'w sdk, sdk_result) prog" where
  "dist_exec f (Register email password) = as_value (dist_register f email password)"
| "dist_exec f (Login email password) = as_value (dist_login f email password)"
| "dist_exec f (Refresh t) = as_value (dist_refresh f t)"
| "dist_exec f (Logout t) = as_unit (dist_logout f t)"
| "dist_exec f Me = as_value (dist_me f)"
| "dist_exec f ListTables = as_value (dist_listTables f)"
| "dist_exec f (GetTable table) = as_value (dist_getTable f table)"
| "dist_exec f (ListRows table params) = as_value (dist_listRows f table params)"
| "dist_exec f (CreateRow table data) = as_value (dist_createRow f table data)"
| "dist_exec f (GetRow table rowId) = as_value (dist_getRow f table rowId)"
| "dist_exec f (UpdateRow table rowId data) = as_value (dist_updateRow f table rowId data)"
| "dist_exec f (DeleteRow table rowId) = as_value (dist_deleteRow f table rowId)"
| "dist_exec f (ListObjects bucket pre) = as_value (dist_listObjects f bucket pre)"
| "dist_exec f (GetObject bucket key) = as_binary (dist_getObject f bucket key)"
| "dist_exec f (PutObject bucket key body contentType) = as_binary (dist_putObject f bucket key body contentType)"
| "dist_exec f (DeleteObject bucket key) = as_value (dist_deleteObject f bucket key)"
| "dist_exec f ListSubscriptions = as_value (dist_listSubscriptions f)"
| "dist_exec f (CreateNtfySubscription topic) = as_value (dist_createNtfySubscription f topic)"
| "dist_exec f (CreateWebPushSubscription endpoint keys) = as_value (dist_createWebPushSubscription f endpoint keys)"
| "dist_exec f (DeleteSubscription i) = as_value (dist_deleteSubscription f i)"
| "dist_exec f GetVapidPublicKey = as_value (dist_getVapidPublicKey f)"
| "dist_exec f (EnqueueMessage payload) = as_value (dist_enqueueMessage f payload)"
| "dist_exec f (Invoke slug input key async) = as_value (dist_invoke f slug input key async)"
| "dist_exec f (SetAccessToken t) = as_unit (dist_setAccessToken (map_option JStr t))"
| "dist_exec f (EnqueueBatch messages) = throw TypeError"
| "dist_exec f (GetMessageStatus i) = throw TypeError"
| "dist_exec f (SubscribeTable table) = throw TypeError"

fun shipped :: "sdk_op \<Rightarrow> bool" where
  "shipped (EnqueueBatch messages) = False"
| "shipped (GetMessageStatus i) = False"
| "shipped (SubscribeTable table) = False"
| "shipped _ = True"

subsection \<open>The retry loop\<close>

lemma dist_isTransientStatus_eq: "dist_isTransientStatus = isTransientStatus"
  by (rule ext) (simp add: dist_isTransientStatus_def isTransientStatus_def)

lemma dist_delay_eq: "dist_delay = delay"
  by (intro ext) (simp add: dist_delay_def delay_def)

abbreviation dist_loop where
  "dist_loop f this input \<equiv> while_option (dist_loop_cond this) (dist_loop_body f this input)"

lemma dist_loop_finished: "finished v \<noteq> None \<Longrightarrow> dist_loop f this input (v, s) = Some (v, s)"
  by (subst while_option_unfold) auto

text \<open>The loop ends from every state it can be in, and with the result of the recursive loop of the source.\<close>

lemma dist_loop_ends:
  assumes "finished v = None" "attempt v = a" "last_error v = e"
  shows "\<exists>x. dist_loop f c r (v, s) = Some x \<and> dist_loop_result x = retry_loop f c r a e s"
  using assms
proof (induction f c r a e s arbitrary: v rule: retry_loop.induct)
  case (1 f c r a e s)
  let ?r = "r\<lparr>req_timeout := Some (timeoutMs c)\<rparr>"
  show ?case
  proof (cases "of_nat a \<le> maxRetries (retry c)")
    case False
    then show ?thesis using "1.prems"
      by (subst while_option_unfold, subst retry_loop.simps) simp
  next
    case True
    then have step: "dist_loop f c r (v, s) = dist_loop f c r (dist_loop_body f c r (v, s))"
      using "1.prems" by (subst while_option_unfold) simp
    obtain x s' where x: "fetchImpl f ?r s = (x, s')" by fastforce
    show ?thesis
    proof (cases x)
      case (Inl err)
      show ?thesis
        using True 1 x Inl unfolding step
        by (subst retry_loop.simps)
          (auto simp: Let_def dist_delay_eq dist_loop_finished)
    next
      case (Inr response)
      show ?thesis
        using True 1 x Inr unfolding step
        by (subst retry_loop.simps)
          (auto simp: Let_def dist_delay_eq dist_isTransientStatus_eq dist_loop_finished)
    qed
  qed
qed

lemma dist_fetchWithRetry_eq: "dist_fetchWithRetry f r = fetchWithRetry f r"
proof (rule ext)
  fix s
  let ?v = "\<lparr>attempt = 0, last_error = None, finished = None\<rparr>"
  obtain x where "dist_loop f (client s) r (?v, s) = Some x"
    "dist_loop_result x = retry_loop f (client s) r 0 None s"
    using dist_loop_ends [where v = ?v and a = 0 and e = None and f = f and c = "client s" and r = r and s = s] by auto
  then show "dist_fetchWithRetry f r s = fetchWithRetry f r s"
    by (simp add: dist_fetchWithRetry_def while_def fetchWithRetry_def prog_simps)
qed

subsection \<open>Requests\<close>

lemma dist_setAccessToken_eq: "dist_setAccessToken = setAccessToken"
  by (rule ext) (simp add: dist_setAccessToken_def setAccessToken_def)

lemma dist_errorMessage_eq: "dist_errorMessage = errorMessage"
proof (rule ext)
  fix v show "dist_errorMessage v = errorMessage v"
    by (cases v) (auto simp: dist_errorMessage_def errorMessage_def member_def split: option.split)
qed

lemma query_mark: "js ''?'' = [63]"
  by code_simp

lemma dist_toQuery_eq: "dist_toQuery = toQuery"
proof (rule ext)
  fix params
  have "fold (\<lambda>(k, v) search. if v \<noteq> None then params_set k (js_String (the v)) search else search) params acc
    = search_params params acc" for acc
    by (induction params acc rule: search_params.induct) (auto split: option.split)
  then show "dist_toQuery params = toQuery params"
    by (simp add: dist_toQuery_def toQuery_def Let_def query_mark)
qed

lemma lift_bind_res: "lift_res (bind_res r g) = bnd (lift_res r) (\<lambda>x. lift_res (g x))"
  by (cases r) (simp_all add: bind_res_def prog_simps)

lemma lift_res_Inr: "lift_res (Inr x) = ret x"
  by (simp add: prog_simps)

lemma bnd_gets: "bnd (gets g) k s = k (g s) s"
  by (simp add: prog_simps)

lemma dist_credentials_eq: "dist_credentials hs = bnd (gets client) (\<lambda>c. lift_res (auth_headers c hs))"
  by (rule ext)
    (auto simp: dist_credentials_def auth_headers_def lift_bind_res lift_res_Inr bnd_gets bnd_def
      split: option.split prod.split sum.split)

lemma dist_value_eq: "dist_value response = lift_res (read_value response)"
  by (auto simp: dist_value_def read_value_def Let_def lift_bind_res lift_res_Inr split: option.split)

lemma dist_throw_eq: "dist_throw response v = throw (PeanutError (resp_status response) (errorMessage v) v)"
  by (simp add: dist_throw_def dist_errorMessage_eq)

lemmas dist_send_eqs = dist_credentials_eq dist_value_eq dist_throw_eq dist_fetchWithRetry_eq

lemma dist_request_eq: "dist_request f method path options = request f method path options"
proof (rule ext)
  fix s
  show "dist_request f method path options s = request f method path options s"
    unfolding dist_request_def request_def dist_send_eqs
    by (cases "opt_body options") (simp_all add: make_request_def prog_simps bind_res_def split: sum.split)
qed

lemma dist_requestBinary_eq: "dist_requestBinary f method path = requestBinary f method path"
  by (rule ext) (auto simp: dist_requestBinary_def requestBinary_def ok_or_throw_def dist_send_eqs prog_simps bind_res_def
    split: sum.split prod.split)

lemma dist_requestBinaryWithBody_eq:
  "dist_requestBinaryWithBody f method path body contentType = requestBinaryWithBody f method path body contentType"
  by (rule ext) (auto simp: dist_requestBinaryWithBody_def requestBinaryWithBody_def ok_or_throw_def dist_send_eqs prog_simps bind_res_def
    split: sum.split prod.split)

subsection \<open>Methods\<close>

lemma dist_appPath_eq: "dist_appPath path = bnd (gets client) (\<lambda>c. lift_res (appPath c path))"
  by (rule ext) (simp add: dist_appPath_def appPath_def prog_simps bind_res_def split: sum.split)

lemma dist_send_eq: "dist_send f method path options = app_request f method path options"
  by (simp add: dist_send_def app_request_def dist_appPath_eq dist_request_eq bnd_assoc)

lemma dist_keep_token_eq:
  "dist_keep_token = (\<lambda>response. bnd (lift_res (property_of ''access_token'' response)) (\<lambda>t.
     bnd (setAccessToken t) (\<lambda>_. ret response)))"
  by (rule ext) (simp add: dist_keep_token_def dist_setAccessToken_eq)

lemma dist_encodePath_eq: "dist_encodePath v = lift_res (encodePath v)"
  by (simp add: dist_encodePath_def encodePath_def)

lemma dist_encodeKey_eq: "dist_encodeKey v = lift_res (encodeKey v)"
  by (simp add: dist_encodeKey_def encodeKey_def lift_bind_res lift_res_Inr)

lemmas dist_service_eqs = dist_send_eq dist_setAccessToken_eq dist_encodePath_eq dist_encodeKey_eq dist_toQuery_eq

lemma dist_auth_eqs:
  "dist_register = register" "dist_login = login" "dist_refresh = refresh" "dist_logout = logout" "dist_me = me"
  by (intro ext, simp add: dist_register_def register_def dist_login_def login_def dist_refresh_def refresh_def
      dist_logout_def logout_def dist_me_def me_def dist_service_eqs dist_keep_token_eq)+

lemma dist_data_eqs:
  "dist_listTables = listTables" "dist_getTable = getTable" "dist_listRows = listRows" "dist_createRow = createRow"
  "dist_getRow = getRow" "dist_updateRow = updateRow" "dist_deleteRow = deleteRow"
  by (intro ext, simp add: dist_listTables_def listTables_def dist_getTable_def getTable_def dist_listRows_def
      listRows_def dist_createRow_def createRow_def dist_getRow_def getRow_def dist_updateRow_def updateRow_def
      dist_deleteRow_def deleteRow_def row_request_def dist_service_eqs)+

lemma dist_listObjects_eq: "dist_listObjects = listObjects"
proof (intro ext)
  fix f bucket pre s
  show "dist_listObjects f bucket pre s = listObjects f bucket pre s"
    by (cases pre) (simp_all add: dist_listObjects_def listObjects_def dist_service_eqs encodePath_def lift_bind_res
      lift_res_Inr)
qed

lemma dist_object_eqs:
  "dist_getObject = getObject" "dist_putObject = putObject" "dist_deleteObject = deleteObject"
  by (intro ext, simp add: dist_getObject_def getObject_def dist_putObject_def putObject_def dist_deleteObject_def
      deleteObject_def object_path_def app_requestBinary_def app_requestBinaryWithBody_def dist_service_eqs
      dist_requestBinary_eq dist_requestBinaryWithBody_eq dist_appPath_eq lift_bind_res lift_res_Inr bnd_assoc)+

lemma dist_push_eqs:
  "dist_listSubscriptions = listSubscriptions" "dist_createNtfySubscription = createNtfySubscription"
  "dist_createWebPushSubscription = createWebPushSubscription" "dist_deleteSubscription = deleteSubscription"
  "dist_getVapidPublicKey = getVapidPublicKey" "dist_enqueueMessage = enqueueMessage" "dist_invoke = invoke"
  by (intro ext, simp add: dist_listSubscriptions_def listSubscriptions_def dist_createNtfySubscription_def
      createNtfySubscription_def dist_createWebPushSubscription_def createWebPushSubscription_def
      dist_deleteSubscription_def deleteSubscription_def dist_getVapidPublicKey_def getVapidPublicKey_def
      dist_enqueueMessage_def enqueueMessage_def dist_invoke_def invoke_def dist_service_eqs)+

lemmas dist_method_eqs = dist_auth_eqs dist_data_eqs dist_listObjects_eq dist_object_eqs dist_push_eqs
  dist_setAccessToken_eq

lemma dist_new_client_eq: "dist_new_client has_fetch options = new_client has_fetch options"
  by (simp add: dist_new_client_def new_client_def split: option.split)

text \<open>
  C8: the shipped file is the source without three methods: its constructor builds the same client
  or throws the same error, and in every state and against every server a method of its clients
  returns or throws the same, sends the same requests and waits the same times as the method of
  the source, except that \<open>enqueueBatch\<close>, \<open>getMessageStatus\<close> and \<open>subscribeTable\<close> throw a
  \<open>TypeError\<close> and change nothing.
\<close>

theorem dist_equals_source:
  "dist_new_client has_fetch options = new_client has_fetch options
   \<and> dist_exec f op s = (if shipped op then exec f op s else (Inl TypeError, s))"
proof (cases op)
qed (simp_all add: dist_new_client_eq dist_method_eqs prog_simps)

end
