(* ===== verification/Example_Client.thy ===== *)
theory Example_Client
  imports Http
begin

text \<open>
  The browser example \<open>src/examples/auth-client-web/app.js\<close>: its in-memory authentication state, the
  request functions with the single refresh after a 401, the handlers of its buttons and what they
  write to the page. The texts of engine errors (\<open>TypeError\<close>, \<open>URIError\<close>) are a parameter.
\<close>

subsection \<open>State\<close>

record page_inputs =
  el_baseUrl :: jsstr
  el_appId :: jsstr
  el_apiKey :: jsstr
  el_clientId :: jsstr
  el_email :: jsstr
  el_password :: jsstr
  el_currentPassword :: jsstr
  el_newPassword :: jsstr
  el_resetToken :: jsstr

record page_outputs =
  el_output :: jsstr
  el_stateOutput :: jsstr
  el_accessState :: jsstr
  el_refreshState :: jsstr
  el_clientIdState :: jsstr
  el_appIdState :: jsstr

text \<open>\<open>authState\<close>: a token is any value the server sent, \<open>JNull\<close> when there is none.\<close>

record auth_state =
  as_accessToken :: json
  as_refreshToken :: json
  as_user :: json
  as_sessions :: "json list"

record demo_settings =
  ds_baseUrl :: jsstr
  ds_appId :: jsstr
  ds_apiKey :: jsstr
  ds_clientId :: jsstr

record 'w demo =
  authState :: auth_state
  settings :: demo_settings
  inputs :: page_inputs
  outputs :: page_outputs
  demo_world :: 'w
  demo_sent :: "request list"

type_synonym ('w, 'a) demo_prog = "(exn, 'w demo, 'a) prog"

definition no_auth :: auth_state where
  "no_auth = \<lparr>as_accessToken = JNull, as_refreshToken = JNull, as_user = JNull, as_sessions = []\<rparr>"

subsection \<open>Output\<close>

definition setOutput :: "json \<Rightarrow> ('w, unit) demo_prog" where
  "setOutput v = modify (\<lambda>s. s\<lparr>outputs := (outputs s)\<lparr>el_output := (case v of JStr t \<Rightarrow> t | _ \<Rightarrow> stringify2 v)\<rparr>\<rparr>)"

text \<open>
  The token preview of \<open>renderState\<close>: \<open>slice\<close> exists on strings and arrays; calling it on any other
  truthy value throws.
\<close>

definition preview :: "nat \<Rightarrow> json \<Rightarrow> exn + json" where
  "preview n v =
     (if \<not> truthy v then Inr JNull
      else case v of
          JStr t \<Rightarrow> Inr (JStr (take n t @ js ''...''))
        | JArr vs \<Rightarrow> Inr (JStr (js_String (JArr (take n vs)) @ js ''...''))
        | _ \<Rightarrow> Inl TypeError)"

definition or_null :: "jsstr \<Rightarrow> json" where
  "or_null t = (if t = [] then JNull else JStr t)"

definition or_empty :: "jsstr \<Rightarrow> jsstr" where
  "or_empty t = (if t = [] then js ''empty'' else t)"

definition presence :: "json \<Rightarrow> jsstr" where
  "presence v = (if truthy v then js ''present'' else js ''empty'')"

definition renderState :: "('w, unit) demo_prog" where
  "renderState =
     bnd (modify (\<lambda>s. s\<lparr>outputs := (outputs s)\<lparr>
       el_accessState := presence (as_accessToken (authState s)),
       el_refreshState := presence (as_refreshToken (authState s)),
       el_clientIdState := or_empty (ds_clientId (settings s)),
       el_appIdState := or_empty (ds_appId (settings s))\<rparr>\<rparr>)) (\<lambda>_.
     bnd (gets (\<lambda>s. s)) (\<lambda>s.
     bnd (lift_res (preview 24 (as_accessToken (authState s)))) (\<lambda>access.
     bnd (lift_res (preview 24 (as_refreshToken (authState s)))) (\<lambda>refresh.
     modify (\<lambda>s. s\<lparr>outputs := (outputs s)\<lparr>el_stateOutput := stringify2 (object
       [(''baseUrl'', Some (JStr (ds_baseUrl (settings s)))),
        (''appId'', Some (JStr (ds_appId (settings s)))),
        (''apiKeyPreview'', Some (if ds_apiKey (settings s) = [] then JNull
                                 else JStr (take 12 (ds_apiKey (settings s)) @ js ''...''))),
        (''clientId'', Some (or_null (ds_clientId (settings s)))),
        (''user'', Some (as_user (authState s))),
        (''sessions'', Some (JArr (as_sessions (authState s)))),
        (''accessTokenPreview'', Some access),
        (''refreshTokenPreview'', Some refresh)])\<rparr>\<rparr>)))))"

definition set_auth :: "(auth_state \<Rightarrow> auth_state) \<Rightarrow> ('w, unit) demo_prog" where
  "set_auth g = modify (\<lambda>s. s\<lparr>authState := g (authState s)\<rparr>)"

text \<open>\<open>v ?? d\<close>\<close>

definition nullish_or :: "json option \<Rightarrow> json \<Rightarrow> json" where
  "nullish_or v d = (case v of None \<Rightarrow> d | Some x \<Rightarrow> if x = JNull then d else x)"

definition setTokens :: "json \<Rightarrow> ('w, unit) demo_prog" where
  "setTokens payload =
     (if payload = JNull then throw TypeError
      else bnd (set_auth (\<lambda>a. a\<lparr>as_accessToken := nullish_or (member (js ''access_token'') payload) JNull,
             as_refreshToken := nullish_or (member (js ''refresh_token'') payload) JNull,
             as_user := nullish_or (member (js ''user'') payload) (as_user a)\<rparr>)) (\<lambda>_.
           renderState))"

definition clearAuthState :: "('w, unit) demo_prog" where
  "clearAuthState = bnd (set_auth (\<lambda>a. no_auth)) (\<lambda>_. renderState)"

subsection \<open>Requests\<close>

definition readJson :: "response \<Rightarrow> exn + json" where
  "readJson r = bind_res (resp_text r) (\<lambda>t.
     if t = [] then Inr JNull
     else case parse t of Some v \<Rightarrow> Inr v | None \<Rightarrow> Inr (object [(''raw'', Some (JStr t))]))"

record request_init =
  init_method :: string
  init_body :: "jsstr option"

definition get_init :: request_init where
  "get_init = \<lparr>init_method = ''GET'', init_body = None\<rparr>"

definition post_json :: "json \<Rightarrow> request_init" where
  "post_json v = \<lparr>init_method = ''POST'', init_body = Some (stringify v)\<rparr>"

definition demo_headers :: "'w demo \<Rightarrow> request_init \<Rightarrow> exn + headers" where
  "demo_headers s init =
     (let clientId = ds_clientId (settings s); apiKey = ds_apiKey (settings s); t = as_accessToken (authState s) in
      bind_res (headers_new []) (\<lambda>hs.
      bind_res (if \<not> headers_has (js ''Content-Type'') hs \<and> init_body init \<notin> {None, Some []}
                then headers_set (js ''Content-Type'') (js ''application/json'') hs else Inr hs) (\<lambda>hs.
      bind_res (if clientId \<noteq> [] then headers_set (js ''x-peanut-client-id'') clientId hs else Inr hs) (\<lambda>hs.
      bind_res (if apiKey \<noteq> [] then headers_set (js ''x-peanut-api-key'') apiKey hs else Inr hs) (\<lambda>hs.
      if truthy t then headers_set (js ''Authorization'') (js ''Bearer '' @ js_String t) hs else Inr hs)))))"

definition demo_fetch :: "'w fetch \<Rightarrow> request \<Rightarrow> ('w, response) demo_prog" where
  "demo_fetch f r s = (case f r (demo_world s) of
     (x, w) \<Rightarrow> (x, s\<lparr>demo_world := w, demo_sent := demo_sent s @ [r]\<rparr>))"

definition rawRequest :: "'w fetch \<Rightarrow> jsstr \<Rightarrow> request_init \<Rightarrow> ('w, response \<times> json) demo_prog" where
  "rawRequest f path init =
     bnd (gets (\<lambda>s. s)) (\<lambda>s.
     bnd (lift_res (demo_headers s init)) (\<lambda>hs.
     bnd (demo_fetch f \<lparr>req_url = ds_baseUrl (settings s) @ path, req_method = js (init_method init),
            req_headers = hs, req_body = map_option BodyText (init_body init), req_timeout = None\<rparr>) (\<lambda>response.
     bnd (lift_res (readJson response)) (\<lambda>v. ret (response, v)))))"

definition demo_appPath :: "string \<Rightarrow> ('w, jsstr) demo_prog" where
  "demo_appPath path = bnd (gets (\<lambda>s. ds_appId (settings s))) (\<lambda>appId.
     bnd (lift_res (or_throw URIError (encodeURIComponent appId))) (\<lambda>a.
     ret (js ''/api/apps/'' @ a @ js path)))"

text \<open>\<open>new Error(data?.error || fallback)\<close>; \<open>data\<close> may be \<open>null\<close>.\<close>

definition failure :: "json \<Rightarrow> string \<Rightarrow> exn" where
  "failure v fallback = JsError (case member (js ''error'') v of
     Some e \<Rightarrow> if truthy e then js_String e else js fallback | None \<Rightarrow> js fallback)"

definition refreshSession :: "'w fetch \<Rightarrow> ('w, json) demo_prog" where
  "refreshSession f =
     bnd (gets (\<lambda>s. as_refreshToken (authState s))) (\<lambda>t.
     if \<not> truthy t then throw (JsError (js ''No refresh token available''))
     else bnd (demo_appPath ''/auth/refresh'') (\<lambda>p.
          bnd (rawRequest f p (post_json (object [(''refresh_token'', Some t)]))) (\<lambda>(response, v).
          if \<not> resp_ok response then bnd clearAuthState (\<lambda>_. throw (failure v ''refresh failed''))
          else bnd (setTokens v) (\<lambda>_. ret v))))"

definition api :: "'w fetch \<Rightarrow> jsstr \<Rightarrow> request_init \<Rightarrow> bool \<Rightarrow> ('w, response \<times> json) demo_prog" where
  "api f path init again =
     bnd (rawRequest f path init) (\<lambda>(response, v).
     bnd (gets (\<lambda>s. as_refreshToken (authState s))) (\<lambda>t.
     if resp_status response = 401 \<and> again \<and> truthy t
     then bnd (refreshSession f) (\<lambda>_. rawRequest f path init)
     else ret (response, v)))"

subsection \<open>Handlers\<close>

text \<open>\<open>Array.isArray(data?.sessions) ? data.sessions : []\<close>\<close>

definition sessions_of :: "json \<Rightarrow> json list" where
  "sessions_of v = (case member (js ''sessions'') v of Some (JArr xs) \<Rightarrow> xs | _ \<Rightarrow> [])"

text \<open>\<open>if (!response.ok) throw new Error(data?.error || fallback)\<close>\<close>

definition check_ok :: "response \<times> json \<Rightarrow> string \<Rightarrow> ('w, json) demo_prog" where
  "check_ok rv fallback =
     (if \<not> resp_ok (fst rv) then throw (failure (snd rv) fallback) else ret (snd rv))"

definition demo_register :: "'w fetch \<Rightarrow> ('w, json) demo_prog" where
  "demo_register f =
     bnd (demo_appPath ''/auth/register'') (\<lambda>p.
     bnd (gets inputs) (\<lambda>els.
     bnd (rawRequest f p (post_json (object
       [(''email'', Some (JStr (el_email els))), (''password'', Some (JStr (el_password els)))]))) (\<lambda>rv.
     check_ok rv ''register failed'')))"

definition demo_login :: "'w fetch \<Rightarrow> ('w, json) demo_prog" where
  "demo_login f =
     bnd (demo_appPath ''/auth/login'') (\<lambda>p.
     bnd (gets inputs) (\<lambda>els.
     bnd (rawRequest f p (post_json (object
       [(''email'', Some (JStr (el_email els))), (''password'', Some (JStr (el_password els)))]))) (\<lambda>rv.
     bnd (check_ok rv ''login failed'') (\<lambda>v.
     bnd (setTokens v) (\<lambda>_. ret v)))))"

definition demo_loadMe :: "'w fetch \<Rightarrow> ('w, json) demo_prog" where
  "demo_loadMe f =
     bnd (demo_appPath ''/auth/me'') (\<lambda>p.
     bnd (api f p get_init True) (\<lambda>rv.
     bnd (check_ok rv ''load me failed'') (\<lambda>v.
     bnd (set_auth (\<lambda>a. a\<lparr>as_user := nullish_or (member (js ''user'') v) JNull\<rparr>)) (\<lambda>_. ret v))))"

definition demo_logout :: "'w fetch \<Rightarrow> ('w, json) demo_prog" where
  "demo_logout f =
     bnd (gets (\<lambda>s. as_refreshToken (authState s))) (\<lambda>t.
     if \<not> truthy t then throw (JsError (js ''No refresh token available''))
     else bnd (demo_appPath ''/auth/logout'') (\<lambda>p.
          bnd (rawRequest f p (post_json (object [(''refresh_token'', Some t)]))) (\<lambda>rv.
          bnd clearAuthState (\<lambda>_.
          check_ok rv ''logout failed''))))"

definition demo_listSessions :: "'w fetch \<Rightarrow> ('w, json) demo_prog" where
  "demo_listSessions f =
     bnd (demo_appPath ''/auth/sessions'') (\<lambda>p.
     bnd (api f p get_init True) (\<lambda>rv.
     bnd (check_ok rv ''list sessions failed'') (\<lambda>v.
     bnd (set_auth (\<lambda>a. a\<lparr>as_sessions := sessions_of v\<rparr>)) (\<lambda>_. ret v))))"

text \<open>\<open>first.session_id\<close> throws on \<open>null\<close>; an absent id is encoded as the text \<open>undefined\<close>.\<close>

definition demo_revokeFirstSession :: "'w fetch \<Rightarrow> ('w, json) demo_prog" where
  "demo_revokeFirstSession f =
     bnd (gets (\<lambda>s. as_sessions (authState s))) (\<lambda>sessions.
     case sessions of
       [] \<Rightarrow> throw (JsError (js ''Load sessions first''))
     | first # _ \<Rightarrow>
         if first = JNull then throw TypeError
         else (let session_id = member (js ''session_id'') first in
           bnd (lift_res (or_throw URIError (encodeURIComponent
             (case session_id of None \<Rightarrow> js ''undefined'' | Some i \<Rightarrow> js_String i)))) (\<lambda>i.
           bnd (demo_appPath ''/auth/sessions/'') (\<lambda>p.
           bnd (api f (p @ i) \<lparr>init_method = ''DELETE'', init_body = None\<rparr> True) (\<lambda>rv.
           bnd (check_ok rv ''revoke session failed'') (\<lambda>v.
           bnd (demo_listSessions f) (\<lambda>_.
           ret (object [(''revoked_session_id'', session_id), (''response'', Some v)]))))))))"

definition demo_revokeAllSessions :: "'w fetch \<Rightarrow> ('w, json) demo_prog" where
  "demo_revokeAllSessions f =
     bnd (demo_appPath ''/auth/sessions/revoke-all'') (\<lambda>p.
     bnd (api f p \<lparr>init_method = ''POST'', init_body = None\<rparr> True) (\<lambda>rv.
     bnd (check_ok rv ''revoke all sessions failed'') (\<lambda>v.
     bnd (set_auth (\<lambda>a. a\<lparr>as_sessions := []\<rparr>)) (\<lambda>_. ret v))))"

text \<open>The members \<open>{...v}\<close> copies: an index names each code unit of a string and each array element.\<close>

definition index_key :: "nat \<Rightarrow> jsstr" where
  "index_key i = number_string (mk_number False i 0)"

definition spread :: "json \<Rightarrow> (jsstr \<times> json) list" where
  "spread v = (case v of
     JObj ms \<Rightarrow> ms
   | JStr t \<Rightarrow> map (\<lambda>(i, c). (index_key i, JStr [c])) (List.enumerate 0 t)
   | JArr xs \<Rightarrow> map (\<lambda>(i, x). (index_key i, x)) (List.enumerate 0 xs)
   | _ \<Rightarrow> [])"

definition demo_changePassword :: "'w fetch \<Rightarrow> ('w, json) demo_prog" where
  "demo_changePassword f =
     bnd (demo_appPath ''/auth/change-password'') (\<lambda>p.
     bnd (gets inputs) (\<lambda>els.
     bnd (api f p (post_json (object
       [(''current_password'', Some (JStr (el_currentPassword els))),
        (''new_password'', Some (JStr (el_newPassword els)))])) True) (\<lambda>rv.
     bnd (check_ok rv ''change password failed'') (\<lambda>v.
     bnd clearAuthState (\<lambda>_.
     ret (JObj (set_member (js ''note'')
       (JStr (js ''Existing refresh sessions are revoked, so the demo clears in-memory auth state.''))
       (spread v))))))))"

definition demo_forgotPassword :: "'w fetch \<Rightarrow> ('w, json) demo_prog" where
  "demo_forgotPassword f =
     bnd (demo_appPath ''/auth/forgot-password'') (\<lambda>p.
     bnd (gets inputs) (\<lambda>els.
     bnd (rawRequest f p (post_json (object [(''email'', Some (JStr (el_email els)))]))) (\<lambda>rv.
     bnd (check_ok rv ''forgot password failed'') (\<lambda>v.
     bnd (case member (js ''reset_token'') v of
            Some t \<Rightarrow> if truthy t then modify (\<lambda>s. s\<lparr>inputs := (inputs s)\<lparr>el_resetToken := js_String t\<rparr>\<rparr>) else ret ()
          | None \<Rightarrow> ret ()) (\<lambda>_. ret v)))))"

definition demo_resetPassword :: "'w fetch \<Rightarrow> ('w, json) demo_prog" where
  "demo_resetPassword f =
     bnd (demo_appPath ''/auth/reset-password'') (\<lambda>p.
     bnd (gets inputs) (\<lambda>els.
     bnd (rawRequest f p (post_json (object
       [(''reset_token'', Some (JStr (el_resetToken els))),
        (''new_password'', Some (JStr (el_newPassword els)))]))) (\<lambda>rv.
     bnd clearAuthState (\<lambda>_.
     check_ok rv ''reset password failed''))))"

definition saveBaseUrl :: "('w, unit) demo_prog" where
  "saveBaseUrl =
     bnd (modify (\<lambda>s. let els = inputs s in s\<lparr>settings := \<lparr>
       ds_baseUrl = strip_slash (js_trim (el_baseUrl els)),
       ds_appId = js_trim (if el_appId els = [] then js ''default'' else el_appId els),
       ds_apiKey = js_trim (el_apiKey els),
       ds_clientId = js_trim (el_clientId els)\<rparr>\<rparr>)) (\<lambda>_.
     bnd renderState (\<lambda>_.
     bnd (gets settings) (\<lambda>c.
     setOutput (object [(''ok'', Some (JBool True)), (''baseUrl'', Some (JStr (ds_baseUrl c))),
       (''appId'', Some (JStr (ds_appId c))), (''apiKeyPresent'', Some (JBool (ds_apiKey c \<noteq> []))),
       (''clientId'', Some (or_null (ds_clientId c)))]))))"

text \<open>\<open>error.message\<close>; the texts of the engine's own errors are the parameter \<open>msg\<close>.\<close>

definition message :: "(exn \<Rightarrow> jsstr) \<Rightarrow> exn \<Rightarrow> jsstr" where
  "message msg e = (case e of JsError t \<Rightarrow> t | _ \<Rightarrow> msg e)"

text \<open>\<open>run(label, fn)\<close>; the result of \<open>fn\<close> may be \<open>undefined\<close>.\<close>

definition demo_run :: "(exn \<Rightarrow> jsstr) \<Rightarrow> string \<Rightarrow> ('w, json option) demo_prog \<Rightarrow> ('w, unit) demo_prog" where
  "demo_run msg label fn =
     bnd (try_catch
       (bnd fn (\<lambda>result. setOutput (object [(''label'', Some (JStr (js label))), (''ok'', Some (JBool True)), (''result'', result)])))
       (\<lambda>e. setOutput (object [(''label'', Some (JStr (js label))), (''ok'', Some (JBool False)),
              (''error'', Some (JStr (message msg e)))]))) (\<lambda>_.
     renderState)"

subsection \<open>The page\<close>

datatype button = SaveBaseUrl | BtnRegister | BtnLogin | LoadMe | RefreshSession | BtnLogout | ListSessions
  | RevokeFirstSession | RevokeAllSessions | ChangePassword | ForgotPassword | ResetPassword

definition some_result :: "('w, json) demo_prog \<Rightarrow> ('w, json option) demo_prog" where
  "some_result m = bnd m (\<lambda>v. ret (Some v))"

fun handler :: "'w fetch \<Rightarrow> button \<Rightarrow> ('w, json option) demo_prog" where
  "handler f SaveBaseUrl = bnd saveBaseUrl (\<lambda>_. ret None)"
| "handler f BtnRegister = some_result (demo_register f)"
| "handler f BtnLogin = some_result (demo_login f)"
| "handler f LoadMe = some_result (demo_loadMe f)"
| "handler f RefreshSession = some_result (refreshSession f)"
| "handler f BtnLogout = some_result (demo_logout f)"
| "handler f ListSessions = some_result (demo_listSessions f)"
| "handler f RevokeFirstSession = some_result (demo_revokeFirstSession f)"
| "handler f RevokeAllSessions = some_result (demo_revokeAllSessions f)"
| "handler f ChangePassword = some_result (demo_changePassword f)"
| "handler f ForgotPassword = some_result (demo_forgotPassword f)"
| "handler f ResetPassword = some_result (demo_resetPassword f)"

fun label :: "button \<Rightarrow> string" where
  "label SaveBaseUrl = ''saveBaseUrl''"
| "label BtnRegister = ''register''"
| "label BtnLogin = ''login''"
| "label LoadMe = ''loadMe''"
| "label RefreshSession = ''refreshSession''"
| "label BtnLogout = ''logout''"
| "label ListSessions = ''listSessions''"
| "label RevokeFirstSession = ''revokeFirstSession''"
| "label RevokeAllSessions = ''revokeAllSessions''"
| "label ChangePassword = ''changePassword''"
| "label ForgotPassword = ''forgotPassword''"
| "label ResetPassword = ''resetPassword''"

definition click :: "'w fetch \<Rightarrow> (exn \<Rightarrow> jsstr) \<Rightarrow> button \<Rightarrow> ('w, unit) demo_prog" where
  "click f msg b = demo_run msg (label b) (handler f b)"

definition default_settings :: demo_settings where
  "default_settings = \<lparr>ds_baseUrl = js ''http://127.0.0.1:3000'', ds_appId = js ''default'', ds_apiKey = [],
     ds_clientId = js ''peanut-web-dev''\<rparr>"

definition page_load :: "('w, unit) demo_prog" where
  "page_load = bnd renderState (\<lambda>_. setOutput (object
     [(''message'', Some (JStr (js ''Ready. Set the Peanut base URL, app id, and a client/server app key, then register or login.''))),
      (''auth_client_policy_hint'', Some (JStr (js ''If AUTH_ALLOWED_CLIENT_IDS is enabled on the server, keep the client id field filled so the example sends x-peanut-client-id.''))),
      (''production_note'', Some (JStr (js ''This example stores tokens in memory only. Prefer a BFF or secure cookie strategy for production refresh tokens.'')))]))"

subsection \<open>Requests stay in the configured application\<close>

text \<open>
  A request under settings \<open>c\<close>: below the application's path, with the client id and the API key
  exactly when they are set.
\<close>

definition set_header :: "jsstr \<Rightarrow> jsstr option" where
  "set_header v = (if v = [] then None else Some (header_value v))"

definition demo_allowed :: "demo_settings \<Rightarrow> request \<Rightarrow> bool" where
  "demo_allowed c r \<longleftrightarrow> in_app (ds_baseUrl c) (ds_appId c) (req_url r)
     \<and> headers_get (js ''x-peanut-client-id'') (req_headers r) = set_header (ds_clientId c)
     \<and> headers_get (js ''x-peanut-api-key'') (req_headers r) = set_header (ds_apiKey c)"

text \<open>The bearer token a state puts on its requests.\<close>

definition demo_bearer :: "'w demo \<Rightarrow> jsstr option" where
  "demo_bearer s = (let t = as_accessToken (authState s) in
     if truthy t then Some (header_value (js ''Bearer '' @ js_String t)) else None)"

lemma demo_header_names:
  "distinct (map ascii_lower [js ''Content-Type'', js ''x-peanut-client-id'', js ''x-peanut-api-key'', js ''Authorization''])"
  by (simp add: ascii_lower_js)

lemma headers_get_if_set:
  assumes "(if b then headers_set m v hs else Inr hs) = Inr hs'"
  shows "headers_get n hs' = (if b \<and> ascii_lower n = ascii_lower m then Some (header_value v) else headers_get n hs)"
  using assms headers_get_set [of m v hs hs' n] by (auto split: if_splits)

lemma demo_headers_get:
  assumes "demo_headers s init = Inr hs"
  shows "headers_get (js ''x-peanut-client-id'') hs = set_header (ds_clientId (settings s))"
    and "headers_get (js ''x-peanut-api-key'') hs = set_header (ds_apiKey (settings s))"
    and "headers_get (js ''Authorization'') hs = demo_bearer s"
proof -
  let ?t = "as_accessToken (authState s)"
  obtain h1 h2 h3 b where
    h1: "(if b then headers_set (js ''Content-Type'') (js ''application/json'') [] else Inr []) = Inr h1" and
    h2: "(if ds_clientId (settings s) \<noteq> [] then headers_set (js ''x-peanut-client-id'') (ds_clientId (settings s)) h1 else Inr h1) = Inr h2" and
    h3: "(if ds_apiKey (settings s) \<noteq> [] then headers_set (js ''x-peanut-api-key'') (ds_apiKey (settings s)) h2 else Inr h2) = Inr h3" and
    h4: "(if truthy ?t then headers_set (js ''Authorization'') (js ''Bearer '' @ js_String ?t) h3 else Inr h3) = Inr hs"
    using assms unfolding demo_headers_def Let_def bind_res_eq_Inr headers_new_Nil by blast
  note get = headers_get_if_set [OF h4] headers_get_if_set [OF h3] headers_get_if_set [OF h2] headers_get_if_set [OF h1]
  show "headers_get (js ''x-peanut-client-id'') hs = set_header (ds_clientId (settings s))"
    "headers_get (js ''x-peanut-api-key'') hs = set_header (ds_apiKey (settings s))"
    "headers_get (js ''Authorization'') hs = demo_bearer s"
    using demo_header_names unfolding get by (auto simp: set_header_def demo_bearer_def Let_def)
qed

lemma demo_fetch_eq:
  "demo_fetch f r s = (fst (f r (demo_world s)), s\<lparr>demo_world := snd (f r (demo_world s)), demo_sent := demo_sent s @ [r]\<rparr>)"
  by (simp add: demo_fetch_def split: prod.split)

text \<open>Every request of \<open>rawRequest\<close>: where it goes, what it carries.\<close>

definition raw_sent :: "'w demo \<Rightarrow> jsstr \<Rightarrow> request_init \<Rightarrow> request \<Rightarrow> bool" where
  "raw_sent s path init r \<longleftrightarrow> req_url r = ds_baseUrl (settings s) @ path \<and> req_method r = js (init_method init)
     \<and> req_body r = map_option BodyText (init_body init)
     \<and> headers_get (js ''x-peanut-client-id'') (req_headers r) = set_header (ds_clientId (settings s))
     \<and> headers_get (js ''x-peanut-api-key'') (req_headers r) = set_header (ds_apiKey (settings s))
     \<and> headers_get (js ''Authorization'') (req_headers r) = demo_bearer s"

abbreviation demo_sends :: "(request \<Rightarrow> bool) \<Rightarrow> ('w, 'a) demo_prog \<Rightarrow> 'w demo \<Rightarrow> bool" where
  "demo_sends \<equiv> appends demo_sent settings"

lemma sends_demo_fetch: "P r \<Longrightarrow> demo_sends P (demo_fetch f r) s"
  by (simp add: appends_def demo_fetch_eq)

lemma sends_rawRequest: "demo_sends (raw_sent s path init) (rawRequest f path init) s"
  unfolding rawRequest_def
  by (intro appends_intros sends_demo_fetch) (simp add: raw_sent_def demo_headers_get)

subsection \<open>Scoped computations\<close>

definition scoped :: "demo_settings \<Rightarrow> ('w, 'a) demo_prog \<Rightarrow> bool" where
  "scoped c m \<longleftrightarrow> (\<forall>s. settings s = c \<longrightarrow> demo_sends (demo_allowed c) m s)"

named_theorems scoped_intros \<open>structural rules for \<open>scoped\<close>\<close>

lemma scoped_basic [scoped_intros]:
  "scoped c (ret x)" "scoped c (throw e)" "scoped c (lift_res y)" "scoped c (gets g)" "scoped c (set_auth h)"
  "scoped c (setOutput v)" "scoped c (modify (\<lambda>s. s\<lparr>inputs := i s\<rparr>))" "scoped c (modify (\<lambda>s. s\<lparr>outputs := out s\<rparr>))"
  by (simp_all add: scoped_def appends_def prog_simps set_auth_def setOutput_def)

lemma scoped_bnd [scoped_intros]:
  fixes m :: "('w, 'a) demo_prog"
  assumes "scoped c m" "\<And>x. scoped c (k x)"
  shows "scoped c (bnd m k)"
  unfolding scoped_def
proof (intro allI impI)
  fix s :: "'w demo"
  assume s: "settings s = c"
  then have m: "demo_sends (demo_allowed c) m s" using assms(1) by (simp add: scoped_def)
  show "demo_sends (demo_allowed c) (bnd m k) s"
  proof (rule appends_bnd [OF m])
    fix x s'
    assume "m s = (Inr x, s')"
    then have "settings s' = c" using m s by (simp add: appends_def)
    then show "demo_sends (demo_allowed c) (k x) s'" using assms(2) by (simp add: scoped_def)
  qed
qed

lemma scoped_try_catch [scoped_intros]:
  fixes m :: "('w, 'a) demo_prog"
  assumes "scoped c m" "\<And>e. scoped c (h e)"
  shows "scoped c (try_catch m h)"
  unfolding scoped_def
proof (intro allI impI)
  fix s :: "'w demo"
  assume "settings s = c"
  then have m: "demo_sends (demo_allowed c) m s" "settings (snd (m s)) = c"
    using assms(1) by (auto simp: scoped_def appends_def)
  then have h: "demo_sends (demo_allowed c) (h e) (snd (m s))" for e
    using assms(2) by (simp add: scoped_def)
  show "demo_sends (demo_allowed c) (try_catch m h) s"
    using m(1) h by (cases "m s"; cases "fst (m s)") (fastforce simp: appends_def try_catch_def)+
qed

lemma scoped_if [scoped_intros]: "scoped c m \<Longrightarrow> scoped c n \<Longrightarrow> scoped c (if b then m else n)"
  by simp

lemma scoped_case [scoped_intros]:
  "scoped c m \<Longrightarrow> (\<And>y. scoped c (k y)) \<Longrightarrow> scoped c (case x of None \<Rightarrow> m | Some y \<Rightarrow> k y)"
  "(\<And>a b. scoped c (q a b)) \<Longrightarrow> scoped c (case ab of (a, b) \<Rightarrow> q a b)"
  "scoped c m' \<Longrightarrow> (\<And>z zs. scoped c (k' z zs)) \<Longrightarrow> scoped c (case xs of [] \<Rightarrow> m' | z # zs \<Rightarrow> k' z zs)"
  by (cases x, simp, simp) (cases ab, simp, cases xs, simp, simp)

lemma scoped_Let [scoped_intros]: "scoped c (k x) \<Longrightarrow> scoped c (let y = x in k y)"
  by simp

text \<open>The paths the handlers build are below the application.\<close>

definition app_relative :: "demo_settings \<Rightarrow> jsstr \<Rightarrow> bool" where
  "app_relative c p \<longleftrightarrow> in_app (ds_baseUrl c) (ds_appId c) (ds_baseUrl c @ p)"

lemma scoped_appPath [scoped_intros]:
  assumes "\<And>p. app_relative c p \<Longrightarrow> scoped c (k p)"
  shows "scoped c (bnd (demo_appPath (CHR ''/'' # path)) k)"
proof -
  have "app_relative c (js ''/api/apps/'' @ a @ js (CHR ''/'' # path))" if "encodeURIComponent (ds_appId c) = Some a" for a
    using that by (simp add: app_relative_def in_app_def app_root_def js_def cu_def)
  then have "scoped c (k (js ''/api/apps/'' @ a @ js (CHR ''/'' # path)))" if "encodeURIComponent (ds_appId c) = Some a" for a
    using that assms by blast
  then show ?thesis
    by (cases "encodeURIComponent (ds_appId c)") (auto simp: scoped_def demo_appPath_def appends_def prog_simps)
qed

lemma app_relative_append: "app_relative c p \<Longrightarrow> app_relative c (p @ q)"
  by (auto simp: app_relative_def in_app_def split: option.splits) (metis append.assoc prefix_append prefix_order.trans prefixI)

lemma scoped_rawRequest [scoped_intros]:
  fixes f :: "'w fetch"
  assumes "app_relative c path"
  shows "scoped c (rawRequest f path init)"
  unfolding scoped_def
proof (intro allI impI)
  fix s :: "'w demo"
  assume "settings s = c"
  then have "raw_sent s path init r \<Longrightarrow> demo_allowed c r" for r
    using assms by (auto simp: raw_sent_def demo_allowed_def app_relative_def)
  then show "demo_sends (demo_allowed c) (rawRequest f path init) s"
    using sends_rawRequest by (rule appends_mono [rotated])
qed

lemma scoped_render [scoped_intros]: "scoped c renderState" "scoped c (setTokens v)" "scoped c clearAuthState"
  unfolding setTokens_def clearAuthState_def renderState_def by (intro scoped_intros)+

lemma scoped_refreshSession [scoped_intros]: "scoped c (refreshSession f)"
  unfolding refreshSession_def by (intro scoped_intros)

lemma scoped_api [scoped_intros]: "app_relative c path \<Longrightarrow> scoped c (api f path init again)"
  unfolding api_def by (intro scoped_intros)

lemma scoped_check_ok [scoped_intros]: "scoped c (check_ok rv fallback)"
  unfolding check_ok_def by (intro scoped_intros)

lemma scoped_listSessions [scoped_intros]: "scoped c (demo_listSessions f)"
  unfolding demo_listSessions_def by (intro scoped_intros)

lemmas handler_defs = demo_register_def demo_login_def demo_loadMe_def demo_logout_def
  demo_revokeFirstSession_def demo_revokeAllSessions_def demo_changePassword_def demo_forgotPassword_def
  demo_resetPassword_def some_result_def

lemma scoped_handler: "b \<noteq> SaveBaseUrl \<Longrightarrow> scoped c (handler f b)"
  by (cases b; simp add: handler_defs Let_def;
      (assumption | rule scoped_appPath | rule app_relative_append | rule scoped_intros)+)

lemma appends_saveBaseUrl: "\<exists>x s'. saveBaseUrl s = (x, s') \<and> demo_sent s' = demo_sent s"
  by (simp add: saveBaseUrl_def renderState_def setOutput_def prog_simps Let_def split: sum.split prod.split)

lemma scoped_demo_run: "scoped c fn \<Longrightarrow> scoped c (demo_run msg lb fn)"
  unfolding demo_run_def by (intro scoped_intros)

lemma renderState_sent: "demo_sent (snd (renderState s)) = demo_sent s"
  using scoped_render(1) [of "settings s"] unfolding renderState_def
  by (simp add: prog_simps split: sum.split)

lemma click_save_sent: "demo_sent (snd (click f msg SaveBaseUrl s)) = demo_sent s"
  using appends_saveBaseUrl [of s]
  by (auto simp: renderState_sent click_def demo_run_def setOutput_def prog_simps split: sum.split)

lemma click_sends:
  "\<exists>rs. demo_sent (snd (click f msg b s)) = demo_sent s @ rs \<and> list_all (demo_allowed (settings s)) rs"
  "b \<noteq> SaveBaseUrl \<Longrightarrow> settings (snd (click f msg b s)) = settings s"
proof -
  have "demo_sends (demo_allowed (settings s)) (click f msg b) s" if "b \<noteq> SaveBaseUrl"
    using scoped_demo_run [OF scoped_handler [OF that], of "settings s" msg "label b" f]
    by (simp add: scoped_def click_def)
  then show "\<exists>rs. demo_sent (snd (click f msg b s)) = demo_sent s @ rs \<and> list_all (demo_allowed (settings s)) rs"
    and "b \<noteq> SaveBaseUrl \<Longrightarrow> settings (snd (click f msg b s)) = settings s"
    using click_save_sent [of f msg s] by (cases "b = SaveBaseUrl"; simp add: appends_def)+
qed

interpretation demo: logged_client "click f msg" "\<lambda>b. b \<noteq> SaveBaseUrl" demo_sent settings demo_allowed
  by unfold_locales (simp_all add: click_sends)

subsection \<open>How many requests a call makes\<close>

lemma at_most_demo:
  "at_most demo_sent 0 (set_auth h)" "at_most demo_sent 0 (demo_appPath p)" "at_most demo_sent 0 renderState"
  by (simp_all add: at_most_def prog_simps set_auth_def demo_appPath_def renderState_sent [simplified prog_simps] split: sum.split)

lemma at_most_rawRequest: "at_most demo_sent 1 (rawRequest f path init)"
  by (simp add: at_most_def rawRequest_def demo_fetch_eq prog_simps split: sum.split)


lemma at_most_render: "at_most demo_sent 0 clearAuthState" "at_most demo_sent 0 (setTokens v)"
  unfolding clearAuthState_def setTokens_def
  by (intro at_most_bnd [where n = 0 and k = 0] at_most_if [where n = 0 and k = 0] at_most_0 at_most_demo; simp)+

lemma at_most_refresh_end:
  "at_most demo_sent 0 (if \<not> resp_ok response then bnd clearAuthState (\<lambda>_. throw (failure v ''refresh failed''))
     else bnd (setTokens v) (\<lambda>_. ret v))"
  by (intro at_most_if [where n = 0 and k = 0] at_most_bnd [where n = 0 and k = 0] at_most_render at_most_0 at_most_demo; simp)

lemma at_most_refreshSession: "at_most demo_sent 1 (refreshSession f)"
  unfolding refreshSession_def case_prod_beta
  by (intro at_most_bnd [where n = 0 and k = 1] at_most_if [where n = 0 and k = 1] at_most_0 at_most_demo
      at_most_bnd [where n = 1 and k = 0] at_most_rawRequest at_most_refresh_end) simp_all

lemma at_most_api: "at_most demo_sent 3 (api f path init again)"
proof -
  have "at_most demo_sent 2 (bnd (gets g) (\<lambda>t.
      if resp_status response = 401 \<and> again \<and> truthy t then bnd (refreshSession f) (\<lambda>_. rawRequest f path init)
      else ret (response, v)))" for g response and v :: json
    by (intro at_most_bnd [where n = 0 and k = 2] at_most_if [where n = 2 and k = 0]
        at_most_bnd [where n = 1 and k = 1] at_most_refreshSession at_most_rawRequest at_most_0 at_most_demo) simp_all
  then show ?thesis unfolding api_def
    by (intro at_most_bnd [where n = 1 and k = 2] at_most_rawRequest) (simp_all split: prod.split)
qed

subsection \<open>The authentication state\<close>

lemma renderState_auth: "authState (snd (renderState s)) = authState s"
  by (simp add: renderState_def prog_simps split: sum.split)

lemma clearAuthState_auth: "authState (snd (clearAuthState s)) = no_auth"
  by (simp add: clearAuthState_def set_auth_def renderState_auth [simplified prog_simps] bnd_def modify_def renderState_auth)

lemma setTokens_auth:
  "setTokens v s = (x, s') \<Longrightarrow> v \<noteq> JNull \<Longrightarrow>
   as_accessToken (authState s') = nullish_or (member (js ''access_token'') v) JNull
   \<and> as_refreshToken (authState s') = nullish_or (member (js ''refresh_token'') v) JNull"
  using renderState_auth [of "s\<lparr>authState := (authState s)\<lparr>as_accessToken := nullish_or (member (js ''access_token'') v) JNull,
             as_refreshToken := nullish_or (member (js ''refresh_token'') v) JNull,
             as_user := nullish_or (member (js ''user'') v) (as_user (authState s))\<rparr>\<rparr>"]
  by (simp add: setTokens_def set_auth_def bnd_def modify_def)

lemma refreshSession_ok:
  assumes "refreshSession f s = (Inr v, s')"
  shows "as_accessToken (authState s') = nullish_or (member (js ''access_token'') v) JNull
    \<and> as_refreshToken (authState s') = nullish_or (member (js ''refresh_token'') v) JNull"
proof -
  obtain s1 where "setTokens v s1 = (Inr (), s')"
    using assms by (auto simp: refreshSession_def clearAuthState_def prog_simps split: sum.splits prod.splits if_splits)
  moreover from this have "v \<noteq> JNull" by (auto simp: setTokens_def prog_simps)
  ultimately show ?thesis using setTokens_auth by blast
qed

lemma api_after_refresh:
  assumes "rawRequest f path init s = (Inr (response, v), s1)" "resp_status response = 401"
    and "truthy (as_refreshToken (authState s1))"
  shows "api f path init True s = bnd (refreshSession f) (\<lambda>_. rawRequest f path init) s1"
  using assms by (simp add: api_def bnd_def gets_def)

lemma rawRequest_auth: "authState (snd (rawRequest f path init s)) = authState s"
  by (simp add: rawRequest_def demo_fetch_eq prog_simps split: sum.split)

lemma clearAuthState_ok: "fst (clearAuthState s) = Inr ()"
  by (simp add: clearAuthState_def set_auth_def renderState_def preview_def no_auth_def truthy_def prog_simps)

lemma clearAuthState_eq: "\<exists>s'. clearAuthState s = (Inr (), s') \<and> authState s' = no_auth"
  using clearAuthState_ok [of s] clearAuthState_auth [of s] by (metis prod.collapse)

lemma demo_appPath_eq:
  "encodeURIComponent (ds_appId (settings s)) = Some a \<Longrightarrow>
   demo_appPath path s = (Inr (js ''/api/apps/'' @ a @ js path), s)"
  by (simp add: demo_appPath_def prog_simps)

lemma rawRequest_answer:
  assumes "demo_headers s init = Inr hs" "fst (f r (demo_world s)) = Inr response" "readJson response = Inr v"
    and "r = \<lparr>req_url = ds_baseUrl (settings s) @ path, req_method = js (init_method init),
            req_headers = hs, req_body = map_option BodyText (init_body init), req_timeout = None\<rparr>"
  shows "rawRequest f path init s =
    (Inr (response, v), s\<lparr>demo_world := snd (f r (demo_world s)), demo_sent := demo_sent s @ [r]\<rparr>)"
  using assms by (simp add: rawRequest_def demo_fetch_eq prog_simps)

lemma refreshSession_answer:
  assumes "truthy (as_refreshToken (authState s))" "encodeURIComponent (ds_appId (settings s)) = Some a"
    and "rawRequest f (js ''/api/apps/'' @ a @ js ''/auth/refresh'')
      (post_json (object [(''refresh_token'', Some (as_refreshToken (authState s)))])) s = (Inr (response, v), s1)"
  shows "refreshSession f s = (if \<not> resp_ok response then bnd clearAuthState (\<lambda>_. throw (failure v ''refresh failed'')) s1
    else bnd (setTokens v) (\<lambda>_. ret v) s1)"
  using assms by (simp add: refreshSession_def demo_appPath_eq bnd_def gets_def)

subsection \<open>Properties\<close>

text \<open>A server that rejects the first request, answers the second with new tokens and then accepts.\<close>

definition answer :: "nat \<Rightarrow> json \<Rightarrow> response" where
  "answer st v = \<lparr>resp_status = st, resp_headers = [], resp_text = Inr (stringify v), resp_stream = None\<rparr>"

definition new_tokens :: json where
  "new_tokens = JObj [(js ''access_token'', JStr (js ''new'')), (js ''refresh_token'', JStr (js ''r2''))]"

definition expiring_server :: "nat fetch" where
  "expiring_server r w = (Inr (if w = 0 then answer 401 JNull else if w = 1 then answer 200 new_tokens
     else answer 200 JNull), Suc w)"

definition sample_demo :: "nat \<Rightarrow> nat demo" where
  "sample_demo w = \<lparr>authState = no_auth\<lparr>as_accessToken := JStr (js ''old''), as_refreshToken := JStr (js ''r1'')\<rparr>,
     settings = default_settings,
     inputs = \<lparr>el_baseUrl = [], el_appId = [], el_apiKey = [], el_clientId = [], el_email = [], el_password = [],
       el_currentPassword = [], el_newPassword = [], el_resetToken = []\<rparr>,
     outputs = \<lparr>el_output = [], el_stateOutput = [], el_accessState = [], el_refreshState = [],
       el_clientIdState = [], el_appIdState = []\<rparr>,
     demo_world = w, demo_sent = []\<rparr>"

text \<open>
  When a call is answered with 401 and the session can be refreshed, \<open>api\<close> repeats the same
  request (URL, method and body) once, with the access token of the refresh answer, and its outcome
  is that of the repeated request.
\<close>

theorem demo_retry_uses_new_token:
  assumes "rawRequest f path init s = (Inr (response, v), s1)" "resp_status response = 401"
    and "truthy (as_refreshToken (authState s1))" "refreshSession f s1 = (Inr d, s2)"
    and "t = nullish_or (member (js ''access_token'') d) JNull"
  shows "fst (api f path init True s) = fst (rawRequest f path init s2)
    \<and> (demo_sent (snd (api f path init True s)) = demo_sent s2 \<or>
       (\<exists>r. demo_sent (snd (api f path init True s)) = demo_sent s2 @ [r]
          \<and> req_url r = ds_baseUrl (settings s2) @ path \<and> req_method r = js (init_method init)
          \<and> req_body r = map_option BodyText (init_body init)
          \<and> headers_get (js ''Authorization'') (req_headers r) =
              (if truthy t then Some (header_value (js ''Bearer '' @ js_String t)) else None)))"
proof -
  have api: "api f path init True s = rawRequest f path init s2"
    using api_after_refresh [OF assms(1-3)] assms(4) by (simp add: bnd_def)
  have "demo_bearer s2 = (if truthy t then Some (header_value (js ''Bearer '' @ js_String t)) else None)"
    using refreshSession_ok [OF assms(4)] assms(5) by (simp add: demo_bearer_def Let_def)
  then show ?thesis
    using at_most_one_new [OF at_most_rawRequest sends_rawRequest [of s2 path init f]]
    unfolding api by (auto simp: raw_sent_def)
qed

lemma sample_headers:
  assumes "settings s = default_settings" "authState s = authState (sample_demo 0)"
  shows "\<exists>hs. demo_headers s init = Inr hs"
  using assms
  by (simp add: demo_headers_def Let_def sample_demo_def default_settings_def no_auth_def truthy_def headers_set_def
      header_name_ok_def header_value_ok_def header_value_def header_space_def alnum_def js_def cu_def)

lemma readJson_answer:
  assumes "wf_json v"
  shows "readJson (answer st v) = Inr v"
proof -
  have "stringify v \<noteq> []" using render_hd [OF assms, of "\<lambda>_. []" "[58]" 0] by (auto simp: stringify_def)
  then show ?thesis using parse_stringify [OF assms] by (simp add: readJson_def answer_def)
qed

lemma sample_raw:
  assumes "settings s = default_settings" "authState s = authState (sample_demo 0)"
    and "fst (expiring_server undefined (demo_world s)) = Inr (answer st v)" "wf_json v"
  shows "\<exists>r. rawRequest expiring_server path init s =
    (Inr (answer st v, v), s\<lparr>demo_world := Suc (demo_world s), demo_sent := demo_sent s @ [r]\<rparr>)"
proof -
  obtain hs where "demo_headers s init = Inr hs" using sample_headers [OF assms(1,2)] by blast
  then show ?thesis
    using assms(3) rawRequest_answer [OF _ _ readJson_answer [OF assms(4)] refl, of s init hs expiring_server]
    by (auto simp: expiring_server_def)
qed

lemma wf_new_tokens: "wf_json new_tokens" "wf_json JNull"
  by code_simp+

lemma setTokens_new: "fst (setTokens new_tokens s) = Inr ()"
proof -
  have "member (js ''access_token'') new_tokens = Some (JStr (js ''new''))"
    "member (js ''refresh_token'') new_tokens = Some (JStr (js ''r2''))"
    "new_tokens \<noteq> JNull"
    by (simp_all add: new_tokens_def member_def)
  then show ?thesis
    by (simp add: setTokens_def set_auth_def renderState_def
        preview_def nullish_or_def truthy_def prog_simps)
qed

lemma sample_refresh:
  assumes "settings s = default_settings" "authState s = authState (sample_demo 0)" "demo_world s = 1"
  shows "\<exists>s'. refreshSession expiring_server s = (Inr new_tokens, s')"
proof -
  have enc: "encodeURIComponent (ds_appId (settings s)) = Some (js ''default'')"
    unfolding assms default_settings_def by code_simp
  have "truthy (as_refreshToken (authState s))" by (simp add: assms sample_demo_def truthy_def js_def)
  moreover obtain r where "rawRequest expiring_server (js ''/api/apps/'' @ js ''default'' @ js ''/auth/refresh'')
      (post_json (object [(''refresh_token'', Some (as_refreshToken (authState s)))])) s =
    (Inr (answer 200 new_tokens, new_tokens), s\<lparr>demo_world := Suc (demo_world s), demo_sent := demo_sent s @ [r]\<rparr>)"
    using sample_raw [OF assms(1,2) _ wf_new_tokens(1)] assms(3) by (fastforce simp: expiring_server_def)
  ultimately have "refreshSession expiring_server s = bnd (setTokens new_tokens) (\<lambda>_. ret new_tokens)
      (s\<lparr>demo_world := Suc (demo_world s), demo_sent := demo_sent s @ [r]\<rparr>)"
    using refreshSession_answer [OF _ enc] by (simp add: resp_ok_def answer_def)
  then show ?thesis
    using setTokens_new [of "s\<lparr>demo_world := Suc (demo_world s), demo_sent := demo_sent s @ [r]\<rparr>"]
    by (auto simp: bnd_def ret_def split: prod.split)
qed

theorem demo_retry_uses_new_token_witness:
  "\<exists>s2 d. refreshSession expiring_server (snd (rawRequest expiring_server (js ''/x'') get_init (sample_demo 0))) = (Inr d, s2)
    \<and> fst (api expiring_server (js ''/x'') get_init True (sample_demo 0)) =
        fst (rawRequest expiring_server (js ''/x'') get_init s2)"
proof -
  let ?s = "sample_demo 0"
  obtain r where raw: "rawRequest expiring_server (js ''/x'') get_init ?s =
      (Inr (answer 401 JNull, JNull), ?s\<lparr>demo_world := Suc (demo_world ?s), demo_sent := demo_sent ?s @ [r]\<rparr>)"
    (is "_ = (_, ?s1)")
    using sample_raw [of ?s 401 JNull "js ''/x''" get_init] wf_new_tokens(2)
    by (auto simp: sample_demo_def expiring_server_def)
  obtain s2 where s2: "refreshSession expiring_server ?s1 = (Inr new_tokens, s2)"
    using sample_refresh [of ?s1] by (auto simp: sample_demo_def)
  have "truthy (as_refreshToken (authState ?s1))" "resp_status (answer 401 JNull) = 401"
    by (simp_all add: sample_demo_def truthy_def js_def answer_def)
  then have "fst (api expiring_server (js ''/x'') get_init True ?s) = fst (rawRequest expiring_server (js ''/x'') get_init s2)"
    using demo_retry_uses_new_token [OF raw _ _ s2 refl] by blast
  then show ?thesis using raw s2 by auto
qed

text \<open>
  The retry cannot loop: whatever the server answers, a call makes at most three requests (the
  call, one refresh, the repeated call) and a refresh makes at most one.
\<close>

theorem demo_api_bounded:
  "length (demo_sent (snd (api f path init again s))) \<le> length (demo_sent s) + 3
   \<and> length (demo_sent (snd (refreshSession f s))) \<le> length (demo_sent s) + 1"
  using at_most_api [of f path init again] at_most_refreshSession [of f] by (simp add: at_most_def)

text \<open>
  C33: every button only sends requests below the configured application's path, with the configured
  client id and API key, along every sequence of clicks that does not change the settings.
\<close>

theorem demo_requests_scoped:
  assumes "list_all (\<lambda>b. b \<noteq> SaveBaseUrl) bs"
  shows "\<exists>rs. demo_sent (fold (\<lambda>b s. snd (click f msg b s)) bs s) = demo_sent s @ rs
    \<and> list_all (demo_allowed (settings s)) rs"
  using assms by (rule demo.run_log)

theorem demo_requests_scoped_witness:
  "list_all (demo_allowed default_settings)
     (demo_sent (fold (\<lambda>b s. snd (click expiring_server (\<lambda>_. []) b s)) [LoadMe, BtnLogout] (sample_demo 0)))"
  using demo_requests_scoped [of "[LoadMe, BtnLogout]" expiring_server "\<lambda>_. []" "sample_demo 0"]
  by (auto simp: sample_demo_def)

text \<open>
  Logging out forgets the session as soon as the server has answered, whatever it answered; when
  the request itself fails, the tokens stay in memory.
\<close>

theorem demo_logout_effect:
  assumes "truthy (as_refreshToken (authState s))" "encodeURIComponent (ds_appId (settings s)) = Some a"
  shows "authState (snd (demo_logout f s)) =
    (case fst (rawRequest f (js ''/api/apps/'' @ a @ js ''/auth/logout'')
       (post_json (object [(''refresh_token'', Some (as_refreshToken (authState s)))])) s) of
       Inl _ \<Rightarrow> authState s | Inr _ \<Rightarrow> no_auth)"
proof -
  let ?raw = "rawRequest f (js ''/api/apps/'' @ a @ js ''/auth/logout'')
       (post_json (object [(''refresh_token'', Some (as_refreshToken (authState s)))])) s"
  obtain x s1 where raw: "?raw = (x, s1)" by (cases ?raw)
  then have auth: "authState s1 = authState s" using rawRequest_auth by (metis snd_conv)
  obtain s2 where "clearAuthState s1 = (Inr (), s2)" "authState s2 = no_auth" using clearAuthState_eq by blast
  then show ?thesis
    using assms raw auth
    by (auto simp: demo_logout_def demo_appPath_eq bnd_def gets_def check_ok_def throw_def ret_def split: sum.split)
qed

theorem demo_logout_effect_witness:
  "\<exists>a. encodeURIComponent (ds_appId (settings (sample_demo 0))) = Some a \<and>
    authState (snd (demo_logout expiring_server (sample_demo 0))) =
    (case fst (rawRequest expiring_server (js ''/api/apps/'' @ a @ js ''/auth/logout'')
       (post_json (object [(''refresh_token'', Some (JStr (js ''r1'')))])) (sample_demo 0)) of
       Inl _ \<Rightarrow> authState (sample_demo 0) | Inr _ \<Rightarrow> no_auth)"
proof -
  have a: "encodeURIComponent (ds_appId (settings (sample_demo 0))) = Some (js ''default'')"
    unfolding sample_demo_def default_settings_def by code_simp
  have "as_refreshToken (authState (sample_demo 0)) = JStr (js ''r1'')" "truthy (JStr (js ''r1''))"
    by (simp_all add: sample_demo_def truthy_def js_def)
  then show ?thesis using demo_logout_effect [OF _ a, of expiring_server] a by simp
qed

text \<open>
  A refresh the server refuses ends the session: the state is cleared and the error carries the
  server's message.
\<close>

theorem demo_refresh_refused:
  assumes "truthy (as_refreshToken (authState s))" "encodeURIComponent (ds_appId (settings s)) = Some a"
    and "rawRequest f (js ''/api/apps/'' @ a @ js ''/auth/refresh'')
      (post_json (object [(''refresh_token'', Some (as_refreshToken (authState s)))])) s = (Inr (response, v), s1)"
    and "\<not> resp_ok response"
  shows "fst (refreshSession f s) = Inl (failure v ''refresh failed'') \<and> authState (snd (refreshSession f s)) = no_auth"
proof -
  obtain s2 where "clearAuthState s1 = (Inr (), s2)" "authState s2 = no_auth" using clearAuthState_eq by blast
  then show ?thesis using refreshSession_answer [OF assms(1-3)] assms(4) by (simp add: bnd_def throw_def)
qed

theorem demo_refresh_refused_witness:
  "fst (refreshSession expiring_server (sample_demo 0)) = Inl (failure JNull ''refresh failed'')
   \<and> authState (snd (refreshSession expiring_server (sample_demo 0))) = no_auth"
proof -
  let ?s = "sample_demo 0"
  have a: "encodeURIComponent (ds_appId (settings ?s)) = Some (js ''default'')"
    unfolding sample_demo_def default_settings_def by code_simp
  have t: "truthy (as_refreshToken (authState ?s))" by (simp add: sample_demo_def truthy_def js_def)
  obtain r where "rawRequest expiring_server (js ''/api/apps/'' @ js ''default'' @ js ''/auth/refresh'')
      (post_json (object [(''refresh_token'', Some (as_refreshToken (authState ?s)))])) ?s =
      (Inr (answer 401 JNull, JNull), ?s\<lparr>demo_world := Suc (demo_world ?s), demo_sent := demo_sent ?s @ [r]\<rparr>)"
    using sample_raw [of ?s 401 JNull] wf_new_tokens(2) by (fastforce simp: sample_demo_def expiring_server_def)
  then show ?thesis using demo_refresh_refused [OF t a] by (auto simp: resp_ok_def answer_def)
qed

end
