(* ===== verification/Code_Editor.thy ===== *)
theory Code_Editor
  imports Js_Json_Roundtrip
begin

text \<open>
  The console's code editor (\<open>src/console/src/components/console/shared/code-editor.tsx\<close>): the undo
  history kept in references, the keyboard handler with undo, redo, indentation and unindentation,
  and the line display. \<open>requestAnimationFrame\<close> callbacks run right after the handler that requested
  them. The lemmas relate the history to a zipper and bound it.
\<close>

subsection \<open>State\<close>

record snapshot =
  snap_value :: jsstr
  snap_start :: nat
  snap_end :: nat

record editor =
  ed_value :: jsstr
  ed_history :: "snapshot list"
  ed_index :: nat
  ed_line :: nat
  ed_scroll :: int
  ed_gutter :: int
  ed_sel :: "nat \<times> nat"
  ed_changes :: "jsstr list"

text \<open>The properties: whether there is an \<open>onChange\<close>, and \<open>readOnly\<close>.\<close>

record editor_props =
  has_onChange :: bool
  readOnly :: bool

definition editable :: "editor_props \<Rightarrow> bool" where
  "editable p \<longleftrightarrow> has_onChange p \<and> \<not> readOnly p"

definition snapshot_of :: "jsstr \<Rightarrow> snapshot" where
  "snapshot_of v = \<lparr>snap_value = v, snap_start = 0, snap_end = 0\<rparr>"

definition new_editor :: "jsstr \<Rightarrow> editor" where
  "new_editor v = \<lparr>ed_value = v, ed_history = [snapshot_of v], ed_index = 0, ed_line = 1, ed_scroll = 0,
     ed_gutter = 0, ed_sel = (0, 0), ed_changes = []\<rparr>"

text \<open>\<open>value.slice(0, n).split("\n").length\<close> and the number of lines shown.\<close>

definition line_at :: "jsstr \<Rightarrow> nat \<Rightarrow> nat" where
  "line_at v n = length (js_split [10] (take n v))"

definition line_count :: "jsstr \<Rightarrow> nat" where
  "line_count v = max 1 (length (js_split [10] v))"

text \<open>The effect that runs when the parent passes a new value.\<close>

definition sync_value :: "jsstr \<Rightarrow> editor \<Rightarrow> editor" where
  "sync_value v e =
     (let e = e\<lparr>ed_value := v\<rparr> in
      if ed_index e < length (ed_history e) \<and> snap_value (ed_history e ! ed_index e) \<noteq> v
      then e\<lparr>ed_history := [snapshot_of v], ed_index := 0\<rparr> else e)"

definition syncCursorLine :: "editor \<Rightarrow> editor" where
  "syncCursorLine e = e\<lparr>ed_line := line_at (ed_value e) (fst (ed_sel e))\<rparr>"

subsection \<open>History\<close>

definition pushHistory :: "jsstr \<Rightarrow> nat \<Rightarrow> nat \<Rightarrow> editor \<Rightarrow> editor" where
  "pushHistory v start stop e =
     (let snap = \<lparr>snap_value = v, snap_start = start, snap_end = stop\<rparr> in
      if ed_index e < length (ed_history e) \<and> ed_history e ! ed_index e = snap then e
      else let hist = take (ed_index e + 1) (ed_history e) @ [snap];
               hist = (if length hist > 100 then tl hist else hist)
           in e\<lparr>ed_history := hist, ed_index := length hist - 1\<rparr>)"

text \<open>
  \<open>onChange(v)\<close> hands the value to the parent, which passes it back as the new property.
\<close>

definition change :: "jsstr \<Rightarrow> editor \<Rightarrow> editor" where
  "change v e = sync_value v (e\<lparr>ed_changes := ed_changes e @ [v]\<rparr>)"

definition place_cursor :: "jsstr \<Rightarrow> nat \<Rightarrow> nat \<Rightarrow> editor \<Rightarrow> editor" where
  "place_cursor v start stop e = e\<lparr>ed_sel := (start, stop), ed_line := line_at v start\<rparr>"

definition updateValueAndSelection :: "editor_props \<Rightarrow> jsstr \<Rightarrow> nat \<Rightarrow> nat \<Rightarrow> editor \<Rightarrow> editor" where
  "updateValueAndSelection p v start stop e =
     (if \<not> editable p then e else place_cursor v start stop (change v (pushHistory v start stop e)))"

definition applyHistorySnapshot :: "editor_props \<Rightarrow> snapshot \<Rightarrow> editor \<Rightarrow> editor" where
  "applyHistorySnapshot p snap e =
     (if \<not> editable p then e
      else place_cursor (snap_value snap) (snap_start snap) (snap_end snap) (change (snap_value snap) e))"

definition undo :: "editor_props \<Rightarrow> editor \<Rightarrow> editor" where
  "undo p e =
     (if ed_index e \<le> 0 then e
      else let e = e\<lparr>ed_index := ed_index e - 1\<rparr> in applyHistorySnapshot p (ed_history e ! ed_index e) e)"

definition redo :: "editor_props \<Rightarrow> editor \<Rightarrow> editor" where
  "redo p e =
     (if ed_index e \<ge> length (ed_history e) - 1 then e
      else let e = e\<lparr>ed_index := ed_index e + 1\<rparr> in applyHistorySnapshot p (ed_history e ! ed_index e) e)"

subsection \<open>Indentation\<close>

text \<open>\<open>s.lastIndexOf("\n", from)\<close>: a negative position counts as zero; \<open>-1\<close> when there is none.\<close>

fun last_newline :: "jsstr \<Rightarrow> nat \<Rightarrow> int" where
  "last_newline s 0 = (if s \<noteq> [] \<and> s ! 0 = 10 then 0 else -1)"
| "last_newline s (Suc n) = (if Suc n < length s \<and> s ! Suc n = 10 then int (Suc n) else last_newline s n)"

definition line_start :: "jsstr \<Rightarrow> nat \<Rightarrow> nat" where
  "line_start s start = nat (last_newline s (nat (int start - 1)) + 1)"

text \<open>\<open>^\<close> in a multi-line regular expression matches after every line terminator.\<close>

definition line_terminator :: "code_unit \<Rightarrow> bool" where
  "line_terminator c \<longleftrightarrow> c \<in> {10, 13, 0x2028, 0x2029}"

text \<open>
  \<open>replace(/^( {1,2}|\t)/gm, ...)\<close>: the text without the indentation, and offset and length of every
  match. The flag says whether the position is the start of a line.
\<close>

fun unindent :: "bool \<Rightarrow> nat \<Rightarrow> jsstr \<Rightarrow> jsstr \<times> (nat \<times> nat) list" where
  "unindent at off [] = ([], [])"
| "unindent at off (c # cs) =
     (if at \<and> c = 32 then
        (case cs of d # ds \<Rightarrow>
            if d = 32 then apsnd (Cons (off, 2)) (unindent False (off + 2) ds)
            else apsnd (Cons (off, 1)) (unindent False (off + 1) cs)
         | [] \<Rightarrow> ([], [(off, 1)]))
      else if at \<and> c = 9 then apsnd (Cons (off, 1)) (unindent False (off + 1) cs)
      else apfst (Cons c) (unindent (line_terminator c) (off + 1) cs))"

text \<open>\<open>replace(/^/gm, "  ")\<close>\<close>

fun indent_lines :: "jsstr \<Rightarrow> jsstr" where
  "indent_lines [] = []"
| "indent_lines (c # cs) = c # (if line_terminator c then [32, 32] else []) @ indent_lines cs"

definition indent_block :: "jsstr \<Rightarrow> jsstr" where
  "indent_block s = [32, 32] @ indent_lines s"

definition shift_tab :: "editor_props \<Rightarrow> editor \<Rightarrow> editor" where
  "shift_tab p e =
     (let v = ed_value e; (start, stop) = ed_sel e; lineStart = line_start v start;
          (unindented, removed) = unindent True 0 (js_slice lineStart stop v);
          removedTotal = sum_list (map snd removed);
          removedBeforeStart = sum_list (map snd (filter (\<lambda>(off, _). int off < int start - int lineStart) removed))
      in updateValueAndSelection p (take lineStart v @ unindented @ drop stop v)
           (max lineStart (start - removedBeforeStart)) (max lineStart (stop - removedTotal)) e)"

definition plain_tab :: "editor_props \<Rightarrow> editor \<Rightarrow> editor" where
  "plain_tab p e =
     (let v = ed_value e; (start, stop) = ed_sel e; lineStart = line_start v start in
      if start \<noteq> stop \<and> js_includes (js_slice start stop v) [10] then
        (let selectedBlock = js_slice lineStart stop v;
             addedLines = length (js_split [10] selectedBlock)
         in updateValueAndSelection p (take lineStart v @ indent_block selectedBlock @ drop stop v)
              (start + 2) (stop + addedLines * 2) e)
      else updateValueAndSelection p (take start v @ [32, 32] @ drop stop v) (start + 2) (start + 2) e)"

record key_event =
  metaKey :: bool
  ctrlKey :: bool
  shiftKey :: bool
  key :: jsstr

definition handleTab :: "editor_props \<Rightarrow> key_event \<Rightarrow> editor \<Rightarrow> editor" where
  "handleTab p ev e =
     (if readOnly p then e
      else let isModifierPressed = metaKey ev \<or> ctrlKey ev; k = ascii_lower (key ev) in
        if isModifierPressed \<and> k = js ''z'' then (if shiftKey ev then redo p e else undo p e)
        else if isModifierPressed \<and> k = js ''y'' then redo p e
        else if key ev \<noteq> js ''Tab'' then e
        else if shiftKey ev then shift_tab p e
        else plain_tab p e)"

text \<open>The handlers of the text area; a browser selection has \<open>start \<le> end\<close> within the text.\<close>

definition onTextChange :: "editor_props \<Rightarrow> jsstr \<Rightarrow> nat \<Rightarrow> nat \<Rightarrow> editor \<Rightarrow> editor" where
  "onTextChange p v start stop e =
     (if \<not> editable p then e
      else (change v (pushHistory v start stop (e\<lparr>ed_sel := (start, stop)\<rparr>)))\<lparr>ed_line := line_at v start\<rparr>)"

definition onScroll :: "int \<Rightarrow> editor \<Rightarrow> editor" where
  "onScroll y e = e\<lparr>ed_scroll := y, ed_gutter := y\<rparr>"

datatype editor_event = TextInput jsstr nat nat | KeyDown key_event | MoveCursor nat nat | Scroll int | NewValue jsstr

definition editor_step :: "editor_props \<Rightarrow> editor_event \<Rightarrow> editor \<Rightarrow> editor" where
  "editor_step p ev e = (case ev of
     TextInput v start stop \<Rightarrow> onTextChange p v start stop e
   | KeyDown k \<Rightarrow> handleTab p k e
   | MoveCursor start stop \<Rightarrow> syncCursorLine (e\<lparr>ed_sel := (start, stop)\<rparr>)
   | Scroll y \<Rightarrow> onScroll y e
   | NewValue v \<Rightarrow> sync_value v e)"

subsection \<open>Display\<close>

text \<open>The line numbers of the gutter (with the current one marked) and the position of the marker.\<close>

definition gutter :: "editor \<Rightarrow> (nat \<times> bool) list" where
  "gutter e = map (\<lambda>i. (i + 1, ed_line e = i + 1)) [0..<line_count (ed_value e)]"

definition marker_top :: "editor \<Rightarrow> int" where
  "marker_top e = (int (ed_line e) - 1) * 20 + 12 - ed_scroll e"

text \<open>\<open>JsonBlock\<close>: a read-only editor showing a value.\<close>

definition json_block :: "json \<Rightarrow> editor \<times> editor_props" where
  "json_block v = (new_editor (stringify2 v), \<lparr>has_onChange = False, readOnly = True\<rparr>)"

subsection \<open>The history as a zipper\<close>

text \<open>
  The specification: the past (latest first), the present and the future. A new snapshot drops the
  future and, when a hundred are kept already, the oldest one of the past.
\<close>

type_synonym zipper = "snapshot list \<times> snapshot \<times> snapshot list"

fun zip_push :: "snapshot \<Rightarrow> zipper \<Rightarrow> zipper" where
  "zip_push s (past, cur, future) = (if cur = s then (past, cur, future) else (take 99 (cur # past), s, []))"

fun zip_undo :: "zipper \<Rightarrow> zipper" where
  "zip_undo (s # past, cur, future) = (past, s, cur # future)"
| "zip_undo z = z"

fun zip_redo :: "zipper \<Rightarrow> zipper" where
  "zip_redo (past, cur, s # future) = (cur # past, s, future)"
| "zip_redo z = z"

definition zipper_of :: "editor \<Rightarrow> zipper" where
  "zipper_of e = (rev (take (ed_index e) (ed_history e)), ed_history e ! ed_index e, drop (Suc (ed_index e)) (ed_history e))"

definition history_ok :: "editor \<Rightarrow> bool" where
  "history_ok e \<longleftrightarrow> ed_index e < length (ed_history e) \<and> length (ed_history e) \<le> 100"

definition shows_current :: "editor \<Rightarrow> bool" where
  "shows_current e \<longleftrightarrow> history_ok e \<and> snap_value (ed_history e ! ed_index e) = ed_value e"

lemma zipper_pushHistory:
  assumes "history_ok e"
  shows "zipper_of (pushHistory v a b e) = zip_push \<lparr>snap_value = v, snap_start = a, snap_end = b\<rparr> (zipper_of e)"
proof -
  let ?s = "\<lparr>snap_value = v, snap_start = a, snap_end = b\<rparr>" and ?t = "take (Suc (ed_index e)) (ed_history e)"
  have len: "length ?t = Suc (ed_index e)" "ed_index e < 100" using assms by (auto simp: history_ok_def)
  have rev_t: "rev ?t = (ed_history e ! ed_index e) # rev (take (ed_index e) (ed_history e))"
    using assms by (simp add: history_ok_def take_Suc_conv_app_nth)
  have all: "take 99 (rev ?t) = (if length ?t = 100 then rev (tl ?t) else rev ?t)"
  proof (cases "length ?t = 100")
    case True
    then obtain x xs where "?t = x # xs" by (cases ?t) auto
    then show ?thesis using True by simp
  next
    case False
    then show ?thesis using len by simp
  qed
  show ?thesis
  proof (cases "ed_history e ! ed_index e = ?s")
    case True
    then show ?thesis using assms by (simp add: pushHistory_def zipper_of_def history_ok_def)
  next
    case False
    let ?h = "?t @ [?s]" and ?e = "pushHistory v a b e"
    have e: "ed_history ?e = (if length ?t = 100 then tl ?h else ?h)" "ed_index ?e = length (ed_history ?e) - 1"
      using False len assms by (auto simp: pushHistory_def history_ok_def Let_def)
    obtain x xs where t: "?t = x # xs" using len by (cases ?t) auto
    have "zipper_of ?e = (take 99 (rev ?t), ?s, [])"
      unfolding all zipper_of_def using e len(1) unfolding t by (auto simp: nth_append)
    then show ?thesis using False rev_t by (simp add: zipper_of_def)
  qed
qed

lemma history_ok_pushHistory [simp]: "history_ok e \<Longrightarrow> history_ok (pushHistory v a b e)"
  by (auto simp: history_ok_def pushHistory_def Let_def)

lemma pushHistory_current:
  "history_ok e \<Longrightarrow> ed_history (pushHistory v a b e) ! ed_index (pushHistory v a b e) =
     \<lparr>snap_value = v, snap_start = a, snap_end = b\<rparr>"
  by (auto simp: history_ok_def pushHistory_def Let_def nth_append nth_tl)

lemma pushHistory_other [simp]:
  "ed_value (pushHistory v a b e) = ed_value e" "ed_sel (pushHistory v a b e) = ed_sel e"
  "ed_line (pushHistory v a b e) = ed_line e"
  by (simp_all add: pushHistory_def Let_def)

text \<open>The effect leaves a history alone whose current snapshot has the new value.\<close>

lemma sync_value_same:
  "history_ok e \<Longrightarrow> snap_value (ed_history e ! ed_index e) = v \<Longrightarrow> sync_value v e = e\<lparr>ed_value := v\<rparr>"
  by (simp add: sync_value_def history_ok_def)

lemma sync_value_value [simp]: "ed_value (sync_value v e) = v"
  by (simp add: sync_value_def Let_def)

lemma change_value [simp]: "ed_value (change v e) = v"
  by (simp add: change_def)

lemma place_cursor_simps [simp]:
  "ed_value (place_cursor v a b e) = ed_value e" "ed_history (place_cursor v a b e) = ed_history e"
  "ed_index (place_cursor v a b e) = ed_index e" "ed_sel (place_cursor v a b e) = (a, b)"
  "ed_line (place_cursor v a b e) = line_at v a"
  by (simp_all add: place_cursor_def)

lemma change_same:
  "history_ok e \<Longrightarrow> snap_value (ed_history e ! ed_index e) = v \<Longrightarrow>
   change v e = e\<lparr>ed_changes := ed_changes e @ [v], ed_value := v\<rparr>"
  by (simp add: change_def sync_value_same history_ok_def)

lemma change_push:
  "history_ok e \<Longrightarrow> change v (pushHistory v a b e) =
     (pushHistory v a b e)\<lparr>ed_changes := ed_changes (pushHistory v a b e) @ [v], ed_value := v\<rparr>"
  by (rule change_same) (simp_all add: pushHistory_current)

lemma zipper_update [simp]:
  "zipper_of (e\<lparr>ed_changes := c, ed_value := v\<rparr>) = zipper_of e"
  "zipper_of (e\<lparr>ed_sel := s\<rparr>) = zipper_of e" "zipper_of (e\<lparr>ed_line := l\<rparr>) = zipper_of e"
  "zipper_of (place_cursor v a b e) = zipper_of e"
  by (simp_all add: zipper_of_def)

lemma shows_current_update [simp]:
  "shows_current (place_cursor v a b e) = shows_current e"
  "shows_current (e\<lparr>ed_sel := s\<rparr>) = shows_current e" "shows_current (e\<lparr>ed_line := l\<rparr>) = shows_current e"
  "shows_current (e\<lparr>ed_scroll := y, ed_gutter := z\<rparr>) = shows_current e"
  by (simp_all add: shows_current_def history_ok_def)

lemma shows_currentD: "shows_current e \<Longrightarrow> history_ok e"
  by (simp add: shows_current_def)

lemma shows_current_sync [simp]: "shows_current e \<Longrightarrow> shows_current (sync_value v e)"
  by (auto simp: shows_current_def history_ok_def sync_value_def Let_def snapshot_of_def)

lemma shows_current_change_push [simp]: "history_ok e \<Longrightarrow> shows_current (change v (pushHistory v a b e))"
  by (simp add: shows_current_def change_push pushHistory_current history_ok_def [of "_\<lparr>ed_value := _\<rparr>"])
    (simp add: history_ok_def [symmetric])

text \<open>Undo and redo step the zipper.\<close>

lemma apply_current:
  assumes "history_ok e" "editable p"
  shows "ed_history (applyHistorySnapshot p (ed_history e ! ed_index e) e) = ed_history e"
    and "ed_index (applyHistorySnapshot p (ed_history e ! ed_index e) e) = ed_index e"
    and "ed_value (applyHistorySnapshot p (ed_history e ! ed_index e) e) = snap_value (ed_history e ! ed_index e)"
  using assms by (simp_all add: applyHistorySnapshot_def change_same)

lemma undo_Suc:
  assumes "history_ok e" "editable p" "ed_index e = Suc j"
  shows "ed_history (undo p e) = ed_history e" "ed_index (undo p e) = j"
    and "ed_value (undo p e) = snap_value (ed_history e ! j)"
  using apply_current [of "e\<lparr>ed_index := j\<rparr>" p] assms by (simp_all add: undo_def history_ok_def)

lemma redo_less:
  assumes "history_ok e" "editable p" "Suc (ed_index e) < length (ed_history e)"
  shows "ed_history (redo p e) = ed_history e" "ed_index (redo p e) = Suc (ed_index e)"
    and "ed_value (redo p e) = snap_value (ed_history e ! Suc (ed_index e))"
proof -
  have "\<not> ed_index e \<ge> length (ed_history e) - 1" using assms by simp
  then show "ed_history (redo p e) = ed_history e" "ed_index (redo p e) = Suc (ed_index e)"
    "ed_value (redo p e) = snap_value (ed_history e ! Suc (ed_index e))"
    using apply_current [of "e\<lparr>ed_index := Suc (ed_index e)\<rparr>" p] assms
    by (simp_all add: redo_def history_ok_def)
qed

lemma redo_end: "length (ed_history e) \<le> Suc (ed_index e) \<Longrightarrow> redo p e = e"
  by (simp add: redo_def)

lemma zipper_undo:
  assumes "history_ok e" "editable p"
  shows "zipper_of (undo p e) = zip_undo (zipper_of e)"
proof (cases "ed_index e")
  case 0
  then show ?thesis by (simp add: undo_def zipper_of_def)
next
  case (Suc j)
  then have j: "Suc j < length (ed_history e)" using assms by (simp add: history_ok_def)
  then show ?thesis using undo_Suc [OF assms Suc] Suc
    by (simp add: zipper_of_def take_Suc_conv_app_nth Cons_nth_drop_Suc)
qed

lemma zipper_redo:
  assumes "history_ok e" "editable p"
  shows "zipper_of (redo p e) = zip_redo (zipper_of e)"
proof (cases "Suc (ed_index e) < length (ed_history e)")
  case False
  then show ?thesis by (simp add: redo_end zipper_of_def)
next
  case True
  then have d: "drop (Suc (ed_index e)) (ed_history e) =
      ed_history e ! Suc (ed_index e) # drop (Suc (Suc (ed_index e))) (ed_history e)"
    by (simp add: Cons_nth_drop_Suc)
  show ?thesis using redo_less [OF assms True] True
    by (simp add: zipper_of_def d take_Suc_conv_app_nth)
qed

lemma shows_current_undo [simp]: "shows_current e \<Longrightarrow> editable p \<Longrightarrow> shows_current (undo p e)"
  using undo_Suc [of e p] by (cases "ed_index e") (auto simp: shows_current_def history_ok_def undo_def)

lemma shows_current_redo [simp]: "shows_current e \<Longrightarrow> editable p \<Longrightarrow> shows_current (redo p e)"
  using redo_less [of e p]
  by (cases "Suc (ed_index e) < length (ed_history e)") (auto simp: shows_current_def history_ok_def redo_end)

subsection \<open>Runs of the editor\<close>

text \<open>An editor that cannot be edited never grows its history.\<close>

definition editor_ok :: "editor_props \<Rightarrow> editor \<Rightarrow> bool" where
  "editor_ok p e \<longleftrightarrow> shows_current e \<and> (\<not> editable p \<longrightarrow> length (ed_history e) = 1)"

lemma editor_ok_editable: "editable p \<Longrightarrow> editor_ok p e \<longleftrightarrow> shows_current e"
  by (simp add: editor_ok_def)

lemma fixed_history:
  "editor_ok p e \<Longrightarrow> \<not> editable p \<Longrightarrow> ed_index e = 0 \<and> length (ed_history e) = 1"
  by (auto simp: editor_ok_def shows_current_def history_ok_def)

lemma editor_ok_updateValueAndSelection [simp]: "editor_ok p e \<Longrightarrow> editor_ok p (updateValueAndSelection p v a b e)"
  by (cases "editable p") (simp_all add: updateValueAndSelection_def editor_ok_editable shows_currentD)

lemma editor_ok_undo [simp]: "editor_ok p e \<Longrightarrow> editor_ok p (undo p e)"
  using fixed_history [of p e] by (cases "editable p") (simp_all add: editor_ok_editable, simp add: undo_def)

lemma editor_ok_redo [simp]: "editor_ok p e \<Longrightarrow> editor_ok p (redo p e)"
  using fixed_history [of p e] by (cases "editable p") (simp_all add: editor_ok_editable redo_end)

lemma editor_ok_handleTab [simp]: "editor_ok p e \<Longrightarrow> editor_ok p (handleTab p k e)"
  by (simp add: handleTab_def shift_tab_def plain_tab_def Let_def split: prod.split)

lemma editor_ok_onTextChange [simp]: "editor_ok p e \<Longrightarrow> editor_ok p (onTextChange p v a b e)"
  by (cases "editable p") (simp_all add: onTextChange_def editor_ok_editable shows_currentD)

lemma editor_ok_sync_value [simp]: "editor_ok p e \<Longrightarrow> editor_ok p (sync_value v e)"
  using shows_current_sync [of e v] by (simp add: editor_ok_def) (simp add: sync_value_def Let_def)

lemma editor_ok_update [simp]:
  "editor_ok p (e\<lparr>ed_sel := s\<rparr>) = editor_ok p e" "editor_ok p (e\<lparr>ed_line := l\<rparr>) = editor_ok p e"
  "editor_ok p (e\<lparr>ed_scroll := y, ed_gutter := z\<rparr>) = editor_ok p e"
  by (simp_all add: editor_ok_def)

lemma editor_ok_step: "editor_ok p e \<Longrightarrow> editor_ok p (editor_step p ev e)"
  by (cases ev) (simp_all add: editor_step_def syncCursorLine_def onScroll_def)

definition edit_run :: "editor_props \<Rightarrow> jsstr \<Rightarrow> editor_event list \<Rightarrow> editor" where
  "edit_run p v evs = fold (editor_step p) evs (new_editor v)"

lemma editor_ok_run: "editor_ok p (edit_run p v evs)"
proof -
  have "editor_ok p e \<Longrightarrow> editor_ok p (fold (editor_step p) evs e)" for e
    by (induction evs arbitrary: e) (simp_all add: editor_ok_step)
  moreover have "editor_ok p (new_editor v)"
    by (simp add: editor_ok_def shows_current_def history_ok_def new_editor_def snapshot_of_def)
  ultimately show ?thesis by (simp add: edit_run_def)
qed

lemma shows_current_run: "shows_current (edit_run p v evs)"
  using editor_ok_run [of p v evs] by (simp add: editor_ok_def)

lemma history_ok_run: "history_ok (edit_run p v evs)"
  using shows_current_run by (rule shows_currentD)

lemma zipper_updateValueAndSelection:
  "history_ok e \<Longrightarrow> editable p \<Longrightarrow> zipper_of (updateValueAndSelection p v a b e) =
     zip_push \<lparr>snap_value = v, snap_start = a, snap_end = b\<rparr> (zipper_of e)"
  by (simp add: updateValueAndSelection_def change_push zipper_pushHistory)

lemma history_ok_sel [simp]: "history_ok (e\<lparr>ed_sel := s\<rparr>) = history_ok e"
  by (simp add: history_ok_def)

lemma zipper_onTextChange:
  "history_ok e \<Longrightarrow> editable p \<Longrightarrow> zipper_of (onTextChange p v a b e) =
     zip_push \<lparr>snap_value = v, snap_start = a, snap_end = b\<rparr> (zipper_of e)"
  by (simp add: onTextChange_def change_push zipper_pushHistory)

subsection \<open>Lines and indentation\<close>

lemma unindent_indent_lines: "fst (unindent False n (indent_lines s)) = s"
proof (induction s arbitrary: n)
  case (Cons c s)
  then show ?case by (simp add: line_terminator_def)
qed simp

lemma unindent_indent_block: "fst (unindent True n (indent_block s)) = s"
  by (simp add: indent_block_def unindent_indent_lines)

lemma js_split_length: "length (js_split [c] s) = Suc (count_list s c)"
proof (induction s rule: length_induct)
  case (1 s)
  show ?case
  proof (cases "breakStr [c] s")
    case None
    then show ?thesis by (simp add: breakStr_single_None count_list_0_iff)
  next
    case (Some ab)
    then obtain a b where ab: "breakStr [c] s = Some (a, b)" by (cases ab) auto
    have "js_split [c] s = a # js_split [c] b" using ab by (subst js_split.simps) simp
    moreover have "s = a @ c # b" "c \<notin> set a" using breakStr_Some [OF ab] breakStr_single_free [OF ab] by auto
    ultimately show ?thesis using 1 by (simp add: count_list_0_iff)
  qed
qed

definition plain_text :: "jsstr \<Rightarrow> bool" where
  "plain_text s \<longleftrightarrow> 13 \<notin> set s \<and> 0x2028 \<notin> set s \<and> 0x2029 \<notin> set s"

lemma length_indent_lines: "plain_text s \<Longrightarrow> length (indent_lines s) = length s + 2 * count_list s 10"
  by (induction s) (auto simp: plain_text_def line_terminator_def)

lemma length_indent_block:
  "plain_text s \<Longrightarrow> length (indent_block s) = length s + length (js_split [10] s) * 2"
  by (simp add: indent_block_def length_indent_lines js_split_length)

text \<open>The start of the line of a position.\<close>

definition is_line_start :: "jsstr \<Rightarrow> nat \<Rightarrow> nat \<Rightarrow> bool" where
  "is_line_start s start l \<longleftrightarrow> l \<le> start \<and> (l = 0 \<or> s ! (l - 1) = 10) \<and> (\<forall>i. l \<le> i \<and> i < start \<longrightarrow> s ! i \<noteq> 10)"

lemma is_line_start_le: "is_line_start s n l \<Longrightarrow> is_line_start s n m \<Longrightarrow> m \<le> l"
  by (rule ccontr) (auto simp: is_line_start_def dest!: spec [of _ "m - 1"])

lemma is_line_start_unique: "is_line_start s n l \<Longrightarrow> is_line_start s n m \<Longrightarrow> l = m"
  using is_line_start_le [of s n l m] is_line_start_le [of s n m l] by simp

lemma last_newline_ge: "last_newline s n \<ge> -1"
  by (induction n) auto

lemma last_newline_line_start:
  "Suc n \<le> length s \<Longrightarrow> is_line_start s (Suc n) (nat (last_newline s n + 1))"
proof (induction n)
  case 0
  then show ?case by (auto simp: is_line_start_def)
next
  case (Suc n)
  then have IH: "is_line_start s (Suc n) (nat (last_newline s n + 1))" by simp
  show ?case
  proof (cases "s ! Suc n = 10")
    case True
    then show ?thesis using Suc.prems by (auto simp: is_line_start_def nat_add_distrib)
  next
    case False
    then show ?thesis using IH by (auto simp: is_line_start_def less_Suc_eq)
  qed
qed

lemma line_start_ok:
  assumes "n \<le> length s" "n > 0 \<or> s = [] \<or> s ! 0 \<noteq> 10"
  shows "is_line_start s n (line_start s n)"
proof (cases n)
  case 0
  then show ?thesis using assms by (auto simp: line_start_def is_line_start_def)
next
  case (Suc m)
  then show ?thesis using last_newline_line_start [of m s] assms by (simp add: line_start_def)
qed

lemma take_indent_lines:
  "\<forall>i < n. \<not> line_terminator (s ! i) \<Longrightarrow> n \<le> length s \<Longrightarrow> take n (indent_lines s) = take n s"
proof (induction s arbitrary: n)
  case (Cons c s)
  show ?case
  proof (cases n)
    case (Suc m)
    then have "\<not> line_terminator c" "\<forall>i < m. \<not> line_terminator (s ! i)" using Cons.prems by (auto dest: spec [of _ "Suc _"])
    then show ?thesis using Suc Cons by simp
  qed simp
qed simp

lemma unindent_length: "length s = length (fst (unindent at n s)) + sum_list (map snd (snd (unindent at n s)))"
proof (induction at n s rule: unindent.induct)
  case (2 at n c cs)
  then show ?case by (cases cs) simp_all
qed simp

lemma unindent_offset_ge: "m \<in> set (snd (unindent at n s)) \<Longrightarrow> n \<le> fst m"
proof (induction at n s rule: unindent.induct)
  case (2 at n c cs)
  then show ?case by (cases cs) (auto split: if_splits)
qed simp

lemma unindent_offsets:
  assumes "\<forall>i < k. \<not> line_terminator (s ! i)" "k \<le> length s" "m \<in> set (snd (unindent False n s))"
  shows "n + k \<le> fst m"
  using assms
proof (induction k arbitrary: n s)
  case 0
  then show ?case using unindent_offset_ge by simp
next
  case (Suc k)
  then obtain c cs where s: "s = c # cs" by (cases s) auto
  then have "\<not> line_terminator c" "\<forall>i < k. \<not> line_terminator (cs ! i)" using Suc.prems by (auto dest: spec [of _ "Suc _"])
  then show ?case using Suc s by fastforce
qed

lemma block_prefix:
  assumes "is_line_start v start l" "start \<le> stop" "stop \<le> length v" "plain_text v" "i < start - l"
  shows "js_slice l stop v ! i = v ! (l + i)" "\<not> line_terminator (js_slice l stop v ! i)"
proof -
  have "l + i < start" using assms by simp
  then show *: "js_slice l stop v ! i = v ! (l + i)" using assms by (simp add: js_slice_def)
  have "v ! (l + i) \<noteq> 10" using assms \<open>l + i < start\<close> by (simp add: is_line_start_def)
  moreover have "v ! (l + i) \<in> set v" using assms \<open>l + i < start\<close> by simp
  ultimately show "\<not> line_terminator (js_slice l stop v ! i)"
    using assms(4) unfolding * by (auto simp: line_terminator_def plain_text_def)
qed

lemma line_start_indented:
  assumes l: "is_line_start v start l" and r: "start \<le> stop" "stop \<le> length v" and p: "plain_text v"
  shows "line_start (take l v @ indent_block (js_slice l stop v) @ drop stop v) (start + 2) = l"
proof -
  let ?b = "js_slice l stop v"
  let ?v = "take l v @ indent_block ?b @ drop stop v"
  have ls: "l \<le> start" using l by (simp add: is_line_start_def)
  have len: "length ?b = stop - l" using r ls by (simp add: js_slice_def)
  have blk: "take (start - l) (indent_lines ?b) = take (start - l) ?b"
    using block_prefix [OF l r p] len r by (intro take_indent_lines) auto
  have n: "indent_lines ?b ! i = v ! (l + i)" if "i < start - l" for i
    using arg_cong [OF blk, of "\<lambda>xs. xs ! i"] block_prefix(1) [OF l r p that] that by simp
  have long: "start - l \<le> length (indent_lines ?b)"
    using arg_cong [OF blk, of length] len r by simp
  have ne: "?v ! i \<noteq> 10" if i: "l \<le> i" "i < start + 2" for i
  proof -
    have "i - l < length (indent_block ?b)" using i ls long by (simp add: indent_block_def)
    then have "?v ! i = indent_block ?b ! (i - l)" using i ls r by (simp add: nth_append)
    also have "\<dots> = (if i - l < 2 then 32 else v ! (i - 2))"
    proof (cases "i - l < 2")
      case True
      then show ?thesis by (auto simp: indent_block_def less_2_cases_iff)
    next
      case False
      then obtain k where k: "i = l + k + 2" by (metis add.commute le_Suc_ex linorder_not_less add.left_commute i(1) le_add_diff_inverse)
      then show ?thesis using n [of k] i by (simp add: indent_block_def)
    qed
    also have "\<dots> \<noteq> 10"
    proof (cases "i - l < 2")
      case False
      then have "l \<le> i - 2" "i - 2 < start" using i by linarith+
      then show ?thesis using False l by (simp add: is_line_start_def)
    qed simp
    finally show ?thesis .
  qed
  have "is_line_start ?v (start + 2) l"
    using l ls ne r unfolding is_line_start_def by (auto simp: nth_append)
  moreover have "is_line_start ?v (start + 2) (line_start ?v (start + 2))"
    using long ls r by (intro line_start_ok) (simp_all add: indent_block_def)
  ultimately show ?thesis by (rule is_line_start_unique [symmetric])
qed

lemma removed_before:
  assumes l: "is_line_start v start l" and r: "start \<le> stop" "stop \<le> length v" and p: "plain_text v"
  shows "filter (\<lambda>(off, _). int off < int (start + 2) - int l)
    (snd (unindent True 0 (indent_block (js_slice l stop v)))) = [(0, 2)]"
proof -
  let ?b = "js_slice l stop v"
  have ls: "l \<le> start" using l by (simp add: is_line_start_def)
  have blk: "take (start - l) (indent_lines ?b) = take (start - l) ?b"
    using block_prefix [OF l r p] r ls by (intro take_indent_lines) (auto simp: js_slice_def)
  have long: "start - l \<le> length (indent_lines ?b)"
    using arg_cong [OF blk, of length] r ls by (simp add: js_slice_def)
  have nt: "\<forall>i < start - l. \<not> line_terminator (indent_lines ?b ! i)"
  proof (intro allI impI)
    fix i assume i: "i < start - l"
    have "indent_lines ?b ! i = ?b ! i" using arg_cong [OF blk, of "\<lambda>xs. xs ! i"] i by simp
    then show "\<not> line_terminator (indent_lines ?b ! i)" using block_prefix(2) [OF l r p i] by simp
  qed
  have "\<not> int (fst m) < int (start + 2) - int l" if "m \<in> set (snd (unindent False 2 (indent_lines ?b)))" for m
    using unindent_offsets [OF nt long that] ls by linarith
  then have "filter (\<lambda>(off, _). int off < int (start + 2) - int l) (snd (unindent False 2 (indent_lines ?b))) = []"
    by (auto simp: filter_empty_conv split: prod.split)
  then show ?thesis using ls by (simp add: indent_block_def numeral_2_eq_2)
qed

lemma updateValueAndSelection_simps:
  "editable p \<Longrightarrow> ed_value (updateValueAndSelection p v a b e) = v"
  "editable p \<Longrightarrow> ed_sel (updateValueAndSelection p v a b e) = (a, b)"
  by (simp_all add: updateValueAndSelection_def)

lemma tab_shift_tab:
  assumes sel: "ed_sel e = (start, stop)" "stop \<le> length v" "js_includes (js_slice start stop v) [10]"
    and v: "ed_value e = v" "plain_text v" "start > 0 \<or> v ! 0 \<noteq> 10" and p: "editable p"
  shows "ed_value (shift_tab p (plain_tab p e)) = v \<and> ed_sel (shift_tab p (plain_tab p e)) = (start, stop)"
proof -
  let ?l = "line_start v start" let ?b = "js_slice ?l stop v" let ?i = "indent_block ?b"
  let ?v = "take ?l v @ ?i @ drop stop v" let ?n = "length (js_split [10] ?b) * 2"
  have lt: "start < stop" using sel(3) by (rule_tac ccontr) (simp add: js_slice_def js_includes_def)
  have l: "is_line_start v start ?l" using v sel(2) lt by (intro line_start_ok) auto
  have ls: "?l \<le> start" using l by (simp add: is_line_start_def)
  have r: "start \<le> stop" "stop \<le> length v" using lt sel(2) by auto
  have "set ?b \<subseteq> set v" by (auto simp: js_slice_def dest: in_set_takeD in_set_dropD)
  then have "plain_text ?b" using v(2) by (auto simp: plain_text_def)
  then have len: "length ?i = stop - ?l + ?n" using length_indent_block [of ?b] r ls by (simp add: js_slice_def)
  have t: "ed_value (plain_tab p e) = ?v" "ed_sel (plain_tab p e) = (start + 2, stop + ?n)"
    using sel v(1) lt p by (simp_all add: plain_tab_def Let_def updateValueAndSelection_simps)
  have l': "line_start ?v (start + 2) = ?l" by (rule line_start_indented [OF l r v(2)])
  have s: "js_slice ?l (stop + ?n) ?v = ?i" "drop (stop + ?n) ?v = drop stop v" "take ?l ?v = take ?l v"
    using len r ls by (simp_all add: js_slice_def)
  have whole: "take ?l v @ ?b @ drop stop v = v"
    using r ls by (metis append_take_drop_id drop_drop js_slice_def le_add_diff_inverse2 le_trans)
  obtain u ms where u: "unindent True 0 ?i = (u, ms)" by (cases "unindent True 0 ?i") auto
  have ub: "u = ?b" "sum_list (map snd ms) = ?n"
    using unindent_indent_block [of 0 ?b] unindent_length [of ?i True 0] u len r ls by (simp_all add: js_slice_def)
  have before: "filter (\<lambda>(off, _). int off < int (start + 2) - int ?l) ms = [(0, 2)]"
    using removed_before [OF l r v(2)] u by simp
  have "shift_tab p (plain_tab p e) = updateValueAndSelection p v start stop (plain_tab p e)"
    unfolding shift_tab_def t Let_def prod.case l' s u ub before whole using ls lt by simp
  then show ?thesis using p by (simp add: updateValueAndSelection_simps)
qed

subsection \<open>Properties\<close>

text \<open>
  C14: In every state an editor reaches by typing, keyboard commands, cursor moves, scrolling and new
  values from its parent, the undo history is not empty, holds at most 100 snapshots, its index is
  inside it, and the snapshot at the index is the text that is shown.
\<close>

theorem editor_history_invariant:
  "ed_index (edit_run p v evs) < length (ed_history (edit_run p v evs))
   \<and> length (ed_history (edit_run p v evs)) \<le> 100
   \<and> snap_value (ed_history (edit_run p v evs) ! ed_index (edit_run p v evs)) = ed_value (edit_run p v evs)"
  using shows_current_run [of p v evs] by (simp add: shows_current_def history_ok_def)

text \<open>
  C13: The array with an index that the editor keeps implements a zipper of past, present and future:
  in every reachable state of an editable editor, typing and the programmatic edits push a snapshot
  (nothing when it equals the present one, else the future is dropped and the past cut to 99), and
  undo and redo move the present by one, stopping at either end.
\<close>

theorem editor_refines_zipper:
  assumes "editable p" "e = edit_run p w evs"
  shows "zipper_of (onTextChange p v a b e) = zip_push \<lparr>snap_value = v, snap_start = a, snap_end = b\<rparr> (zipper_of e)
    \<and> zipper_of (updateValueAndSelection p v a b e) =
      zip_push \<lparr>snap_value = v, snap_start = a, snap_end = b\<rparr> (zipper_of e)
    \<and> zipper_of (undo p e) = zip_undo (zipper_of e) \<and> zipper_of (redo p e) = zip_redo (zipper_of e)"
  using assms history_ok_run [of p w evs]
  by (simp add: zipper_onTextChange zipper_updateValueAndSelection zipper_undo zipper_redo)

definition edit_props :: editor_props where
  "edit_props = \<lparr>has_onChange = True, readOnly = False\<rparr>"

lemma editable_edit_props [simp]: "editable edit_props"
  by (simp add: edit_props_def editable_def)

theorem editor_refines_zipper_witness:
  "zipper_of (undo edit_props (edit_run edit_props [97] [TextInput [98] 1 1]))
   = zip_undo (zipper_of (edit_run edit_props [97] [TextInput [98] 1 1]))"
  using editor_refines_zipper [OF editable_edit_props refl, of _ _ _ "[97]" "[TextInput [98] 1 1]"] by blast

lemma undo_after_push:
  assumes "shows_current e" "editable p"
    and "ed_history e ! ed_index e \<noteq> \<lparr>snap_value = v, snap_start = a, snap_end = b\<rparr>"
  defines "e' \<equiv> updateValueAndSelection p v a b e"
  shows "ed_value (undo p e') = ed_value e" "ed_value (redo p (undo p e')) = v"
    and "ed_sel (redo p (undo p e')) = (a, b)"
proof -
  let ?s = "\<lparr>snap_value = v, snap_start = a, snap_end = b\<rparr>"
  have z: "zipper_of e' = zip_push ?s (zipper_of e)"
    using assms by (simp add: zipper_updateValueAndSelection shows_currentD)
  have ok: "shows_current e'" unfolding e'_def using editor_ok_updateValueAndSelection [of p e v a b] assms(1,2)
    by (simp add: editor_ok_editable)
  have shown: "shows_current x \<Longrightarrow> ed_value x = snap_value (fst (snd (zipper_of x)))" for x
    by (simp add: shows_current_def zipper_of_def)
  have z1: "fst (snd (zipper_of (undo p e'))) = ed_history e ! ed_index e \<and> snd (snd (zipper_of (undo p e'))) = [?s]"
    using z assms(2,3) ok by (simp add: zipper_undo shows_currentD zipper_of_def [of e])
  have "shows_current (undo p e')" using ok assms(2) by simp
  from shown [OF this] z1 show "ed_value (undo p e') = ed_value e" using assms(1) by (simp add: shows_current_def)
  have h: "history_ok (undo p e')" using ok assms(2) by (simp add: shows_currentD)
  let ?u = "undo p e'"
  have lt: "Suc (ed_index ?u) < length (ed_history ?u)" "ed_history ?u ! Suc (ed_index ?u) = ?s"
    using arg_cong [OF conjunct2 [OF z1], of length] arg_cong [OF conjunct2 [OF z1], of "\<lambda>xs. xs ! 0"] by (simp_all add: zipper_of_def)
  show "ed_value (redo p ?u) = v" using redo_less [OF h assms(2) lt(1)] lt(2) by simp
  have "\<not> length (ed_history ?u) - 1 \<le> ed_index ?u" using lt(1) by linarith
  then show "ed_sel (redo p ?u) = (a, b)" using lt(2) assms(2) by (simp add: redo_def applyHistorySnapshot_def Let_def)
qed

text \<open>
  Undo and redo are inverse: after an edit that changes text or selection, in any reachable state,
  undo brings back the text from before the edit (also when the edit pushed the oldest of a hundred
  snapshots out), and redo after it the edited text with the edit's selection.
\<close>

theorem edit_undo_redo:
  assumes "editable p" "e = edit_run p w evs" "v \<noteq> ed_value e"
  shows "ed_value (undo p (updateValueAndSelection p v a b e)) = ed_value e
    \<and> ed_value (redo p (undo p (updateValueAndSelection p v a b e))) = v
    \<and> ed_sel (redo p (undo p (updateValueAndSelection p v a b e))) = (a, b)"
proof -
  have e: "shows_current e" using assms(2) shows_current_run by simp
  then have "ed_history e ! ed_index e \<noteq> \<lparr>snap_value = v, snap_start = a, snap_end = b\<rparr>"
    using assms(3) by (auto simp: shows_current_def)
  from undo_after_push [OF e assms(1) this] show ?thesis by blast
qed

theorem edit_undo_redo_witness:
  "ed_value (undo edit_props (updateValueAndSelection edit_props [98, 99] 2 2 (edit_run edit_props [97] []))) = [97]"
  using edit_undo_redo [OF editable_edit_props refl, of "[98, 99]" "[97]" "[]" 2 2]
  by (simp add: edit_run_def new_editor_def)

text \<open>
  C31: Tab on a selection that spans lines indents each of its lines and Shift+Tab undoes exactly that:
  the text and the selection are those from before, whatever indentation the lines had. The lines end
  with line feeds only, as a text area reports them, and the cursor is not in front of a leading line
  feed.
\<close>

theorem tab_shift_tab_roundtrip:
  assumes "editable p" "ed_sel e = (start, stop)" "stop \<le> length (ed_value e)"
    and "js_includes (js_slice start stop (ed_value e)) [10]"
    and "plain_text (ed_value e)" "start > 0 \<or> ed_value e ! 0 \<noteq> 10"
  shows "ed_value (shift_tab p (plain_tab p e)) = ed_value e \<and> ed_sel (shift_tab p (plain_tab p e)) = ed_sel e"
  using tab_shift_tab [OF assms(2,3,4) refl assms(5,6,1)] assms(2) by simp

theorem tab_shift_tab_roundtrip_witness:
  "ed_value (shift_tab edit_props (plain_tab edit_props ((new_editor [97, 10, 32, 98])\<lparr>ed_sel := (0, 4)\<rparr>))) = [97, 10, 32, 98]"
  using tab_shift_tab_roundtrip [OF editable_edit_props, of "(new_editor [97, 10, 32, 98])\<lparr>ed_sel := (0, 4)\<rparr>" 0 4]
  by (simp add: new_editor_def js_slice_def js_includes_def plain_text_def)

text \<open>
  C40: In front of a leading line feed it does not: \<open>lastIndexOf("\n", start - 1)\<close> with the cursor at 0
  searches from position 0 (a negative start counts as 0) and finds that line feed, so the computed
  line start 1 lies behind the cursor and Shift+Tab inserts a second line feed, for every such text.
\<close>

theorem shift_tab_duplicates_newline:
  assumes "editable p" "ed_value e = 10 # t" "ed_sel e = (0, 0)"
  shows "ed_value (shift_tab p e) = 10 # 10 # t \<and> ed_sel (shift_tab p e) = (1, 1)"
  using assms by (simp add: shift_tab_def line_start_def js_slice_def updateValueAndSelection_simps)

theorem shift_tab_duplicates_newline_witness:
  "ed_value (shift_tab edit_props (new_editor [10, 97])) = [10, 10, 97]"
  using shift_tab_duplicates_newline [OF editable_edit_props, of "new_editor [10, 97]"] by (simp add: new_editor_def)

end
