(* ===== verification/Console_Api.thy ===== *)
theory Console_Api
  imports Http
begin

text \<open>
  The admin console's API layer (\<open>src/console/src/lib/api\<close>): the session kept in the two web storages
  (\<open>session.ts\<close>), authenticated requests with one refresh after a 401 (\<open>client.ts\<close>), and the
  authentication calls (\<open>auth.ts\<close>). The lemmas show that a session lives in at most one storage,
  that reading gives back what was stored, and that a request is repeated at most once.
\<close>

subsection \<open>Web storage and sessions\<close>

type_synonym storage = "jsstr \<Rightarrow> jsstr option"

text \<open>\<open>has_window\<close> is false while the page is rendered on the server.\<close>

record 'w console =
  sessionStorage :: storage
  localStorage :: storage
  has_window :: bool
  API_BASE :: jsstr
  con_world :: 'w
  con_sent :: "request list"

type_synonym ('w, 'a) console_prog = "(exn, 'w console, 'a) prog"

definition accessKey :: jsstr where "accessKey = js ''peanut.accessToken''"
definition refreshKey :: jsstr where "refreshKey = js ''peanut.refreshToken''"
definition userKey :: jsstr where "userKey = js ''peanut.user''"

definition removeItems :: "storage \<Rightarrow> storage" where
  "removeItems st = st(accessKey := None, refreshKey := None, userKey := None)"

text \<open>\<open>String(v)\<close> of a value that may be \<open>undefined\<close>, as \<open>setItem\<close> converts it.\<close>

definition item_string :: "json option \<Rightarrow> jsstr" where
  "item_string v = (case v of None \<Rightarrow> js ''undefined'' | Some x \<Rightarrow> js_String x)"

text \<open>
  \<open>storeSession\<close>: the other storage is emptied first; reading a member of \<open>null\<close> then throws. The
  text of an absent user is \<open>undefined\<close>.
\<close>

definition should_remember :: "bool option \<Rightarrow> 'w console \<Rightarrow> bool" where
  "should_remember remember s = (case remember of Some b \<Rightarrow> b
     | None \<Rightarrow> (case localStorage s refreshKey of None \<Rightarrow> False | Some t \<Rightarrow> t \<noteq> []))"

definition write_session :: "json \<Rightarrow> storage \<Rightarrow> storage" where
  "write_session session st = st(
     accessKey \<mapsto> item_string (member (js ''access_token'') session),
     refreshKey \<mapsto> item_string (member (js ''refresh_token'') session),
     userKey \<mapsto> (case member (js ''user'') session of None \<Rightarrow> js ''undefined'' | Some u \<Rightarrow> stringify u))"

definition storeSession :: "json \<Rightarrow> bool option \<Rightarrow> ('w, unit) console_prog" where
  "storeSession session remember =
     bnd (gets (should_remember remember)) (\<lambda>shouldRemember.
     bnd (modify (\<lambda>s. if shouldRemember then s\<lparr>sessionStorage := removeItems (sessionStorage s)\<rparr>
                      else s\<lparr>localStorage := removeItems (localStorage s)\<rparr>)) (\<lambda>_.
     if session = JNull then throw TypeError
     else modify (\<lambda>s. if shouldRemember then s\<lparr>localStorage := write_session session (localStorage s)\<rparr>
                      else s\<lparr>sessionStorage := write_session session (sessionStorage s)\<rparr>)))"

definition clearSession :: "('w, unit) console_prog" where
  "clearSession = modify (\<lambda>s. s\<lparr>sessionStorage := removeItems (sessionStorage s),
     localStorage := removeItems (localStorage s)\<rparr>)"

text \<open>\<open>sessionStorage.getItem(k) ?? localStorage.getItem(k)\<close>\<close>

definition getItem :: "jsstr \<Rightarrow> 'w console \<Rightarrow> jsstr option" where
  "getItem k s = (case sessionStorage s k of Some v \<Rightarrow> Some v | None \<Rightarrow> localStorage s k)"

definition storedUser :: "'w console \<Rightarrow> json" where
  "storedUser s =
     (if \<not> has_window s then JNull
      else case getItem userKey s of
          None \<Rightarrow> JNull
        | Some raw \<Rightarrow> if raw = [] then JNull else (case parse raw of Some v \<Rightarrow> v | None \<Rightarrow> JNull))"

definition readAccessToken :: "'w console \<Rightarrow> jsstr option" where
  "readAccessToken s = (if \<not> has_window s then None else getItem accessKey s)"

definition readRefreshToken :: "'w console \<Rightarrow> jsstr option" where
  "readRefreshToken s = (if \<not> has_window s then None else getItem refreshKey s)"

subsection \<open>Requests\<close>

definition parsePayload :: "jsstr \<Rightarrow> json" where
  "parsePayload t = (if t = [] then JNull
     else case parse t of Some v \<Rightarrow> v | None \<Rightarrow> object [(''message'', Some (JStr t))])"

definition parseResponse :: "response \<Rightarrow> exn + json" where
  "parseResponse r = bind_res (resp_text r) (\<lambda>t. Inr (parsePayload t))"

text \<open>A member of an error payload: only objects have them; \<open>null\<close> counts as absent.\<close>

definition payload_text :: "string \<Rightarrow> json \<Rightarrow> jsstr option" where
  "payload_text k v = (case member (js k) v of None \<Rightarrow> None | Some x \<Rightarrow> if x = JNull then None else Some (js_String x))"

definition status_string :: "nat \<Rightarrow> jsstr" where
  "status_string n = number_string (mk_number False n 0)"

definition apiErrorFromResponse :: "response \<Rightarrow> exn + exn" where
  "apiErrorFromResponse r = bind_res (resp_text r) (\<lambda>t.
     let payload = parsePayload t in
     Inr (ApiError
       (case payload_text ''error'' payload of Some m \<Rightarrow> m
        | None \<Rightarrow> (case payload_text ''message'' payload of Some m \<Rightarrow> m
          | None \<Rightarrow> js ''Request failed with '' @ status_string (resp_status r)))
       (resp_status r) (Some payload)))"

record fetch_init =
  fi_method :: string
  fi_headers :: "(jsstr \<times> jsstr) list"
  fi_body :: "body_init option"
  fi_auth :: bool

definition con_fetch :: "'w fetch \<Rightarrow> request \<Rightarrow> ('w, response) console_prog" where
  "con_fetch f r s = (case f r (con_world s) of
     (x, w) \<Rightarrow> (x, s\<lparr>con_world := w, con_sent := con_sent s @ [r]\<rparr>))"

definition auth_init_headers :: "'w console \<Rightarrow> fetch_init \<Rightarrow> exn + headers" where
  "auth_init_headers s init =
     bind_res (headers_new (fi_headers init)) (\<lambda>hs.
     bind_res (if \<not> headers_has (js ''Content-Type'') hs \<and> fi_body init \<notin> {None, Some (BodyText [])}
               then headers_set (js ''Content-Type'') (js ''application/json'') hs else Inr hs) (\<lambda>hs.
     if fi_auth init then
       (case readAccessToken s of
          None \<Rightarrow> Inr hs
        | Some token \<Rightarrow> if token \<noteq> [] then headers_set (js ''Authorization'') (js ''Bearer '' @ token) hs else Inr hs)
     else Inr hs))"

definition fetchWithAuth :: "'w fetch \<Rightarrow> jsstr \<Rightarrow> fetch_init \<Rightarrow> ('w, response) console_prog" where
  "fetchWithAuth f path init =
     bnd (gets (\<lambda>s. s)) (\<lambda>s.
     bnd (lift_res (auth_init_headers s init)) (\<lambda>hs.
     con_fetch f \<lparr>req_url = API_BASE s @ path, req_method = js (fi_method init), req_headers = hs,
       req_body = fi_body init, req_timeout = None\<rparr>))"

definition throw_api_error :: "response \<Rightarrow> ('w, 'a) console_prog" where
  "throw_api_error r = bnd (lift_res (apiErrorFromResponse r)) throw"

text \<open>
  \<open>apiFetch\<close> and \<open>refreshStoredSession\<close> call each other, the second with \<open>auth: false\<close>, under which
  the first never refreshes: the body of \<open>apiFetch\<close> takes the refresh as an argument.
\<close>

definition apiFetch_body :: "'w fetch \<Rightarrow> ('w, bool) console_prog \<Rightarrow> jsstr \<Rightarrow> fetch_init \<Rightarrow> ('w, json) console_prog" where
  "apiFetch_body f refresh path init =
     bnd (fetchWithAuth f path init) (\<lambda>response.
     if resp_ok response then lift_res (parseResponse response)
     else if fi_auth init \<and> resp_status response = 401 then
       bnd refresh (\<lambda>refreshed.
       if refreshed then
         bnd (fetchWithAuth f path init) (\<lambda>retryResponse.
         if resp_ok retryResponse then lift_res (parseResponse retryResponse)
         else throw_api_error retryResponse)
       else throw_api_error response)
     else throw_api_error response)"

definition post_noauth :: "json \<Rightarrow> fetch_init" where
  "post_noauth v = \<lparr>fi_method = ''POST'', fi_headers = [], fi_body = Some (BodyText (stringify v)), fi_auth = False\<rparr>"

definition refreshStoredSession :: "'w fetch \<Rightarrow> ('w, bool) console_prog" where
  "refreshStoredSession f =
     bnd (gets readRefreshToken) (\<lambda>refresh_token.
     case refresh_token of
       None \<Rightarrow> ret False
     | Some t \<Rightarrow> if t = [] then ret False
         else try_catch
           (bnd (apiFetch_body f (ret False) (js ''/api/admin/auth/refresh'')
              (post_noauth (object [(''refresh_token'', Some (JStr t))]))) (\<lambda>session.
            bnd (storeSession session None) (\<lambda>_. ret True)))
           (\<lambda>_. ret False))"

definition apiFetch :: "'w fetch \<Rightarrow> jsstr \<Rightarrow> fetch_init \<Rightarrow> ('w, json) console_prog" where
  "apiFetch f path init = apiFetch_body f (refreshStoredSession f) path init"

lemma apiFetch_noauth: "\<not> fi_auth init \<Longrightarrow> apiFetch_body f refresh path init = apiFetch f path init"
  by (simp add: apiFetch_def apiFetch_body_def cong: if_cong)

text \<open>The body of the backup is returned as it arrives.\<close>

definition downloadBackup :: "'w fetch \<Rightarrow> jsstr \<Rightarrow> ('w, jsstr) console_prog" where
  "downloadBackup f name =
     bnd (gets (\<lambda>s. s)) (\<lambda>s.
     bnd (lift_res (or_throw URIError (encodeURIComponent name))) (\<lambda>n.
     bnd (lift_res (case readAccessToken s of
            None \<Rightarrow> headers_new []
          | Some token \<Rightarrow> if token = [] then headers_new []
              else headers_new [(js ''Authorization'', js ''Bearer '' @ token)])) (\<lambda>hs.
     bnd (con_fetch f \<lparr>req_url = API_BASE s @ js ''/api/admin/backups/'' @ n @ js ''/download'',
            req_method = js ''GET'', req_headers = hs, req_body = None, req_timeout = None\<rparr>) (\<lambda>response.
     if \<not> resp_ok response
     then throw (JsError (js ''Backup download failed with '' @ status_string (resp_status response)))
     else lift_res (resp_text response)))))"

subsection \<open>Authentication calls\<close>

definition credentials :: "jsstr \<Rightarrow> jsstr \<Rightarrow> json" where
  "credentials email password = object [(''email'', Some (JStr email)), (''password'', Some (JStr password))]"

definition bootstrapAdmin :: "'w fetch \<Rightarrow> jsstr \<Rightarrow> jsstr \<Rightarrow> ('w, json) console_prog" where
  "bootstrapAdmin f email password = apiFetch f (js ''/api/bootstrap/admin'') (post_noauth (credentials email password))"

definition loginAdmin :: "'w fetch \<Rightarrow> jsstr \<Rightarrow> jsstr \<Rightarrow> ('w, json) console_prog" where
  "loginAdmin f email password = apiFetch f (js ''/api/admin/auth/login'') (post_noauth (credentials email password))"

definition refreshAdminSession :: "'w fetch \<Rightarrow> ('w, json) console_prog" where
  "refreshAdminSession f =
     bnd (gets readRefreshToken) (\<lambda>refresh_token.
     if refresh_token \<in> {None, Some []} then throw (JsError (js ''No refresh token''))
     else apiFetch f (js ''/api/admin/auth/refresh'')
            (post_noauth (object [(''refresh_token'', map_option JStr refresh_token)])))"

definition logoutAdmin :: "'w fetch \<Rightarrow> ('w, unit) console_prog" where
  "logoutAdmin f =
     bnd (gets readRefreshToken) (\<lambda>refresh_token.
     if refresh_token \<in> {None, Some []} then ret ()
     else bnd (apiFetch f (js ''/api/admin/auth/logout'')
            (post_noauth (object [(''refresh_token'', map_option JStr refresh_token)]))) (\<lambda>_. ret ()))"

subsection \<open>A session lives in one storage\<close>

definition empty_store :: "storage \<Rightarrow> bool" where
  "empty_store st \<longleftrightarrow> st accessKey = None \<and> st refreshKey = None \<and> st userKey = None"

definition one_store :: "'w console \<Rightarrow> bool" where
  "one_store s \<longleftrightarrow> empty_store (sessionStorage s) \<or> empty_store (localStorage s)"

lemma keys_distinct: "accessKey \<noteq> refreshKey" "accessKey \<noteq> userKey" "refreshKey \<noteq> userKey"
  by (simp_all add: accessKey_def refreshKey_def userKey_def)

lemma empty_removeItems [simp]: "empty_store (removeItems st)"
  by (simp add: empty_store_def removeItems_def)

lemma write_session_get:
  "write_session v st accessKey = Some (item_string (member (js ''access_token'') v))"
  "write_session v st refreshKey = Some (item_string (member (js ''refresh_token'') v))"
  "write_session v st userKey = Some (case member (js ''user'') v of None \<Rightarrow> js ''undefined'' | Some u \<Rightarrow> stringify u)"
  using keys_distinct by (simp_all add: write_session_def)

text \<open>The state after a session has been stored.\<close>

definition stored :: "bool \<Rightarrow> json \<Rightarrow> 'w console \<Rightarrow> 'w console" where
  "stored b v s = (if b then s\<lparr>sessionStorage := removeItems (sessionStorage s), localStorage := write_session v (localStorage s)\<rparr>
     else s\<lparr>localStorage := removeItems (localStorage s), sessionStorage := write_session v (sessionStorage s)\<rparr>)"

lemma storeSession_eq:
  "v \<noteq> JNull \<Longrightarrow> storeSession v remember s = (Inr (), stored (should_remember remember s) v s)"
  by (simp add: storeSession_def stored_def prog_simps)

lemma storeSession_null: "\<exists>s'. storeSession JNull remember s = (Inl TypeError, s') \<and> one_store s'"
  by (simp add: storeSession_def prog_simps one_store_def)

lemma one_store_stored: "one_store (stored b v s)"
  by (simp add: stored_def one_store_def)

lemma getItem_stored:
  "k \<in> {accessKey, refreshKey, userKey} \<Longrightarrow> getItem k (stored b v s) = write_session v (\<lambda>_. None) k"
  using keys_distinct by (auto simp: getItem_def stored_def removeItems_def write_session_get)

lemma stored_window [simp]: "has_window (stored b v s) = has_window s"
  by (simp add: stored_def)

lemma read_stored:
  assumes "has_window s"
  shows "readAccessToken (stored b v s) = Some (item_string (member (js ''access_token'') v))"
    and "readRefreshToken (stored b v s) = Some (item_string (member (js ''refresh_token'') v))"
  using assms by (simp_all add: readAccessToken_def readRefreshToken_def getItem_stored write_session_get)

lemma storedUser_stored:
  assumes "has_window s" "member (js ''user'') v = Some u" "wf_json u"
  shows "storedUser (stored b v s) = u"
proof -
  have "stringify u \<noteq> []" using render_hd [OF assms(3), of "\<lambda>_. []" "[58]" 0] by (auto simp: stringify_def)
  then show ?thesis
    using assms by (simp add: storedUser_def getItem_stored write_session_get parse_stringify)
qed

lemma preserves_storeSession [preserves_intros]: "preserves (one_store :: 'w console \<Rightarrow> bool) (storeSession v remember)"
proof (rule preservesI)
  fix s :: "'w console"
  show "one_store (snd (storeSession v remember s))"
    using storeSession_null [of remember s] by (cases "v = JNull") (auto simp: storeSession_eq one_store_stored)
qed

lemma preserves_clearSession [preserves_intros]: "preserves one_store clearSession"
  by (simp add: preserves_def clearSession_def prog_simps one_store_def)

lemma con_fetch_eq:
  "con_fetch f r s = (fst (f r (con_world s)), s\<lparr>con_world := snd (f r (con_world s)), con_sent := con_sent s @ [r]\<rparr>)"
  by (simp add: con_fetch_def split: prod.split)

lemma preserves_con_fetch [preserves_intros]: "preserves one_store (con_fetch f r)"
  by (simp add: preserves_def con_fetch_eq one_store_def)

lemma preserves_case_option [preserves_intros]:
  "preserves P m \<Longrightarrow> (\<And>x. preserves P (k x)) \<Longrightarrow> preserves P (case y of None \<Rightarrow> m | Some x \<Rightarrow> k x)"
  by (cases y) simp_all

lemma preserves_fetchWithAuth [preserves_intros]: "preserves one_store (fetchWithAuth f path init)"
  unfolding fetchWithAuth_def by (intro preserves_intros)

lemma preserves_apiFetch_body [preserves_intros]:
  "preserves one_store refresh \<Longrightarrow> preserves one_store (apiFetch_body f refresh path init)"
  unfolding apiFetch_body_def throw_api_error_def by (intro preserves_intros)

lemma preserves_refresh [preserves_intros]: "preserves one_store (refreshStoredSession f)"
  unfolding refreshStoredSession_def by (intro preserves_intros)

lemma preserves_apiFetch [preserves_intros]: "preserves one_store (apiFetch f path init)"
  unfolding apiFetch_def by (intro preserves_intros)

lemma preserves_auth_calls [preserves_intros]:
  "preserves one_store (bootstrapAdmin f e p)" "preserves one_store (loginAdmin f e p)"
  "preserves one_store (refreshAdminSession f)" "preserves one_store (logoutAdmin f)"
  "preserves one_store (downloadBackup f name)"
  unfolding bootstrapAdmin_def loginAdmin_def refreshAdminSession_def logoutAdmin_def downloadBackup_def
  by (intro preserves_intros)+

subsection \<open>How often a request is repeated\<close>

lemma at_most_store: "at_most con_sent 0 (storeSession v remember)"
  by (simp add: at_most_def storeSession_def prog_simps)

lemma at_most_fetchWithAuth: "at_most con_sent 1 (fetchWithAuth f path init)"
  by (simp add: at_most_def fetchWithAuth_def con_fetch_eq prog_simps split: sum.split)

lemma at_most_throw_api_error: "at_most con_sent 0 (throw_api_error r)"
  unfolding throw_api_error_def by (intro at_most_bnd [where n = 0 and k = 0] at_most_0) simp

lemma at_most_noauth:
  assumes "\<not> fi_auth init"
  shows "at_most con_sent 1 (apiFetch_body f refresh path init)"
proof -
  have "apiFetch_body f refresh path init = bnd (fetchWithAuth f path init) (\<lambda>response.
      if resp_ok response then lift_res (parseResponse response) else throw_api_error response)"
    using assms by (simp add: apiFetch_body_def cong: if_cong)
  then show ?thesis
    by (simp only:, intro at_most_bnd [where n = 1 and k = 0] at_most_if [where n = 0 and k = 0] at_most_fetchWithAuth
        at_most_throw_api_error at_most_0) simp_all
qed

lemma at_most_case_option:
  "at_most lg n m \<Longrightarrow> (\<And>x. at_most lg n (k x)) \<Longrightarrow> at_most lg n (case y of None \<Rightarrow> m | Some x \<Rightarrow> k x)"
  by (cases y) simp_all

lemma at_most_refresh: "at_most con_sent 1 (refreshStoredSession f)"
proof -
  have call: "at_most con_sent 1 (bnd (apiFetch_body f (ret False) p (post_noauth b)) (\<lambda>session.
      bnd (storeSession session None) (\<lambda>_. ret True)))" for p b
    by (intro at_most_bnd [where n = 1 and k = 0] at_most_bnd [where n = 0 and k = 0] at_most_noauth at_most_store at_most_0)
      (simp_all add: post_noauth_def)
  show ?thesis unfolding refreshStoredSession_def
    by (rule at_most_bnd [where n = 0 and k = 1, OF at_most_0(4)])
      (intro at_most_case_option at_most_if [where n = 0 and k = 1] at_most_try_catch call at_most_0
        at_most_weaken [OF at_most_0(1)], simp_all)
qed

lemma at_most_apiFetch: "at_most con_sent 3 (apiFetch f path init)"
  unfolding apiFetch_def apiFetch_body_def
  by (intro at_most_bnd [where n = 1 and k = 2] at_most_if [where n = 0 and k = 2] at_most_if [where n = 2 and k = 0]
      at_most_bnd [where n = 1 and k = 1] at_most_if [where n = 1 and k = 0] at_most_bnd [where n = 1 and k = 0]
      at_most_if [where n = 0 and k = 0] at_most_refresh at_most_fetchWithAuth at_most_throw_api_error at_most_0) simp_all

subsection \<open>What the requests carry\<close>

definition console_bearer :: "'w console \<Rightarrow> jsstr option" where
  "console_bearer s = (case readAccessToken s of
     None \<Rightarrow> None | Some t \<Rightarrow> if t = [] then None else Some (header_value (js ''Bearer '' @ t)))"

text \<open>A request of \<open>fetchWithAuth\<close> for a call without headers of its own.\<close>

definition auth_sent :: "'w console \<Rightarrow> jsstr \<Rightarrow> fetch_init \<Rightarrow> request \<Rightarrow> bool" where
  "auth_sent s path init r \<longleftrightarrow> req_url r = API_BASE s @ path \<and> req_method r = js (fi_method init)
     \<and> req_body r = fi_body init
     \<and> (fi_headers init = [] \<longrightarrow>
          headers_get (js ''Authorization'') (req_headers r) = (if fi_auth init then console_bearer s else None))"

abbreviation con_sends :: "(request \<Rightarrow> bool) \<Rightarrow> ('w, 'a) console_prog \<Rightarrow> 'w console \<Rightarrow> bool" where
  "con_sends \<equiv> appends con_sent API_BASE"

lemma console_header_names: "ascii_lower (js ''Authorization'') \<noteq> ascii_lower (js ''Content-Type'')"
  by (simp add: ascii_lower_js)

lemma auth_init_headers_get:
  assumes "auth_init_headers s init = Inr hs" "fi_headers init = []"
  shows "headers_get (js ''Authorization'') hs = (if fi_auth init then console_bearer s else None)"
proof -
  obtain h where h: "(if \<not> headers_has (js ''Content-Type'') [] \<and> fi_body init \<notin> {None, Some (BodyText [])}
      then headers_set (js ''Content-Type'') (js ''application/json'') [] else Inr []) = Inr h"
    and rest: "(if fi_auth init then
       (case readAccessToken s of
          None \<Rightarrow> Inr h
        | Some token \<Rightarrow> if token \<noteq> [] then headers_set (js ''Authorization'') (js ''Bearer '' @ token) h else Inr h)
     else Inr h) = Inr hs"
    using assms unfolding auth_init_headers_def assms(2) headers_new_Nil bind_res_eq_Inr by blast
  have none: "headers_get (js ''Authorization'') h = None"
    using h headers_get_set [of "js ''Content-Type''" "js ''application/json''" "[]" h "js ''Authorization''"]
      console_header_names by (auto split: if_splits)
  show ?thesis
  proof (cases "\<exists>t. fi_auth init \<and> readAccessToken s = Some t \<and> t \<noteq> []")
    case True
    then obtain t where t: "fi_auth init" "readAccessToken s = Some t" "t \<noteq> []" by blast
    then have "headers_set (js ''Authorization'') (js ''Bearer '' @ t) h = Inr hs" using rest by simp
    then show ?thesis using t headers_get_set [of "js ''Authorization''" _ h hs "js ''Authorization''"]
      by (simp add: console_bearer_def)
  next
    case False
    then have "hs = h" using rest by (auto split: if_splits option.splits)
    then show ?thesis using False none by (auto simp: console_bearer_def split: option.split)
  qed
qed

lemma sends_con_fetch: "P r \<Longrightarrow> con_sends P (con_fetch f r) s"
  by (simp add: appends_def con_fetch_eq)

lemma sends_fetchWithAuth: "con_sends (auth_sent s path init) (fetchWithAuth f path init) s"
  unfolding fetchWithAuth_def
  by (intro appends_intros sends_con_fetch) (simp add: auth_sent_def auth_init_headers_get)

lemma fetchWithAuth_storage:
  "fetchWithAuth f path init s = (x, s') \<Longrightarrow>
   sessionStorage s' = sessionStorage s \<and> localStorage s' = localStorage s \<and> has_window s' = has_window s"
  by (auto simp: fetchWithAuth_def con_fetch_eq prog_simps split: sum.splits)

lemma refreshStoredSession_returns: "\<exists>b s'. refreshStoredSession f s = (Inr b, s')"
  by (auto simp: refreshStoredSession_def prog_simps split: option.split sum.split prod.split)

lemma apiFetch_storage_noauth:
  assumes "\<not> fi_auth init" "apiFetch_body f refresh path init s = (x, s')"
  shows "sessionStorage s' = sessionStorage s \<and> localStorage s' = localStorage s \<and> has_window s' = has_window s"
proof (cases "fetchWithAuth f path init s")
  case (Pair y s1)
  then have "s' = s1"
    using assms by (auto simp: apiFetch_body_def throw_api_error_def prog_simps split: sum.splits if_splits)
  then show ?thesis using fetchWithAuth_storage [OF Pair] by simp
qed

lemma refresh_stored:
  assumes "refreshStoredSession f s = (Inr True, s')"
  shows "\<exists>v b s1. v \<noteq> JNull \<and> s' = stored b v s1 \<and> has_window s1 = has_window s"
proof -
  obtain t v s1 where
    call: "apiFetch_body f (ret False) (js ''/api/admin/auth/refresh'') (post_noauth (object [(''refresh_token'', Some (JStr t))])) s = (Inr v, s1)"
    and store: "storeSession v None s1 = (Inr (), s')"
    using assms by (auto simp: refreshStoredSession_def prog_simps split: option.splits sum.splits prod.splits if_splits)
  have "v \<noteq> JNull" using store storeSession_null [of None s1] by auto
  moreover have "has_window s1 = has_window s"
    using apiFetch_storage_noauth [OF _ call] by (simp add: post_noauth_def)
  ultimately show ?thesis using store storeSession_eq [of v None s1] by auto
qed

lemma apiFetch_401:
  assumes "fetchWithAuth f path init s = (Inr response, s1)" "fi_auth init" "resp_status response = 401"
    and "refreshStoredSession f s1 = (Inr b, s2)"
  shows "apiFetch f path init s =
    (if b then bnd (fetchWithAuth f path init) (\<lambda>retryResponse.
       if resp_ok retryResponse then lift_res (parseResponse retryResponse) else throw_api_error retryResponse) s2
     else throw_api_error response s2)"
  using assms by (simp add: apiFetch_def apiFetch_body_def bnd_def resp_ok_def)

lemma after_fetch_sent:
  "con_sent (snd (bnd (fetchWithAuth f path init) (\<lambda>r. if resp_ok r then lift_res (parseResponse r) else throw_api_error r) s)) =
   con_sent (snd (fetchWithAuth f path init s))"
  by (auto simp: bnd_def throw_api_error_def lift_res_def throw_def split: prod.split sum.split)

subsection \<open>All calls\<close>

datatype api_op = ApiFetch jsstr fetch_init | DownloadBackup jsstr | BootstrapAdmin jsstr jsstr | LoginAdmin jsstr jsstr
  | RefreshAdminSession | LogoutAdmin | StoreSession json "bool option" | ClearSession

fun api_exec :: "'w fetch \<Rightarrow> api_op \<Rightarrow> ('w, unit) console_prog" where
  "api_exec f (ApiFetch path init) = bnd (apiFetch f path init) (\<lambda>_. ret ())"
| "api_exec f (DownloadBackup name) = bnd (downloadBackup f name) (\<lambda>_. ret ())"
| "api_exec f (BootstrapAdmin e p) = bnd (bootstrapAdmin f e p) (\<lambda>_. ret ())"
| "api_exec f (LoginAdmin e p) = bnd (loginAdmin f e p) (\<lambda>_. ret ())"
| "api_exec f RefreshAdminSession = bnd (refreshAdminSession f) (\<lambda>_. ret ())"
| "api_exec f LogoutAdmin = logoutAdmin f"
| "api_exec f (StoreSession v remember) = storeSession v remember"
| "api_exec f ClearSession = clearSession"

lemma preserves_api_exec: "preserves one_store (api_exec f op)"
  by (cases op) (auto intro!: preserves_intros)

text \<open>Every request goes to the configured server.\<close>

lemma api_base_body:
  assumes "\<And>s. con_sends (\<lambda>r. prefix (API_BASE s) (req_url r)) refresh s"
  shows "con_sends (\<lambda>r. prefix (API_BASE s) (req_url r)) (apiFetch_body f refresh path init) s"
proof -
  have fetch: "con_sends (\<lambda>r. prefix base (req_url r)) (fetchWithAuth f path init) s" if "API_BASE s = base" for base s
    using that by (intro appends_mono [OF sends_fetchWithAuth]) (auto simp: auth_sent_def)
  have keep: "API_BASE s' = API_BASE s" if "fetchWithAuth f path init s = (x, s')" for x s s'
    using sends_fetchWithAuth [of s path init f] that by (simp add: appends_def)
  have keep': "API_BASE s' = API_BASE s" if "refresh s = (x, s')" for x s s'
    using assms [of s] that by (simp add: appends_def)
  show ?thesis
    unfolding apiFetch_body_def throw_api_error_def
  proof (rule appends_bnd [OF fetch [OF refl]], goal_cases)
    case (1 response s1)
    have base: "API_BASE s1 = API_BASE s" using keep [OF 1] .
    have "con_sends (\<lambda>r. prefix (API_BASE s) (req_url r)) refresh s1" using assms [of s1] base by simp
    then show ?case
      using base by (intro appends_if appends_lift_res appends_bnd_any appends_throw appends_bnd [of _ _ _ refresh] fetch)
        (auto simp: keep' base)
  qed
qed

lemma sends_storage [appends_intros]:
  "con_sends P (storeSession v remember) s" "con_sends P clearSession s"
  by (simp_all add: appends_def storeSession_def clearSession_def prog_simps)

lemma sends_refresh: "con_sends (\<lambda>r. prefix (API_BASE s) (req_url r)) (refreshStoredSession f) s"
  unfolding refreshStoredSession_def by (intro appends_intros api_base_body)

lemma sends_apiFetch: "con_sends (\<lambda>r. prefix (API_BASE s) (req_url r)) (apiFetch f path init) s"
  unfolding apiFetch_def by (intro api_base_body sends_refresh)

lemma sends_download: "con_sends (\<lambda>r. prefix (API_BASE s) (req_url r)) (downloadBackup f name) s"
  unfolding downloadBackup_def by (intro appends_intros sends_con_fetch) simp

lemma sends_api_exec: "con_sends (\<lambda>r. prefix (API_BASE s) (req_url r)) (api_exec f op) s"
  by (cases op) (auto simp: bootstrapAdmin_def loginAdmin_def refreshAdminSession_def logoutAdmin_def
      intro!: appends_bnd_any appends_bnd_gets appends_if sends_apiFetch sends_download appends_ret appends_throw sends_storage)

interpretation console: logged_client "api_exec f" "\<lambda>_. True" con_sent API_BASE "\<lambda>base r. prefix base (req_url r)"
  using sends_api_exec by unfold_locales (auto simp: appends_def)

subsection \<open>The contract of a session store\<close>

text \<open>
  What the console relies on: a stored session is read back, clearing forgets it, and both keep the
  invariant. The lemmas hold for every store of this kind.
\<close>

locale session_store =
  fixes store :: "'v \<Rightarrow> 's \<Rightarrow> 's" and clear :: "'s \<Rightarrow> 's" and read :: "'s \<Rightarrow> 'r option"
    and content :: "'v \<Rightarrow> 'r" and valid :: "'v \<Rightarrow> bool" and inv :: "'s \<Rightarrow> bool"
  assumes read_store: "inv s \<Longrightarrow> valid v \<Longrightarrow> read (store v s) = Some (content v)"
    and read_clear: "inv s \<Longrightarrow> read (clear s) = None"
    and inv_store: "inv s \<Longrightarrow> valid v \<Longrightarrow> inv (store v s)" and inv_clear: "inv s \<Longrightarrow> inv (clear s)"
begin

text \<open>After any sequence of logins and refreshes, the last session counts.\<close>

lemma inv_stores: "inv s \<Longrightarrow> list_all valid vs \<Longrightarrow> inv (fold store vs s)"
  by (induction vs arbitrary: s) (simp_all add: inv_store)

lemma read_last:
  assumes "inv s" "list_all valid vs" "vs \<noteq> []"
  shows "read (fold store vs s) = Some (content (last vs))"
proof (cases vs rule: rev_cases)
  case (snoc ws w)
  then show ?thesis using assms by (simp add: read_store inv_stores)
qed (use assms in simp)

lemma read_cleared: "inv s \<Longrightarrow> list_all valid vs \<Longrightarrow> read (clear (fold store vs s)) = None"
  by (simp add: read_clear inv_stores)

end

text \<open>The sessions a browser page stores, with or without \<open>remember\<close>.\<close>

interpretation web: session_store
  "\<lambda>(v, remember) s. snd (storeSession v remember s)" "\<lambda>s. snd (clearSession s)"
  "\<lambda>s. case (readAccessToken s, readRefreshToken s) of (Some a, Some r) \<Rightarrow> Some (a, r) | _ \<Rightarrow> None"
  "\<lambda>(v, remember). (item_string (member (js ''access_token'') v), item_string (member (js ''refresh_token'') v))"
  "\<lambda>(v, remember). v \<noteq> JNull" "\<lambda>s. has_window s \<and> one_store s"
proof unfold_locales
  fix s :: "'a console" and v :: "json \<times> bool option"
  assume s: "has_window s \<and> one_store s"
  obtain u remember where v: "v = (u, remember)" by (cases v)
  have cleared: "getItem accessKey (snd (clearSession s)) = None"
    by (simp add: clearSession_def getItem_def removeItems_def prog_simps)
  show "(case (readAccessToken (snd (clearSession s)), readRefreshToken (snd (clearSession s))) of
      (Some a, Some r) \<Rightarrow> Some (a, r) | _ \<Rightarrow> None) = None"
    using cleared by (simp add: readAccessToken_def)
  show "has_window (snd (clearSession s)) \<and> one_store (snd (clearSession s))"
    using s by (simp add: clearSession_def prog_simps one_store_def)
  assume valid: "case v of (v, remember) \<Rightarrow> v \<noteq> JNull"
  then show "(case (readAccessToken ((case v of (v, remember) \<Rightarrow> \<lambda>s. snd (storeSession v remember s)) s),
      readRefreshToken ((case v of (v, remember) \<Rightarrow> \<lambda>s. snd (storeSession v remember s)) s)) of
      (Some a, Some r) \<Rightarrow> Some (a, r) | _ \<Rightarrow> None) =
    Some (case v of (v, remember) \<Rightarrow> (item_string (member (js ''access_token'') v), item_string (member (js ''refresh_token'') v)))"
    using s v by (simp add: storeSession_eq read_stored)
  show "has_window ((case v of (v, remember) \<Rightarrow> \<lambda>s. snd (storeSession v remember s)) s) \<and>
      one_store ((case v of (v, remember) \<Rightarrow> \<lambda>s. snd (storeSession v remember s)) s)"
    using s v valid by (simp add: storeSession_eq one_store_stored)
qed

subsection \<open>Properties\<close>

text \<open>
  A console talking to a server that refuses the first request, then grants a refresh, then accepts.
\<close>

definition con_answer :: "nat \<Rightarrow> json \<Rightarrow> response" where
  "con_answer st v = \<lparr>resp_status = st, resp_headers = [], resp_text = Inr (stringify v), resp_stream = None\<rparr>"

definition fresh_session :: json where
  "fresh_session = JObj [(js ''access_token'', JStr (js ''a2'')), (js ''refresh_token'', JStr (js ''r2'')), (js ''user'', JNull)]"

definition con_server :: "nat fetch" where
  "con_server r w = (Inr (if w = 0 then con_answer 401 JNull else if w = 1 then con_answer 200 fresh_session
     else con_answer 200 JNull), Suc w)"

definition sample_console :: "nat \<Rightarrow> nat console" where
  "sample_console w = \<lparr>sessionStorage = \<lambda>_. None, localStorage = [accessKey \<mapsto> js ''a1'', refreshKey \<mapsto> js ''r1''],
     has_window = True, API_BASE = js ''https://host'', con_world = w, con_sent = []\<rparr>"

definition get_auth :: fetch_init where
  "get_auth = \<lparr>fi_method = ''GET'', fi_headers = [], fi_body = None, fi_auth = True\<rparr>"

definition deny_server :: "nat fetch" where
  "deny_server r w = (Inr (con_answer 401 (JObj [(js ''error'', JStr (js ''expired''))])), Suc w)"

lemma parseResponse_answer:
  assumes "wf_json v"
  shows "parseResponse (con_answer st v) = Inr v"
proof -
  have "stringify v \<noteq> []" using render_hd [OF assms, of "\<lambda>_. []" "[58]" 0] by (auto simp: stringify_def)
  then show ?thesis using parse_stringify [OF assms] by (simp add: parseResponse_def parsePayload_def con_answer_def)
qed

lemma con_sample_headers:
  assumes "readAccessToken s = Some (js ''a1'')" "fi_headers init = []"
  shows "\<exists>hs. auth_init_headers s init = Inr hs"
  using assms
  by (simp add: auth_init_headers_def headers_set_def header_name_ok_def header_value_ok_def header_value_def
      header_space_def alnum_def js_def cu_def)

lemma con_sample_fetch:
  assumes "readAccessToken s = Some (js ''a1'')" "fi_headers init = []" "\<And>r. f r (con_world s) = (Inr a, w')"
  shows "\<exists>r. fetchWithAuth f path init s = (Inr a, s\<lparr>con_world := w', con_sent := con_sent s @ [r]\<rparr>)"
proof -
  obtain hs where "auth_init_headers s init = Inr hs" using con_sample_headers [OF assms(1,2)] by blast
  then show ?thesis using assms(3) by (simp add: fetchWithAuth_def con_fetch_eq prog_simps) blast
qed

lemma read_sent [simp]:
  "readAccessToken (s\<lparr>con_world := w, con_sent := rs\<rparr>) = readAccessToken s"
  "readRefreshToken (s\<lparr>con_world := w, con_sent := rs\<rparr>) = readRefreshToken s"
  by (simp_all add: readAccessToken_def readRefreshToken_def getItem_def cong: option.case_cong)

lemma con_sample_refresh:
  assumes "readAccessToken s = Some (js ''a1'')" "readRefreshToken s = Some (js ''r1'')" "\<And>r. f r (con_world s) = (Inr a, w')"
  shows "\<exists>s'. refreshStoredSession f s =
    (Inr (resp_ok a \<and> (\<exists>v. parseResponse a = Inr v \<and> v \<noteq> JNull)), s')"
proof -
  let ?init = "post_noauth (object [(''refresh_token'', Some (JStr (js ''r1'')))])"
  obtain r where r: "fetchWithAuth f (js ''/api/admin/auth/refresh'') ?init s = (Inr a, s\<lparr>con_world := w', con_sent := con_sent s @ [r]\<rparr>)"
    using con_sample_fetch [of s ?init f a w'] assms by (auto simp: post_noauth_def)
  have ne: "js ''r1'' \<noteq> []" by simp
  obtain s2 where null: "storeSession JNull None (s\<lparr>con_world := w', con_sent := con_sent s @ [r]\<rparr>) = (Inl TypeError, s2)"
    using storeSession_null by blast
  show ?thesis
    using r ne null assms(2)
    by (cases "parseResponse a"; cases "apiErrorFromResponse a"; cases "projr (parseResponse a) = JNull")
      (auto simp: refreshStoredSession_def apiFetch_body_def throw_api_error_def prog_simps storeSession_eq post_noauth_def)
qed

lemma con_sample_ok:
  assumes "readAccessToken s = Some (js ''a1'')" "fi_headers init = []" "wf_json v"
    and "\<And>r. f r (con_world s) = (Inr (con_answer 200 v), w')"
  shows "\<exists>r. apiFetch f path init s = (Inr v, s\<lparr>con_world := w', con_sent := con_sent s @ [r]\<rparr>)"
proof -
  obtain r where r: "fetchWithAuth f path init s = (Inr (con_answer 200 v), s\<lparr>con_world := w', con_sent := con_sent s @ [r]\<rparr>)"
    using con_sample_fetch [of s init f "con_answer 200 v" w' path] assms by blast
  have "resp_ok (con_answer 200 v)" by (simp add: resp_ok_def con_answer_def)
  then have "apiFetch f path init s = (Inr v, s\<lparr>con_world := w', con_sent := con_sent s @ [r]\<rparr>)"
    using r parseResponse_answer [OF assms(3), of 200] by (simp add: apiFetch_def apiFetch_body_def prog_simps)
  then show ?thesis by blast
qed

text \<open>
  C17: a session that is stored is the one that is read: the access and refresh tokens and the user
  come back from whichever storage was chosen, and no trace of a session is left in the other one.
\<close>

theorem store_session_roundtrip:
  assumes "has_window s" "v \<noteq> JNull" "member (js ''user'') v = Some u" "wf_json u"
    and "storeSession v remember s = (x, s')"
  shows "x = Inr () \<and> readAccessToken s' = Some (item_string (member (js ''access_token'') v))
    \<and> readRefreshToken s' = Some (item_string (member (js ''refresh_token'') v)) \<and> storedUser s' = u
    \<and> (if should_remember remember s then empty_store (sessionStorage s') else empty_store (localStorage s'))"
  using assms read_stored [OF assms(1)] storedUser_stored [OF assms(1,3,4)]
  by (auto simp: storeSession_eq) (auto simp: stored_def)

theorem store_session_roundtrip_witness:
  "\<exists>s'. storeSession fresh_session None (sample_console 0) = (Inr (), s')
    \<and> readAccessToken s' = Some (js ''a2'') \<and> readRefreshToken s' = Some (js ''r2'') \<and> storedUser s' = JNull"
proof -
  let ?s = "sample_console 0"
  have m: "member (js ''access_token'') fresh_session = Some (JStr (js ''a2''))"
    "member (js ''refresh_token'') fresh_session = Some (JStr (js ''r2''))"
    "member (js ''user'') fresh_session = Some JNull" "fresh_session \<noteq> JNull"
    by (simp_all add: fresh_session_def member_def)
  have wf: "wf_json JNull" by code_simp
  obtain x s' where s': "storeSession fresh_session None ?s = (x, s')" by (cases "storeSession fresh_session None ?s")
  have "has_window ?s" by (simp add: sample_console_def)
  from store_session_roundtrip [OF this m(4,3) wf s'] show ?thesis using s' m by (simp add: item_string_def)
qed

text \<open>
  No sequence of API calls, logins, refreshes, session stores and logouts ever leaves parts of a
  session in both storages, whatever the server answers.
\<close>

theorem session_in_one_storage:
  assumes "one_store s"
  shows "one_store (fold (\<lambda>op s. snd (api_exec f op s)) ops s)"
  using assms
proof (induction ops arbitrary: s)
  case (Cons op ops)
  then show ?case using preservesD [OF preserves_api_exec [of f op]] by simp
qed simp

theorem session_in_one_storage_witness:
  "one_store (fold (\<lambda>op s. snd (api_exec con_server op s)) [ApiFetch (js ''/x'') get_auth, LogoutAdmin] (sample_console 0))"
  by (rule session_in_one_storage) (simp add: sample_console_def one_store_def empty_store_def)

text \<open>
  An expired access token costs at most one refresh and one repetition: \<open>apiFetch\<close> makes at most
  three requests and the refresh at most one, whatever the server answers.
\<close>

theorem apiFetch_bounded:
  "length (con_sent (snd (apiFetch f path init s))) \<le> length (con_sent s) + 3
   \<and> length (con_sent (snd (refreshStoredSession f s))) \<le> length (con_sent s) + 1"
  using at_most_apiFetch [of f path init] at_most_refresh [of f] by (simp add: at_most_def)



text \<open>
  When the session cannot be refreshed, \<open>apiFetch\<close> throws the error of the original answer: its
  status, its payload and the payload's message.
\<close>

theorem apiFetch_refused:
  assumes "fetchWithAuth f path init s = (Inr response, s1)" "fi_auth init" "resp_status response = 401"
    and "refreshStoredSession f s1 = (Inr False, s2)" "resp_text response = Inr (stringify v)" "wf_json v"
    and "payload_text ''error'' v = Some m"
  shows "apiFetch f path init s = (Inl (ApiError m 401 (Some v)), s2)"
proof -
  have "stringify v \<noteq> []" using render_hd [OF assms(6), of "\<lambda>_. []" "[58]" 0] by (auto simp: stringify_def)
  then have "parsePayload (stringify v) = v" using parse_stringify [OF assms(6)] by (simp add: parsePayload_def)
  then show ?thesis
    using apiFetch_401 [OF assms(1-4)] assms(3,5,7)
    by (simp add: throw_api_error_def apiErrorFromResponse_def prog_simps Let_def)
qed

theorem apiFetch_refused_witness:
  "fst (apiFetch deny_server (js ''/x'') get_auth (sample_console 0)) =
    Inl (ApiError (js ''expired'') 401 (Some (JObj [(js ''error'', JStr (js ''expired''))])))"
proof -
  let ?s = "sample_console 0" and ?v = "JObj [(js ''error'', JStr (js ''expired''))]"
  have a: "readAccessToken ?s = Some (js ''a1'')" "readRefreshToken ?s = Some (js ''r1'')"
    using keys_distinct by (simp_all add: readAccessToken_def readRefreshToken_def getItem_def sample_console_def)
  have g: "fi_headers get_auth = []" "fi_auth get_auth" by (simp_all add: get_auth_def)
  obtain r where r: "fetchWithAuth deny_server (js ''/x'') get_auth ?s =
      (Inr (con_answer 401 ?v), ?s\<lparr>con_world := 1, con_sent := con_sent ?s @ [r]\<rparr>)" (is "_ = (_, ?s1)")
    using con_sample_fetch [OF a(1) g(1), of deny_server "con_answer 401 ?v" 1] by (auto simp: deny_server_def sample_console_def)
  have a1: "readAccessToken ?s1 = Some (js ''a1'')" "readRefreshToken ?s1 = Some (js ''r1'')"
    using a by simp_all
  have st: "\<not> resp_ok (con_answer 401 ?v)" "resp_status (con_answer 401 ?v) = 401" "resp_text (con_answer 401 ?v) = Inr (stringify ?v)"
    by (simp_all add: con_answer_def resp_ok_def)
  obtain s2 where s2: "refreshStoredSession deny_server ?s1 = (Inr False, s2)"
    using con_sample_refresh [OF a1, of deny_server "con_answer 401 ?v" 2] st(1) by (auto simp: deny_server_def)
  have wf: "wf_json ?v" by code_simp
  have "payload_text ''error'' ?v = Some (js ''expired'')" by (simp add: payload_text_def member_def)
  from apiFetch_refused [OF r g(2) st(2) s2 st(3) wf this] show ?thesis by simp
qed

end
