(* ===== verification/Console_Concurrent.thy ===== *)
theory Console_Concurrent
  imports Console_Api
begin

text \<open>
  Concurrent calls of \<open>apiFetch\<close> (\<open>src/console/src/lib/api/client.ts\<close>). A page loads several queries at
  once, so several calls share the session in the web storages. JavaScript runs one piece of code at a
  time and gives up control only at an \<open>await\<close>: a call is a state machine whose points are the awaits, a
  turn runs it to the next one, and a run takes turns of the calls in any order. Sending a request, its
  treatment by the server and the arrival of the answer are separate turns.

  The lemmas show that a call that is alone does what the sequential model says, that every run ends, that
  the stored tokens always belong together, and that two calls that find the access token expired at the
  same time compete for the refresh token.
\<close>

subsection \<open>Taking turns\<close>

text \<open>
  Processes of kind \<open>'c\<close> with local state \<open>'l\<close> share a state \<open>'s\<close>; a turn of one leaves the local states of
  the others alone and lowers its own rank.
\<close>

locale interleaving =
  fixes act :: "'c \<Rightarrow> 'l \<Rightarrow> 's \<Rightarrow> 'l \<times> 's" and final :: "'l \<Rightarrow> bool" and rank :: "'l \<Rightarrow> nat"
  assumes act_rank: "\<not> final l \<Longrightarrow> act c l s = (l', s') \<Longrightarrow> rank l' < rank l"
    and act_final: "final l \<Longrightarrow> act c l s = (l, s)"
begin

inductive step :: "('c \<times> 'l) list \<times> 's \<Rightarrow> ('c \<times> 'l) list \<times> 's \<Rightarrow> bool" where
  turn: "i < length ts \<Longrightarrow> ts ! i = (c, l) \<Longrightarrow> \<not> final l \<Longrightarrow> act c l s = (l', s') \<Longrightarrow> step (ts, s) (ts[i := (c, l')], s')"

text \<open>
  Whatever every turn pays for out of the local state of its process, the whole run pays for: a quantity \<open>cost\<close>
  of the shared state grows by at most the budgets of the processes.
\<close>

definition budgets :: "('l \<Rightarrow> nat) \<Rightarrow> ('c \<times> 'l) list \<Rightarrow> nat" where
  "budgets budget ts = sum_list (map (budget \<circ> snd) ts)"

lemma budgets_update:
  "i < length ts \<Longrightarrow> ts ! i = (c, l) \<Longrightarrow> budgets b (ts[i := (c, l')]) + b l = budgets b ts + b l'"
proof (induction ts arbitrary: i)
  case (Cons t ts)
  then show ?case by (cases i) (fastforce simp: budgets_def)+
qed simp

lemma run_cost:
  assumes "step\<^sup>*\<^sup>* x y" and paid: "\<And>c l s l' s'. act c l s = (l', s') \<Longrightarrow> cost s' + b l' \<le> cost s + b l"
  shows "cost (snd y) + budgets b (fst y) \<le> cost (snd x) + budgets b (fst x)"
  using assms(1)
proof (induction rule: rtranclp_induct)
  case (step y z)
  obtain i ts c l s l' s' where t: "y = (ts, s)" "z = (ts[i := (c, l')], s')" "i < length ts" "ts ! i = (c, l)" "act c l s = (l', s')"
    using step(2) by (cases rule: step.cases) auto
  then show ?case using step.IH paid [OF t(5)] budgets_update [OF t(3,4), of b l'] by simp
qed simp

lemma step_rank: "step x y \<Longrightarrow> budgets rank (fst y) < budgets rank (fst x)"
proof (induction rule: step.induct)
  case (turn i ts c l s l' s')
  then show ?case using budgets_update [of i ts c l rank l'] act_rank [OF turn(3,4)] by simp
qed

lemma run_bounded: "(step ^^ n) x y \<Longrightarrow> n + budgets rank (fst y) \<le> budgets rank (fst x)"
proof (induction n arbitrary: y)
  case (Suc n)
  then obtain z where z: "(step ^^ n) x z" "step z y" by auto
  then show ?case using Suc.IH [OF z(1)] step_rank [OF z(2)] by simp
qed simp

lemma stuck_iff: "(\<nexists>y. step x y) \<longleftrightarrow> (\<forall>(c, l) \<in> set (fst x). final l)"
proof
  assume a: "\<nexists>y. step x y"
  show "\<forall>(c, l) \<in> set (fst x). final l"
  proof (rule ccontr)
    assume "\<not> (\<forall>(c, l) \<in> set (fst x). final l)"
    then obtain i c l where i: "i < length (fst x)" "fst x ! i = (c, l)" "\<not> final l" by (auto simp: in_set_conv_nth)
    obtain l' s' where "act c l (snd x) = (l', s')" by (cases "act c l (snd x)")
    from step.turn [OF i this] show False using a by simp
  qed
next
  assume a: "\<forall>(c, l) \<in> set (fst x). final l"
  have "False" if "step x y" for y
    using that
  proof (cases rule: step.cases)
    case (turn i ts c l s l' s')
    then have "(c, l) \<in> set (fst x)" using nth_mem [of i ts] by simp
    then show False using a turn(5) by blast
  qed
  then show "\<nexists>y. step x y" by blast
qed

lemma run_invariant:
  assumes "step\<^sup>*\<^sup>* x y" "I (snd x)" "\<forall>(c, l) \<in> set (fst x). L c l"
    and keep: "\<And>c l s l' s'. I s \<Longrightarrow> L c l \<Longrightarrow> act c l s = (l', s') \<Longrightarrow> I s' \<and> L c l'"
  shows "I (snd y) \<and> (\<forall>(c, l) \<in> set (fst y). L c l)"
  using assms(1-3)
proof (induction rule: rtranclp_induct)
  case (step y z)
  then have y: "I (snd y)" "\<forall>(c, l) \<in> set (fst y). L c l" by simp_all
  obtain i ts c l s l' s' where t: "y = (ts, s)" "z = (ts[i := (c, l')], s')" "i < length ts" "ts ! i = (c, l)" "act c l s = (l', s')"
    using step(2) by (cases rule: step.cases) auto
  have "(c, l) \<in> set ts" using t(3,4) nth_mem by metis
  then have "L c l" using y(2) t(1) by auto
  then have new: "I s' \<and> L c l'" using keep [of s c l l' s'] y(1) t(1,5) by simp
  have "set (ts[i := (c, l')]) \<subseteq> insert (c, l') (set ts)" by (rule set_update_subset_insert)
  then show ?case using new y(2) t(1,2) by auto
qed simp

text \<open>A process that is alone has one run, the iteration of its turns.\<close>

definition solo :: "'c \<Rightarrow> 'l \<times> 's \<Rightarrow> 'l \<times> 's" where
  "solo c = (\<lambda>(l, s). act c l s)"

definition only :: "'c \<Rightarrow> 'l \<times> 's \<Rightarrow> ('c \<times> 'l) list \<times> 's" where
  "only c x = ([(c, fst x)], snd x)"

lemma solo_final: "final (fst x) \<Longrightarrow> (solo c ^^ n) x = x"
  by (induction n) (auto simp: solo_def act_final split: prod.split)

lemma step_only: "step (only c x) y \<longleftrightarrow> \<not> final (fst x) \<and> y = only c (solo c x)"
proof (cases "solo c x")
  case (Pair l' s')
  then show ?thesis
    using step.turn [of 0 "[(c, fst x)]" c "fst x" "snd x" l' s']
    by (auto simp: only_def solo_def split: prod.splits elim!: step.cases)
qed

lemma run_only: "step\<^sup>*\<^sup>* (only c x) (only c ((solo c ^^ n) x))"
proof (induction n)
  case (Suc n)
  have "step\<^sup>*\<^sup>* (only c y) (only c (solo c y))" for y
    using step_only [of c y "only c (solo c y)"] solo_final [of y 1 c] by (cases "final (fst y)") (simp_all add: r_into_rtranclp)
  then show ?case using Suc.IH by (simp add: rtranclp_trans)
qed simp

lemma only_run: "step\<^sup>*\<^sup>* (only c x) y \<Longrightarrow> \<exists>n. y = only c ((solo c ^^ n) x)"
proof (induction rule: rtranclp_induct)
  case base
  show ?case by (rule exI [of _ 0]) simp
next
  case (step y z)
  then obtain n where "y = only c ((solo c ^^ n) x)" by blast
  then have "z = only c ((solo c ^^ Suc n) x)" using step(2) step_only by simp
  then show ?case by blast
qed

lemma only_ends:
  assumes "(solo c ^^ n) x = z" "final (fst z)"
  shows "step\<^sup>*\<^sup>* (only c x) y \<and> (\<nexists>y'. step y y') \<longleftrightarrow> y = only c z"
proof
  assume "step\<^sup>*\<^sup>* (only c x) y \<and> (\<nexists>y'. step y y')"
  then obtain m where m: "y = only c ((solo c ^^ m) x)" and f: "final (fst ((solo c ^^ m) x))"
    using only_run [of c x y] stuck_iff [of y] by (auto simp: only_def)
  have "(solo c ^^ n) ((solo c ^^ m) x) = (solo c ^^ m) ((solo c ^^ n) x)" 
    using funpow_add [of n m "solo c"] funpow_add [of m n "solo c"] by (metis add.commute comp_apply)
  then show "y = only c z" unfolding m solo_final [OF f] assms(1) solo_final [OF assms(2)] by (rule arg_cong)
next
  assume "y = only c z"
  then show "step\<^sup>*\<^sup>* (only c x) y \<and> (\<nexists>y'. step y y')"
    using run_only [where c = c and x = x and n = n] assms(2) unfolding assms(1) stuck_iff by (simp add: only_def)
qed

lemma first_turn: "\<not> final l \<Longrightarrow> act c l s = (l', s') \<Longrightarrow> step ((c, l) # ts, s) ((c, l') # ts, s')"
  using step.turn [of 0 "(c, l) # ts" c l s l' s'] by simp

lemma second_turn: "\<not> final l \<Longrightarrow> act c l s = (l', s') \<Longrightarrow> step (t # (c, l) # ts, s) (t # (c, l') # ts, s')"
  using step.turn [of 1 "t # (c, l) # ts" c l s l' s'] by simp

end

subsection \<open>The points of a call\<close>

datatype wire = InFlight request | Arrived "exn + response"

text \<open>Which request is awaited: the first one, that of the refresh (after the refused answer), or the repeated one.\<close>

datatype stage = First | Refreshing response | Second

datatype point = Ready | Waiting stage wire | Storing response json | Retrying | Finished "exn + json"

definition build_request :: "'w console \<Rightarrow> jsstr \<Rightarrow> fetch_init \<Rightarrow> exn + request" where
  "build_request s path init = bind_res (auth_init_headers s init) (\<lambda>hs.
     Inr \<lparr>req_url = API_BASE s @ path, req_method = js (fi_method init), req_headers = hs,
       req_body = fi_body init, req_timeout = None\<rparr>)"

text \<open>\<open>throw await apiErrorFromResponse(response)\<close>\<close>

definition api_error :: "response \<Rightarrow> exn + json" where
  "api_error response = (case apiErrorFromResponse response of Inl e \<Rightarrow> Inl e | Inr e \<Rightarrow> Inl e)"

text \<open>The code up to the next \<open>fetch\<close>: a request that cannot be built ends in \<open>otherwise\<close>.\<close>

definition fire :: "stage \<Rightarrow> (exn \<Rightarrow> exn + json) \<Rightarrow> jsstr \<Rightarrow> fetch_init \<Rightarrow> 'w console \<Rightarrow> point \<times> 'w console" where
  "fire st otherwise path init s = (case build_request s path init of
     Inl e \<Rightarrow> (Finished (otherwise e), s)
   | Inr r \<Rightarrow> (Waiting st (InFlight r), s\<lparr>con_sent := con_sent s @ [r]\<rparr>))"

definition refresh_path :: jsstr where
  "refresh_path = js ''/api/admin/auth/refresh''"

definition refresh_init :: "jsstr \<Rightarrow> fetch_init" where
  "refresh_init t = post_noauth (object [(''refresh_token'', Some (JStr t))])"

definition begin_refresh :: "response \<Rightarrow> 'w console \<Rightarrow> point \<times> 'w console" where
  "begin_refresh response s = (case readRefreshToken s of
     None \<Rightarrow> (Finished (api_error response), s)
   | Some t \<Rightarrow> if t = [] then (Finished (api_error response), s)
       else fire (Refreshing response) (\<lambda>_. api_error response) refresh_path (refresh_init t) s)"

definition answer_value :: "response \<Rightarrow> exn + json" where
  "answer_value response = (if resp_ok response then parseResponse response else api_error response)"

fun task_step :: "'w fetch \<Rightarrow> jsstr \<times> fetch_init \<Rightarrow> point \<Rightarrow> 'w console \<Rightarrow> point \<times> 'w console" where
  "task_step f (path, init) Ready s = fire First Inl path init s"
| "task_step f (path, init) (Waiting st (InFlight r)) s = (case f r (con_world s) of
     (x, w) \<Rightarrow> (Waiting st (Arrived x), s\<lparr>con_world := w\<rparr>))"
| "task_step f (path, init) (Waiting st (Arrived (Inl e))) s = (case st of
     Refreshing response \<Rightarrow> (Finished (api_error response), s) | _ \<Rightarrow> (Finished (Inl e), s))"
| "task_step f (path, init) (Waiting First (Arrived (Inr response))) s =
     (if \<not> resp_ok response \<and> fi_auth init \<and> resp_status response = 401 then begin_refresh response s
      else (Finished (answer_value response), s))"
| "task_step f (path, init) (Waiting (Refreshing response) (Arrived (Inr answer))) s = (case answer_value answer of
     Inl e \<Rightarrow> (Finished (api_error response), s) | Inr session \<Rightarrow> (Storing response session, s))"
| "task_step f (path, init) (Waiting Second (Arrived (Inr response))) s = (Finished (answer_value response), s)"
| "task_step f (path, init) (Storing response session) s = (case storeSession session None s of
     (Inl e, s') \<Rightarrow> (Finished (api_error response), s') | (Inr u, s') \<Rightarrow> (Retrying, s'))"
| "task_step f (path, init) Retrying s = fire Second Inl path init s"
| "task_step f (path, init) (Finished r) s = (Finished r, s)"

fun is_finished :: "point \<Rightarrow> bool" where
  "is_finished (Finished r) = True"
| "is_finished p = False"

text \<open>The number of turns a call still takes at most.\<close>

fun turns_left :: "point \<Rightarrow> nat" where
  "turns_left Ready = 9"
| "turns_left (Waiting First (InFlight r)) = 8"
| "turns_left (Waiting First (Arrived x)) = 7"
| "turns_left (Waiting (Refreshing response) (InFlight r)) = 6"
| "turns_left (Waiting (Refreshing response) (Arrived x)) = 5"
| "turns_left (Storing response v) = 4"
| "turns_left Retrying = 3"
| "turns_left (Waiting Second (InFlight r)) = 2"
| "turns_left (Waiting Second (Arrived x)) = 1"
| "turns_left (Finished r) = 0"

lemma fire_turns: "fire st g path init s = (p, s') \<Longrightarrow> turns_left p \<le> turns_left (Waiting st (InFlight r))"
  by (cases st) (auto simp: fire_def split: sum.splits)

lemma task_step_turns:
  assumes "\<not> is_finished p" "task_step f c p s = (p', s')"
  shows "turns_left p' < turns_left p"
  using assms
proof (induction f c p s rule: task_step.induct)
  case (2 f path init st r s)
  then show ?case by (cases st) (auto split: prod.splits)
next
  case (4 f path init response s)
  then show ?case using fire_turns [of "Refreshing response" _ refresh_path _ s p' s']
    by (fastforce simp: begin_refresh_def split: if_splits option.splits)
qed (fastforce dest: fire_turns split: prod.splits sum.splits stage.splits)+

lemma task_step_finished: "is_finished p \<Longrightarrow> task_step f c p s = (p, s)"
  by (cases c; cases p) simp_all

interpretation calls: interleaving "task_step f" is_finished turns_left for f
  by unfold_locales (rule task_step_turns task_step_finished; assumption)+

subsection \<open>A call that is alone\<close>

abbreviation alone :: "'w fetch \<Rightarrow> jsstr \<times> fetch_init \<Rightarrow> point \<times> 'w console \<Rightarrow> point \<times> 'w console" where
  "alone f \<equiv> calls.solo f"

definition finished_call :: "(exn + json) \<times> 'w console \<Rightarrow> point \<times> 'w console" where
  "finished_call x = (Finished (fst x), snd x)"

lemma alone_finished: "(alone f c ^^ n) (Finished r, s) = (Finished r, s)"
  by (rule calls.solo_final) simp

lemma alone_next: "(alone f c ^^ Suc n) (p, s) = (alone f c ^^ n) (task_step f c p s)"
  by (simp add: calls.solo_def funpow_swap1)

lemma fetchWithAuth_fire:
  "fetchWithAuth f path init s = (case build_request s path init of Inl e \<Rightarrow> (Inl e, s)
     | Inr r \<Rightarrow> (fst (f r (con_world s)), s\<lparr>con_sent := con_sent s @ [r], con_world := snd (f r (con_world s))\<rparr>))"
  by (simp add: fetchWithAuth_def build_request_def con_fetch_eq prog_simps bind_res_def split: sum.split)

lemma throw_api_error_eq: "throw_api_error r = lift_res (api_error r)"
  by (rule ext) (simp add: throw_api_error_def api_error_def prog_simps split: sum.split)

lemma apiFetch_body_eq:
  "apiFetch_body f refresh path init = bnd (fetchWithAuth f path init) (\<lambda>response.
     if \<not> resp_ok response \<and> fi_auth init \<and> resp_status response = 401 then
       bnd refresh (\<lambda>b. if b then bnd (fetchWithAuth f path init) (\<lambda>retry. lift_res (answer_value retry))
         else lift_res (api_error response))
     else lift_res (answer_value response))"
  unfolding apiFetch_body_def throw_api_error_eq answer_value_def if_distrib [of lift_res]
  by (rule arg_cong2 [of _ _ _ _ bnd, OF refl], rule ext) simp

lemma alone_sent:
  "(alone f c ^^ Suc (Suc n)) (fire st g path init s) =
     (case build_request s path init of Inl e \<Rightarrow> (Finished (g e), s)
      | Inr r \<Rightarrow> (alone f c ^^ Suc n) (Waiting st (Arrived (fst (f r (con_world s)))),
          s\<lparr>con_sent := con_sent s @ [r], con_world := snd (f r (con_world s))\<rparr>))"
  by (cases c) (simp add: fire_def alone_next alone_finished del: funpow.simps split: sum.split prod.split)

lemma alone_second:
  "(alone f (path, init) ^^ (3 + n)) (Retrying, s) =
     finished_call (bnd (fetchWithAuth f path init) (\<lambda>retry. lift_res (answer_value retry)) s)"
proof -
  have "(alone f (path, init) ^^ (3 + n)) (Retrying, s) = (alone f (path, init) ^^ Suc (Suc n)) (fire Second Inl path init s)"
    by (simp add: alone_next numeral_3_eq_3 del: funpow.simps)
  also have "\<dots> = finished_call (bnd (fetchWithAuth f path init) (\<lambda>retry. lift_res (answer_value retry)) s)"
    by (auto simp: alone_sent alone_next alone_finished fetchWithAuth_fire finished_call_def prog_simps simp del: funpow.simps
        split: sum.split prod.split)
  finally show ?thesis .
qed

lemma alone_storing:
  "(alone f (path, init) ^^ (4 + n)) (Storing response session, s) =
     finished_call (bnd (try_catch (bnd (storeSession session None) (\<lambda>_. ret True)) (\<lambda>_. ret False)) (\<lambda>b.
       if b then bnd (fetchWithAuth f path init) (\<lambda>retry. lift_res (answer_value retry)) else lift_res (api_error response)) s)"
proof -
  have "(alone f (path, init) ^^ (4 + n)) (Storing response session, s) =
      (alone f (path, init) ^^ (3 + n)) (task_step f (path, init) (Storing response session) s)"
    using alone_next [of "3 + n" f "(path, init)" "Storing response session" s] by simp
  then show ?thesis
    using alone_second [where f = f and path = path and init = init and n = n] alone_finished [where f = f and c = "(path, init)" and n = "3 + n"]
    by (auto simp: finished_call_def prog_simps simp del: funpow.simps split: sum.split prod.split)
qed

lemma refreshStoredSession_eq:
  "refreshStoredSession f s = (case readRefreshToken s of None \<Rightarrow> (Inr False, s)
     | Some t \<Rightarrow> if t = [] then (Inr False, s)
         else try_catch (bnd (bnd (fetchWithAuth f refresh_path (refresh_init t)) (\<lambda>a. lift_res (answer_value a))) (\<lambda>session.
            bnd (storeSession session None) (\<lambda>_. ret True))) (\<lambda>_. ret False) s)"
  by (simp add: refreshStoredSession_def apiFetch_body_eq refresh_path_def refresh_init_def post_noauth_def prog_simps split: option.split)

lemma alone_refreshing:
  "(alone f (path, init) ^^ 6) (begin_refresh response s) =
     finished_call (bnd (refreshStoredSession f) (\<lambda>b.
       if b then bnd (fetchWithAuth f path init) (\<lambda>retry. lift_res (answer_value retry)) else lift_res (api_error response)) s)"
proof (cases "readRefreshToken s \<in> {None, Some []}")
  case True
  then show ?thesis
    by (auto simp: begin_refresh_def refreshStoredSession_eq alone_finished finished_call_def prog_simps)
next
  case False
  then obtain t where t: "readRefreshToken s = Some t" "t \<noteq> []" by auto
  have 7: "(alone f (path, init) ^^ 6) x = (alone f (path, init) ^^ Suc (Suc 4)) x" for x by (simp add: eval_nat_numeral)
  have 6: "(alone f (path, init) ^^ Suc 4) (Waiting (Refreshing response) (Arrived x), s') =
      finished_call (bnd (try_catch (bnd (bnd (lift_res x) (\<lambda>a. lift_res (answer_value a))) (\<lambda>session.
        bnd (storeSession session None) (\<lambda>_. ret True))) (\<lambda>_. ret False)) (\<lambda>b.
       if b then bnd (fetchWithAuth f path init) (\<lambda>retry. lift_res (answer_value retry)) else lift_res (api_error response)) s')"
    for x s'
  proof (cases x)
    case (Inl e)
    then show ?thesis unfolding alone_next by (simp add: alone_finished finished_call_def prog_simps)
  next
    case (Inr a)
    show ?thesis
      unfolding alone_next using Inr alone_storing [where f = f and path = path and init = init and n = 0 and response = response and s = s']
      by (cases "answer_value a") (simp_all add: alone_finished finished_call_def prog_simps del: funpow.simps)
  qed
  have "(alone f (path, init) ^^ 6) (begin_refresh response s) =
      (alone f (path, init) ^^ Suc (Suc 4)) (fire (Refreshing response) (\<lambda>_. api_error response) refresh_path (refresh_init t) s)"
    unfolding 7 using t by (simp add: begin_refresh_def)
  then show ?thesis
    unfolding alone_sent 6
    by (cases "build_request s refresh_path (refresh_init t)")
      (simp_all add: refreshStoredSession_eq t fetchWithAuth_fire finished_call_def bnd_def try_catch_def lift_res_def ret_def)
qed

lemma alone_call:
  "(alone f (path, init) ^^ 9) (Ready, s) = finished_call (apiFetch f path init s)"
proof -
  have 9: "(alone f (path, init) ^^ 9) (Ready, s) = (alone f (path, init) ^^ Suc (Suc 6)) (fire First Inl path init s)"
    using alone_next [of 8 f "(path, init)" Ready s] by (simp add: eval_nat_numeral)
  have 8: "(alone f (path, init) ^^ Suc 6) (Waiting First (Arrived (Inr response)), s') =
      finished_call ((if \<not> resp_ok response \<and> fi_auth init \<and> resp_status response = 401 then
       bnd (refreshStoredSession f) (\<lambda>b. if b then bnd (fetchWithAuth f path init) (\<lambda>retry. lift_res (answer_value retry))
         else lift_res (api_error response))
     else lift_res (answer_value response)) s')" for response s'
  proof -
    have "(alone f (path, init) ^^ Suc 6) (Waiting First (Arrived (Inr response)), s') =
        (alone f (path, init) ^^ 6) (task_step f (path, init) (Waiting First (Arrived (Inr response))) s')"
      by (rule alone_next)
    then show ?thesis
      using alone_refreshing [of f path init response s']
      by (simp add: alone_finished finished_call_def prog_simps del: funpow.simps)
  qed
  have 7: "(alone f (path, init) ^^ Suc 6) (Waiting First (Arrived (Inl e)), s') = finished_call (Inl e, s')" for e s'
    unfolding alone_next by (simp add: alone_finished finished_call_def)
  have sent: "(alone f (path, init) ^^ Suc 6) (Waiting First (Arrived x), s') = finished_call (case x of Inl e \<Rightarrow> (Inl e, s')
      | Inr response \<Rightarrow> (if \<not> resp_ok response \<and> fi_auth init \<and> resp_status response = 401 then
       bnd (refreshStoredSession f) (\<lambda>b. if b then bnd (fetchWithAuth f path init) (\<lambda>retry. lift_res (answer_value retry))
         else lift_res (api_error response))
     else lift_res (answer_value response)) s')" for x s'
    by (cases x) (simp_all only: 7 8 sum.case)
  show ?thesis
    unfolding 9 alone_sent sent apiFetch_def apiFetch_body_eq bnd_def [of "fetchWithAuth f path init"] fetchWithAuth_fire
    by (cases "build_request s path init") (simp_all add: finished_call_def split: sum.split)
qed


definition ready :: "(jsstr \<times> fetch_init) list \<Rightarrow> ((jsstr \<times> fetch_init) \<times> point) list" where
  "ready cs = map (\<lambda>c. (c, Ready)) cs"

text \<open>The requests a call may still make.\<close>

fun requests_left :: "point \<Rightarrow> nat" where
  "requests_left Ready = 3"
| "requests_left (Waiting First w) = 2"
| "requests_left (Waiting (Refreshing response) w) = 1"
| "requests_left (Storing response v) = 1"
| "requests_left Retrying = 1"
| "requests_left p = 0"

lemma fire_requests:
  assumes "fire st g path init s = (p, s')" "\<And>r. requests_left (Waiting st (InFlight r)) < n"
  shows "length (con_sent s') + requests_left p \<le> length (con_sent s) + n"
  using assms(1) assms(2) by (cases "build_request s path init") (auto simp: fire_def Suc_le_eq)

lemma storeSession_sent: "storeSession v remember s = (x, s') \<Longrightarrow> con_sent s' = con_sent s"
  by (auto simp: storeSession_def prog_simps split: if_splits)

lemma task_step_requests:
  assumes "task_step f c p s = (p', s')"
  shows "length (con_sent s') + requests_left p' \<le> length (con_sent s) + requests_left p"
  using assms
proof (induction f c p s rule: task_step.induct)
  case (2 f path init st r s)
  then show ?case by (cases st) (auto split: prod.splits)
next
  case (4 f path init response s)
  then show ?case using fire_requests [where st = "Refreshing response" and s = s and p = p' and s' = s' and n = 2]
    by (fastforce simp: begin_refresh_def split: if_splits option.splits)
qed (fastforce dest: fire_requests storeSession_sent split: prod.splits sum.splits stage.splits)+

lemma budgets_ready: "calls.budgets b (ready cs) = b Ready * length cs"
  by (induction cs) (simp_all add: calls.budgets_def ready_def)

text \<open>
  Calls that run at the same time end: however their turns are interleaved, a run of \<open>n\<close> calls takes at most
  nine turns and three requests per call, and it can only stop when every call has returned or thrown.
\<close>

theorem concurrent_calls_end:
  assumes "(calls.step f ^^ n) (ready cs, s) (ts, s')"
  shows "n \<le> 9 * length cs \<and> length (con_sent s') \<le> length (con_sent s) + 3 * length cs
    \<and> ((\<exists>y. calls.step f (ts, s') y) \<longleftrightarrow> (\<exists>(c, p) \<in> set ts. \<not> is_finished p))"
proof -
  have "(calls.step f)\<^sup>*\<^sup>* (ready cs, s) (ts, s')" using assms by (rule relpowp_imp_rtranclp)
  from calls.run_cost [OF this, where cost = "length \<circ> con_sent" and b = requests_left]
  have "length (con_sent s') \<le> length (con_sent s) + 3 * length cs"
    using task_step_requests by (fastforce simp: budgets_ready)
  moreover have "n \<le> 9 * length cs" using calls.run_bounded [OF assms] by (simp add: budgets_ready)
  ultimately show ?thesis using calls.stuck_iff [of f "(ts, s')"] by (auto simp: case_prod_beta)
qed

text \<open>
  A call that is alone does exactly what the sequential reading of \<open>apiFetch\<close> says: taking turns at the awaits
  it comes to an end, the end is unique, and it is the result and the state that \<open>apiFetch\<close> computes.
\<close>

theorem lone_call_is_apiFetch:
  "(calls.step f)\<^sup>*\<^sup>* (ready [(path, init)], s) (ts, s') \<and> (\<nexists>y. calls.step f (ts, s') y)
   \<longleftrightarrow> ts = [((path, init), Finished (fst (apiFetch f path init s)))] \<and> s' = snd (apiFetch f path init s)"
  using calls.only_ends [OF alone_call [where f = f and path = path and init = init and s = s], of "(ts, s')"]
  by (simp add: calls.only_def finished_call_def ready_def)

subsection \<open>The session the calls share\<close>

definition tokens :: "'w console \<Rightarrow> jsstr option \<times> jsstr option" where
  "tokens s = (readAccessToken s, readRefreshToken s)"

definition session_tokens :: "json \<Rightarrow> jsstr option \<times> jsstr option" where
  "session_tokens v = (Some (item_string (member (js ''access_token'') v)), Some (item_string (member (js ''refresh_token'') v)))"

text \<open>\<open>v\<close> is what the server answered to a refresh.\<close>

definition refresh_answer :: "'w fetch \<Rightarrow> jsstr \<Rightarrow> response \<Rightarrow> bool" where
  "refresh_answer f base a \<longleftrightarrow> (\<exists>r w w'. req_url r = base @ refresh_path \<and> f r w = (Inr a, w'))"

definition granted :: "'w fetch \<Rightarrow> jsstr \<Rightarrow> json \<Rightarrow> bool" where
  "granted f base v \<longleftrightarrow> (\<exists>a. refresh_answer f base a \<and> resp_ok a \<and> parseResponse a = Inr v)"

fun point_ok :: "'w fetch \<Rightarrow> jsstr \<Rightarrow> point \<Rightarrow> bool" where
  "point_ok f base (Waiting (Refreshing response) (InFlight r)) \<longleftrightarrow> req_url r = base @ refresh_path"
| "point_ok f base (Waiting (Refreshing response) (Arrived (Inr a))) \<longleftrightarrow> refresh_answer f base a"
| "point_ok f base (Storing response v) \<longleftrightarrow> granted f base v"
| "point_ok f base p \<longleftrightarrow> True"

text \<open>The tokens together are those of the start, those of one session that was handed out, or none.\<close>

definition session_ok :: "(json \<Rightarrow> bool) \<Rightarrow> 'w console \<Rightarrow> 'w console \<Rightarrow> bool" where
  "session_ok handed_out s s' \<longleftrightarrow> one_store s' \<and> has_window s' = has_window s \<and> API_BASE s' = API_BASE s
     \<and> (tokens s' \<in> {tokens s, (None, None)} \<or> (\<exists>v. handed_out v \<and> v \<noteq> JNull \<and> tokens s' = session_tokens v))"

lemma tokens_sent [simp]:
  "tokens (s\<lparr>con_sent := rs\<rparr>) = tokens s" "tokens (s\<lparr>con_world := w\<rparr>) = tokens s"
  "one_store (s\<lparr>con_sent := rs\<rparr>) = one_store s" "one_store (s\<lparr>con_world := w\<rparr>) = one_store s"
  by (simp_all add: tokens_def readAccessToken_def readRefreshToken_def getItem_def one_store_def cong: option.case_cong)

lemma fire_session:
  assumes "fire st g path init s0 = (p, s')" "session_ok h s s0" "\<And>response. st = Refreshing response \<Longrightarrow> path = refresh_path"
  shows "session_ok h s s' \<and> point_ok f (API_BASE s) p"
  using assms by (cases st) (auto simp: fire_def build_request_def session_ok_def bind_res_def split: sum.splits)

lemma removed_tokens:
  "empty_store (sessionStorage s) \<Longrightarrow> tokens (s\<lparr>sessionStorage := removeItems (sessionStorage s)\<rparr>) = tokens s"
  "empty_store (localStorage s) \<Longrightarrow> tokens (s\<lparr>localStorage := removeItems (localStorage s)\<rparr>) = tokens s"
  "empty_store (sessionStorage s) \<Longrightarrow> tokens (s\<lparr>localStorage := removeItems (localStorage s)\<rparr>) = (None, None)"
  "empty_store (localStorage s) \<Longrightarrow> tokens (s\<lparr>sessionStorage := removeItems (sessionStorage s)\<rparr>) = (None, None)"
  by (simp_all add: tokens_def readAccessToken_def readRefreshToken_def getItem_def removeItems_def empty_store_def cong: option.case_cong)

lemma storeSession_null_tokens:
  assumes "one_store s" "storeSession JNull remember s = (x, s')"
  shows "tokens s' \<in> {tokens s, (None, None)} \<and> one_store s' \<and> has_window s' = has_window s \<and> API_BASE s' = API_BASE s"
proof -
  have s': "s' = (if should_remember remember s then s\<lparr>sessionStorage := removeItems (sessionStorage s)\<rparr>
      else s\<lparr>localStorage := removeItems (localStorage s)\<rparr>)"
    using assms(2) by (auto simp: storeSession_def prog_simps split: if_splits)
  show ?thesis
    using assms(1) removed_tokens [of s] unfolding s' by (auto simp: one_store_def)
qed

lemma storing_session:
  assumes "storeSession v remember s0 = (x, s')" "session_ok h s s0" "h v"
  shows "session_ok h s s'"
proof (cases "v = JNull")
  case True
  then show ?thesis using assms storeSession_null_tokens [of s0 remember x s'] by (auto simp: session_ok_def)
next
  case False
  then have s': "s' = stored (should_remember remember s0) v s0" using assms(1) by (simp add: storeSession_eq)
  have base: "API_BASE s' = API_BASE s0" by (simp add: s' stored_def)
  have "tokens s' = session_tokens v \<or> tokens s' = (None, None)"
    by (cases "has_window s0") (simp_all add: s' tokens_def session_tokens_def read_stored, simp add: readAccessToken_def readRefreshToken_def)
  then show ?thesis using False assms(2,3) base one_store_stored [of _ v s0] by (auto simp: session_ok_def s')
qed

lemma task_step_session:
  assumes "task_step f c p s0 = (p', s')" "session_ok h s s0" "point_ok f (API_BASE s) p"
    and "\<And>v. granted f (API_BASE s) v \<Longrightarrow> h v"
  shows "session_ok h s s' \<and> point_ok f (API_BASE s) p'"
  using assms
proof (induction f c p s0 rule: task_step.induct)
  case (2 f path init st r s0)
  obtain x w where x: "f r (con_world s0) = (x, w)" by (cases "f r (con_world s0)")
  have "point_ok f (API_BASE s) (Waiting st (Arrived x))"
    using 2(3) x by (cases st; cases x) (auto simp: refresh_answer_def)
  then show ?case using 2(1,2) x by (auto simp: session_ok_def)
next
  case (4 f path init response s0)
  then show ?case using fire_session [where st = "Refreshing response" and path = refresh_path and p = p' and s' = s' and f = f and h = h and ?s0.0 = s0 and s = s]
    by (auto simp: begin_refresh_def split: if_splits option.splits)
next
  case (5 f path init response answer s0)
  then show ?case by (auto simp: answer_value_def granted_def api_error_def split: sum.splits if_splits)
next
  case (7 f path init response session s0)
  obtain x s1 where x: "storeSession session None s0 = (x, s1)" by (cases "storeSession session None s0")
  then show ?case using 7 storing_session [OF x 7(2) 7(4)] by (auto split: sum.splits)
qed (auto dest: fire_session split: stage.splits)

text \<open>
  Calls that run at the same time never mix two sessions: along every interleaving a session lives in at most one
  storage, and the access and the refresh token that are read together are those of the start, those of one and the
  same answer of the server to a refresh, or both absent.
\<close>

theorem concurrent_session_coherent:
  assumes "(calls.step f)\<^sup>*\<^sup>* (ready cs, s) (ts, s')" "one_store s"
  shows "one_store s' \<and> (tokens s' \<in> {tokens s, (None, None)}
    \<or> (\<exists>v. granted f (API_BASE s) v \<and> v \<noteq> JNull \<and> tokens s' = session_tokens v))"
proof -
  have "session_ok (granted f (API_BASE s)) s s" using assms(2) by (simp add: session_ok_def)
  then have "session_ok (granted f (API_BASE s)) s (snd (ts, s'))"
    using calls.run_invariant [OF assms(1), of "session_ok (granted f (API_BASE s)) s" "\<lambda>c. point_ok f (API_BASE s)"] task_step_session
    by (fastforce simp: ready_def)
  then show ?thesis by (simp add: session_ok_def)
qed


subsection \<open>Two calls compete for the refresh token\<close>

lemma read_con [simp]:
  "readAccessToken (s\<lparr>con_sent := rs\<rparr>) = readAccessToken s" "readAccessToken (s\<lparr>con_world := w\<rparr>) = readAccessToken s"
  "readRefreshToken (s\<lparr>con_sent := rs\<rparr>) = readRefreshToken s" "readRefreshToken (s\<lparr>con_world := w\<rparr>) = readRefreshToken s"
  using tokens_sent(1) [of rs s] tokens_sent(2) [of w s] by (simp_all add: tokens_def)

lemma build_request_con [simp]:
  "build_request (s\<lparr>con_sent := rs\<rparr>) path init = build_request s path init"
  "build_request (s\<lparr>con_world := w\<rparr>) path init = build_request s path init"
proof -
  have "API_BASE (s\<lparr>con_sent := rs\<rparr>) = API_BASE s" "API_BASE (s\<lparr>con_world := w\<rparr>) = API_BASE s" by simp_all
  then show "build_request (s\<lparr>con_sent := rs\<rparr>) path init = build_request s path init"
    "build_request (s\<lparr>con_world := w\<rparr>) path init = build_request s path init"
    by (simp_all only: build_request_def auth_init_headers_def read_con)
qed

text \<open>The first request of a call, refused with 401.\<close>

definition expires :: "'w fetch \<Rightarrow> 'w console \<Rightarrow> jsstr \<times> fetch_init \<Rightarrow> request \<Rightarrow> response \<Rightarrow> 'w \<Rightarrow> 'w \<Rightarrow> bool" where
  "expires f s c r a w w' \<longleftrightarrow> build_request s (fst c) (snd c) = Inr r \<and> fi_auth (snd c) \<and> f r w = (Inr a, w') \<and> resp_status a = 401"

text \<open>The refresh with the token \<open>t\<close> is granted once and refused the second time, as a server does that gives every refresh
  token out for one use.\<close>

definition single_use :: "'w fetch \<Rightarrow> 'w console \<Rightarrow> jsstr \<Rightarrow> request \<Rightarrow> json \<Rightarrow> 'w \<Rightarrow> bool" where
  "single_use f s t q v w \<longleftrightarrow> readRefreshToken s = Some t \<and> t \<noteq> [] \<and> build_request s refresh_path (refresh_init t) = Inr q
     \<and> (\<exists>g w' d w''. f q w = (Inr g, w') \<and> answer_value g = Inr v \<and> v \<noteq> JNull \<and> f q w' = (Inr d, w'') \<and> \<not> resp_ok d)"

lemma answer_refused: "\<not> resp_ok d \<Longrightarrow> \<exists>e. answer_value d = Inl e"
  by (simp add: answer_value_def api_error_def split: sum.split)

lemma not_ok_401: "resp_status a = 401 \<Longrightarrow> \<not> resp_ok a"
  by (simp add: resp_ok_def)

text \<open>The turns of a call against a state with any log and world.\<close>

lemma call_sent:
  "build_request s path init = Inr r \<Longrightarrow>
   task_step f (path, init) Ready (s\<lparr>con_sent := rs, con_world := w\<rparr>) = (Waiting First (InFlight r), s\<lparr>con_sent := rs @ [r], con_world := w\<rparr>)"
  by (simp add: fire_def)

lemma call_served:
  "f r w = (x, w') \<Longrightarrow>
   task_step f k (Waiting st (InFlight r)) (s\<lparr>con_sent := rs, con_world := w\<rparr>) = (Waiting st (Arrived x), s\<lparr>con_sent := rs, con_world := w'\<rparr>)"
  by (cases k) simp

lemma call_expired:
  assumes "fi_auth init" "resp_status a = 401" "readRefreshToken s = Some t" "t \<noteq> []"
    and "build_request s refresh_path (refresh_init t) = Inr q"
  shows "task_step f (path, init) (Waiting First (Arrived (Inr a))) (s\<lparr>con_sent := rs, con_world := w\<rparr>) =
     (Waiting (Refreshing a) (InFlight q), s\<lparr>con_sent := rs @ [q], con_world := w\<rparr>)"
  using assms not_ok_401 by (simp add: begin_refresh_def fire_def)

lemma call_granted:
  "answer_value g = Inr v \<Longrightarrow> task_step f k (Waiting (Refreshing a) (Arrived (Inr g))) s = (Storing a v, s)"
  by (cases k) simp

lemma call_stores:
  "v \<noteq> JNull \<Longrightarrow> task_step f k (Storing a v) s = (Retrying, stored (should_remember None s) v s)"
  by (cases k) (simp add: storeSession_eq)

text \<open>
  C35: two calls that find the access token expired at the same time do not share the refresh. Each sends the same
  refresh token; when the server grants it once, the other call fails with its 401 although the new session is already
  stored, and its request is not repeated with the new token.
\<close>

theorem concurrent_refresh_loses_call:
  assumes "has_window s" "expires f s c1 r1 a1 (con_world s) w1" "expires f s c2 r2 a2 w1 w2" "single_use f s t q v w2"
  shows "\<exists>s'. (calls.step f)\<^sup>*\<^sup>* (ready [c1, c2], s) ([(c1, Retrying), (c2, Finished (api_error a2))], s')
    \<and> tokens s' = session_tokens v \<and> con_sent s' = con_sent s @ [r1, r2, q, q]"
proof -
  obtain g w3 d w4 e where q: "readRefreshToken s = Some t" "t \<noteq> []" "build_request s refresh_path (refresh_init t) = Inr q"
    "f q w2 = (Inr g, w3)" "answer_value g = Inr v" "v \<noteq> JNull" "f q w3 = (Inr d, w4)" "answer_value d = Inl e"
    using assms(4) answer_refused unfolding single_use_def by blast
  obtain p1 i1 p2 i2 where c: "c1 = (p1, i1)" "c2 = (p2, i2)" by (cases c1; cases c2)
  note e1 = assms(2) [unfolded expires_def c fst_conv snd_conv] and e2 = assms(3) [unfolded expires_def c fst_conv snd_conv]
  let ?S = "\<lambda>rs w. s\<lparr>con_sent := rs, con_world := w\<rparr>" and ?rs = "con_sent s" and ?w = "con_world s"
  note start1 = call_sent [OF e1 [THEN conjunct1]] and start2 = call_sent [OF e2 [THEN conjunct1]]
  have auth: "fi_auth i1" "resp_status a1 = 401" "fi_auth i2" "resp_status a2 = 401" using e1 e2 by simp_all
  note expired1 = call_expired [OF auth(1,2) q(1-3)] and expired2 = call_expired [OF auth(3,4) q(1-3)]
  have refused: "task_step f c2 (Waiting (Refreshing a2) (Arrived (Inr d))) s' = (Finished (api_error a2), s')" for s'
    using q(8) by (simp add: c)
  note go1 = converse_rtranclp_into_rtranclp [where r = "calls.step f", OF calls.first_turn] and go2 = converse_rtranclp_into_rtranclp [where r = "calls.step f", OF calls.second_turn]
  let ?s6 = "?S (?rs @ [r1] @ [r2] @ [q] @ [q]) w4"
  have "(calls.step f)\<^sup>*\<^sup>* ([(c1, Ready), (c2, Ready)], ?S ?rs ?w)
      ([(c1, Retrying), (c2, Finished (api_error a2))], stored (should_remember None ?s6) v ?s6)"
    unfolding append_assoc [symmetric]
    by (rule go1, simp, unfold c, rule start1, rule go2, simp, rule start2, rule go1, simp, rule call_served, use e1 in blast,
        rule go2, simp, rule call_served, use e2 in blast, rule go1, simp, rule expired1, rule go2, simp, rule expired2,
        rule go1, simp, rule call_served, rule q(4), rule go2, simp, rule call_served, rule q(7), rule go1, simp, rule call_granted, rule q(5),
        rule go1, simp, rule call_stores, rule q(6), rule go2, simp, rule refused [unfolded c], rule rtranclp.rtrancl_refl)
  moreover have "tokens (stored b v ?s6) = session_tokens v" "con_sent (stored b v ?s6) = ?rs @ [r1, r2, q, q]" for b
    using assms(1) by (simp_all add: tokens_def session_tokens_def read_stored) (simp add: stored_def)
  ultimately show ?thesis by (auto simp: ready_def)
qed

text \<open>A server that accepts the access token \<open>a2\<close> only and grants one refresh, which is the world it keeps.\<close>

definition rotating_server :: "nat fetch" where
  "rotating_server r used = (if req_url r = js ''https://host'' @ refresh_path
     then (if used = 0 then (Inr (con_answer 200 fresh_session), 1) else (Inr (con_answer 401 JNull), used))
     else (Inr (con_answer (if headers_get (js ''Authorization'') (req_headers r) = Some (js ''Bearer a2'') then 200 else 401) JNull), used))"

lemma sample_reads:
  "readAccessToken (sample_console w) = Some (js ''a1'')" "readRefreshToken (sample_console w) = Some (js ''r1'')"
  using keys_distinct by (simp_all add: readAccessToken_def readRefreshToken_def getItem_def sample_console_def)

lemma sample_expires:
  "\<exists>r. expires rotating_server (sample_console 0) (js ''/x'', get_auth) r (con_answer 401 JNull) 0 0"
proof -
  let ?r = "\<lparr>req_url = js ''https://host/x'', req_method = js ''GET'',
    req_headers = [(js ''authorization'', js ''Bearer a1'')], req_body = None, req_timeout = None\<rparr>"
  have "build_request (sample_console 0) (js ''/x'') get_auth = Inr ?r" by code_simp
  moreover have "rotating_server ?r 0 = (Inr (con_answer 401 JNull), 0)" by code_simp
  ultimately have "expires rotating_server (sample_console 0) (js ''/x'', get_auth) ?r (con_answer 401 JNull) 0 0"
    by (simp add: expires_def get_auth_def con_answer_def)
  then show ?thesis by blast
qed

lemma sample_single_use: "\<exists>q. single_use rotating_server (sample_console 0) (js ''r1'') q fresh_session 0"
proof -
  obtain q where q: "build_request (sample_console 0) refresh_path (refresh_init (js ''r1'')) = Inr q" "req_url q = js ''https://host'' @ refresh_path"
    using con_sample_headers [OF sample_reads(1) [of 0], of "refresh_init (js ''r1'')"]
    by (auto simp: build_request_def refresh_init_def post_noauth_def bind_res_def sample_console_def)
  have "wf_json fresh_session" by code_simp
  then have "answer_value (con_answer 200 fresh_session) = Inr fresh_session"
    by (simp add: answer_value_def parseResponse_answer) (simp add: resp_ok_def con_answer_def)
  moreover have "\<not> resp_ok (con_answer 401 JNull)" "fresh_session \<noteq> JNull" "js ''r1'' \<noteq> []"
    by (simp_all add: resp_ok_def con_answer_def fresh_session_def)
  ultimately show ?thesis using q sample_reads(2) [of 0] by (auto simp: single_use_def rotating_server_def)
qed

theorem concurrent_refresh_loses_call_witness:
  "\<exists>s'. (calls.step rotating_server)\<^sup>*\<^sup>* (ready [(js ''/x'', get_auth), (js ''/x'', get_auth)], sample_console 0)
      ([((js ''/x'', get_auth), Retrying), ((js ''/x'', get_auth), Finished (api_error (con_answer 401 JNull)))], s')
    \<and> tokens s' = session_tokens fresh_session"
proof -
  obtain r where r: "expires rotating_server (sample_console 0) (js ''/x'', get_auth) r (con_answer 401 JNull) 0 0"
    using sample_expires by blast
  obtain q where q: "single_use rotating_server (sample_console 0) (js ''r1'') q fresh_session 0"
    using sample_single_use by blast
  have "has_window (sample_console 0)" "con_world (sample_console 0) = 0" by (simp_all add: sample_console_def)
  then show ?thesis using concurrent_refresh_loses_call [OF _ _ r q, of "(js ''/x'', get_auth)" r "con_answer 401 JNull"] r by auto
qed

lemma lone_run:
  "(calls.step f)\<^sup>*\<^sup>* (ready [(path, init)], s) ([((path, init), Finished (fst (apiFetch f path init s)))], snd (apiFetch f path init s))"
  using calls.run_only [of f "(path, init)" "(Ready, s)" 9] by (simp add: alone_call calls.only_def finished_call_def ready_def)

theorem concurrent_calls_end_witness:
  "\<exists>n ts s'. (calls.step con_server ^^ n) (ready [(js ''/x'', get_auth)], sample_console 0) (ts, s') \<and> ts \<noteq> ready [(js ''/x'', get_auth)]
    \<and> n \<le> 9 \<and> (\<nexists>y. calls.step con_server (ts, s') y)"
proof -
  obtain n where n: "(calls.step con_server ^^ n) (ready [(js ''/x'', get_auth)], sample_console 0)
      ([((js ''/x'', get_auth), Finished (fst (apiFetch con_server (js ''/x'') get_auth (sample_console 0))))],
        snd (apiFetch con_server (js ''/x'') get_auth (sample_console 0)))"
    using rtranclp_imp_relpowp [OF lone_run] by blast
  show ?thesis using concurrent_calls_end [OF n] n by (fastforce simp: ready_def)
qed

theorem concurrent_session_coherent_witness:
  "\<exists>ts s'. (calls.step con_server)\<^sup>*\<^sup>* (ready [(js ''/x'', get_auth)], sample_console 0) (ts, s') \<and> (\<forall>t \<in> set ts. is_finished (snd t))
    \<and> one_store (sample_console 0) \<and> one_store s'"
proof -
  have "one_store (sample_console 0)" by (simp add: one_store_def empty_store_def sample_console_def)
  then show ?thesis
    using concurrent_session_coherent [OF lone_run [of con_server "js ''/x''" get_auth "sample_console 0"]]
      lone_run [of con_server "js ''/x''" get_auth "sample_console 0"] by fastforce
qed

end
