(* ===== verification/Api_Types.thy ===== *)
theory Api_Types
  imports Console_Api
begin

text \<open>
  The declared types of the console's data (\<open>src/console/src/lib/api/types.ts\<close> and
  \<open>src/console/src/components/console/types.ts\<close>). TypeScript types do not exist at run time: a type
  is a value of \<open>ty\<close>, and \<open>has_type\<close> says which parsed JSON values it admits. The property
  relates the session functions to the declared types.
\<close>

subsection \<open>Types\<close>

text \<open>
  \<open>TObj\<close> lists the members with whether they are required; further members are allowed, as
  TypeScript's structural types do for values that come from outside.
\<close>

datatype ty = TString | TNumber | TBoolean | TUnknown | TLits "string list" | TNull ty | TArray ty
  | TRecord | TObj "(string \<times> bool \<times> ty) list"

fun has_type :: "ty \<Rightarrow> json \<Rightarrow> bool" where
  "has_type TString v = (case v of JStr _ \<Rightarrow> True | _ \<Rightarrow> False)"
| "has_type TNumber v = (case v of JNum _ \<Rightarrow> True | _ \<Rightarrow> False)"
| "has_type TBoolean v = (case v of JBool _ \<Rightarrow> True | _ \<Rightarrow> False)"
| "has_type TUnknown v = True"
| "has_type (TLits ss) v = (case v of JStr s \<Rightarrow> s \<in> js ` set ss | _ \<Rightarrow> False)"
| "has_type (TNull t) v = (v = JNull \<or> has_type t v)"
| "has_type (TArray t) v = (case v of JArr vs \<Rightarrow> list_all (has_type t) vs | _ \<Rightarrow> False)"
| "has_type TRecord v = (case v of JObj _ \<Rightarrow> True | _ \<Rightarrow> False)"
| "has_type (TObj fs) v = (case v of
     JObj ms \<Rightarrow> list_all (\<lambda>(k, required, t). case map_of ms (js k) of None \<Rightarrow> \<not> required | Some x \<Rightarrow> has_type t x) fs
   | _ \<Rightarrow> False)"

text \<open>Required and optional members.\<close>

abbreviation req :: "string \<Rightarrow> ty \<Rightarrow> string \<times> bool \<times> ty" where
  "req k t \<equiv> (k, True, t)"

abbreviation opt :: "string \<Rightarrow> ty \<Rightarrow> string \<times> bool \<times> ty" where
  "opt k t \<equiv> (k, False, t)"

subsection \<open>lib/api/types.ts\<close>

definition PeanutUser :: ty where
  "PeanutUser = TObj [req ''id'' TString, req ''app_id'' TString, req ''email'' TString,
     req ''is_active'' TBoolean, req ''is_admin'' TBoolean, req ''admin_role'' TString]"

definition LoginResponse :: ty where
  "LoginResponse = TObj [req ''access_token'' TString, req ''refresh_token'' TString,
     req ''token_type'' TString, req ''expires_at'' TString, req ''user'' PeanutUser]"

definition AppSummary :: ty where
  "AppSummary = TObj [req ''id'' TString, req ''workspace_id'' TString, req ''name'' TString,
     req ''display_name'' TString, opt ''created_by'' (TNull TString), req ''created_at'' TString,
     req ''updated_at'' TString, opt ''deleted_at'' (TNull TString), opt ''disabled_at'' (TNull TString),
     opt ''disabled_reason'' (TNull TString)]"

definition WorkspaceSummary :: ty where
  "WorkspaceSummary = TObj [req ''id'' TString, req ''name'' TString, req ''display_name'' TString,
     opt ''created_by'' (TNull TString), req ''created_at'' TString, req ''updated_at'' TString,
     opt ''disabled_at'' (TNull TString), opt ''disabled_reason'' (TNull TString)]"

definition ResourceLimitSummary :: ty where
  "ResourceLimitSummary = TObj [req ''resource_key'' TString, req ''used'' TNumber, req ''limit'' TNumber,
     req ''period_start'' TString, opt ''reset_at'' (TNull TString), req ''source'' (TLits [''count'', ''counter''])]"

definition UsageSummary :: ty where
  "UsageSummary = TObj [req ''workspace_id'' TString, req ''limit_profile_id'' TString,
     req ''resource_limits'' (TArray ResourceLimitSummary)]"

definition AppKey :: ty where
  "AppKey = TObj [req ''id'' TString, req ''app_id'' TString, req ''key_type'' TString,
     req ''scopes'' (TArray TString), req ''created_at'' TString, opt ''expires_at'' (TNull TString),
     opt ''revoked_at'' (TNull TString), opt ''last_used_at'' (TNull TString)]"

definition DataTable :: ty where
  "DataTable = TObj [req ''id'' TString, req ''app_id'' TString, req ''name'' TString,
     opt ''schema_json'' (TNull TString), req ''created_at'' TString, req ''updated_at'' TString]"

definition DataRow :: ty where
  "DataRow = TObj [req ''id'' TString, opt ''owner_user_id'' (TNull TString), req ''data'' TRecord,
     req ''created_at'' TString, req ''updated_at'' TString]"

definition DataRowsResponse :: ty where
  "DataRowsResponse = TObj [req ''rows'' (TArray DataRow), req ''total'' TNumber, req ''limit'' TNumber,
     req ''offset'' TNumber, req ''has_more'' TBoolean]"

definition StorageBucket :: ty where
  "StorageBucket = TObj [req ''id'' TString, req ''app_id'' TString, req ''name'' TString,
     req ''public_read'' TBoolean, opt ''allow_client_uploads'' TBoolean, opt ''max_object_bytes'' (TNull TNumber),
     opt ''allowed_mime_types'' (TNull (TArray TString)), opt ''allowed_mime_types_json'' (TNull TString),
     req ''created_at'' TString, req ''updated_at'' TString]"

definition SdkStorageObjectSummary :: ty where
  "SdkStorageObjectSummary = TObj [req ''key'' TString, req ''size'' TNumber,
     opt ''content_type'' (TNull TString), req ''etag'' TString, req ''updated_at'' TString]"

definition FunctionSummary_members :: "(string \<times> bool \<times> ty) list" where
  "FunctionSummary_members = [req ''id'' TString, req ''app_id'' TString, req ''name'' TString,
     req ''display_name'' TString, req ''endpoint_slug'' TString, req ''runtime'' TString,
     req ''invoke_policy'' TString, req ''rate_limit_per_minute'' TNumber, req ''api_key_present'' TBoolean,
     req ''timeout_ms'' TNumber, req ''enabled'' TBoolean, req ''active_version_number'' TNumber,
     req ''secret_key_count'' TNumber, req ''updated_at'' TString]"

definition FunctionSummary :: ty where
  "FunctionSummary = TObj FunctionSummary_members"

definition FunctionDetail :: ty where
  "FunctionDetail = TObj (FunctionSummary_members @ [req ''source_code'' TString, req ''env_json'' TString,
     req ''allowed_origins_json'' TString, req ''active_version_id'' TString, req ''created_by'' TString,
     req ''updated_by'' TString, req ''created_at'' TString])"

definition FunctionVersionSummary :: ty where
  "FunctionVersionSummary = TObj [req ''id'' TString, req ''app_id'' TString, req ''function_id'' TString,
     req ''version_number'' TNumber, req ''runtime'' TString, req ''invoke_policy'' TString,
     req ''timeout_ms'' TNumber, req ''created_by'' TString, req ''created_at'' TString,
     req ''secret_key_count'' TNumber, req ''is_active'' TBoolean]"

definition FunctionInvocation :: ty where
  "FunctionInvocation = TObj [req ''id'' TString, req ''app_id'' TString, req ''function_id'' TString,
     req ''status'' TString, opt ''request_json'' (TNull TString), opt ''response_json'' (TNull TString),
     opt ''error'' (TNull TString), opt ''duration_ms'' (TNull TNumber), req ''invoke_mode'' TString,
     opt ''function_version_id'' (TNull TString), req ''retry_count'' TNumber,
     opt ''parent_invocation_id'' (TNull TString), req ''created_at'' TString, opt ''finished_at'' (TNull TString)]"

definition BackupSummary :: ty where
  "BackupSummary = TObj [req ''name'' TString, req ''size_bytes'' TNumber, req ''modified_at'' TString]"

definition RestorePendingSummary :: ty where
  "RestorePendingSummary = TObj [req ''backup_name'' TString, req ''exists'' TBoolean,
     opt ''size_bytes'' (TNull TNumber), opt ''modified_at'' (TNull TString)]"

definition BackupsResponse :: ty where
  "BackupsResponse = TObj [req ''backups'' (TArray BackupSummary), opt ''restore_pending'' (TNull RestorePendingSummary)]"

definition OpsMetrics :: ty where
  "OpsMetrics = TObj [
     req ''database'' (TObj [req ''size_bytes'' TNumber, req ''page_count'' TNumber, req ''page_size'' TNumber,
       req ''freelist_count'' TNumber, req ''backup_count'' TNumber, opt ''last_backup_at'' (TNull TString),
       req ''restore_pending'' TBoolean]),
     req ''storage'' (TObj [req ''ok'' TBoolean, opt ''error'' (TNull TString), req ''root'' TString,
       req ''object_count'' TNumber, req ''total_bytes'' TNumber, req ''multipart_stale_count'' TNumber]),
     req ''push'' (TObj [req ''queued'' TNumber, req ''retry_scheduled'' TNumber, req ''retry_overdue'' TNumber,
       req ''failed_recent'' TNumber]),
     req ''functions'' (TObj [req ''enabled'' TBoolean, req ''network_allowed'' TBoolean, req ''work_dir'' TString,
       req ''running_limit'' TNumber, req ''memory_limit_mb'' TNumber, req ''source_limit_bytes'' TNumber,
       req ''output_limit_bytes'' TNumber, req ''invocations_24h'' TNumber, req ''failures_24h'' TNumber,
       req ''timeouts_24h'' TNumber]),
     req ''system'' (TObj [req ''version'' TString, req ''uptime_seconds'' TNumber])]"

definition ActivityEvent :: ty where
  "ActivityEvent = TObj [req ''id'' TString, opt ''app_id'' (TNull TString), opt ''actor_role'' TString,
     req ''action'' TString, opt ''resource_type'' TString, opt ''resource_id'' TString,
     opt ''target_type'' TString, opt ''target_id'' TString, opt ''actor_user_id'' (TNull TString),
     opt ''metadata'' TUnknown, opt ''metadata_json'' TString, opt ''request_id'' (TNull TString),
     req ''created_at'' TString]"

subsection \<open>components/console/types.ts\<close>

definition DiagnosticCheck :: ty where
  "DiagnosticCheck = TObj [req ''name'' TString, req ''ok'' TBoolean, opt ''message'' TString, opt ''severity'' TString]"

definition PushQueueEntry :: ty where
  "PushQueueEntry = TObj [req ''id'' TNumber, req ''user_id'' TString, req ''title'' TString, req ''body'' TString,
     req ''status'' TString, req ''retry_count'' TNumber, opt ''last_error'' (TNull TString),
     req ''partial_failure_count'' TNumber,
     opt ''failed_destinations'' (TArray (TObj [req ''endpoint'' TString, req ''error'' TString])),
     opt ''next_retry_at'' (TNull TString), req ''created_at'' TString, opt ''processed_at'' (TNull TString)]"

definition failure_reasons :: ty where
  "failure_reasons = TArray (TObj [req ''reason'' TString, req ''count'' TNumber])"

definition PushQueueStatsResponse :: ty where
  "PushQueueStatsResponse = TObj [req ''window_hours'' TNumber, req ''limit'' TNumber,
     req ''retry_scheduled'' TNumber, req ''retry_overdue'' TNumber,
     req ''terminal_failure_reasons'' failure_reasons, req ''destination_failure_reasons'' failure_reasons]"

definition PushQueueSummary :: ty where
  "PushQueueSummary = TObj (map (\<lambda>k. req k TNumber) [''total'', ''pending'', ''processing'', ''sent'', ''failed'',
     ''partial_success'', ''retry_scheduled'', ''retry_overdue'', ''ntfy_subscriptions'', ''web_push_subscriptions''])"

definition PushQueueResponse :: ty where
  "PushQueueResponse = TObj [req ''items'' (TArray PushQueueEntry), req ''summary'' PushQueueSummary]"

subsection \<open>Typed sessions\<close>

lemma has_type_member:
  "has_type (TObj fs) v \<Longrightarrow> (k, True, t) \<in> set fs \<Longrightarrow> \<exists>x. member (js k) v = Some x \<and> has_type t x"
  by (cases v) (force simp: member_def list_all_iff split: option.splits)+

lemma wf_json_member: "wf_json v \<Longrightarrow> member k v = Some x \<Longrightarrow> wf_json x"
  by (cases v) (auto simp: member_def list_all_iff dest!: map_of_SomeD)

lemma has_type_TString: "has_type TString v \<longleftrightarrow> (\<exists>s. v = JStr s)"
  by (cases v) simp_all


definition sample_user :: json where
  "sample_user = JObj [(js ''id'', JStr (js ''u1'')), (js ''app_id'', JStr (js ''default'')), (js ''email'', JStr (js ''a'')),
     (js ''is_active'', JBool True), (js ''is_admin'', JBool True), (js ''admin_role'', JStr (js ''owner''))]"

definition sample_login :: json where
  "sample_login = JObj [(js ''access_token'', JStr (js ''a1'')), (js ''refresh_token'', JStr (js ''r1'')),
     (js ''token_type'', JStr (js ''bearer'')), (js ''expires_at'', JStr (js ''later'')), (js ''user'', sample_user)]"

lemma wf_sample_login: "wf_json sample_login"
  by code_simp

lemma sample_login_typed: "has_type LoginResponse sample_login"
  by (simp add: LoginResponse_def PeanutUser_def sample_login_def sample_user_def)


end
