(* ===== verification/Console_Utils.thy ===== *)
theory Console_Utils
  imports Api_Types
begin

text \<open>
  The helpers of the console (\<open>src/console/src/components/console/utils\<close>, \<open>nav-config.ts\<close>,
  \<open>src/console/src/i18n/provider.tsx\<close>, and the label functions of \<open>shared/activity-list.tsx\<close>):
  JSON input, query strings, display names and sizes, diagnostics, the clipboard, navigation and
  the interface language.

  Translation (\<open>next-intl\<close> with the message catalogues) is a parameter: \<open>tr namespace key args\<close>.
\<close>

type_synonym translator = "string \<Rightarrow> string \<Rightarrow> (string \<times> jsstr) list \<Rightarrow> jsstr"

subsection \<open>utils/json.ts\<close>

definition parseJsonInput :: "jsstr \<Rightarrow> jsstr \<Rightarrow> exn + json" where
  "parseJsonInput text invalidMessage = or_throw (JsError invalidMessage) (parse text)"

definition isRecord :: "json \<Rightarrow> bool" where
  "isRecord v = (case v of JObj _ \<Rightarrow> True | _ \<Rightarrow> False)"

record test_payload =
  requestBody :: json
  input :: json

definition parseFunctionTestPayload :: "jsstr \<Rightarrow> jsstr \<Rightarrow> exn + test_payload" where
  "parseFunctionTestPayload text invalidMessage =
     bind_res (parseJsonInput text invalidMessage) (\<lambda>parsed.
       case (if isRecord parsed then member (js ''input'') parsed else None) of
         Some x \<Rightarrow> Inr \<lparr>requestBody = parsed, input = x\<rparr>
       | None \<Rightarrow> Inr \<lparr>requestBody = object [(''input'', Some parsed)], input = parsed\<rparr>)"

definition query_entries :: "(jsstr \<times> json) list \<Rightarrow> (jsstr \<times> jsstr) list" where
  "query_entries ms = concat (map (\<lambda>(k, entry). case entry of
     JNull \<Rightarrow> [] | JArr items \<Rightarrow> map (\<lambda>i. (k, js_String i)) items | _ \<Rightarrow> [(k, js_String entry)]) ms)"

definition buildQueryString :: "jsstr \<Rightarrow> jsstr \<Rightarrow> exn + jsstr" where
  "buildQueryString text invalidMessage =
     bind_res (parseJsonInput text invalidMessage) (\<lambda>parsed. case parsed of
       JObj ms \<Rightarrow> Inr (params_toString (query_entries ms))
     | _ \<Rightarrow> if invalidMessage \<noteq> [] then Inl (JsError invalidMessage) else Inr [])"

definition safeBuildQueryString :: "jsstr \<Rightarrow> jsstr" where
  "safeBuildQueryString text = (case buildQueryString text [] of Inl _ \<Rightarrow> [] | Inr q \<Rightarrow> q)"

subsection \<open>utils/display.ts\<close>

definition word_char :: "code_unit \<Rightarrow> bool" where
  "word_char c \<longleftrightarrow> alnum (unat c) \<or> c = 95"

text \<open>
  \<open>s.replace(/\bw\b/g, r)\<close> for a word \<open>w\<close> of word characters; the flag says whether the character in
  front is a word character.
\<close>

function replace_word :: "jsstr \<Rightarrow> jsstr \<Rightarrow> bool \<Rightarrow> jsstr \<Rightarrow> jsstr" where
  "replace_word w r p [] = []"
| "replace_word w r p (c # cs) =
     (let rest = drop (length w) (c # cs) in
      if \<not> p \<and> w \<noteq> [] \<and> prefix w (c # cs) \<and> (rest = [] \<or> \<not> word_char (hd rest))
      then r @ replace_word w r True rest
      else c # replace_word w r (word_char c) cs)"
  by pat_completeness auto
termination
  by (relation "measure (\<lambda>(w, r, p, s). length s)") auto

definition displayProjectName :: "json \<Rightarrow> exn + jsstr" where
  "displayProjectName app =
     (let displayName = (case member (js ''display_name'') app of
        Some v \<Rightarrow> if truthy v then Some v else member (js ''name'') app | None \<Rightarrow> member (js ''name'') app)
      in case displayName of
           Some (JStr s) \<Rightarrow> Inr (replace_word (js ''Apps'') (js ''Projects'') False
             (replace_word (js ''App'') (js ''Project'') False s))
         | _ \<Rightarrow> Inl TypeError)"

definition storageMimeTypes :: "json \<Rightarrow> json list" where
  "storageMimeTypes bucket = (case member (js ''allowed_mime_types'') bucket of
     Some (JArr ts) \<Rightarrow> ts
   | _ \<Rightarrow> (case member (js ''allowed_mime_types_json'') bucket of
       None \<Rightarrow> []
     | Some v \<Rightarrow> if \<not> truthy v then [] else (case parse (js_String v) of
         Some (JArr ts) \<Rightarrow> map (\<lambda>t. JStr (js_String t)) ts | _ \<Rightarrow> [])))"

text \<open>
  \<open>formatBytes\<close> of a number of bytes. For integers below \<open>2^53\<close> every quotient by a power of 1024 is
  exact in floating point, so \<open>size\<close> is \<open>n / 1024 ^ (unit + 1)\<close>. \<open>toFixed(d)\<close> rounds to the nearest
  multiple of \<open>10^-d\<close>, a tie upwards.
\<close>

definition toFixed0 :: "nat \<Rightarrow> nat \<Rightarrow> jsstr" where
  "toFixed0 n d = digits ((2 * n + d) div (2 * d))"

definition toFixed1 :: "nat \<Rightarrow> nat \<Rightarrow> jsstr" where
  "toFixed1 n d = (let m = (20 * n + d) div (2 * d) in digits (m div 10) @ [46] @ digits (m mod 10))"

function format_unit :: "nat \<Rightarrow> nat \<Rightarrow> nat" where
  "format_unit n unit = (if n \<ge> 1024 * 1024 ^ (unit + 1) \<and> unit < 3 then format_unit n (unit + 1) else unit)"
  by pat_completeness auto
termination
  by (relation "measure (\<lambda>(n, unit). 3 - unit)") auto

declare format_unit.simps [simp del]

definition formatBytes :: "nat \<Rightarrow> jsstr" where
  "formatBytes n =
     (if n < 1024 then digits n @ js '' B''
      else let unit = format_unit n 0; d = 1024 ^ (unit + 1) in
        (if n \<ge> 10 * d then toFixed0 n d else toFixed1 n d) @ js '' '' @ js ([''KB'', ''MB'', ''GB'', ''TB''] ! unit))"

subsection \<open>utils/diagnostics.ts\<close>

record diagnostic_group =
  dg_id :: string
  dg_label :: jsstr
  dg_description :: jsstr
  dg_ok :: bool
  dg_severity :: "json option"

definition diagnosticBucket :: "json option \<Rightarrow> string" where
  "diagnosticBucket name =
     (let is = (\<lambda>s. name = Some (JStr (js s))) in
      if is ''db_schema_version'' then ''schema''
      else if is ''default_app'' then ''defaultProject''
      else if is ''default_workspace'' \<or> is ''workspace_schema'' \<or> is ''orphan_workspace_members'' then ''workspace''
      else if is ''orphan_apps_without_workspace'' then ''projectLinks''
      else if is ''app_id_column'' then ''projectIsolation''
      else if is ''app_scoped_unique_index'' then ''uniqueConstraints''
      else if is ''duplicate_workspace_names'' \<or> is ''duplicate_app_names'' then ''duplicates''
      else if is ''password_reset_delivery'' then ''passwordReset''
      else if is ''cors_origin_policy'' then ''cors''
      else ''other'')"

text \<open>\<open>buckets.set(b, [...(buckets.get(b) ?? []), check])\<close> on a map in order of insertion.\<close>

fun add_check :: "'k \<Rightarrow> 'v \<Rightarrow> ('k \<times> 'v list) list \<Rightarrow> ('k \<times> 'v list) list" where
  "add_check k v [] = [(k, [v])]"
| "add_check k v ((k', vs) # m) = (if k = k' then (k', vs @ [v]) # m else (k', vs) # add_check k v m)"

definition check_ok :: "json \<Rightarrow> bool" where
  "check_ok check = (case member (js ''ok'') check of None \<Rightarrow> False | Some v \<Rightarrow> truthy v)"

definition check_warning :: "json \<Rightarrow> bool" where
  "check_warning check \<longleftrightarrow> check_ok check \<and> member (js ''severity'') check = Some (JStr (js ''warning''))"

definition first_severity :: "json list \<Rightarrow> json option" where
  "first_severity cs = (case cs of [] \<Rightarrow> None | c # _ \<Rightarrow> member (js ''severity'') c)"

definition check_buckets :: "json list \<Rightarrow> (string \<times> json list) list" where
  "check_buckets checks = fold (\<lambda>c. add_check (diagnosticBucket (member (js ''name'') c)) c) checks []"

definition groupDiagnosticChecks :: "(string \<Rightarrow> (string \<times> jsstr) list \<Rightarrow> jsstr) \<Rightarrow> json list \<Rightarrow> diagnostic_group list" where
  "groupDiagnosticChecks t checks = map (\<lambda>(bucket, bucketChecks).
     let failed = filter (\<lambda>c. \<not> check_ok c) bucketChecks; warnings = filter check_warning bucketChecks in
     \<lparr>dg_id = bucket,
      dg_label = t (''diagnostic.'' @ bucket @ ''.label'') [],
      dg_description = t (''diagnostic.'' @ bucket @ ''.description'')
        [(''count'', digits (length bucketChecks)),
         (''detail'', if failed \<noteq> [] then t ''diagnostic.needsAttentionDetail'' [] else t ''diagnostic.okDetail'' [])],
      dg_ok = (failed = []),
      dg_severity = (if failed \<noteq> [] then first_severity failed else first_severity warnings)\<rparr>)
     (check_buckets checks)"

subsection \<open>utils/clipboard.ts\<close>

text \<open>
  The page as far as copying touches it: the text areas added to the body, the ranges of the
  document selection (\<open>None\<close>: \<open>getSelection()\<close> gives null) and the text last copied. What focusing and
  selecting the text area does to the selection, \<open>execCommand("copy")\<close> and the asynchronous clipboard
  (absent outside secure contexts) belong to the browser and are parameters.
\<close>

record 'r dom =
  has_document :: bool
  areas :: "jsstr list"
  selection :: "'r list option"
  copied :: "jsstr option"

record 'r clipboard_env =
  focus_select :: "'r dom \<Rightarrow> 'r dom"
  execCommand_copy :: "(exn, 'r dom, bool) prog"
  writeText :: "(jsstr \<Rightarrow> (exn, 'r dom, unit) prog) option"

definition previous_range :: "'r dom \<Rightarrow> 'r option" where
  "previous_range b = (case selection b of Some (r # _) \<Rightarrow> Some r | _ \<Rightarrow> None)"

definition remove_area :: "'r option \<Rightarrow> 'r dom \<Rightarrow> 'r dom" where
  "remove_area previousRange b = (let b = b\<lparr>areas := butlast (areas b)\<rparr> in
     case (selection b, previousRange) of (Some _, Some r) \<Rightarrow> b\<lparr>selection := Some [r]\<rparr> | _ \<Rightarrow> b)"

definition copyTextWithTextArea :: "'r clipboard_env \<Rightarrow> jsstr \<Rightarrow> (exn, 'r dom, bool) prog" where
  "copyTextWithTextArea env text b =
     (if \<not> has_document b then (Inr False, b)
      else case execCommand_copy env (focus_select env (b\<lparr>areas := areas b @ [text]\<rparr>)) of
        (result, b') \<Rightarrow> (result, remove_area (previous_range b) b'))"

text \<open>\<open>error instanceof Error\<close>: everything but the thrown \<open>undefined\<close> is an \<open>Error\<close> object.\<close>

definition normalizeCopyError :: "exn \<Rightarrow> exn" where
  "normalizeCopyError e = (if e = ThrownUndefined then JsError (js ''Clipboard copy failed.'') else e)"

definition copyTextToClipboard :: "'r clipboard_env \<Rightarrow> jsstr \<Rightarrow> (exn, 'r dom, unit) prog" where
  "copyTextToClipboard env text =
     bnd (copyTextWithTextArea env text) (\<lambda>done.
       if done then ret ()
       else case writeText env of
         Some write \<Rightarrow> try_catch (write text) (\<lambda>e. throw (normalizeCopyError e))
       | None \<Rightarrow> throw (JsError (js ''Clipboard copy is not available in this browser.'')))"

subsection \<open>nav-config.ts\<close>

datatype view = Overview | Apps | Keys | Auth | Data | Storage | Functions | Push | Activity | Ops

fun view_name :: "view \<Rightarrow> string" where
  "view_name Overview = ''overview''" | "view_name Apps = ''apps''" | "view_name Keys = ''keys''"
| "view_name Auth = ''auth''" | "view_name Data = ''data''" | "view_name Storage = ''storage''"
| "view_name Functions = ''functions''" | "view_name Push = ''push''" | "view_name Activity = ''activity''"
| "view_name Ops = ''ops''"

definition navItems :: "(view \<times> string) list" where
  "navItems = [(Overview, ''overview''), (Apps, ''apps''), (Keys, ''keys''), (Auth, ''auth''), (Data, ''data''),
     (Storage, ''storage''), (Functions, ''functions''), (Push, ''push''), (Activity, ''activity''), (Ops, ''ops'')]"

definition viewFromPath :: "jsstr \<Rightarrow> view" where
  "viewFromPath pathname = (case filter (\<lambda>s. s \<noteq> []) (js_split [47] pathname) of
     [] \<Rightarrow> Overview
   | segs \<Rightarrow> (case find (\<lambda>(v, _). js (view_name v) = last segs) navItems of None \<Rightarrow> Overview | Some (v, _) \<Rightarrow> v))"

definition pathForView :: "view \<Rightarrow> jsstr" where
  "pathForView v = (if v = Overview then [47] else 47 # js (view_name v))"

subsection \<open>i18n/provider.tsx and shared/locale-select.tsx\<close>

datatype ConsoleLocale = En | Ko

fun locale_name :: "ConsoleLocale \<Rightarrow> jsstr" where
  "locale_name En = js ''en''" | "locale_name Ko = js ''ko''"

definition parseLocale :: "jsstr \<Rightarrow> ConsoleLocale" where
  "parseLocale s = (if s = js ''ko'' then Ko else En)"

definition localeKey :: jsstr where
  "localeKey = js ''peanut.locale''"

definition detectLocale :: "'w console \<Rightarrow> ConsoleLocale" where
  "detectLocale c = (if \<not> has_window c then En
     else case localStorage c localeKey of
       Some l \<Rightarrow> if l = js ''en'' then En else if l = js ''ko'' then Ko else En
     | None \<Rightarrow> En)"

text \<open>The provider: its state and the language of the document.\<close>

record locale_state =
  current_locale :: ConsoleLocale
  document_lang :: jsstr

definition new_locale_state :: "'w console \<Rightarrow> locale_state" where
  "new_locale_state c = \<lparr>current_locale = detectLocale c, document_lang = locale_name (detectLocale c)\<rparr>"

definition setLocale :: "ConsoleLocale \<Rightarrow> locale_state \<times> 'w console \<Rightarrow> locale_state \<times> 'w console" where
  "setLocale l = (\<lambda>(p, c). (p\<lparr>current_locale := l, document_lang := locale_name l\<rparr>,
     c\<lparr>localStorage := (localStorage c)(localeKey \<mapsto> locale_name l)\<rparr>))"

subsection \<open>shared/activity-list.tsx\<close>

text \<open>\<open>s.replace(/^app_/, "project_")\<close> and \<open>s.replace(/\./g, "_")\<close>\<close>

definition project_prefix :: "jsstr \<Rightarrow> jsstr" where
  "project_prefix s = (if prefix (js ''app_'') s then js ''project_'' @ drop 4 s else s)"

definition dots_to_underscores :: "jsstr \<Rightarrow> jsstr" where
  "dots_to_underscores s = map (\<lambda>c. if c = 46 then 95 else c) s"

text \<open>
  \<open>labels[k] ?? fallback\<close> on an object literal: a name inherited from \<open>Object.prototype\<close> gives that
  member, which is no text.
\<close>

datatype label = Label jsstr | Inherited

definition object_prototype :: "string list" where
  "object_prototype = [''constructor'', ''hasOwnProperty'', ''isPrototypeOf'', ''propertyIsEnumerable'',
     ''toLocaleString'', ''toString'', ''valueOf'', ''__proto__'', ''__defineGetter__'', ''__defineSetter__'',
     ''__lookupGetter__'', ''__lookupSetter__'']"

definition lookup_label :: "(string \<Rightarrow> jsstr) \<Rightarrow> (string \<times> string) list \<Rightarrow> string \<Rightarrow> jsstr \<Rightarrow> label" where
  "lookup_label t labels fallback k = (case find (\<lambda>(n, _). js n = k) labels of
     Some (_, key) \<Rightarrow> Label (t key)
   | None \<Rightarrow> if k \<in> js ` set object_prototype then Inherited else Label (t fallback))"

definition action_labels :: "(string \<times> string) list" where
  "action_labels = [
     (''project_key_created'', ''actions.keyCreated''), (''project_key_rotated'', ''actions.keyRotated''),
     (''project_key_revoked'', ''actions.keyRevoked''), (''auth_user_created'', ''actions.userCreated''),
     (''auth_user_deleted'', ''actions.userDeleted''), (''auth_user_activated'', ''actions.userActivated''),
     (''auth_user_deactivated'', ''actions.userDeactivated''), (''auth_provider_updated'', ''actions.providerUpdated''),
     (''data_table_created'', ''actions.tableCreated''), (''data_table_updated'', ''actions.tableUpdated''),
     (''data_table_deleted'', ''actions.tableDeleted''), (''data_row_created'', ''actions.rowCreated''),
     (''data_row_updated'', ''actions.rowUpdated''), (''data_row_deleted'', ''actions.rowDeleted''),
     (''storage_bucket_created'', ''actions.bucketCreated''), (''storage_bucket_updated'', ''actions.bucketUpdated''),
     (''storage_bucket_deleted'', ''actions.bucketDeleted''), (''storage_object_put'', ''actions.objectUploaded''),
     (''storage_object_deleted'', ''actions.objectDeleted''), (''function_created'', ''actions.functionCreated''),
     (''function_updated'', ''actions.functionUpdated''), (''function_deleted'', ''actions.functionDeleted''),
     (''function_rolled_back'', ''actions.functionRolledBack''), (''push_message_queued'', ''actions.pushQueued''),
     (''push_message_enqueued'', ''actions.pushQueued''), (''backup_restore_scheduled'', ''actions.restoreScheduled''),
     (''workspace_setup_invite_created'', ''actions.workspaceInviteCreated''),
     (''workspace_disabled'', ''actions.workspaceDisabled''), (''workspace_enabled'', ''actions.workspaceEnabled''),
     (''project_created'', ''actions.projectCreated''), (''project_updated'', ''actions.projectUpdated''),
     (''project_deleted'', ''actions.projectDeleted''), (''project_disabled'', ''actions.projectDisabled''),
     (''project_enabled'', ''actions.projectEnabled''), (''admin_role_updated'', ''actions.adminRoleUpdated'')]"

definition activityActionLabel :: "jsstr \<Rightarrow> (string \<Rightarrow> jsstr) \<Rightarrow> label" where
  "activityActionLabel action t =
     lookup_label t action_labels ''actions.projectEvent'' (dots_to_underscores (project_prefix action))"

definition resource_labels :: "(string \<times> string) list" where
  "resource_labels = [
     (''project_key'', ''resource.apiKey''), (''auth_user'', ''resource.user''), (''auth_provider'', ''resource.provider''),
     (''data_table'', ''resource.table''), (''data_row'', ''resource.row''), (''storage_bucket'', ''resource.bucket''),
     (''storage_object'', ''resource.object''), (''function'', ''resource.function''),
     (''push_message'', ''resource.pushMessage''), (''backup'', ''resource.backup''),
     (''workspace'', ''resource.workspace''), (''workspace_setup_invite'', ''resource.workspaceInvite''),
     (''project'', ''resource.project''), (''admin_role'', ''resource.adminRole'')]"

definition activityResourceLabel :: "jsstr option \<Rightarrow> (string \<Rightarrow> jsstr) \<Rightarrow> label" where
  "activityResourceLabel resourceType t = (case resourceType of
     None \<Rightarrow> Label (t ''resource.projectEvent'')
   | Some s \<Rightarrow> if s = [] then Label (t ''resource.projectEvent'')
               else lookup_label t resource_labels ''resource.projectEvent'' (project_prefix s))"

subsection \<open>Lemmas\<close>

lemma safeBuildQueryString_eq: "buildQueryString text m = Inr q \<Longrightarrow> safeBuildQueryString text = q"
  by (cases "parse text"; cases "the (parse text)")
    (auto simp: safeBuildQueryString_def buildQueryString_def parseJsonInput_def split: if_splits)

lemma viewFromPath_pathForView: "viewFromPath (pathForView v) = v"
proof -
  have "filter (\<lambda>s. s \<noteq> []) (js_split [47] (47 # js n)) = [js n]" if "n \<noteq> []" "47 \<notin> set (js n)" for n
    using that by (subst js_split.simps) simp
  moreover have "47 \<notin> set (js (view_name v))" by (cases v) (simp_all add: js_def cu_def)
  moreover have "view_name v \<noteq> []" by (cases v) simp_all
  ultimately have seg: "filter (\<lambda>s. s \<noteq> []) (js_split [47] (47 # js (view_name v))) = [js (view_name v)]" by blast
  have "js_split [47] [47 :: code_unit] = [[], []]" by (subst js_split.simps) simp
  then show ?thesis using seg by (cases v) (simp_all add: pathForView_def viewFromPath_def navItems_def)
qed

lemma detectLocale_setLocale:
  "has_window c \<Longrightarrow> detectLocale (snd (setLocale l (p, c))) = l"
  by (cases l) (simp_all add: setLocale_def detectLocale_def)

lemma format_unit_bounds:
  "u \<le> 3 \<Longrightarrow> n \<ge> 1024 ^ (u + 1) \<Longrightarrow>
   format_unit n u \<le> 3 \<and> n \<ge> 1024 ^ (format_unit n u + 1) \<and> (format_unit n u = 3 \<or> n < 1024 ^ (format_unit n u + 2))"
proof (induction n u rule: format_unit.induct)
  case (1 n u)
  show ?case
  proof (cases "n \<ge> 1024 * 1024 ^ (u + 1) \<and> u < 3")
    case True
    then show ?thesis using 1 by (subst (1 2 3 4) format_unit.simps) simp
  next
    case False
    then show ?thesis using 1 by (subst (1 2 3 4) format_unit.simps) auto
  qed
qed


text \<open>The insertion map is a grouping in order of first occurrence.\<close>

definition firsts :: "'k list \<Rightarrow> 'k list" where
  "firsts ks = rev (remdups (rev ks))"

lemma set_firsts [simp]: "set (firsts ks) = set ks"
  by (simp add: firsts_def)

lemma distinct_firsts [simp]: "distinct (firsts ks)"
  by (simp add: firsts_def)

lemma firsts_snoc: "firsts (ks @ [k]) = (if k \<in> set ks then firsts ks else firsts ks @ [k])"
  by (simp add: firsts_def)

lemma add_check_map:
  "distinct bs \<Longrightarrow> add_check k v (map (\<lambda>b. (b, g b)) bs) =
     (if k \<in> set bs then map (\<lambda>b. (b, if b = k then g b @ [v] else g b)) bs else map (\<lambda>b. (b, g b)) bs @ [(k, [v])])"
  by (induction bs) (auto intro!: map_cong)

lemma buckets_by:
  "fold (\<lambda>c. add_check (f c) c) cs [] = map (\<lambda>b. (b, filter (\<lambda>c. f c = b) cs)) (firsts (map f cs))"
proof (induction cs rule: rev_induct)
  case (snoc c cs)
  have "filter (\<lambda>d. f d = b) (cs @ [c]) = filter (\<lambda>d. f d = b) cs" if "b \<noteq> f c" for b using that by simp
  moreover have "filter (\<lambda>d. f d = f c) cs = []" if "f c \<notin> f ` set cs" using that by (simp add: filter_empty_conv) (metis image_eqI)
  ultimately show ?case using snoc
    by (auto simp: add_check_map firsts_snoc intro!: map_cong)
qed (simp add: firsts_def)

lemma check_buckets_eq:
  "check_buckets cs = map (\<lambda>b. (b, filter (\<lambda>c. diagnosticBucket (member (js ''name'') c) = b) cs))
     (firsts (map (\<lambda>c. diagnosticBucket (member (js ''name'') c)) cs))"
  by (simp add: check_buckets_def buckets_by)

lemma lookup_first:
  "find (\<lambda>(n, _). js n = js k) ls = map_option (Pair k) (map_of ls k)"
  by (induction ls) auto

subsection \<open>Properties\<close>



text \<open>
  C26: The diagnostics panel loses no check: its groups are the buckets of the checks in order of first
  occurrence, each once; a group is shown as failing exactly when a check of its bucket failed; and
  all groups are shown as healthy exactly when no check failed, which is the number the failure
  counter shows.
\<close>

theorem diagnostic_groups_complete:
  "map dg_id (groupDiagnosticChecks t checks) =
     firsts (map (\<lambda>c. diagnosticBucket (member (js ''name'') c)) checks)
   \<and> (\<forall>g \<in> set (groupDiagnosticChecks t checks). dg_ok g \<longleftrightarrow>
        (\<forall>c \<in> set checks. diagnosticBucket (member (js ''name'') c) = dg_id g \<longrightarrow> check_ok c))
   \<and> (list_all dg_ok (groupDiagnosticChecks t checks) \<longleftrightarrow> length (filter (\<lambda>c. \<not> check_ok c) checks) = 0)"
  by (auto simp: groupDiagnosticChecks_def check_buckets_eq Let_def comp_def case_prod_unfold list_all_iff filter_empty_conv)

theorem diagnostic_groups_complete_witness:
  "\<exists>g. groupDiagnosticChecks (\<lambda>k a. js k) [JObj [(js ''name'', JStr (js ''default_app'')), (js ''ok'', JBool False)]] = [g]
     \<and> dg_id g = ''defaultProject'' \<and> \<not> dg_ok g"
  using diagnostic_groups_complete [of "\<lambda>k a. js k" "[JObj [(js ''name'', JStr (js ''default_app'')), (js ''ok'', JBool False)]]"]
  by (auto simp: groupDiagnosticChecks_def check_buckets_def member_def diagnosticBucket_def Let_def check_ok_def truthy_def)

text \<open>
  Copying leaves no trace in the page: whatever focusing, the copy command and the clipboard
  interface answer, also when the command throws, the temporary text area is gone afterwards and a
  selection the user had is the selection again, provided the browser itself does not remove or add
  text areas and keeps a selection object.
\<close>

theorem copy_restores_page:
  assumes "\<And>b. areas (focus_select env b) = areas b \<and> (selection (focus_select env b) = None \<longleftrightarrow> selection b = None)"
    and "\<And>b. areas (snd (execCommand_copy env b)) = areas b
      \<and> (selection (snd (execCommand_copy env b)) = None \<longleftrightarrow> selection b = None)"
    and "\<And>wr b. writeText env = Some wr \<Longrightarrow> areas (snd (wr text b)) = areas b \<and> selection (snd (wr text b)) = selection b"
  shows "areas (snd (copyTextToClipboard env text b)) = areas b
    \<and> (has_document b \<and> selection b = Some (r # rs) \<longrightarrow> selection (snd (copyTextToClipboard env text b)) = Some [r])"
proof -
  let ?m = "copyTextWithTextArea env text b"
  let ?b = "snd (execCommand_copy env (focus_select env (b\<lparr>areas := areas b @ [text]\<rparr>)))"
  have "areas ?b = areas b @ [text]" "selection ?b = None \<longleftrightarrow> selection b = None" using assms(1,2) by auto
  then have area: "areas (snd ?m) = areas b
    \<and> (has_document b \<and> selection b = Some (r # rs) \<longrightarrow> selection (snd ?m) = Some [r])"
    by (auto simp: copyTextWithTextArea_def remove_area_def previous_range_def Let_def
        split: prod.splits option.splits list.splits)
  have rest: "areas (snd (copyTextToClipboard env text b)) = areas (snd ?m)
    \<and> selection (snd (copyTextToClipboard env text b)) = selection (snd ?m)"
  proof (cases "writeText env")
    case None
    then show ?thesis by (auto simp: copyTextToClipboard_def prog_simps split: prod.splits sum.splits)
  next
    case (Some wr)
    have "areas (snd (wr text c)) = areas c \<and> selection (snd (wr text c)) = selection c" for c
      using assms(3) [OF Some] by simp
    from this [of "snd ?m"] show ?thesis using Some
      by (auto simp: copyTextToClipboard_def prog_simps split: prod.splits sum.splits)
  qed
  then show ?thesis using area by simp
qed

definition refusing_browser :: "nat clipboard_env" where
  "refusing_browser = \<lparr>focus_select = (\<lambda>b. b\<lparr>selection := map_option (\<lambda>_. [7]) (selection b)\<rparr>),
     execCommand_copy = throw (JsError []), writeText = None\<rparr>"

theorem copy_restores_page_witness:
  "areas (snd (copyTextToClipboard refusing_browser [97] \<lparr>has_document = True, areas = [], selection = Some [1], copied = None\<rparr>)) = []
   \<and> selection (snd (copyTextToClipboard refusing_browser [97] \<lparr>has_document = True, areas = [], selection = Some [1], copied = None\<rparr>)) = Some [1]"
  using copy_restores_page [of refusing_browser "[97]" "\<lparr>has_document = True, areas = [], selection = Some [1], copied = None\<rparr>" 1 "[]"]
  by (simp add: refusing_browser_def prog_simps)

text \<open>
  The activity list names key events but not project events: the prefix \<open>app_\<close> is renamed before the
  dots become underscores, so for the server's events \<open>app.created\<close>, \<open>app.updated\<close>, \<open>app.deleted\<close>,
  \<open>app.disabled\<close> and \<open>app.enabled\<close> the label is the generic one, although the table has labels for
  project events, while \<open>app_key.created\<close> gets its own label.
\<close>

theorem project_events_unlabelled:
  assumes "e \<in> {''created'', ''updated'', ''deleted'', ''disabled'', ''enabled''}"
  shows "activityActionLabel (js (''app.'' @ e)) t = Label (t ''actions.projectEvent'')
    \<and> map_of action_labels (''project_'' @ e) \<noteq> None
    \<and> activityActionLabel (js ''app_key.created'') t = Label (t ''actions.keyCreated'')"
proof -
  have d: "dots_to_underscores (project_prefix (js (''app.'' @ e))) = js (''app_'' @ e)"
    using assms by (auto simp: dots_to_underscores_def project_prefix_def js_def cu_def)
  have k: "dots_to_underscores (project_prefix (js ''app_key.created'')) = js ''project_key_created''"
    by (simp add: dots_to_underscores_def project_prefix_def js_def cu_def)
  have "activityActionLabel (js (''app.'' @ e)) t = Label (t ''actions.projectEvent'')"
    unfolding activityActionLabel_def d lookup_label_def lookup_first using assms
    by (auto simp: action_labels_def object_prototype_def)
  moreover have "activityActionLabel (js ''app_key.created'') t = Label (t ''actions.keyCreated'')"
    unfolding activityActionLabel_def k lookup_label_def lookup_first by (simp add: action_labels_def)
  moreover have "map_of action_labels (''project_'' @ e) \<noteq> None" using assms by (auto simp: action_labels_def)
  ultimately show ?thesis by blast
qed

theorem project_events_unlabelled_witness:
  "activityActionLabel (js ''app.created'') js = Label (js ''actions.projectEvent'')"
  using project_events_unlabelled [of "''created''" js] by simp

end
