(* ===== verification/Console_Ui.thy ===== *)
theory Console_Ui
  imports Console_Utils
begin

text \<open>
  What the pages of the console have in common: the tree that a component renders (with what each
  control does), the shared components (\<open>shared/layout-primitives.tsx\<close>, \<open>shared/data-table-view.tsx\<close>,
  \<open>shared/empty-state.tsx\<close>, \<open>shared/activity-list.tsx\<close>), and the state around a page: the API layer,
  notifications, cached queries and running mutations.

  React, the query cache (TanStack Query) and the widget library are not part of the repository. The
  model uses of them what their documentation says: a component shows its current state; a mutation
  runs its function, then \<open>onSuccess\<close> or \<open>onError\<close>, and an exception of \<open>onSuccess\<close> goes to \<open>onError\<close>;
  \<open>isPending\<close> holds in between; the callbacks are those of the latest render; a query function that
  gives \<open>undefined\<close> has failed; a disabled control does nothing; \<open>window.confirm\<close> may be answered either
  way. Styling, icons and which tab of a tab set is in front are left out.
\<close>

subsection \<open>Rendered trees\<close>

datatype 'e ui =
    Txt jsstr
  | Child "json option"
  | Button jsstr bool 'e
  | ConfirmButton jsstr bool jsstr 'e
  | Input jsstr bool "jsstr \<Rightarrow> 'e"
  | Select jsstr "(jsstr \<times> jsstr) list" "jsstr \<Rightarrow> 'e"
  | JsonText json
  | Skeleton
  | Box "'e ui list"
  | Tabs "(jsstr \<times> 'e ui) list"
  | Table "jsstr list" "'e ui list list"

text \<open>
  What a user can do: press a button that is not disabled (and confirm the question), edit an input
  that is not disabled, choose an entry.
\<close>

fun offers :: "'e ui \<Rightarrow> 'e set" where
  "offers (Button l disabled e) = (if disabled then {} else {e})"
| "offers (ConfirmButton l disabled q e) = (if disabled then {} else {e})"
| "offers (Input v disabled onChange) = (if disabled then {} else range onChange)"
| "offers (Select v items onChange) = (\<lambda>(w, l). onChange w) ` set items"
| "offers (Box us) = \<Union> (set (map offers us))"
| "offers (Tabs ts) = \<Union> (set (map (\<lambda>(l, u). offers u) ts))"
| "offers (Table cs rows) = \<Union> (set (map (\<lambda>row. \<Union> (set (map offers row))) rows))"
| "offers u = {}"

text \<open>The texts that are visible: \<open>null\<close>, \<open>undefined\<close> and truth values render nothing.\<close>

definition child_text :: "json option \<Rightarrow> jsstr" where
  "child_text v = (case v of Some (JStr s) \<Rightarrow> s | Some (JNum x) \<Rightarrow> number_string x | _ \<Rightarrow> [])"

fun texts :: "'e ui \<Rightarrow> jsstr list" where
  "texts (Txt s) = [s]"
| "texts (Child v) = [child_text v]"
| "texts (Button l disabled e) = [l]"
| "texts (ConfirmButton l disabled q e) = [l]"
| "texts (Input v disabled onChange) = [v]"
| "texts (Select v items onChange) = map snd items"
| "texts (JsonText v) = [stringify2 v]"
| "texts Skeleton = []"
| "texts (Box us) = concat (map texts us)"
| "texts (Tabs ts) = concat (map (\<lambda>(l, u). l # texts u) ts)"
| "texts (Table cs rows) = cs @ concat (map (\<lambda>row. concat (map texts row)) rows)"

subsection \<open>shared/layout-primitives.tsx, shared/empty-state.tsx, shared/data-table-view.tsx\<close>

definition Section :: "jsstr \<Rightarrow> jsstr \<Rightarrow> 'e ui list \<Rightarrow> 'e ui list \<Rightarrow> 'e ui" where
  "Section title description action children = Box ([Txt title, Txt description] @ action @ children)"

definition Panel :: "jsstr \<Rightarrow> 'e ui list \<Rightarrow> 'e ui" where
  "Panel title children = Box (Txt title # children)"

definition Metric :: "jsstr \<Rightarrow> 'e ui \<Rightarrow> 'e ui" where
  "Metric label content = Panel label [content]"

definition ActionCard :: "jsstr \<Rightarrow> jsstr \<Rightarrow> jsstr \<Rightarrow> 'e \<Rightarrow> 'e ui" where
  "ActionCard title description action e = Box [Txt title, Txt description, Button action False e]"

definition HealthRow :: "translator \<Rightarrow> jsstr \<Rightarrow> 'e ui \<Rightarrow> bool \<Rightarrow> 'e ui" where
  "HealthRow tr label content ok = Box [Txt label, content,
     Txt (if ok then tr ''common'' ''ok'' [] else tr ''common'' ''needsAttention'' [])]"

definition StatusBadge :: "translator \<Rightarrow> bool \<Rightarrow> 'e ui" where
  "StatusBadge tr ok = Txt (if ok then tr ''common'' ''ready'' [] else tr ''common'' ''checking'' [])"

definition EmptyState :: "jsstr \<Rightarrow> jsstr \<Rightarrow> 'e ui list \<Rightarrow> 'e ui" where
  "EmptyState title description action = Box ([Txt title, Txt description] @ action)"

text \<open>An absent or empty description is not shown.\<close>

definition DataTableView ::
  "translator \<Rightarrow> jsstr list \<Rightarrow> 'e ui list list \<Rightarrow> bool \<Rightarrow> jsstr option \<Rightarrow> jsstr option \<Rightarrow> 'e ui" where
  "DataTableView tr columns rows loading emptyTitle emptyDescription =
     (if loading then Skeleton
      else if rows = [] then Table columns [[Box (
        Txt (case emptyTitle of Some t \<Rightarrow> t | None \<Rightarrow> tr ''common'' ''noRecords'' [])
        # (case emptyDescription of Some d \<Rightarrow> if d = [] then [] else [Txt d] | None \<Rightarrow> []))]]
      else Table columns rows)"

lemma offers_DataTableView:
  "offers (DataTableView tr cs rows loading et ed) = (if loading then {} else (\<Union>row \<in> set rows. \<Union>u \<in> set row. offers u))"
  by (auto simp: DataTableView_def split: option.split)

text \<open>
  A dialog: its trigger, and its content while it is open, which can always be closed.
\<close>

definition Dialog :: "bool \<Rightarrow> (bool \<Rightarrow> 'e) \<Rightarrow> 'e ui list \<Rightarrow> 'e ui list \<Rightarrow> 'e ui" where
  "Dialog shown setOpen trigger content = Box (trigger @ (if shown then Button [] False (setOpen False) # content else []))"

subsection \<open>shared/activity-list.tsx\<close>

text \<open>\<open>resource_type ?? target_type\<close>\<close>

definition nullish :: "json option \<Rightarrow> bool" where
  "nullish v \<longleftrightarrow> v = None \<or> v = Some JNull"

definition coalesce :: "json option \<Rightarrow> json option \<Rightarrow> json option" where
  "coalesce a b = (if nullish a then b else a)"

definition label_ui :: "label \<Rightarrow> 'e ui" where
  "label_ui l = (case l of Label s \<Rightarrow> Txt s | Inherited \<Rightarrow> Box [])"

text \<open>\<open>action.replace\<close> needs a string; a resource type that is neither a string nor falsy throws.\<close>

definition activity_row :: "translator \<Rightarrow> json \<Rightarrow> exn + 'e ui" where
  "activity_row tr event =
     (let t = (\<lambda>k. tr ''activityView'' k []);
          resource = coalesce (member (js ''resource_type'') event) (member (js ''target_type'') event) in
      case member (js ''action'') event of
        Some (JStr action) \<Rightarrow>
          (case resource of
             Some (JStr r) \<Rightarrow> Inr (Box [label_ui (activityActionLabel action t), label_ui (activityResourceLabel (Some r) t),
               Child (member (js ''created_at'') event)])
           | Some v \<Rightarrow> if truthy v then Inl TypeError else Inr (Box [label_ui (activityActionLabel action t),
               label_ui (activityResourceLabel None t), Child (member (js ''created_at'') event)])
           | None \<Rightarrow> Inr (Box [label_ui (activityActionLabel action t), label_ui (activityResourceLabel None t),
               Child (member (js ''created_at'') event)]))
      | _ \<Rightarrow> Inl TypeError)"

definition ActivityList :: "translator \<Rightarrow> json list \<Rightarrow> bool \<Rightarrow> exn + 'e ui" where
  "ActivityList tr events loading =
     (if loading then Inr Skeleton
      else if events = [] then Inr (EmptyState (tr ''activityView'' ''emptyTitle'' []) (tr ''activityView'' ''emptyDescription'' []) [])
      else bind_res (map_res (activity_row tr) (take 12 events)) (\<lambda>rows. Inr (Box rows)))"

text \<open>
  The list may be anything: \<open>!events.length\<close> holds for values without length, and a value with a length
  that is no array has no \<open>map\<close> after \<open>slice\<close>.
\<close>

definition event_list :: "json \<Rightarrow> exn + json list" where
  "event_list v = (case v of JArr vs \<Rightarrow> Inr vs | JStr s \<Rightarrow> if s = [] then Inr [] else Inl TypeError
     | JObj ms \<Rightarrow> (case map_of ms (js ''length'') of Some n \<Rightarrow> if truthy n then Inl TypeError else Inr [] | None \<Rightarrow> Inr [])
     | JNull \<Rightarrow> Inl TypeError | _ \<Rightarrow> Inr [])"

subsection \<open>Pages\<close>

text \<open>What a page needs of its surroundings: \<open>fetch\<close>, the translations, the texts of engine errors, the clipboard.\<close>

record 'w ui_env =
  env_fetch :: "'w fetch"
  env_tr :: translator
  env_msg :: "exn \<Rightarrow> jsstr"
  env_clip :: "nat clipboard_env"

datatype toast = ToastSuccess jsstr | ToastError jsstr

record query =
  q_data :: "json option"
  q_error :: "exn option"

text \<open>
  \<open>pg_rows\<close> holds the row that was given to a row component when one of its controls was last used.
\<close>

record ('w, 'm) page =
  pg_console :: "'w console"
  pg_dom :: "nat dom"
  pg_toasts :: "toast list"
  pg_queries :: "jsstr list \<Rightarrow> query"
  pg_stale :: "jsstr list list"
  pg_pending :: "('m \<times> (exn + json)) list"
  pg_downloads :: "(jsstr \<times> jsstr) list"
  pg_rows :: "jsstr \<Rightarrow> json"

type_synonym ('s, 'a) ui_prog = "(exn, 's, 'a) prog"

definition in_console :: "('w, 'a) console_prog \<Rightarrow> (('w, 'm, 'z) page_scheme, 'a) ui_prog" where
  "in_console m s = (case m (pg_console s) of (r, c) \<Rightarrow> (r, s\<lparr>pg_console := c\<rparr>))"

definition toast_success :: "jsstr \<Rightarrow> (('w, 'm, 'z) page_scheme, unit) ui_prog" where
  "toast_success t = modify (\<lambda>s. s\<lparr>pg_toasts := pg_toasts s @ [ToastSuccess t]\<rparr>)"

definition toast_error :: "jsstr \<Rightarrow> (('w, 'm, 'z) page_scheme, unit) ui_prog" where
  "toast_error t = modify (\<lambda>s. s\<lparr>pg_toasts := pg_toasts s @ [ToastError t]\<rparr>)"

definition invalidateQueries :: "jsstr list \<Rightarrow> (('w, 'm, 'z) page_scheme, unit) ui_prog" where
  "invalidateQueries k = modify (\<lambda>s. s\<lparr>pg_stale := pg_stale s @ [k]\<rparr>)"

text \<open>\<open>error.message\<close>\<close>

definition error_message :: "'w ui_env \<Rightarrow> exn \<Rightarrow> jsstr" where
  "error_message env e = (case e of JsError t \<Rightarrow> t | ApiError t _ _ \<Rightarrow> t | _ \<Rightarrow> env_msg env e)"

definition onError_toast :: "'w ui_env \<Rightarrow> exn \<Rightarrow> (('w, 'm, 'z) page_scheme, unit) ui_prog" where
  "onError_toast env e = toast_error (error_message env e)"

text \<open>Property access \<open>v.k\<close>, a TypeError on \<open>null\<close>, and \<open>data ?? []\<close> whose elements are read.\<close>

definition get_prop :: "string \<Rightarrow> json \<Rightarrow> exn + json option" where
  "get_prop k v = (if v = JNull then Inl TypeError else Inr (member (js k) v))"

definition rows_of :: "json option \<Rightarrow> exn + json list" where
  "rows_of d = (case d of None \<Rightarrow> Inr [] | Some JNull \<Rightarrow> Inr []
     | Some (JArr vs) \<Rightarrow> if JNull \<in> set vs then Inl TypeError else Inr vs | Some _ \<Rightarrow> Inl TypeError)"

definition fld :: "string \<Rightarrow> json \<Rightarrow> json option" where
  "fld k v = member (js k) v"

text \<open>\<open>String(v ?? d)\<close>\<close>

definition string_or :: "json option \<Rightarrow> jsstr \<Rightarrow> jsstr" where
  "string_or v d = (case v of None \<Rightarrow> d | Some x \<Rightarrow> if x = JNull then d else js_String x)"

definition is_true :: "json option \<Rightarrow> bool" where
  "is_true v = (case v of None \<Rightarrow> False | Some x \<Rightarrow> truthy x)"

text \<open>\<open>data?.[0]?.k\<close>\<close>

definition first_member :: "string \<Rightarrow> json option \<Rightarrow> json option" where
  "first_member k d = (case d of Some (JArr (v # _)) \<Rightarrow> fld k v | _ \<Rightarrow> None)"

subsection \<open>Queries\<close>

text \<open>
  The query client of \<open>providers.tsx\<close> repeats a failed query function once; a query with \<open>retry: false\<close>
  is not repeated.
\<close>

definition default_retry :: nat where
  "default_retry = 1"

fun attempts :: "nat \<Rightarrow> ('s, json option) ui_prog \<Rightarrow> ('s, json) ui_prog" where
  "attempts n fn = try_catch
     (bnd fn (\<lambda>v. lift_res (or_throw (JsError (js ''data is undefined'')) v)))
     (\<lambda>e. case n of 0 \<Rightarrow> throw e | Suc k \<Rightarrow> attempts k fn)"

definition load_query :: "nat \<Rightarrow> jsstr list \<Rightarrow> (('w, 'm, 'z) page_scheme, json option) ui_prog
    \<Rightarrow> ('w, 'm, 'z) page_scheme \<Rightarrow> ('w, 'm, 'z) page_scheme" where
  "load_query retry key fn s = (case attempts retry fn s of
     (Inl e, s') \<Rightarrow> s'\<lparr>pg_queries := (pg_queries s')(key := (pg_queries s' key)\<lparr>q_error := Some e\<rparr>)\<rparr>
   | (Inr v, s') \<Rightarrow> s'\<lparr>pg_queries := (pg_queries s')(key := \<lparr>q_data = Some v, q_error = None\<rparr>),
       pg_stale := filter (\<lambda>k. \<not> prefix k key) (pg_stale s')\<rparr>)"

definition query_data :: "jsstr list \<Rightarrow> ('w, 'm, 'z) page_scheme \<Rightarrow> json option" where
  "query_data key s = q_data (pg_queries s key)"

definition isLoading :: "bool \<Rightarrow> jsstr list \<Rightarrow> ('w, 'm, 'z) page_scheme \<Rightarrow> bool" where
  "isLoading enabled key s \<longleftrightarrow> enabled \<and> q_data (pg_queries s key) = None \<and> q_error (pg_queries s key) = None"

text \<open>\<open>async () => (await apiFetch(path)).member\<close> and \<open>() => apiFetch(path)\<close>\<close>

definition get_init :: fetch_init where
  "get_init = \<lparr>fi_method = ''GET'', fi_headers = [], fi_body = None, fi_auth = True\<rparr>"

definition fetch_member :: "'w ui_env \<Rightarrow> jsstr \<Rightarrow> string \<Rightarrow> (('w, 'm, 'z) page_scheme, json option) ui_prog" where
  "fetch_member env path k = bnd (in_console (apiFetch (env_fetch env) path get_init)) (\<lambda>v. lift_res (get_prop k v))"

definition fetch_all :: "'w ui_env \<Rightarrow> jsstr \<Rightarrow> fetch_init \<Rightarrow> (('w, 'm, 'z) page_scheme, json option) ui_prog" where
  "fetch_all env path init = bnd (in_console (apiFetch (env_fetch env) path init)) (\<lambda>v. ret (Some v))"

subsection \<open>Mutations\<close>

definition isPending :: "'m \<Rightarrow> ('w, 'm, 'z) page_scheme \<Rightarrow> bool" where
  "isPending m s \<longleftrightarrow> m \<in> set (map fst (pg_pending s))"

text \<open>\<open>mutate()\<close> runs the function; its outcome arrives later, in any order.\<close>

definition mutate :: "'m \<Rightarrow> (('w, 'm, 'z) page_scheme, json) ui_prog \<Rightarrow> ('w, 'm, 'z) page_scheme \<Rightarrow> ('w, 'm, 'z) page_scheme" where
  "mutate m fn s = (case fn s of (r, s') \<Rightarrow> s'\<lparr>pg_pending := pg_pending s' @ [(m, r)]\<rparr>)"

definition settle :: "('m \<Rightarrow> json \<Rightarrow> (('w, 'm, 'z) page_scheme, unit) ui_prog)
    \<Rightarrow> ('m \<Rightarrow> exn \<Rightarrow> (('w, 'm, 'z) page_scheme, unit) ui_prog)
    \<Rightarrow> nat \<Rightarrow> ('w, 'm, 'z) page_scheme \<Rightarrow> ('w, 'm, 'z) page_scheme" where
  "settle onSuccess onError i s =
     (if i < length (pg_pending s) then
        (case pg_pending s ! i of (m, r) \<Rightarrow>
           (let s = s\<lparr>pg_pending := take i (pg_pending s) @ drop (Suc i) (pg_pending s)\<rparr> in
            snd ((case r of Inl e \<Rightarrow> onError m e | Inr v \<Rightarrow> try_catch (onSuccess m v) (onError m)) s)))
      else s)"

text \<open>Requests of the views.\<close>

definition send :: "'w ui_env \<Rightarrow> string \<Rightarrow> jsstr \<Rightarrow> (('w, 'm, 'z) page_scheme, json) ui_prog" where
  "send env m path = in_console (apiFetch (env_fetch env) path
     \<lparr>fi_method = m, fi_headers = [], fi_body = None, fi_auth = True\<rparr>)"

definition send_json :: "'w ui_env \<Rightarrow> string \<Rightarrow> jsstr \<Rightarrow> json \<Rightarrow> (('w, 'm, 'z) page_scheme, json) ui_prog" where
  "send_json env m path body = in_console (apiFetch (env_fetch env) path
     \<lparr>fi_method = m, fi_headers = [], fi_body = Some (BodyText (stringify body)), fi_auth = True\<rparr>)"

definition app_id :: "json \<Rightarrow> jsstr" where
  "app_id app = item_string (member (js ''id'') app)"

definition app_path :: "json \<Rightarrow> jsstr \<Rightarrow> jsstr" where
  "app_path app rest = js ''/api/apps/'' @ app_id app @ rest"

text \<open>
  The row with a given id in the data that is shown now, or the one its component was last used with.
\<close>

definition row_id :: "string \<Rightarrow> json \<Rightarrow> jsstr" where
  "row_id k row = item_string (member (js k) row)"

definition latest_row :: "string \<Rightarrow> jsstr list \<Rightarrow> jsstr \<Rightarrow> ('w, 'm, 'z) page_scheme \<Rightarrow> json" where
  "latest_row k key i s = (case rows_of (query_data key s) of
     Inr rows \<Rightarrow> (case find (\<lambda>r. row_id k r = i) rows of Some r \<Rightarrow> r | None \<Rightarrow> pg_rows s i)
   | Inl _ \<Rightarrow> pg_rows s i)"

definition use_row :: "jsstr \<Rightarrow> json \<Rightarrow> ('w, 'm, 'z) page_scheme \<Rightarrow> ('w, 'm, 'z) page_scheme" where
  "use_row i row s = s\<lparr>pg_rows := (pg_rows s)(i := row)\<rparr>"

subsection \<open>Helpers the views repeat\<close>

text \<open>\<open>copyTextToClipboard(text).then(...).catch(...)\<close>\<close>

definition copy_to_clipboard :: "'w ui_env \<Rightarrow> jsstr \<Rightarrow> ('w, 'm, 'z) page_scheme \<Rightarrow> ('w, 'm, 'z) page_scheme" where
  "copy_to_clipboard env text s = (case copyTextToClipboard (env_clip env) text (pg_dom s) of
     (Inr _, d) \<Rightarrow> snd (toast_success (env_tr env ''common'' ''copied'' []) (s\<lparr>pg_dom := d\<rparr>))
   | (Inl e, d) \<Rightarrow> snd (toast_error (error_message env (normalizeCopyError e)) (s\<lparr>pg_dom := d\<rparr>)))"

text \<open>Sizes are shown with \<open>formatBytes\<close>; byte counts are natural numbers.\<close>

definition number_nat :: "number \<Rightarrow> nat" where
  "number_nat x = (case x of Fin m e \<Rightarrow> if e \<ge> 0 then nat m * 10 ^ nat e else nat m div 10 ^ nat (- e) | _ \<Rightarrow> 0)"

definition bytes_text :: "json option \<Rightarrow> jsstr" where
  "bytes_text v = (case v of Some (JNum x) \<Rightarrow> formatBytes (number_nat x) | _ \<Rightarrow> [])"

definition yes_no :: "'w ui_env \<Rightarrow> bool \<Rightarrow> jsstr" where
  "yes_no env b = (if b then env_tr env ''common'' ''yes'' [] else env_tr env ''common'' ''no'' [])"

text \<open>\<open>data ?? { status: common("loading") }\<close>\<close>

definition or_loading :: "'w ui_env \<Rightarrow> json option \<Rightarrow> json" where
  "or_loading env d = (case coalesce d None of Some v \<Rightarrow> v
     | None \<Rightarrow> object [(''status'', Some (JStr (env_tr env ''common'' ''loading'' [])))])"

subsection \<open>A sample page\<close>

definition sample_env :: "nat ui_env" where
  "sample_env = \<lparr>env_fetch = con_server, env_tr = (\<lambda>ns k args. js k), env_msg = (\<lambda>_. []), env_clip = refusing_browser\<rparr>"

definition sample_page :: "jsstr list \<Rightarrow> json \<Rightarrow> (nat, 'm) page" where
  "sample_page key v = \<lparr>pg_console = sample_console 0,
     pg_dom = \<lparr>has_document = True, areas = [], selection = None, copied = None\<rparr>, pg_toasts = [],
     pg_queries = (\<lambda>k. \<lparr>q_data = (if k = key then Some v else None), q_error = None\<rparr>), pg_stale = [], pg_pending = [],
     pg_downloads = [], pg_rows = (\<lambda>_. JNull)\<rparr>"

definition sample_app :: json where
  "sample_app = JObj [(js ''id'', JStr (js ''a1'')), (js ''name'', JStr (js ''shop''))]"

subsection \<open>The contract of a view\<close>

text \<open>
  A view renders its state, handles what the rendered controls offer, and settles its mutations. Its
  laws: a control that starts an exclusive mutation is disabled while that mutation runs, and nothing
  else starts or drops one.
\<close>

lemma pg_pending_in_console [simp]: "pg_pending (snd (in_console m s)) = pg_pending s"
  by (simp add: in_console_def split: prod.split)

lemmas offers_simps = Section_def Panel_def Metric_def ActionCard_def HealthRow_def StatusBadge_def EmptyState_def
  Dialog_def offers_DataTableView

named_theorems pending_simps \<open>computations that leave the running mutations alone\<close>

definition keeps_pending :: "(('w, 'm, 'z) page_scheme, 'a) ui_prog \<Rightarrow> bool" where
  "keeps_pending m \<longleftrightarrow> (\<forall>s. pg_pending (snd (m s)) = pg_pending s)"

lemma keeps_pendingD: "keeps_pending m \<Longrightarrow> pg_pending (snd (m s)) = pg_pending s"
  by (simp add: keeps_pending_def)

lemma keeps_pending_basic [pending_simps]:
  "keeps_pending (ret x)" "keeps_pending (throw e)" "keeps_pending (lift_res r)" "keeps_pending (in_console c)"
  "keeps_pending (toast_success t)" "keeps_pending (toast_error t)" "keeps_pending (invalidateQueries k)"
  "keeps_pending (gets g)" "keeps_pending (onError_toast env e)"
  by (simp_all add: keeps_pending_def prog_simps toast_success_def toast_error_def invalidateQueries_def onError_toast_def)

lemma keeps_pending_bnd [pending_simps]:
  "keeps_pending m \<Longrightarrow> (\<And>x. keeps_pending (f x)) \<Longrightarrow> keeps_pending (bnd m f)"
  unfolding keeps_pending_def bnd_def by (auto split: prod.split sum.split) (metis snd_conv)+

lemma keeps_pending_try_catch [pending_simps]:
  "keeps_pending m \<Longrightarrow> (\<And>x. keeps_pending (f x)) \<Longrightarrow> keeps_pending (try_catch m f)"
  unfolding keeps_pending_def try_catch_def by (auto split: prod.split sum.split) (metis snd_conv)+

lemma keeps_pending_modify [pending_simps]: "(\<And>s. pg_pending (f s) = pg_pending s) \<Longrightarrow> keeps_pending (modify f)"
  by (simp add: keeps_pending_def prog_simps)

lemma keeps_pending_fetch [pending_simps]:
  "keeps_pending (fetch_member env p k)" "keeps_pending (fetch_all env p i)" "keeps_pending (send env m p)"
  "keeps_pending (send_json env m p b)"
  unfolding fetch_member_def fetch_all_def send_def send_json_def by (intro pending_simps)+

lemma keeps_pending_attempts [pending_simps]: "keeps_pending fn \<Longrightarrow> keeps_pending (attempts n fn)"
proof (induction n)
  case 0
  then show ?case by (simp add: pending_simps)
next
  case (Suc n)
  then show ?case by (simp add: pending_simps)
qed

lemma pending_load_query: "keeps_pending fn \<Longrightarrow> pg_pending (load_query n k fn s) = pg_pending s"
  using keeps_pendingD [OF keeps_pending_attempts, of fn n s]
  by (cases "attempts n fn s") (auto simp: load_query_def simp del: attempts.simps split: sum.split)

lemma pending_mutate: "keeps_pending fn \<Longrightarrow> map fst (pg_pending (mutate m fn s)) = map fst (pg_pending s) @ [m]"
  using keeps_pendingD [of fn s] by (cases "fn s") (simp add: mutate_def)

lemma pending_settle:
  assumes "\<And>m v. keeps_pending (onSuccess m v)" "\<And>m e. keeps_pending (onError m e)" "i < length (pg_pending s)"
  shows "pg_pending (settle onSuccess onError i s) = take i (pg_pending s) @ drop (Suc i) (pg_pending s)"
proof -
  obtain m r where mr: "pg_pending s ! i = (m, r)" by (cases "pg_pending s ! i")
  have "keeps_pending (case r of Inl e \<Rightarrow> onError m e | Inr v \<Rightarrow> try_catch (onSuccess m v) (onError m))"
    using assms(1,2) by (cases r) (simp_all add: keeps_pending_try_catch)
  from keeps_pendingD [OF this] show ?thesis using assms(3) mr by (simp add: settle_def)
qed

locale console_view =
  fixes render :: "('w, 'm, 'z) page_scheme \<Rightarrow> exn + 'e ui"
    and handle :: "'e \<Rightarrow> ('w, 'm, 'z) page_scheme \<Rightarrow> ('w, 'm, 'z) page_scheme"
    and starts :: "'e \<Rightarrow> 'm option"
    and onSuccess :: "'m \<Rightarrow> json \<Rightarrow> (('w, 'm, 'z) page_scheme, unit) ui_prog"
    and onError :: "'m \<Rightarrow> exn \<Rightarrow> (('w, 'm, 'z) page_scheme, unit) ui_prog"
    and queries :: "('w, 'm, 'z) page_scheme \<Rightarrow> (jsstr list \<times> nat \<times> (('w, 'm, 'z) page_scheme, json option) ui_prog) list"
    and exclusive :: "'m \<Rightarrow> bool"
  assumes guarded: "render s = Inr u \<Longrightarrow> e \<in> offers u \<Longrightarrow> starts e = Some m \<Longrightarrow> exclusive m \<Longrightarrow> \<not> isPending m s"
    and handle_pending: "map fst (pg_pending (handle e s)) =
      map fst (pg_pending s) @ (case starts e of None \<Rightarrow> [] | Some m \<Rightarrow> [m])"
    and success_pending: "keeps_pending (onSuccess m v)"
    and error_pending: "keeps_pending (onError m x)"
    and queries_pending: "(k, n, fn) \<in> set (queries s) \<Longrightarrow> keeps_pending fn"
begin

text \<open>The page runs: a control is used, a query is loaded, the outcome of a mutation arrives.\<close>

inductive step :: "('w, 'm, 'z) page_scheme \<Rightarrow> ('w, 'm, 'z) page_scheme \<Rightarrow> bool" where
  act: "render s = Inr u \<Longrightarrow> e \<in> offers u \<Longrightarrow> step s (handle e s)"
| load: "(k, n, fn) \<in> set (queries s) \<Longrightarrow> step s (load_query n k fn s)"
| arrive: "i < length (pg_pending s) \<Longrightarrow> step s (settle onSuccess onError i s)"

definition running :: "('w, 'm, 'z) page_scheme \<Rightarrow> 'm list" where
  "running s = filter exclusive (map fst (pg_pending s))"

lemma step_distinct: "step s s' \<Longrightarrow> distinct (running s) \<Longrightarrow> distinct (running s')"
proof (induction rule: step.induct)
  case (act s u e)
  then show ?case
    using handle_pending [of e s] guarded [OF act(1,2)] by (auto simp: running_def isPending_def split: option.splits)
next
  case (load k n fn s)
  then show ?case using pending_load_query [OF queries_pending] by (simp add: running_def)
next
  case (arrive i s)
  let ?p = "map fst (pg_pending s)"
  have p: "?p = take i ?p @ ?p ! i # drop (Suc i) ?p" using arrive(1) by (intro id_take_nth_drop) simp
  from arrive(2) have "distinct (filter exclusive (take i ?p @ ?p ! i # drop (Suc i) ?p))"
    unfolding running_def by (subst (asm) p)
  then have "distinct (filter exclusive (take i ?p @ drop (Suc i) ?p))" by (auto split: if_splits)
  then show ?case using pending_settle [OF success_pending error_pending arrive(1)] by (simp add: running_def take_map drop_map)
qed

lemma run_distinct: "step\<^sup>*\<^sup>* s s' \<Longrightarrow> distinct (running s) \<Longrightarrow> distinct (running s')"
  by (induction rule: rtranclp_induct) (auto dest: step_distinct)

end

subsection \<open>What a page sends\<close>

definition pg_sent :: "('w, 'm, 'z) page_scheme \<Rightarrow> request list" where
  "pg_sent s = con_sent (pg_console s)"

definition pg_base :: "('w, 'm, 'z) page_scheme \<Rightarrow> jsstr" where
  "pg_base s = API_BASE (pg_console s)"

abbreviation page_sends :: "(request \<Rightarrow> bool) \<Rightarrow> (('w, 'm, 'z) page_scheme, 'a) ui_prog \<Rightarrow> ('w, 'm, 'z) page_scheme \<Rightarrow> bool" where
  "page_sends \<equiv> appends pg_sent pg_base"

lemma page_sends_in_console: "con_sends P m (pg_console s) \<Longrightarrow> page_sends P (in_console m) s"
  by (cases "m (pg_console s)") (simp add: appends_def in_console_def pg_sent_def pg_base_def)

text \<open>\<open>apiFetch\<close> sends the request it is asked for, and refreshes the session.\<close>

definition refresh_request :: "jsstr \<Rightarrow> request \<Rightarrow> bool" where
  "refresh_request base r \<longleftrightarrow> req_url r = base @ js ''/api/admin/auth/refresh'' \<and> req_method r = js ''POST''"

definition asked_request :: "jsstr \<Rightarrow> jsstr \<Rightarrow> fetch_init \<Rightarrow> request \<Rightarrow> bool" where
  "asked_request base path init r \<longleftrightarrow> req_url r = base @ path \<and> req_method r = js (fi_method init) \<and> req_body r = fi_body init"

lemma sends_asked_body:
  assumes "\<And>s. API_BASE s = base \<Longrightarrow> con_sends P refresh s" "\<And>r. asked_request base path init r \<Longrightarrow> P r" "API_BASE s = base"
  shows "con_sends P (apiFetch_body f refresh path init) s"
proof -
  have fetch: "con_sends P (fetchWithAuth f path init) s" if "API_BASE s = base" for s
    using that assms(2) by (intro appends_mono [OF sends_fetchWithAuth]) (auto simp: auth_sent_def asked_request_def)
  have keep: "API_BASE s' = base" if "fetchWithAuth f path init s = (x, s')" "API_BASE s = base" for x s s'
    using fetch [OF that(2)] that by (simp add: appends_def)
  have keep': "API_BASE s' = base" if "refresh s = (x, s')" "API_BASE s = base" for x s s'
    using assms(1) [OF that(2)] that by (simp add: appends_def)
  show ?thesis
    unfolding apiFetch_body_def throw_api_error_def
  proof (rule appends_bnd [OF fetch [OF assms(3)]], goal_cases)
    case (1 response s1)
    have base: "API_BASE s1 = base" using keep [OF 1 assms(3)] .
    show ?case
      using base by (intro appends_if appends_lift_res appends_bnd_any appends_throw appends_bnd [of _ _ _ refresh] fetch assms(1))
        (auto simp: keep')
  qed
qed

lemma sends_asked:
  assumes "API_BASE s = base" "\<And>r. asked_request base path init r \<Longrightarrow> P r" "\<And>r. refresh_request base r \<Longrightarrow> P r"
  shows "con_sends P (apiFetch f path init) s"
proof -
  have "con_sends P (apiFetch_body f (ret False) (js ''/api/admin/auth/refresh'') (post_noauth v)) s"
    if "API_BASE s = base" for v s
    using that assms(3) by (intro sends_asked_body [of base] appends_ret) (auto simp: asked_request_def refresh_request_def post_noauth_def)
  then have "con_sends P (refreshStoredSession f) s" if "API_BASE s = base" for s
    unfolding refreshStoredSession_def using that by (intro appends_intros)
  then show ?thesis unfolding apiFetch_def using assms by (intro sends_asked_body [of base]) auto
qed

text \<open>Callbacks and editing do not touch the API layer.\<close>

definition quiet :: "(('w, 'm, 'z) page_scheme, 'a) ui_prog \<Rightarrow> bool" where
  "quiet m \<longleftrightarrow> (\<forall>s. pg_console (snd (m s)) = pg_console s)"

named_theorems quiet_intros \<open>computations that leave the API layer alone\<close>

lemma quiet_basic [quiet_intros]:
  "quiet (ret x)" "quiet (throw e)" "quiet (lift_res r)" "quiet (gets g)"
  "quiet (toast_success t)" "quiet (toast_error t)" "quiet (invalidateQueries k)" "quiet (onError_toast env e)"
  by (simp_all add: quiet_def prog_simps toast_success_def toast_error_def invalidateQueries_def onError_toast_def)

lemma quiet_bnd [quiet_intros]: "quiet m \<Longrightarrow> (\<And>x. quiet (f x)) \<Longrightarrow> quiet (bnd m f)"
  unfolding quiet_def bnd_def by (auto split: prod.split sum.split) (metis snd_conv)+

lemma quiet_try_catch [quiet_intros]: "quiet m \<Longrightarrow> (\<And>x. quiet (f x)) \<Longrightarrow> quiet (try_catch m f)"
  unfolding quiet_def try_catch_def by (auto split: prod.split sum.split) (metis snd_conv)+

lemma quiet_modify [quiet_intros]: "(\<And>s. pg_console (f s) = pg_console s) \<Longrightarrow> quiet (modify f)"
  by (simp add: quiet_def prog_simps)

lemma page_sends_send:
  assumes "pg_base s = base" "\<And>r. refresh_request base r \<Longrightarrow> P r"
    and "\<And>r. req_url r = base @ path \<Longrightarrow> req_method r = js m \<Longrightarrow> P r"
  shows "page_sends P (send env m path) s" "page_sends P (send_json env m path b) s"
  unfolding send_def send_json_def using assms
  by (intro page_sends_in_console sends_asked [of _ base]; auto simp: pg_base_def asked_request_def)+

lemma page_sends_get:
  assumes "pg_base s = base" "\<And>r. refresh_request base r \<Longrightarrow> P r"
    and "\<And>r. req_method r = js ''GET'' \<Longrightarrow> P r"
  shows "page_sends P (fetch_member env path k) s"
  unfolding fetch_member_def using assms
  by (intro appends_bnd_any page_sends_in_console sends_asked [of _ base] appends_lift_res)
    (auto simp: pg_base_def asked_request_def get_init_def)

definition page_log :: "(request \<Rightarrow> bool) \<Rightarrow> ('w, 'm, 'z) page_scheme \<Rightarrow> ('w, 'm, 'z) page_scheme \<Rightarrow> bool" where
  "page_log P s s' \<longleftrightarrow> (\<exists>rs. pg_sent s' = pg_sent s @ rs \<and> list_all P rs) \<and> pg_base s' = pg_base s"

lemma page_log_refl: "pg_console s' = pg_console s \<Longrightarrow> page_log P s s'"
  by (simp add: page_log_def pg_sent_def pg_base_def)

lemma page_log_trans: "page_log P s s' \<Longrightarrow> page_log P s' s'' \<Longrightarrow> page_log P s s''"
  unfolding page_log_def by (metis append.assoc list_all_append)

lemma page_log_mutate: "page_sends P fn s \<Longrightarrow> page_log P s (mutate m fn s)"
  by (cases "fn s") (simp add: appends_def page_log_def mutate_def pg_sent_def pg_base_def)

lemma page_log_load:
  assumes "\<And>s. pg_base s = base \<Longrightarrow> page_sends P fn s" "pg_base s = base"
  shows "page_log P s (load_query n k fn s)"
proof -
  have "page_sends P (attempts n fn) s" if "pg_base s = base" for s
    using that
  proof (induction n arbitrary: s)
    case 0
    then show ?case using assms(1) by (auto intro!: appends_intros)
  next
    case (Suc n)
    have "page_sends P (bnd fn (\<lambda>v. lift_res (or_throw (JsError (js ''data is undefined'')) v))) s"
      using assms(1) [OF Suc.prems] by (intro appends_intros)
    then obtain rs x s' where 1: "bnd fn (\<lambda>v. lift_res (or_throw (JsError (js ''data is undefined'')) v)) s = (x, s')"
      "pg_sent s' = pg_sent s @ rs" "list_all P rs" "pg_base s' = pg_base s"
      by (cases "bnd fn (\<lambda>v. lift_res (or_throw (JsError (js ''data is undefined'')) v)) s") (auto simp: appends_def)
    then have "page_sends P (attempts n fn) s'" using Suc by simp
    moreover have "attempts (Suc n) fn s = (case x of Inl e \<Rightarrow> attempts n fn s' | Inr v \<Rightarrow> (Inr v, s'))"
      by (subst attempts.simps) (simp add: try_catch_def 1(1) del: attempts.simps split: sum.split)
    ultimately show ?case using 1 by (cases x) (auto simp: appends_def simp del: attempts.simps)
  qed
  from this [OF assms(2)] show ?thesis
    by (cases "attempts n fn s") (auto simp: appends_def page_log_def load_query_def pg_sent_def pg_base_def
        simp del: attempts.simps split: sum.split)
qed

lemma page_log_settle:
  assumes "\<And>m v. quiet (onSuccess m v)" "\<And>m e. quiet (onError m e)"
  shows "page_log P s (settle onSuccess onError i s)"
proof (cases "i < length (pg_pending s)")
  case True
  obtain m r where mr: "pg_pending s ! i = (m, r)" by (cases "pg_pending s ! i")
  have "quiet (case r of Inl e \<Rightarrow> onError m e | Inr v \<Rightarrow> try_catch (onSuccess m v) (onError m))"
    using assms by (cases r) (simp_all add: quiet_try_catch)
  then show ?thesis using True mr by (intro page_log_refl) (simp add: settle_def quiet_def)
qed (simp add: settle_def page_log_refl)

locale audited_view = console_view +
  fixes base :: jsstr and allowed :: "request \<Rightarrow> bool"
  assumes act_sends: "render s = Inr u \<Longrightarrow> e \<in> offers u \<Longrightarrow> pg_base s = base \<Longrightarrow> page_log allowed s (handle e s)"
    and load_sends: "(k, n, fn) \<in> set (queries s) \<Longrightarrow> pg_base s' = base \<Longrightarrow> page_sends allowed fn s'"
    and callbacks_quiet: "quiet (onSuccess m v)" "quiet (onError m x)"
begin

lemma step_sends: "step s s' \<Longrightarrow> pg_base s = base \<Longrightarrow> page_log allowed s s'"
proof (induction rule: step.induct)
  case (act s u e)
  then show ?case by (rule act_sends)
next
  case (load k n fn s)
  then show ?case using load_sends [OF load(1)] by (intro page_log_load)
next
  case (arrive i s)
  show ?case using callbacks_quiet by (rule page_log_settle)
qed

lemma run_sends: "step\<^sup>*\<^sup>* s s' \<Longrightarrow> pg_base s = base \<Longrightarrow> page_log allowed s s'"
proof (induction rule: rtranclp_induct)
  case base
  then show ?case by (simp add: page_log_refl)
next
  case (step s' s'')
  then have "pg_base s' = base" by (simp add: page_log_def)
  then show ?case using step step_sends page_log_trans by blast
qed

end

subsection \<open>\<open>Number(s)\<close>\<close>

text \<open>
  Conversion of a string: white space is trimmed, the empty string is zero, then an integer with a radix
  prefix, or a signed decimal with optional fraction and exponent, or \<open>Infinity\<close>; all else is \<open>NaN\<close>.
  Decimals keep their digits, which is exact up to fifteen of them.
\<close>

definition radix_value :: "nat \<Rightarrow> jsstr \<Rightarrow> number" where
  "radix_value b ds = (if ds \<noteq> [] \<and> list_all (\<lambda>c. case hex_value c of Some d \<Rightarrow> d < b | None \<Rightarrow> False) ds
     then mk_number False (foldl (\<lambda>n c. b * n + the (hex_value c)) 0 ds) 0 else NaN)"

definition decimal_value :: "bool \<Rightarrow> jsstr \<Rightarrow> number" where
  "decimal_value neg s =
     (if s = js ''Infinity'' then Infinity neg
      else let ip = takeWhile is_digit s; r = dropWhile is_digit s;
               fp = (case r of c # cs \<Rightarrow> if c = 46 then takeWhile is_digit cs else [] | [] \<Rightarrow> []);
               r' = (case r of c # cs \<Rightarrow> if c = 46 then dropWhile is_digit cs else r | [] \<Rightarrow> [])
           in if ip = [] \<and> fp = [] then NaN
              else case parse_exp r' of
                Some (e, []) \<Rightarrow> mk_number neg (digits_value (ip @ fp)) (e - int (length fp))
              | _ \<Rightarrow> NaN)"

definition js_Number :: "jsstr \<Rightarrow> number" where
  "js_Number s = (case js_trim s of
     [] \<Rightarrow> Fin 0 0
   | c # cs \<Rightarrow>
       if c = 48 \<and> cs \<noteq> [] \<and> hd cs \<in> {120, 88} then radix_value 16 (tl cs)
       else if c = 48 \<and> cs \<noteq> [] \<and> hd cs \<in> {111, 79} then radix_value 8 (tl cs)
       else if c = 48 \<and> cs \<noteq> [] \<and> hd cs \<in> {98, 66} then radix_value 2 (tl cs)
       else if c = 43 then decimal_value False cs
       else if c = 45 then decimal_value True cs
       else decimal_value False (c # cs))"

text \<open>A text that \<open>JSON.parse\<close> accepts as a number has the same value for \<open>Number\<close>.\<close>

lemma decimal_value_parse:
  assumes i: "parse_int_part s = Some (ip, s2)" and f: "parse_frac s2 = Some (fp, s3)" and e: "parse_exp s3 = Some (ex, [])"
  shows "decimal_value neg s = mk_number neg (digits_value (ip @ fp)) (ex - int (length fp))"
proof -
  have d: "\<not> is_digit 46" "\<not> is_digit 101" "\<not> is_digit 69" by (simp_all add: is_digit_def)
  have s3: "s3 = [] \<or> hd s3 \<in> {101, 69}"
    using e by (cases s3) (auto simp: parse_exp_def split: if_splits)
  then have none: "takeWhile is_digit s3 = []" "dropWhile is_digit s3 = s3" using d by (cases s3; auto)+
  have s2: "(s2 = 46 # fp @ s3 \<and> fp \<noteq> [] \<and> takeWhile is_digit (fp @ s3) = fp \<and> dropWhile is_digit (fp @ s3) = s3) \<or> (s2 = s3 \<and> fp = [])"
    using f by (cases s2) (auto simp: parse_frac_def split: if_splits)
  have ip: "ip \<noteq> []" "takeWhile is_digit s = ip" "dropWhile is_digit s = s2" "s \<noteq> js ''Infinity''"
    using i s2 d none by (auto simp: parse_int_part_def js_def cu_def is_digit_def split: if_splits list.splits) 
  from s2 show ?thesis
  proof
    assume a: "s2 = 46 # fp @ s3 \<and> fp \<noteq> [] \<and> takeWhile is_digit (fp @ s3) = fp \<and> dropWhile is_digit (fp @ s3) = s3"
    then have "takeWhile is_digit (fp @ s3) = fp" "dropWhile is_digit (fp @ s3) = s3" "s2 = 46 # fp @ s3" by blast+
    note r = this
    show ?thesis unfolding decimal_value_def Let_def ip(2,3) r(3) list.case if_True refl using ip(1,4) r(1,2) e by simp
  next
    assume a: "s2 = s3 \<and> fp = []"
    then show ?thesis using ip s3 e by (auto simp: decimal_value_def Let_def split: list.splits)
  qed
qed

lemma js_trim_id: "\<forall>c \<in> set s. \<not> js_space c \<Longrightarrow> js_trim s = s"
proof -
  have id: "dropWhile js_space t = t" if "\<forall>c \<in> set t. \<not> js_space c" for t using that by (cases t) auto
  show "\<forall>c \<in> set s. \<not> js_space c \<Longrightarrow> js_trim s = s" using id [of s] id [of "rev s"] by (simp add: js_trim_def)
qed

lemma parse_int_part_head: "parse_int_part s = Some (ip, s2) \<Longrightarrow> \<exists>c cs. s = c # cs \<and> is_digit c \<and> (c = 48 \<longrightarrow> s2 = cs)"
  by (auto simp: parse_int_part_def is_digit_def split: list.splits if_splits)

lemma js_Number_parse:
  assumes p: "parse_number s = Some (x, [])" and sp: "\<forall>c \<in> set s. \<not> js_space c"
  shows "js_Number s = x"
proof -
  define neg where "neg = (s \<noteq> [] \<and> hd s = 45)"
  define t where "t = (if neg then tl s else s)"
  have t: "s = (if neg then [45] else []) @ t" "\<not> neg \<longrightarrow> s = [] \<or> hd s \<noteq> 45"
    by (cases s; simp add: neg_def t_def)+
  have "parse_number ((if b then [45] else []) @ t) = (case parse_int_part t of None \<Rightarrow> None | Some (ip, s2) \<Rightarrow>
      case parse_frac s2 of None \<Rightarrow> None | Some (fp, s3) \<Rightarrow>
      case parse_exp s3 of None \<Rightarrow> None | Some (ex, s4) \<Rightarrow>
        Some (mk_number b (digits_value (ip @ fp)) (ex - int (length fp)), s4))" if "\<not> b \<longrightarrow> t = [] \<or> hd t \<noteq> 45" for b
    using that by (induction b) (auto simp: parse_number_def split: list.split)
  from this [of neg] have "parse_number s = (case parse_int_part t of None \<Rightarrow> None | Some (ip, s2) \<Rightarrow>
      case parse_frac s2 of None \<Rightarrow> None | Some (fp, s3) \<Rightarrow>
      case parse_exp s3 of None \<Rightarrow> None | Some (ex, s4) \<Rightarrow>
        Some (mk_number neg (digits_value (ip @ fp)) (ex - int (length fp)), s4))" using t by simp
  then obtain ip s2 fp s3 ex where q: "parse_int_part t = Some (ip, s2)" "parse_frac s2 = Some (fp, s3)"
    "parse_exp s3 = Some (ex, [])" "x = mk_number neg (digits_value (ip @ fp)) (ex - int (length fp))"
    using p by (auto split: option.splits)
  obtain c cs where c: "t = c # cs" "is_digit c" "c = 48 \<longrightarrow> s2 = cs" using parse_int_part_head [OF q(1)] by blast
  have "s2 = [] \<or> hd s2 \<in> {46, 101, 69}"
    using q(2,3) by (auto simp: parse_frac_def parse_exp_def split: list.splits if_splits)
  then have "\<not> (c = 48 \<and> cs \<noteq> [] \<and> hd cs \<in> {120, 88, 111, 79, 98, 66})" using c(3) by auto
  moreover have "c \<noteq> 43" "c \<noteq> 45" using c(2) by (auto simp: is_digit_def)
  ultimately have "js_Number s = decimal_value neg t"
    unfolding js_Number_def js_trim_id [OF sp] using t(1) c(1) by auto
  then show ?thesis using decimal_value_parse [OF q(1-3)] q(4) by simp
qed

definition number_char :: "code_unit \<Rightarrow> bool" where
  "number_char c \<longleftrightarrow> is_digit c \<or> c \<in> {43, 45, 46, 101}"

lemma digits_number_chars: "\<forall>c \<in> set (digits n). number_char c"
  using digits_all [of n] by (auto simp: list_all_iff number_char_def)

lemma decimal_string_chars: "ds \<noteq> [] \<Longrightarrow> \<forall>c \<in> set ds. number_char c \<Longrightarrow> \<forall>c \<in> set (decimal_string ds e). number_char c"
  using digits_number_chars by (auto simp: decimal_string_def Let_def number_char_def dest: in_set_takeD in_set_dropD
      hd_in_set list.set_sel(2) split: if_splits)

lemma number_char_no_space: "number_char c \<Longrightarrow> \<not> js_space c"
  by (auto simp: number_char_def js_space_def is_digit_def word_le_nat_alt)

lemma js_Number_string:
  assumes "normal_number x"
  shows "js_Number (number_string x) = x"
proof (rule js_Number_parse)
  show "parse_number (number_string x) = Some (x, [])"
    using parse_number_string [OF assms, of "[]"] by (simp add: number_end_def)
  obtain m e where "x = Fin m e" using assms by (cases x) (auto simp: normal_number_def)
  then have "\<forall>c \<in> set (number_string x). number_char c"
    using decimal_string_chars [OF digits_not_Nil digits_number_chars, of "nat \<bar>m\<bar>" e]
    by (auto simp: number_string_def number_char_def)
  then show "\<forall>c \<in> set (number_string x). \<not> js_space c" using number_char_no_space by blast
qed

end
