(* ===== verification/Console_App.thy ===== *)
theory Console_App
  imports Console_Ui
begin

text \<open>
  The shell of the console: the signed-in user, the session check, the selected project and view
  (\<open>src/console/src/components/console/console-app.tsx\<close>), the sign-in screen
  (\<open>layout/auth-screen.tsx\<close>), the header and the navigation (\<open>layout/console-header.tsx\<close>,
  \<open>layout/console-nav.tsx\<close>) and the choice of the page (\<open>layout/view-content.tsx\<close>).

  The effect on a failed session check runs right after the check. The query cache keeps the data of
  a query whose repetition fails, as TanStack Query documents.
\<close>

subsection \<open>State\<close>

datatype app_mutation = Authenticate

record 'w shell = "('w, app_mutation) page" +
  ca_user :: json
  ca_bootstrapping :: bool
  ca_view :: view
  ca_selectedAppId :: jsstr
  ca_path :: jsstr
  ca_locale :: locale_state
  as_email :: jsstr
  as_password :: jsstr
  as_rememberMe :: bool
  as_initialized :: bool

definition me_query :: "jsstr list" where
  "me_query = [js ''admin'', js ''me'']"

definition apps_list_query :: "jsstr list" where
  "apps_list_query = [js ''apps'']"

definition initial_view :: "'w console \<Rightarrow> jsstr \<Rightarrow> view" where
  "initial_view c pathname = (if \<not> has_window c then Overview else viewFromPath pathname)"

text \<open>\<open>queryClient.invalidateQueries()\<close> marks every query, \<open>queryClient.clear()\<close> empties the cache.\<close>

definition invalidate_all :: "('w, 'm, 'z) page_scheme \<Rightarrow> ('w, 'm, 'z) page_scheme" where
  "invalidate_all s = s\<lparr>pg_stale := pg_stale s @ [[]]\<rparr>"

definition clear_cache :: "('w, 'm, 'z) page_scheme \<Rightarrow> ('w, 'm, 'z) page_scheme" where
  "clear_cache s = s\<lparr>pg_queries := (\<lambda>_. \<lparr>q_data = None, q_error = None\<rparr>), pg_stale := []\<rparr>"

subsection \<open>The session check\<close>

definition load_me :: "'w ui_env \<Rightarrow> 'w shell \<Rightarrow> 'w shell" where
  "load_me env s = load_query 0 me_query (fetch_member env (js ''/api/admin/auth/me'') ''user'') s"

text \<open>\<open>refreshAdminSession().then(...).catch(...)\<close>: what follows a granted and a refused refresh.\<close>

definition session_user :: "json \<Rightarrow> ('w shell, unit) ui_prog" where
  "session_user session = bnd (lift_res (get_prop ''user'' session)) (\<lambda>user.
     modify (\<lambda>s. invalidate_all (s\<lparr>ca_user := (case user of Some u \<Rightarrow> u | None \<Rightarrow> JNull)\<rparr>)))"

definition session_recovered :: "json \<Rightarrow> ('w shell, unit) ui_prog" where
  "session_recovered session = bnd (in_console (storeSession session None)) (\<lambda>_. session_user session)"

definition recovery_failed :: "('w shell, unit) ui_prog" where
  "recovery_failed = bnd (in_console clearSession) (\<lambda>_. modify (\<lambda>s. s\<lparr>ca_user := JNull\<rparr>))"

definition recover_session :: "'w ui_env \<Rightarrow> ('w shell, unit) ui_prog" where
  "recover_session env = try_catch
     (bnd (in_console (refreshAdminSession (env_fetch env))) session_recovered) (\<lambda>_. recovery_failed)"

definition me_effect :: "'w ui_env \<Rightarrow> 'w shell \<Rightarrow> 'w shell" where
  "me_effect env s = (if q_error (pg_queries s me_query) \<noteq> None then snd (recover_session env s) else s)"

definition check_session :: "'w ui_env \<Rightarrow> 'w shell \<Rightarrow> 'w shell" where
  "check_session env s = (if truthy (ca_user s) then me_effect env (load_me env s) else s)"

text \<open>\<open>meQuery.data ?? user\<close>\<close>

definition activeUser :: "'w shell \<Rightarrow> json" where
  "activeUser s = (case coalesce (query_data me_query s) (Some (ca_user s)) of Some u \<Rightarrow> u | None \<Rightarrow> JNull)"

subsection \<open>Projects and views\<close>

definition app_list :: "'w shell \<Rightarrow> exn + json list" where
  "app_list s = rows_of (query_data apps_list_query s)"

definition selectedApp :: "json list \<Rightarrow> jsstr \<Rightarrow> json option" where
  "selectedApp apps i = (case find (\<lambda>app. fld ''id'' app = Some (JStr i)) apps of
     Some app \<Rightarrow> Some app | None \<Rightarrow> (case apps of app # _ \<Rightarrow> Some app | [] \<Rightarrow> None))"

text \<open>What \<open>ViewContent\<close> shows: a placeholder, the empty state, or the page of a view for a project.\<close>

datatype content = LoadingContent | NoProject | AppsPage "json list" | OpsPage | AppPage view json | OverviewPage "json list" json

definition ViewContent :: "view \<Rightarrow> json list \<Rightarrow> bool \<Rightarrow> json option \<Rightarrow> content" where
  "ViewContent view apps appsLoading selected =
     (if appsLoading then LoadingContent
      else case selected of
        None \<Rightarrow> if view = Apps then AppsPage apps else NoProject
      | Some app \<Rightarrow> (case view of Apps \<Rightarrow> AppsPage apps | Ops \<Rightarrow> OpsPage | Overview \<Rightarrow> OverviewPage apps app | v \<Rightarrow> AppPage v app))"

datatype screen = SignIn | Shell content

definition screen_of :: "'w shell \<Rightarrow> exn + screen" where
  "screen_of s =
     (if \<not> truthy (activeUser s) then Inr SignIn
      else bind_res (app_list s) (\<lambda>apps.
        Inr (Shell (ViewContent (ca_view s) apps (isLoading (truthy (ca_user s)) apps_list_query s)
          (selectedApp apps (ca_selectedAppId s))))))"

subsection \<open>Handlers of the shell\<close>

definition navigate :: "view \<Rightarrow> 'w shell \<Rightarrow> 'w shell" where
  "navigate v s = s\<lparr>ca_view := v, ca_path := pathForView v\<rparr>"

definition change_locale :: "ConsoleLocale \<Rightarrow> 'w shell \<Rightarrow> 'w shell" where
  "change_locale l s = (case setLocale l (ca_locale s, pg_console s) of (p, c) \<Rightarrow> s\<lparr>ca_locale := p, pg_console := c\<rparr>)"

text \<open>\<open>onLogout\<close>: an error of the logout call is ignored.\<close>

definition signed_out :: "('w shell, unit) ui_prog" where
  "signed_out = bnd (in_console clearSession) (\<lambda>_. modify (\<lambda>s. clear_cache (s\<lparr>ca_user := JNull\<rparr>)))"

definition on_logout :: "'w ui_env \<Rightarrow> ('w shell, unit) ui_prog" where
  "on_logout env = bnd (try_catch (in_console (logoutAdmin (env_fetch env))) (\<lambda>_. ret ())) (\<lambda>_. signed_out)"

subsection \<open>The sign-in screen\<close>

text \<open>The effect on mounting shows the screen in English.\<close>

definition auth_mount :: "'w shell \<Rightarrow> 'w shell" where
  "auth_mount s = (if as_initialized s then s
     else let s = s\<lparr>as_initialized := True\<rparr> in if current_locale (ca_locale s) \<noteq> En then change_locale En s else s)"

definition auth_mutation :: "'w ui_env \<Rightarrow> ('w shell, json) ui_prog" where
  "auth_mutation env = bnd (gets (\<lambda>s. s)) (\<lambda>s.
     in_console (if ca_bootstrapping s then bootstrapAdmin (env_fetch env) (as_email s) (as_password s)
       else loginAdmin (env_fetch env) (as_email s) (as_password s)))"

definition auth_success :: "'w ui_env \<Rightarrow> json \<Rightarrow> ('w shell, unit) ui_prog" where
  "auth_success env session =
     bnd (gets (\<lambda>s. (ca_bootstrapping s, as_rememberMe s))) (\<lambda>(bootstrapping, rememberMe).
     bnd (toast_success (env_tr env ''auth'' (if bootstrapping then ''adminCreated'' else ''signedIn'') [])) (\<lambda>_.
     bnd (in_console (storeSession session (Some rememberMe))) (\<lambda>_. session_user session)))"

definition exn_status :: "exn \<Rightarrow> nat option" where
  "exn_status e = (case e of ApiError t st p \<Rightarrow> Some st | _ \<Rightarrow> None)"

definition auth_error :: "'w ui_env \<Rightarrow> exn \<Rightarrow> ('w shell, unit) ui_prog" where
  "auth_error env e =
     bnd (gets ca_bootstrapping) (\<lambda>bootstrapping.
     if \<not> bootstrapping \<and> exn_status e = Some 401 then toast_error (env_tr env ''auth'' ''invalidCredentials'' [])
     else if bootstrapping \<and> exn_status e = Some 409 then
       bnd (toast_error (env_tr env ''auth'' ''adminExists'' [])) (\<lambda>_. modify (\<lambda>s. s\<lparr>ca_bootstrapping := False\<rparr>))
     else toast_error (error_message env e))"

datatype shell_event =
    SetAuthEmail jsstr | SetAuthPassword jsstr | ToggleRemember | SubmitAuth | ToggleMode | ChooseLocale jsstr
  | ChooseApp jsstr | ChooseView view | ClickLogout

fun shell_handle :: "'w ui_env \<Rightarrow> shell_event \<Rightarrow> 'w shell \<Rightarrow> 'w shell" where
  "shell_handle env (SetAuthEmail v) s = s\<lparr>as_email := v\<rparr>"
| "shell_handle env (SetAuthPassword v) s = s\<lparr>as_password := v\<rparr>"
| "shell_handle env ToggleRemember s = s\<lparr>as_rememberMe := \<not> as_rememberMe s\<rparr>"
| "shell_handle env SubmitAuth s = mutate Authenticate (auth_mutation env) s"
| "shell_handle env ToggleMode s = s\<lparr>ca_bootstrapping := \<not> ca_bootstrapping s\<rparr>"
| "shell_handle env (ChooseLocale v) s = change_locale (parseLocale v) s"
| "shell_handle env (ChooseApp v) s = s\<lparr>ca_selectedAppId := v\<rparr>"
| "shell_handle env (ChooseView v) s = navigate v s"
| "shell_handle env ClickLogout s = snd (on_logout env s)"

subsection \<open>Rendering\<close>

definition LocaleSelect :: "'w ui_env \<Rightarrow> 'w shell \<Rightarrow> shell_event ui" where
  "LocaleSelect env s = Select (locale_name (current_locale (ca_locale s)))
     [(js ''en'', env_tr env ''common'' ''english'' []), (js ''ko'', env_tr env ''common'' ''korean'' [])] ChooseLocale"

definition ConsoleNav :: "'w ui_env \<Rightarrow> shell_event ui" where
  "ConsoleNav env = Box (map (\<lambda>(v, label). Button (env_tr env ''nav'' label []) False (ChooseView v)) navItems)"

definition ConsoleHeader :: "'w ui_env \<Rightarrow> json list \<Rightarrow> 'w shell \<Rightarrow> exn + shell_event ui" where
  "ConsoleHeader env apps s =
     bind_res (map_res (\<lambda>app. bind_res (displayProjectName app) (\<lambda>n. Inr (app_id app, n))) apps) (\<lambda>items.
     Inr (Box [ConsoleNav env,
       Select (case selectedApp apps (ca_selectedAppId s) of None \<Rightarrow> [] | Some app \<Rightarrow> string_or (fld ''id'' app) []) items ChooseApp,
       LocaleSelect env s, Child (fld ''email'' (activeUser s)),
       Txt (env_tr env ''common'' ''platformRole'' [(''role'', item_string (fld ''admin_role'' (activeUser s)))]),
       Button (env_tr env ''common'' ''signOut'' []) False ClickLogout]))"

definition AuthScreen :: "'w ui_env \<Rightarrow> 'w shell \<Rightarrow> shell_event ui" where
  "AuthScreen env s =
     (let t = (\<lambda>k. env_tr env ''auth'' k []); b = ca_bootstrapping s; pending = isPending Authenticate s in
      Box ([LocaleSelect env s]
        @ map (\<lambda>k. Txt (t k)) [''badge'', ''headline'', ''description'', ''signalIsolation'', ''signalData'', ''signalOps'',
            ''featureAuth'', ''featureAuthDescription'', ''featureData'', ''featureDataDescription'',
            ''featureStorage'', ''featureStorageDescription'', ''featureFunctions'', ''featureFunctionsDescription'',
            ''featurePush'', ''featurePushDescription'', ''featureOps'', ''featureOpsDescription'']
        @ [Txt (if b then t ''createFirstAdmin'' else t ''adminSignIn''), Txt (if b then t ''freshInstallHelp'' else t ''signInHelp''),
           Input (as_email s) False SetAuthEmail, Input (as_password s) False SetAuthPassword]
        @ (if \<not> b then [Txt (t ''rememberMe''), Txt (t ''rememberMeHelp''), Button [] False ToggleRemember] else [])
        @ [Button (if pending then t ''working'' else if b then t ''createAdmin'' else t ''signIn'') pending SubmitAuth,
           Button (if b then t ''alreadyHaveAdmin'' else t ''setUpFresh'') False ToggleMode]))"

text \<open>The shell around the pages; the page of the view itself is rendered by its own component.\<close>

definition ConsoleApp :: "'w ui_env \<Rightarrow> 'w shell \<Rightarrow> exn + shell_event ui" where
  "ConsoleApp env s =
     (if \<not> truthy (activeUser s) then Inr (AuthScreen env s)
      else bind_res (app_list s) (\<lambda>apps. bind_res (ConsoleHeader env apps s) (\<lambda>header.
        Inr (Box [ConsoleNav env, header]))))"

subsection \<open>The contract\<close>

fun shell_starts :: "shell_event \<Rightarrow> app_mutation option" where
  "shell_starts SubmitAuth = Some Authenticate"
| "shell_starts e = None"

definition shell_queries :: "'w ui_env \<Rightarrow> 'w shell \<Rightarrow> (jsstr list \<times> nat \<times> ('w shell, json option) ui_prog) list" where
  "shell_queries env s = (if truthy (ca_user s)
     then [(apps_list_query, default_retry, fetch_member env (js ''/api/apps'') ''apps'')] else [])"

lemma shell_guarded:
  assumes "ConsoleApp env s = Inr u" "SubmitAuth \<in> offers u"
  shows "\<not> isPending Authenticate s"
proof (cases "truthy (activeUser s)")
  case False
  then show ?thesis using assms by (auto simp: ConsoleApp_def AuthScreen_def Let_def LocaleSelect_def split: if_splits)
next
  case True
  then show ?thesis using assms
    by (auto simp: ConsoleApp_def ConsoleHeader_def ConsoleNav_def LocaleSelect_def bind_res_eq_Inr split: if_splits)
qed

lemma shell_pending [simp]: "pg_pending (change_locale l s) = pg_pending s" "pg_pending (navigate v s) = pg_pending s"
  by (simp_all add: change_locale_def navigate_def split: prod.split)

lemma shell_keeps:
  "keeps_pending (auth_mutation env)" "keeps_pending (on_logout env)" "keeps_pending (auth_success env v)" "keeps_pending (auth_error env e)"
  by (auto simp: auth_mutation_def on_logout_def signed_out_def auth_success_def session_user_def auth_error_def invalidate_all_def clear_cache_def
      intro!: pending_simps split: prod.split)

interpretation shell: console_view "ConsoleApp env" "shell_handle env" shell_starts
  "\<lambda>_. auth_success env" "\<lambda>_. auth_error env" "shell_queries env" "\<lambda>_. True" for env
proof unfold_locales
  show "\<not> isPending m s" if "ConsoleApp env s = Inr u" "e \<in> offers u" "shell_starts e = Some m" for s u e m
    using shell_guarded [OF that(1)] that(2,3) by (cases e) auto
  show "map fst (pg_pending (shell_handle env e s)) =
      map fst (pg_pending s) @ (case shell_starts e of None \<Rightarrow> [] | Some m \<Rightarrow> [m])" for e s
    by (cases e) (auto simp: pending_mutate shell_keeps keeps_pendingD)
qed (auto simp: shell_keeps shell_queries_def pending_simps split: if_splits)

subsection \<open>Properties\<close>

lemma empty_store_removeItems: "empty_store (removeItems st)"
  by (simp add: empty_store_def removeItems_def)

lemma in_console_bnd: "bnd (in_console m) k s = (case m (pg_console s) of
    (Inl e, c) \<Rightarrow> (Inl e, s\<lparr>pg_console := c\<rparr>) | (Inr x, c) \<Rightarrow> k x (s\<lparr>pg_console := c\<rparr>))"
  by (cases "m (pg_console s)") (auto simp: in_console_def bnd_def split: sum.split)

text \<open>
  C27: Signing out always works: whatever the server answers to the logout call, and also when it cannot be
  reached, afterwards no token and no user is left in either storage, the query cache is empty, and
  the sign-in screen is shown.
\<close>

theorem logout_complete:
  "\<exists>s'. on_logout env s = (Inr (), s') \<and> empty_store (sessionStorage (pg_console s')) \<and> empty_store (localStorage (pg_console s'))
     \<and> (\<forall>k. query_data k s' = None) \<and> screen_of s' = Inr SignIn"
proof -
  obtain r c where "logoutAdmin (env_fetch env) (pg_console s) = (r, c)" by (cases "logoutAdmin (env_fetch env) (pg_console s)")
  then show ?thesis
    by (cases r) (auto simp: on_logout_def signed_out_def prog_simps in_console_def clearSession_def clear_cache_def query_data_def
        screen_of_def activeUser_def coalesce_def nullish_def truthy_def empty_store_removeItems)
qed

text \<open>
  C38: An expired session does not lead back to the sign-in screen: when the session check had succeeded
  before, and now it fails and so does the refresh, the stored session and the user are cleared, but
  the answer of the earlier check is still in the query cache and takes precedence over the cleared
  user, so the shell is shown as if the user were signed in.
\<close>

theorem expired_session_keeps_shell:
  assumes "truthy (ca_user s)" "query_data me_query s = Some u" "truthy u"
    and "apiFetch (env_fetch env) (js ''/api/admin/auth/me'') get_init (pg_console s) = (Inl e, c)"
    and "refreshAdminSession (env_fetch env) c = (Inl e', c')"
  shows "ca_user (check_session env s) = JNull
    \<and> empty_store (sessionStorage (pg_console (check_session env s)))
    \<and> empty_store (localStorage (pg_console (check_session env s)))
    \<and> activeUser (check_session env s) = u \<and> screen_of (check_session env s) \<noteq> Inr SignIn"
proof -
  have "attempts 0 (fetch_member env (js ''/api/admin/auth/me'') ''user'') s = (Inl e, s\<lparr>pg_console := c\<rparr>)"
    using assms(4) by (simp add: attempts.simps fetch_member_def in_console_def prog_simps)
  then have load: "load_me env s = (s\<lparr>pg_console := c\<rparr>)\<lparr>pg_queries := (pg_queries s)(me_query := (pg_queries s me_query)\<lparr>q_error := Some e\<rparr>)\<rparr>"
    by (simp add: load_me_def load_query_def)
  have u: "u \<noteq> JNull" using assms(3) by (auto simp: truthy_def)
  have "check_session env s = snd (recover_session env (load_me env s))"
    using assms(1) by (simp add: check_session_def me_effect_def load)
  also have "\<dots> = (load_me env s)\<lparr>pg_console := c'\<lparr>sessionStorage := removeItems (sessionStorage c'),
      localStorage := removeItems (localStorage c')\<rparr>, ca_user := JNull\<rparr>"
    using assms(5) by (simp add: recover_session_def recovery_failed_def load prog_simps in_console_def clearSession_def)
  finally have eq: "check_session env s = \<dots>" .
  have active: "activeUser (check_session env s) = u"
    using assms(2) u unfolding eq load by (simp add: activeUser_def query_data_def coalesce_def nullish_def)
  have "screen_of (check_session env s) \<noteq> Inr SignIn"
    using active assms(3) by (auto simp: screen_of_def bind_res_eq_Inr)
  then show ?thesis using active unfolding eq by (simp add: empty_store_removeItems)
qed

text \<open>A server that refuses everything, for the example.\<close>

definition refuses :: "'w fetch \<Rightarrow> json \<Rightarrow> bool" where
  "refuses f v \<longleftrightarrow> (\<forall>r w. \<exists>w'. f r w = (Inr (con_answer 401 v), w'))"

lemma refused_fetch:
  assumes "refuses f v"
  shows "(\<exists>e s'. fetchWithAuth f p i s = (Inl e, s')) \<or> (\<exists>s'. fetchWithAuth f p i s = (Inr (con_answer 401 v), s'))"
proof (cases "auth_init_headers s i")
  case (Inr hs)
  obtain w' where "f \<lparr>req_url = API_BASE s @ p, req_method = js (fi_method i), req_headers = hs,
       req_body = fi_body i, req_timeout = None\<rparr> (con_world s) = (Inr (con_answer 401 v), w')" using assms unfolding refuses_def by blast
  then show ?thesis using Inr by (simp add: fetchWithAuth_def con_fetch_def prog_simps)
qed (simp add: fetchWithAuth_def prog_simps)

lemma refused_answer: "\<not> resp_ok (con_answer 401 v)" "resp_status (con_answer 401 v) = 401"
  "\<exists>e. throw_api_error (con_answer 401 v) s = (Inl e, s)"
  by (auto simp: con_answer_def resp_ok_def throw_api_error_def apiErrorFromResponse_def prog_simps Let_def)

lemma refused_body:
  assumes "refuses f v" "\<And>s. \<exists>s'. refresh s = (Inr False, s')"
  shows "\<exists>e s'. apiFetch_body f refresh p i s = (Inl e, s')"
proof -
  from refused_fetch [OF assms(1), where p = p and i = i and s = s]
  consider e s' where "fetchWithAuth f p i s = (Inl e, s')" | s' where "fetchWithAuth f p i s = (Inr (con_answer 401 v), s')"
    by blast
  then show ?thesis
  proof cases
    case 1
    then show ?thesis by (simp add: apiFetch_body_def bnd_def)
  next
    case (2 s')
    note s' = this
    obtain s'' where "refresh s' = (Inr False, s'')" using assms(2) by blast
    then show ?thesis using s' refused_answer(1,2) [of v] refused_answer(3) [of v s'] refused_answer(3) [of v s'']
      by (auto simp: apiFetch_body_def bnd_def)
  qed
qed

lemma refused_refresh:
  assumes "refuses f v"
  shows "\<exists>s'. refreshStoredSession f s = (Inr False, s')"
proof (cases "readRefreshToken s")
  case (Some t)
  have "\<exists>e s'. apiFetch_body f (ret False) (js ''/api/admin/auth/refresh'') (post_noauth (object [(''refresh_token'', Some (JStr t))])) s = (Inl e, s')"
    by (rule refused_body [OF assms]) (simp add: ret_def)
  then show ?thesis using Some by (auto simp: refreshStoredSession_def prog_simps)
qed (simp add: refreshStoredSession_def prog_simps)

lemma refused_apiFetch:
  assumes "refuses f v"
  shows "\<exists>e s'. apiFetch f p i s = (Inl e, s')"
proof -
  have "\<exists>s'. refreshStoredSession f s = (Inr False, s')" for s by (rule refused_refresh [OF assms])
  then show ?thesis unfolding apiFetch_def by (rule refused_body [OF assms])
qed

definition refusing_env :: "nat ui_env" where
  "refusing_env = sample_env\<lparr>env_fetch := (\<lambda>r w. (Inr (con_answer 401 JNull), Suc w))\<rparr>"

definition signed_in :: "nat shell" where
  "signed_in = page.extend (sample_page me_query sample_user)
     (shell.fields sample_user False Overview [] [47] \<lparr>current_locale = En, document_lang = js ''en''\<rparr> [] [] True True)"

theorem expired_session_keeps_shell_witness:
  "activeUser (check_session refusing_env signed_in) = sample_user \<and> ca_user (check_session refusing_env signed_in) = JNull"
proof -
  let ?f = "\<lambda>r w. (Inr (con_answer 401 JNull), Suc w) :: (exn + response) \<times> nat"
  have f: "env_fetch refusing_env = ?f" by (simp add: refusing_env_def)
  have refuse: "refuses ?f JNull" by (simp add: refuses_def)
  obtain e c where 1: "apiFetch (env_fetch refusing_env) (js ''/api/admin/auth/me'') get_init (pg_console signed_in) = (Inl e, c)"
    unfolding f using refused_apiFetch [OF refuse] by blast
  have "\<exists>e c'. refreshAdminSession ?f c = (Inl e, c')"
    using refused_apiFetch [OF refuse] by (auto simp: refreshAdminSession_def prog_simps)
  then obtain e' c' where 2: "refreshAdminSession (env_fetch refusing_env) c = (Inl e', c')" unfolding f by blast
  have "truthy sample_user" by (simp add: truthy_def sample_user_def)
  moreover have "query_data me_query signed_in = Some sample_user" "ca_user signed_in = sample_user"
    by (simp_all add: signed_in_def sample_page_def query_data_def page.defs shell.defs)
  ultimately show ?thesis using expired_session_keeps_shell [OF _ _ _ 1 2, of sample_user] by simp
qed

subsection \<open>error-boundary.tsx, app/page.tsx\<close>

text \<open>
  A render that throws puts the error into the state of the boundary around the console, which then shows
  a message with a reload button instead. Only a thrown value that is falsy (here \<open>undefined\<close>) does not
  count as an error; then nothing can be shown. The texts are fixed Korean sentences.
\<close>

datatype 'e boundary_event = Reload | Inner 'e

definition fallback_title :: jsstr where
  "fallback_title = [0xCF58, 0xC194, 0xC744, 0x0020, 0xBD88, 0xB7EC, 0xC624, 0xC9C0, 0x0020, 0xBABB, 0xD588, 0xC2B5, 0xB2C8, 0xB2E4]"

definition fallback_message :: jsstr where
  "fallback_message = [0xC608, 0xAE30, 0xCE58, 0x0020, 0xC54A, 0xC740, 0x0020, 0xC624, 0xB958, 0xAC00, 0x0020, 0xBC1C, 0xC0DD, 0xD588, 0xC2B5, 0xB2C8, 0xB2E4, 0x002E]"

definition fallback_reload :: jsstr where
  "fallback_reload = [0xC0C8, 0xB85C, 0xACE0, 0xCE68]"

definition getDerivedStateFromError :: "exn \<Rightarrow> exn option" where
  "getDerivedStateFromError e = (if e = ThrownUndefined then None else Some e)"

definition ConsoleErrorBoundary :: "'w ui_env \<Rightarrow> exn option \<Rightarrow> exn + 'e ui \<Rightarrow> exn + 'e boundary_event ui" where
  "ConsoleErrorBoundary env error children =
     (case error of
        Some e \<Rightarrow> Inr (Box [Txt fallback_title,
          Txt (if error_message env e \<noteq> [] then error_message env e else fallback_message), Button fallback_reload False Reload])
      | None \<Rightarrow> bind_res children (\<lambda>u. Inr (map_ui Inner u)))"

definition Home :: "'w ui_env \<Rightarrow> 'w shell \<Rightarrow> exn + shell_event boundary_event ui" where
  "Home env s = (case ConsoleErrorBoundary env None (ConsoleApp env s) of
     Inr u \<Rightarrow> Inr u
   | Inl e \<Rightarrow> ConsoleErrorBoundary env (getDerivedStateFromError e) (ConsoleApp env s))"

text \<open>
  Whatever error the rendering of the console throws, a page with a non-empty message appears whose only
  control reloads it.
\<close>

lemma boundary_shows_message:
  assumes "ConsoleApp env s = Inl e" "e \<noteq> ThrownUndefined"
  shows "\<exists>u. Home env s = Inr u \<and> offers u = {Reload} \<and> list_all (\<lambda>t. t \<noteq> []) (texts u)"
  using assms by (simp add: Home_def ConsoleErrorBoundary_def getDerivedStateFromError_def fallback_title_def
      fallback_message_def fallback_reload_def)

end
