(* ===== verification/Shell_Concurrent.thy ===== *)
theory Shell_Concurrent
  imports Console_Concurrent Console_App
begin

text \<open>
  Everything of the console that touches the stored session, running at the same time: the calls of the pages
  (\<open>src/console/src/lib/api/client.ts\<close>), signing out and the recovery of a session (\<open>components/console/console-app.tsx\<close>)
  and signing in (\<open>layout/auth-screen.tsx\<close>). Each is a job that gives up control at its awaits, as in
  \<open>Console_Concurrent\<close>; the jobs share the shell with its storages, user and query cache.

  The lemmas show that a job that is alone does what the sequential code says, that all runs end, that the stored
  tokens always belong together, and when signing out is final: a refresh that is still on its way brings the
  session back.
\<close>

subsection \<open>Jobs\<close>

datatype job = ApiCall jsstr fetch_init | SignOut | Recover | SubmitSignIn

text \<open>
  \<open>Calling\<close> is a point of \<open>apiFetch\<close> with its arguments. The other jobs make one request without a token: \<open>Answered\<close> is the point where
  the promise of that request is settled and its continuation runs next.
\<close>

datatype job_point = Calling jsstr fetch_init point | Starting | Awaiting wire | Answered "exn + json" | Ended

definition logout_path :: jsstr where
  "logout_path = js ''/api/admin/auth/logout''"

definition sign_in_path :: "bool \<Rightarrow> jsstr" where
  "sign_in_path bootstrapping = (if bootstrapping then js ''/api/bootstrap/admin'' else js ''/api/admin/auth/login'')"

text \<open>
  The code up to the request: \<open>logoutAdmin\<close> returns and \<open>refreshAdminSession\<close> throws without a refresh token
  (\<open>Inl\<close>), otherwise the path and the request (\<open>Inr\<close>).
\<close>

definition with_refresh_token :: "exn + json \<Rightarrow> jsstr \<Rightarrow> 'w console \<Rightarrow> (exn + json) + (jsstr \<times> fetch_init)" where
  "with_refresh_token otherwise path c = (case readRefreshToken c of
     None \<Rightarrow> Inl otherwise | Some t \<Rightarrow> if t = [] then Inl otherwise else Inr (path, refresh_init t))"

fun job_request :: "job \<Rightarrow> 'w shell \<Rightarrow> (exn + json) + (jsstr \<times> fetch_init)" where
  "job_request SignOut s = with_refresh_token (Inr JNull) logout_path (pg_console s)"
| "job_request Recover s = with_refresh_token (Inl (JsError (js ''No refresh token''))) refresh_path (pg_console s)"
| "job_request SubmitSignIn s =
     Inr (sign_in_path (ca_bootstrapping s), post_noauth (credentials (as_email s) (as_password s)))"
| "job_request (ApiCall path init) s = Inr (path, init)"

definition job_fire :: "exn + request \<Rightarrow> 'w shell \<Rightarrow> job_point \<times> 'w shell" where
  "job_fire r s = (case r of Inl e \<Rightarrow> (Answered (Inl e), s)
     | Inr r \<Rightarrow> (Awaiting (InFlight r), s\<lparr>pg_console := (pg_console s)\<lparr>con_sent := con_sent (pg_console s) @ [r]\<rparr>\<rparr>))"

definition call_step :: "'w ui_env \<Rightarrow> jsstr \<Rightarrow> fetch_init \<Rightarrow> point \<Rightarrow> 'w shell \<Rightarrow> job_point \<times> 'w shell" where
  "call_step env path init p s = (case task_step (env_fetch env) (path, init) p (pg_console s) of
     (p', c) \<Rightarrow> (Calling path init p', s\<lparr>pg_console := c\<rparr>))"

fun job_start :: "'w ui_env \<Rightarrow> job \<Rightarrow> 'w shell \<Rightarrow> job_point \<times> 'w shell" where
  "job_start env (ApiCall path init) s = call_step env path init Ready s"
| "job_start env j s = (case job_request j s of Inl r \<Rightarrow> (Answered r, s)
     | Inr (path, init) \<Rightarrow> job_fire (build_request (pg_console s) path init) s)"

text \<open>
  The continuations. After a throw in the \<open>then\<close> part the handler of the error runs in a turn of its own.
\<close>

fun job_then :: "'w ui_env \<Rightarrow> job \<Rightarrow> json \<Rightarrow> ('w shell, unit) ui_prog" where
  "job_then env SignOut _ = signed_out"
| "job_then env Recover session = session_recovered session"
| "job_then env SubmitSignIn session = auth_success env session"
| "job_then env (ApiCall path init) _ = ret ()"

fun job_catch :: "'w ui_env \<Rightarrow> job \<Rightarrow> exn \<Rightarrow> ('w shell, unit) ui_prog" where
  "job_catch env SignOut e = signed_out"
| "job_catch env Recover e = recovery_failed"
| "job_catch env SubmitSignIn e = auth_error env e"
| "job_catch env (ApiCall path init) e = ret ()"

fun job_step :: "'w ui_env \<Rightarrow> job \<Rightarrow> job_point \<Rightarrow> 'w shell \<Rightarrow> job_point \<times> 'w shell" where
  "job_step env j (Calling path init p) s = call_step env path init p s"
| "job_step env j Starting s = job_start env j s"
| "job_step env j (Awaiting (InFlight r)) s = (case env_fetch env r (con_world (pg_console s)) of
     (x, w) \<Rightarrow> (Awaiting (Arrived x), s\<lparr>pg_console := (pg_console s)\<lparr>con_world := w\<rparr>\<rparr>))"
| "job_step env j (Awaiting (Arrived x)) s = (Answered (bind_res x answer_value), s)"
| "job_step env j (Answered (Inr v)) s = (case job_then env j v s of
     (Inl e, s') \<Rightarrow> (Answered (Inl e), s') | (Inr u, s') \<Rightarrow> (Ended, s'))"
| "job_step env j (Answered (Inl e)) s = (Ended, snd (job_catch env j e s))"
| "job_step env j Ended s = (Ended, s)"

fun job_ended :: "job_point \<Rightarrow> bool" where
  "job_ended (Calling path init p) = is_finished p"
| "job_ended Ended = True"
| "job_ended _ = False"

fun job_rank :: "job_point \<Rightarrow> nat" where
  "job_rank (Calling path init p) = turns_left p"
| "job_rank Starting = 9"
| "job_rank (Awaiting (InFlight r)) = 4"
| "job_rank (Awaiting (Arrived x)) = 3"
| "job_rank (Answered (Inr v)) = 2"
| "job_rank (Answered (Inl e)) = 1"
| "job_rank Ended = 0"

lemma call_step_rank:
  assumes "\<not> is_finished p" "call_step env path init p s = (l, s')"
  shows "job_rank l < turns_left p"
  using assms task_step_turns [of p "env_fetch env" "(path, init)" "pg_console s"]
  by (fastforce simp: call_step_def split: prod.splits)

lemma job_fire_rank: "job_fire r s = (l, s') \<Longrightarrow> job_rank l < 9"
  by (auto simp: job_fire_def split: sum.splits)

lemma answered_rank [simp]: "job_rank (Answered r) < 3" "job_rank (Answered r) < 9"
  by (cases r; simp)+

lemma job_start_rank: "job_start env j s = (l, s') \<Longrightarrow> job_rank l < 9"
  using call_step_rank [of Ready] job_fire_rank
  by (cases j) (fastforce split: sum.splits prod.splits)+

lemma job_step_rank:
  assumes "\<not> job_ended l" "job_step env j l s = (l', s')"
  shows "job_rank l' < job_rank l"
  using assms
proof (induction env j l s rule: job_step.induct)
  case (2 env j s)
  then show ?case using job_start_rank [of env j s l' s'] by simp
qed (auto dest: call_step_rank split: prod.splits sum.splits)

lemma job_step_ended: "job_ended l \<Longrightarrow> job_step env j l s = (l, s)"
  by (cases l) (simp_all add: call_step_def task_step_finished)

interpretation jobs: interleaving "job_step env" job_ended job_rank for env
  by unfold_locales (rule job_step_rank job_step_ended; assumption)+

subsection \<open>A job that is alone\<close>

text \<open>What the sequential code does: the end of the job and the shell it leaves.\<close>

definition sign_in :: "'w ui_env \<Rightarrow> ('w shell, unit) ui_prog" where
  "sign_in env s = (case auth_mutation env s of
     (Inl e, s') \<Rightarrow> auth_error env e s'
   | (Inr v, s') \<Rightarrow> try_catch (auth_success env v) (auth_error env) s')"

fun sequential :: "'w ui_env \<Rightarrow> job \<Rightarrow> 'w shell \<Rightarrow> job_point \<times> 'w shell" where
  "sequential env (ApiCall path init) s = (case apiFetch (env_fetch env) path init (pg_console s) of
     (r, c) \<Rightarrow> (Calling path init (Finished r), s\<lparr>pg_console := c\<rparr>))"
| "sequential env SignOut s = (Ended, snd (on_logout env s))"
| "sequential env Recover s = (Ended, snd (recover_session env s))"
| "sequential env SubmitSignIn s = (Ended, snd (sign_in env s))"

abbreviation lone :: "'w ui_env \<Rightarrow> job \<Rightarrow> job_point \<times> 'w shell \<Rightarrow> job_point \<times> 'w shell" where
  "lone env \<equiv> jobs.solo env"

lemma lone_next: "(lone env j ^^ Suc n) (l, s) = (lone env j ^^ n) (job_step env j l s)"
  by (simp add: jobs.solo_def funpow_swap1)

lemma lone_ended: "(lone env j ^^ n) (Ended, s) = (Ended, s)"
  by (rule jobs.solo_final) simp

lemma lone_calling:
  "(lone env j ^^ n) (Calling path init p, s) =
     (case (alone (env_fetch env) (path, init) ^^ n) (p, pg_console s) of (p', c) \<Rightarrow> (Calling path init p', s\<lparr>pg_console := c\<rparr>))"
proof (induction n arbitrary: p s)
  case (Suc n)
  have "(lone env j ^^ Suc n) (Calling path init p, s) = (lone env j ^^ n) (call_step env path init p s)"
    by (simp only: lone_next job_step.simps)
  then show ?case
    by (simp add: call_step_def Suc.IH alone_next del: funpow.simps split: prod.split)
qed simp

definition job_finish :: "'w ui_env \<Rightarrow> job \<Rightarrow> exn + json \<Rightarrow> 'w shell \<Rightarrow> 'w shell" where
  "job_finish env j r s = snd (case r of Inl e \<Rightarrow> job_catch env j e s | Inr v \<Rightarrow> try_catch (job_then env j v) (job_catch env j) s)"

lemma lone_answered: "(lone env j ^^ Suc (Suc n)) (Answered r, s) = (Ended, job_finish env j r s)"
proof (cases r)
  case (Inl e)
  then show ?thesis unfolding lone_next by (simp add: lone_ended job_finish_def flip: funpow.simps)
next
  case (Inr v)
  show ?thesis
    unfolding Inr lone_next job_step.simps
    by (cases "job_then env j v s"; cases "fst (job_then env j v s)")
      (auto simp: lone_next lone_ended job_finish_def try_catch_def simp del: funpow.simps)
qed

lemma apiFetch_noauth_eq:
  "\<not> fi_auth init \<Longrightarrow> apiFetch f path init s = (case build_request s path init of Inl e \<Rightarrow> (Inl e, s)
     | Inr r \<Rightarrow> (bind_res (fst (f r (con_world s))) answer_value,
         s\<lparr>con_sent := con_sent s @ [r], con_world := snd (f r (con_world s))\<rparr>))"
  by (auto simp: apiFetch_def apiFetch_body_eq fetchWithAuth_fire prog_simps bind_res_def split: sum.split)

lemma lone_fire:
  assumes "\<not> fi_auth init" "apiFetch (env_fetch env) path init (pg_console s) = (r, c)"
  shows "(lone env j ^^ Suc (Suc (Suc (Suc n)))) (job_fire (build_request (pg_console s) path init) s)
    = (Ended, job_finish env j r (s\<lparr>pg_console := c\<rparr>))"
proof (cases "build_request (pg_console s) path init")
  case (Inl e)
  then have "s\<lparr>pg_console := c\<rparr> = s" "r = Inl e" using assms by (auto simp: apiFetch_noauth_eq)
  then show ?thesis unfolding Inl by (simp only: job_fire_def sum.case lone_answered)
next
  case (Inr q)
  obtain x w where x: "env_fetch env q (con_world (pg_console s)) = (x, w)" by (cases "env_fetch env q (con_world (pg_console s))")
  let ?s = "s\<lparr>pg_console := (pg_console s)\<lparr>con_sent := con_sent (pg_console s) @ [q], con_world := w\<rparr>\<rparr>"
  have "(lone env j ^^ Suc (Suc (Suc (Suc n)))) (job_fire (Inr q) s) = (lone env j ^^ Suc (Suc (Suc n))) (Awaiting (Arrived x), ?s)"
    unfolding job_fire_def sum.case lone_next [of "Suc (Suc (Suc n))"] by (simp add: x del: funpow.simps)
  also have "\<dots> = (lone env j ^^ Suc (Suc n)) (Answered (bind_res x answer_value), ?s)"
    unfolding lone_next [of "Suc (Suc n)"] job_step.simps ..
  also have "\<dots> = (Ended, job_finish env j (bind_res x answer_value) ?s)" by (rule lone_answered)
  finally show ?thesis using assms Inr x by (simp add: apiFetch_noauth_eq)
qed


definition request_result :: "'w ui_env \<Rightarrow> job \<Rightarrow> 'w shell \<Rightarrow> (exn + json) \<times> 'w console" where
  "request_result env j s = (case job_request j s of Inl r \<Rightarrow> (r, pg_console s)
     | Inr (path, init) \<Rightarrow> apiFetch (env_fetch env) path init (pg_console s))"

lemma request_noauth: "job_request j s = Inr (path, init) \<Longrightarrow> \<forall>p i. j \<noteq> ApiCall p i \<Longrightarrow> \<not> fi_auth init"
  by (cases j) (auto simp: with_refresh_token_def refresh_init_def post_noauth_def split: option.splits if_splits)

lemma lone_session_job:
  assumes "\<forall>p i. j \<noteq> ApiCall p i" "request_result env j s = (r, c)"
  shows "(lone env j ^^ 9) (Starting, s) = (Ended, job_finish env j r (s\<lparr>pg_console := c\<rparr>))"
proof -
  have 9: "(lone env j ^^ 9) (Starting, s) = (lone env j ^^ Suc (Suc (Suc (Suc 4)))) (job_start env j s)"
    using lone_next [of 8 env j Starting s] by (simp add: eval_nat_numeral)
  have start: "job_start env j s = (case job_request j s of Inl r \<Rightarrow> (Answered r, s)
     | Inr (path, init) \<Rightarrow> job_fire (build_request (pg_console s) path init) s)"
    using assms(1) by (cases j) auto
  show ?thesis
  proof (cases "job_request j s")
    case (Inl r')
    then have "r = r'" "s\<lparr>pg_console := c\<rparr> = s" using assms(2) by (auto simp: request_result_def)
    then show ?thesis unfolding 9 start Inl sum.case by (simp only: lone_answered)
  next
    case (Inr pi)
    obtain path init where pi: "pi = (path, init)" by (cases pi)
    have "apiFetch (env_fetch env) path init (pg_console s) = (r, c)" using assms(2) Inr pi by (simp add: request_result_def)
    from lone_fire [OF request_noauth [OF Inr [unfolded pi] assms(1)] this, where j = j and n = 4] show ?thesis
      unfolding 9 start Inr pi sum.case prod.case .
  qed
qed

lemma signed_out_eq:
  "signed_out s = (Inr (), clear_cache (s\<lparr>pg_console := snd (clearSession (pg_console s)), ca_user := JNull\<rparr>))"
  by (simp add: signed_out_def in_console_def clearSession_def prog_simps)

lemmas job_code = request_result_def job_finish_def with_refresh_token_def logout_path_def refresh_path_def refresh_init_def
  sign_in_path_def in_console_def prog_simps

lemma sequential_sign_out:
  "request_result env SignOut s = (r, c) \<Longrightarrow> snd (on_logout env s) = job_finish env SignOut r (s\<lparr>pg_console := c\<rparr>)"
  by (cases r) (auto simp: job_code on_logout_def logoutAdmin_def signed_out_eq split: option.splits if_splits prod.splits sum.splits)

lemma sequential_recover:
  "request_result env Recover s = (r, c) \<Longrightarrow> snd (recover_session env s) = job_finish env Recover r (s\<lparr>pg_console := c\<rparr>)"
  by (cases r) (auto simp: job_code recover_session_def refreshAdminSession_def split: option.splits if_splits prod.splits sum.split)

lemma sequential_sign_in:
  "request_result env SubmitSignIn s = (r, c) \<Longrightarrow> snd (sign_in env s) = job_finish env SubmitSignIn r (s\<lparr>pg_console := c\<rparr>)"
  by (cases r) (auto simp: job_code sign_in_def auth_mutation_def loginAdmin_def bootstrapAdmin_def split: if_splits prod.splits sum.split)

lemma sequential_session:
  assumes "\<forall>p i. j \<noteq> ApiCall p i" "request_result env j s = (r, c)"
  shows "sequential env j s = (Ended, job_finish env j r (s\<lparr>pg_console := c\<rparr>))"
  using assms by (cases j) (simp_all add: sequential_sign_out sequential_recover sequential_sign_in)

definition started :: "job list \<Rightarrow> (job \<times> job_point) list" where
  "started todo = map (\<lambda>j. (j, Starting)) todo"

lemma lone_job: "(lone env j ^^ 9) (Starting, s) = sequential env j s"
proof (cases "\<exists>p i. j = ApiCall p i")
  case True
  then obtain path init where j: "j = ApiCall path init" by blast
  have "(lone env j ^^ 9) (Starting, s) = (lone env j ^^ 9) (Calling path init Ready, s)"
    using lone_next [of 8 env j Starting s] lone_next [of 8 env j "Calling path init Ready" s]
    by (simp add: j eval_nat_numeral)
  then show ?thesis
    by (simp add: lone_calling alone_call finished_call_def j split: prod.split)
next
  case False
  obtain r c where "request_result env j s = (r, c)" by (cases "request_result env j s")
  then show ?thesis using False lone_session_job [of j env s r c] sequential_session [of j env s r c] by simp
qed

lemma sequential_ended: "job_ended (fst (sequential env j s))"
  by (cases j) (simp_all split: prod.split)

text \<open>
  C5: a job that is alone does what the sequential code does: \<open>apiFetch\<close>, signing out (\<open>onLogout\<close>), the recovery of a
  session (\<open>refreshAdminSession().then(...).catch(...)\<close>) and signing in each come to one end when they take their turns
  at the awaits, and it is the state that the sequential reading of the code computes.
\<close>

theorem lone_job_is_sequential:
  "(jobs.step env)\<^sup>*\<^sup>* (started [j], s) (ts, s') \<and> (\<nexists>y. jobs.step env (ts, s') y)
   \<longleftrightarrow> ts = [(j, fst (sequential env j s))] \<and> s' = snd (sequential env j s)"
  using jobs.only_ends [OF lone_job [where env = env and j = j and s = s] sequential_ended, of "(ts, s')"]
  by (simp add: jobs.only_def started_def)

subsection \<open>Every run ends\<close>

fun job_requests :: "job_point \<Rightarrow> nat" where
  "job_requests Starting = 3"
| "job_requests (Calling path init p) = requests_left p"
| "job_requests _ = 0"

abbreviation shell_sent :: "'w shell \<Rightarrow> request list" where
  "shell_sent s \<equiv> con_sent (pg_console s)"

lemma call_step_requests:
  assumes "call_step env path init p s = (l, s')"
  shows "length (shell_sent s') + job_requests l \<le> length (shell_sent s) + requests_left p"
proof -
  obtain p' c where c: "task_step (env_fetch env) (path, init) p (pg_console s) = (p', c)"
    by (cases "task_step (env_fetch env) (path, init) p (pg_console s)")
  then show ?thesis using assms task_step_requests [OF c] by (auto simp: call_step_def)
qed

lemma job_start_requests:
  assumes "job_start env j s = (l, s')"
  shows "length (shell_sent s') + job_requests l \<le> length (shell_sent s) + 3"
  using assms call_step_requests [of env _ _ Ready s l s']
  by (cases j) (fastforce simp: job_fire_def split: sum.splits prod.splits)+

lemma sent_kept:
  "con_sent (snd (clearSession c)) = con_sent c" "con_sent (snd (storeSession v remember c)) = con_sent c"
  by (simp_all add: clearSession_def storeSession_def prog_simps)

lemma in_console_snd: "pg_console (snd (in_console m s)) = snd (m (pg_console s))"
  by (simp add: in_console_def split: prod.split)

text \<open>The continuations of the session jobs change the console only by storing or clearing a session.\<close>

lemma session_user_console: "pg_console (snd (session_user v s)) = pg_console s"
  by (auto simp: session_user_def prog_simps invalidate_all_def split: sum.split)

lemma after_store:
  "pg_console (snd (bnd (in_console (storeSession v remember)) (\<lambda>_. session_user v) s)) = snd (storeSession v remember (pg_console s))"
  by (cases "storeSession v remember (pg_console s)"; cases "fst (storeSession v remember (pg_console s))")
    (auto simp: bnd_def in_console_def session_user_console)

lemma bnd_step: "bnd (\<lambda>s. (Inr (g s), h s)) k s = k (g s) (h s)"
  by (simp add: bnd_def)

lemma job_then_console:
  "\<exists>remember. pg_console (snd (job_then env j v s)) \<in>
     {pg_console s, snd (clearSession (pg_console s)), snd (storeSession v remember (pg_console s))}"
proof (cases j)
  case SignOut
  then show ?thesis by (simp add: signed_out_eq clear_cache_def)
next
  case Recover
  then show ?thesis using after_store [of v None s] by (auto simp: session_recovered_def)
next
  case SubmitSignIn
  have "pg_console (snd (auth_success env v s)) = snd (storeSession v (Some (as_rememberMe s)) (pg_console s))"
  proof -
    have "\<exists>ts. auth_success env v s = bnd (in_console (storeSession v (Some (as_rememberMe s)))) (\<lambda>_. session_user v) (s\<lparr>pg_toasts := ts\<rparr>)"
      by (simp add: auth_success_def toast_success_def gets_def modify_def bnd_step) blast
    then obtain ts where ts: "auth_success env v s = bnd (in_console (storeSession v (Some (as_rememberMe s)))) (\<lambda>_. session_user v) (s\<lparr>pg_toasts := ts\<rparr>)" ..
    show ?thesis unfolding ts after_store by simp
  qed
  then show ?thesis using SubmitSignIn by auto
qed (simp add: ret_def)

lemma job_catch_console: "pg_console (snd (job_catch env j e s)) \<in> {pg_console s, snd (clearSession (pg_console s))}"
  by (cases j) (auto simp: signed_out_eq clear_cache_def recovery_failed_def in_console_def auth_error_def toast_error_def
      prog_simps clearSession_def)

lemma job_step_requests:
  assumes "job_step env j l s = (l', s')"
  shows "length (shell_sent s') + job_requests l' \<le> length (shell_sent s) + job_requests l"
  using assms
proof (induction env j l s rule: job_step.induct)
  case (1 env j path init p s)
  then show ?case using call_step_requests by simp
next
  case (2 env j s)
  then show ?case using job_start_requests by simp
next
  case (5 env j v s)
  obtain r s1 where r: "job_then env j v s = (r, s1)" by (cases "job_then env j v s")
  then have "shell_sent s1 = shell_sent s" using job_then_console [of env j v s] by (auto simp: sent_kept)
  then show ?case using 5 r by (auto split: sum.splits)
next
  case (6 env j e s)
  then show ?case using job_catch_console [of env j e s] by (auto simp: sent_kept)
qed (auto split: prod.splits)

lemma budgets_started: "jobs.budgets b (started todo) = b Starting * length todo"
  by (induction todo) (simp_all add: jobs.budgets_def started_def)

text \<open>
  C7: whatever the console does with its session at the same time comes to an end: in every interleaving of calls, sign-ins,
  sign-outs and recoveries a run takes at most nine turns and three requests per job, and it can only stop when
  every job has ended.
\<close>

theorem concurrent_jobs_end:
  assumes "(jobs.step env ^^ n) (started todo, s) (ts, s')"
  shows "n \<le> 9 * length todo \<and> length (shell_sent s') \<le> length (shell_sent s) + 3 * length todo
    \<and> ((\<exists>y. jobs.step env (ts, s') y) \<longleftrightarrow> (\<exists>(j, l) \<in> set ts. \<not> job_ended l))"
proof -
  have "(jobs.step env)\<^sup>*\<^sup>* (started todo, s) (ts, s')" using assms by (rule relpowp_imp_rtranclp)
  from jobs.run_cost [OF this, where cost = "length \<circ> shell_sent" and b = job_requests]
  have "length (shell_sent s') \<le> length (shell_sent s) + 3 * length todo"
    using job_step_requests by (fastforce simp: budgets_started)
  moreover have "n \<le> 9 * length todo" using jobs.run_bounded [OF assms] by (simp add: budgets_started)
  ultimately show ?thesis using jobs.stuck_iff [of env "(ts, s')"] by (auto simp: case_prod_beta)
qed

subsection \<open>The session the jobs share\<close>

text \<open>A session the server handed out: its answer to a refresh, a login or the creation of the first administrator.\<close>

definition session_paths :: "jsstr set" where
  "session_paths = {refresh_path, sign_in_path True, sign_in_path False}"

definition session_answer :: "'w fetch \<Rightarrow> jsstr \<Rightarrow> response \<Rightarrow> bool" where
  "session_answer f base a \<longleftrightarrow> (\<exists>path \<in> session_paths. \<exists>r w w'. req_url r = base @ path \<and> f r w = (Inr a, w'))"

definition issued :: "'w fetch \<Rightarrow> jsstr \<Rightarrow> json \<Rightarrow> bool" where
  "issued f base v \<longleftrightarrow> (\<exists>a. session_answer f base a \<and> resp_ok a \<and> parseResponse a = Inr v)"

lemma refresh_is_session_answer: "refresh_answer f base a \<Longrightarrow> session_answer f base a"
  unfolding refresh_answer_def session_answer_def session_paths_def by blast

lemma granted_issued: "granted f base v \<Longrightarrow> issued f base v"
  unfolding granted_def issued_def using refresh_is_session_answer by blast

definition takes_session :: "job \<Rightarrow> bool" where
  "takes_session j \<longleftrightarrow> j \<in> {Recover, SubmitSignIn}"

fun job_ok :: "'w fetch \<Rightarrow> jsstr \<Rightarrow> job \<Rightarrow> job_point \<Rightarrow> bool" where
  "job_ok f base j (Calling path init p) \<longleftrightarrow> point_ok f base p"
| "job_ok f base j (Awaiting (InFlight r)) \<longleftrightarrow> (takes_session j \<longrightarrow> (\<exists>path \<in> session_paths. req_url r = base @ path))"
| "job_ok f base j (Awaiting (Arrived (Inr a))) \<longleftrightarrow> (takes_session j \<longrightarrow> session_answer f base a)"
| "job_ok f base j (Answered (Inr v)) \<longleftrightarrow> (takes_session j \<longrightarrow> issued f base v)"
| "job_ok f base j l \<longleftrightarrow> True"

lemma job_ok_answered:
  "(\<And>v. r = Inr v \<Longrightarrow> takes_session j \<Longrightarrow> issued f base v) \<Longrightarrow> job_ok f base j (Answered r)"
  by (cases r) simp_all

lemma call_step_session:
  assumes "call_step env path init p s0 = (l, s')" "session_ok (issued (env_fetch env) (API_BASE s)) s (pg_console s0)"
    and "point_ok (env_fetch env) (API_BASE s) p"
  shows "session_ok (issued (env_fetch env) (API_BASE s)) s (pg_console s') \<and> job_ok (env_fetch env) (API_BASE s) j l"
proof -
  obtain p' c where c: "task_step (env_fetch env) (path, init) p (pg_console s0) = (p', c)"
    by (cases "task_step (env_fetch env) (path, init) p (pg_console s0)")
  from task_step_session [OF c assms(2,3) granted_issued] show ?thesis using assms(1) c by (auto simp: call_step_def)
qed

lemma job_request_path:
  "job_request j s = Inr (path, init) \<Longrightarrow> takes_session j \<Longrightarrow> path \<in> session_paths"
  by (cases j) (auto simp: takes_session_def session_paths_def with_refresh_token_def sign_in_path_def split: option.splits if_splits)

lemma job_request_none: "job_request j s = Inl (Inr v) \<Longrightarrow> \<not> takes_session j"
  by (cases j) (auto simp: takes_session_def with_refresh_token_def split: option.splits if_splits)

lemma build_request_url: "build_request c path init = Inr r \<Longrightarrow> req_url r = API_BASE c @ path"
  by (auto simp: build_request_def bind_res_def split: sum.splits)

lemma job_start_session:
  assumes "job_start env j s0 = (l, s')" "session_ok (issued (env_fetch env) (API_BASE s)) s (pg_console s0)"
  shows "session_ok (issued (env_fetch env) (API_BASE s)) s (pg_console s') \<and> job_ok (env_fetch env) (API_BASE s) j l"
proof (cases "\<exists>path init. j = ApiCall path init")
  case True
  then show ?thesis using assms call_step_session [of env _ _ Ready s0 l s' s j] by auto
next
  case False
  then have start: "job_start env j s0 = (case job_request j s0 of Inl r \<Rightarrow> (Answered r, s0)
     | Inr (path, init) \<Rightarrow> job_fire (build_request (pg_console s0) path init) s0)" by (cases j) auto
  have base: "API_BASE (pg_console s0) = API_BASE s" using assms(2) by (simp add: session_ok_def)
  show ?thesis
  proof (cases "job_request j s0")
    case (Inl r)
    then show ?thesis using assms start job_request_none [of j s0] by (auto intro!: job_ok_answered)
  next
    case (Inr pi)
    obtain path init where pi: "pi = (path, init)" by (cases pi)
    have path: "path \<in> session_paths" if "takes_session j" using job_request_path [OF Inr [unfolded pi] that] .
    show ?thesis
    proof (cases "build_request (pg_console s0) path init")
      case (Inl e)
      then show ?thesis using assms start Inr pi by (auto simp: job_fire_def)
    next
      case (Inr r)
      then show ?thesis using assms start \<open>job_request j s0 = Inr pi\<close> pi path build_request_url [OF Inr] base
        by (auto simp: job_fire_def session_ok_def)
    qed
  qed
qed

definition no_session :: "'w console \<Rightarrow> bool" where
  "no_session c \<longleftrightarrow> empty_store (sessionStorage c) \<and> empty_store (localStorage c)"

lemma no_session_tokens: "no_session c \<Longrightarrow> tokens c = (None, None)"
  by (simp add: no_session_def empty_store_def tokens_def readAccessToken_def readRefreshToken_def getItem_def)

lemma no_session_cleared: "no_session (snd (clearSession c))"
  by (simp add: no_session_def clearSession_def prog_simps)

lemma cleared_session: "session_ok h s c \<Longrightarrow> session_ok h s (snd (clearSession c))"
  using no_session_tokens [OF no_session_cleared [of c]] no_session_cleared [of c]
  by (auto simp: session_ok_def no_session_def one_store_def) (simp_all add: clearSession_def modify_def)

lemma stored_session: "session_ok h s c \<Longrightarrow> h v \<Longrightarrow> session_ok h s (snd (storeSession v remember c))"
  using storing_session by (metis prod.collapse)

lemma then_stores: "\<not> takes_session j \<Longrightarrow> pg_console (snd (job_then env j v s)) \<in> {pg_console s, snd (clearSession (pg_console s))}"
  by (cases j) (simp_all add: takes_session_def signed_out_eq clear_cache_def ret_def)

lemma job_step_session:
  assumes "job_step env j l s0 = (l', s')" "session_ok (issued (env_fetch env) (API_BASE s)) s (pg_console s0)"
    and "job_ok (env_fetch env) (API_BASE s) j l"
  shows "session_ok (issued (env_fetch env) (API_BASE s)) s (pg_console s') \<and> job_ok (env_fetch env) (API_BASE s) j l'"
  using assms
proof (induction env j l s0 rule: job_step.induct)
  case (1 env j path init p s0)
  then show ?case using call_step_session [of env path init p s0 l' s' s j] by simp
next
  case (2 env j s0)
  then show ?case using job_start_session [of env j s0 l' s' s] by simp
next
  case (3 env j r s0)
  obtain x w where x: "env_fetch env r (con_world (pg_console s0)) = (x, w)" by (cases "env_fetch env r (con_world (pg_console s0))")
  have "job_ok (env_fetch env) (API_BASE s) j (Awaiting (Arrived x))"
    using 3(3) x by (cases x) (auto simp: session_answer_def)
  then show ?case using 3(1,2) x by (auto simp: session_ok_def)
next
  case (4 env j x s0)
  then show ?case by (cases x) (auto intro!: job_ok_answered simp: answer_value_def issued_def api_error_def bind_res_def split: if_splits sum.splits)
next
  case (5 env j v s0)
  obtain r s1 where r: "job_then env j v s0 = (r, s1)" by (cases "job_then env j v s0")
  have "session_ok (issued (env_fetch env) (API_BASE s)) s (pg_console s1)"
    using r 5(2,3) job_then_console [of env j v s0] then_stores [of j env v s0] cleared_session stored_session
    by (cases "takes_session j") auto
  then show ?case using 5(1) r by (auto split: sum.splits)
next
  case (6 env j e s0)
  then show ?case using job_catch_console [of env j e s0] cleared_session by auto
qed auto

text \<open>
  C6: two sessions never mix, whatever runs at the same time: along every interleaving of calls, sign-ins, sign-outs and
  recoveries a session lives in at most one storage, and the access and the refresh token that are read together
  are those of the start, those of one and the same session the server handed out, or both absent.
\<close>

theorem concurrent_jobs_coherent:
  assumes "(jobs.step env)\<^sup>*\<^sup>* (started todo, s) (ts, s')" "one_store (pg_console s)"
  shows "one_store (pg_console s') \<and> (tokens (pg_console s') \<in> {tokens (pg_console s), (None, None)}
    \<or> (\<exists>v. issued (env_fetch env) (API_BASE (pg_console s)) v \<and> v \<noteq> JNull \<and> tokens (pg_console s') = session_tokens v))"
proof -
  let ?c = "pg_console s"
  let ?I = "\<lambda>s. session_ok (issued (env_fetch env) (API_BASE ?c)) ?c (pg_console s)"
  have "?I s" using assms(2) by (simp add: session_ok_def)
  then have "?I (snd (ts, s'))"
    using jobs.run_invariant [OF assms(1), of ?I "job_ok (env_fetch env) (API_BASE ?c)"] job_step_session
    by (fastforce simp: started_def)
  then show ?thesis by (simp add: session_ok_def)
qed

subsection \<open>When signing out is final\<close>

text \<open>
  A point from which a job cannot bring a session into an empty storage: no refresh of a call is on its way, and no
  recovery or sign-in waits for its answer.
\<close>

fun quiet_call :: "point \<Rightarrow> bool" where
  "quiet_call (Waiting (Refreshing response) w) = False"
| "quiet_call (Storing response v) = False"
| "quiet_call p = True"

fun quiet_point :: "job \<Rightarrow> job_point \<Rightarrow> bool" where
  "quiet_point j (Calling path init p) \<longleftrightarrow> quiet_call p"
| "quiet_point j Starting \<longleftrightarrow> j \<noteq> SubmitSignIn"
| "quiet_point j (Awaiting w) \<longleftrightarrow> \<not> takes_session j"
| "quiet_point j (Answered (Inr v)) \<longleftrightarrow> \<not> takes_session j"
| "quiet_point j (Answered (Inl e)) \<longleftrightarrow> True"
| "quiet_point j Ended \<longleftrightarrow> True"

definition signed_off :: "'w shell \<Rightarrow> bool" where
  "signed_off s \<longleftrightarrow> no_session (pg_console s) \<and> ca_user s = JNull \<and> query_data me_query s = None"

lemma signed_off_screen: "signed_off s \<Longrightarrow> screen_of s = Inr SignIn"
  by (simp add: signed_off_def screen_of_def activeUser_def coalesce_def nullish_def truthy_def)

lemma signed_off_out: "signed_off (snd (signed_out s))"
  using no_session_cleared [of "pg_console s"] by (simp add: signed_off_def signed_out_eq clear_cache_def query_data_def)

lemma no_session_refresh: "no_session c \<Longrightarrow> readRefreshToken c = None"
  using no_session_tokens [of c] by (simp add: tokens_def)

lemma no_session_con [simp]:
  "no_session (c\<lparr>con_sent := rs\<rparr>) = no_session c" "no_session (c\<lparr>con_world := w\<rparr>) = no_session c"
  by (simp_all add: no_session_def)

lemma fire_quiet:
  assumes "fire st g path init c = (p, c')" "no_session c" "\<forall>response. st \<noteq> Refreshing response"
  shows "no_session c' \<and> quiet_call p"
  using assms by (cases st) (auto simp: fire_def split: sum.splits)

lemma task_step_quiet:
  assumes "task_step f k p c = (p', c')" "no_session c" "quiet_call p"
  shows "no_session c' \<and> quiet_call p'"
  using assms
proof (induction f k p c rule: task_step.induct)
  case (2 f path init st r c)
  then show ?case by (cases st) (auto split: prod.splits)
next
  case (4 f path init response c)
  then show ?case by (auto simp: begin_refresh_def no_session_refresh split: if_splits)
qed (auto dest: fire_quiet split: stage.splits)

lemma call_step_quiet:
  assumes "call_step env path init p s = (l, s')" "signed_off s" "quiet_call p"
  shows "signed_off s' \<and> quiet_point j l"
proof -
  obtain p' c where c: "task_step (env_fetch env) (path, init) p (pg_console s) = (p', c)"
    by (cases "task_step (env_fetch env) (path, init) p (pg_console s)")
  then show ?thesis using assms task_step_quiet [OF c] by (auto simp: call_step_def signed_off_def query_data_def)
qed

lemma job_start_quiet:
  assumes "job_start env j s = (l, s')" "signed_off s" "j \<noteq> SubmitSignIn"
  shows "signed_off s' \<and> quiet_point j l"
proof (cases j)
  case (ApiCall path init)
  then show ?thesis using assms call_step_quiet [of env path init Ready s l s' j] by simp
qed (use assms no_session_refresh [of "pg_console s"] in \<open>auto simp: with_refresh_token_def signed_off_def takes_session_def\<close>)

lemma job_catch_quiet: "signed_off s \<Longrightarrow> signed_off (snd (job_catch env j e s))"
proof (cases j)
  case SignOut
  then show ?thesis using signed_off_out by simp
next
  case Recover
  assume "signed_off s"
  then show ?thesis using Recover no_session_cleared [of "pg_console s"]
    by (simp add: recovery_failed_def in_console_def clearSession_def prog_simps signed_off_def query_data_def)
next
  case SubmitSignIn
  assume "signed_off s"
  then show ?thesis using SubmitSignIn
    by (auto simp: auth_error_def toast_error_def prog_simps signed_off_def query_data_def)
qed (simp add: ret_def)

lemma job_step_quiet:
  assumes "job_step env j l s = (l', s')" "signed_off s" "quiet_point j l"
  shows "signed_off s' \<and> quiet_point j l'"
  using assms
proof (induction env j l s rule: job_step.induct)
  case (1 env j path init p s)
  then show ?case using call_step_quiet [of env path init p s l' s' j] by simp
next
  case (2 env j s)
  then show ?case using job_start_quiet [of env j s l' s'] by simp
next
  case (4 env j x s)
  then show ?case by (cases "bind_res x answer_value") auto
next
  case (5 env j v s)
  then show ?case using signed_off_out [of s] by (cases j) (auto simp: takes_session_def signed_out_eq ret_def)
next
  case (6 env j e s)
  then show ?case using job_catch_quiet [of s env j e] by auto
qed (auto simp: signed_off_def query_data_def split: prod.splits)

text \<open>
  C9: signing out is final unless a session is already on its way: once its last step has run while no other job waits for
  the answer of a refresh or of a sign-in, the console stays signed out whatever the calls, recoveries and further
  sign-outs under way do in whatever order: both storages stay without a session and the sign-in screen is shown.
\<close>

theorem signed_out_stays_signed_out:
  assumes "(jobs.step env)\<^sup>*\<^sup>* (ts, snd (signed_out s)) (ts', s')" "\<forall>(j, l) \<in> set ts. quiet_point j l"
  shows "no_session (pg_console s') \<and> ca_user s' = JNull \<and> screen_of s' = Inr SignIn"
proof -
  have "signed_off (snd (ts', s'))"
    using jobs.run_invariant [OF assms(1), of signed_off quiet_point] signed_off_out assms(2) job_step_quiet by fastforce
  then show ?thesis using signed_off_screen by (simp add: signed_off_def)
qed

text \<open>The turns of the jobs on a shell whose console has any log and world.\<close>

definition moment :: "'w shell \<Rightarrow> request list \<Rightarrow> 'w \<Rightarrow> 'w shell" where
  "moment s rs w = s\<lparr>pg_console := (pg_console s)\<lparr>con_sent := rs, con_world := w\<rparr>\<rparr>"

lemma call_turn:
  "task_step (env_fetch env) (path, init) p ((pg_console s)\<lparr>con_sent := rs, con_world := w\<rparr>)
     = (p', (pg_console s)\<lparr>con_sent := rs', con_world := w'\<rparr>) \<Longrightarrow>
   job_step env j (Calling path init p) (moment s rs w) = (Calling path init p', moment s rs' w')"
  by (simp add: call_step_def moment_def)

lemma call_starts:
  "build_request (pg_console s) path init = Inr r \<Longrightarrow>
   job_step env (ApiCall path init) Starting (moment s rs w) = (Calling path init (Waiting First (InFlight r)), moment s (rs @ [r]) w)"
  using call_sent [where s = "pg_console s" and f = "env_fetch env" and rs = rs and w = w] by (simp add: call_step_def moment_def)

lemma sign_out_starts:
  assumes "readRefreshToken (pg_console s) = Some t" "t \<noteq> []" "build_request (pg_console s) logout_path (refresh_init t) = Inr r"
  shows "job_step env SignOut Starting (moment s rs w) = (Awaiting (InFlight r), moment s (rs @ [r]) w)"
  using assms by (simp add: moment_def with_refresh_token_def job_fire_def)

lemma job_served:
  "env_fetch env r w = (x, w') \<Longrightarrow> job_step env j (Awaiting (InFlight r)) (moment s rs w) = (Awaiting (Arrived x), moment s rs w')"
  by (simp add: moment_def)

lemma sign_out_ends: "job_step env SignOut (Answered r) s = (Ended, snd (signed_out s))"
  by (cases r) (simp_all add: signed_out_eq)

lemma granted_turn:
  "answer_value g = Inr v \<Longrightarrow>
   job_step env j (Calling path init (Waiting (Refreshing a) (Arrived (Inr g)))) s = (Calling path init (Storing a v), s)"
  by (simp add: call_step_def)

lemma storing_turn:
  "v \<noteq> JNull \<Longrightarrow> job_step env j (Calling path init (Storing a v)) s =
     (Calling path init Retrying, s\<lparr>pg_console := stored (should_remember None (pg_console s)) v (pg_console s)\<rparr>)"
  by (simp add: call_step_def storeSession_eq)

lemma stored_off:
  assumes "signed_off s"
  shows "screen_of (s\<lparr>pg_console := c\<rparr>) = Inr SignIn \<and> ca_user (s\<lparr>pg_console := c\<rparr>) = JNull"
  using assms by (simp add: signed_off_def screen_of_def activeUser_def coalesce_def nullish_def truthy_def query_data_def)

text \<open>
  C34: a refresh that is on its way when the user signs out undoes the sign-out. A call found its token expired and the server
  granted its refresh; before the answer is stored the user signs out, and the session is cleared. Then the answer
  is stored: the sign-in screen is shown, but the storages hold a valid session with its user, and the console is signed
  in again when the page is loaded the next time.
\<close>

theorem refresh_undoes_sign_out:
  assumes "has_window (pg_console s)" "expires (env_fetch env) (pg_console s) (path, init) r a (con_world (pg_console s)) w1"
    and "readRefreshToken (pg_console s) = Some t" "t \<noteq> []" "build_request (pg_console s) refresh_path (refresh_init t) = Inr q"
    and "env_fetch env q w1 = (Inr g, w2)" "answer_value g = Inr v" "v \<noteq> JNull" "member (js ''user'') v = Some u" "wf_json u"
    and "build_request (pg_console s) logout_path (refresh_init t) = Inr out" "env_fetch env out w2 = (x, w3)"
  shows "\<exists>s'. (jobs.step env)\<^sup>*\<^sup>* (started [ApiCall path init, SignOut], s)
      ([(ApiCall path init, Calling path init Retrying), (SignOut, Ended)], s')
    \<and> screen_of s' = Inr SignIn \<and> ca_user s' = JNull
    \<and> tokens (pg_console s') = session_tokens v \<and> storedUser (pg_console s') = u"
proof -
  let ?c = "pg_console s" and ?j = "ApiCall path init"
  have e: "build_request ?c path init = Inr r" "fi_auth init" "env_fetch env r (con_world ?c) = (Inr a, w1)" "resp_status a = 401"
    using assms(2) by (simp_all add: expires_def)
  define s5 where "s5 = snd (signed_out (moment s (con_sent ?c @ [r] @ [q] @ [out]) w3))"
  define b where "b = should_remember None (pg_console s5)"
  note go1 = converse_rtranclp_into_rtranclp [where r = "jobs.step env", OF jobs.first_turn]
    and go2 = converse_rtranclp_into_rtranclp [where r = "jobs.step env", OF jobs.second_turn]
  have run: "(jobs.step env)\<^sup>*\<^sup>* ([(?j, Starting), (SignOut, Starting)], moment s (con_sent ?c) (con_world ?c))
      ([(?j, Calling path init Retrying), (SignOut, Ended)], s5\<lparr>pg_console := stored b v (pg_console s5)\<rparr>)"
    unfolding s5_def b_def append_assoc [symmetric]
    by (rule go1, simp, rule call_starts, rule e(1), rule go1, simp, rule call_turn, rule call_served, rule e(3),
        rule go1, simp, rule call_turn, rule call_expired, rule e(2), rule e(4), rule assms(3), rule assms(4), rule assms(5),
        rule go1, simp, rule call_turn, rule call_served, rule assms(6),
        rule go2, simp, rule sign_out_starts, rule assms(3), rule assms(4), rule assms(11), rule go2, simp, rule job_served, rule assms(12),
        rule go2, simp, rule job_step.simps(4), rule go2, simp, rule sign_out_ends,
        rule go1, simp, rule granted_turn, rule assms(7), rule go1, simp, rule storing_turn, rule assms(8), rule rtranclp.rtrancl_refl)
  have "signed_off s5" unfolding s5_def by (rule signed_off_out)
  moreover have window: "has_window (pg_console s5)"
    using assms(1) by (simp add: s5_def signed_out_eq clear_cache_def clearSession_def moment_def modify_def)
  moreover have "moment s (con_sent ?c) (con_world ?c) = s" by (simp add: moment_def)
  ultimately show ?thesis
    using run stored_off [of s5 "stored b v (pg_console s5)"] read_stored [OF window, of b v] storedUser_stored [OF window assms(9,10), of b]
    by (auto simp: started_def tokens_def session_tokens_def)
qed

subsection \<open>Examples\<close>

text \<open>A server that refuses every request but grants every refresh.\<close>

definition user_session :: json where
  "user_session = JObj [(js ''access_token'', JStr (js ''a2'')), (js ''refresh_token'', JStr (js ''r2'')), (js ''user'', sample_user)]"

definition renewing_env :: "nat ui_env" where
  "renewing_env = sample_env\<lparr>env_fetch := (\<lambda>r w. (Inr (if req_url r = js ''https://host'' @ refresh_path
     then con_answer 200 user_session else con_answer 401 JNull), Suc w))\<rparr>"

lemma signed_in_console: "pg_console signed_in = sample_console 0"
  by (simp add: signed_in_def sample_page_def page.defs shell.defs)

lemma renewing_request:
  assumes "fi_headers init = []"
  shows "\<exists>r. build_request (sample_console 0) path init = Inr r \<and> req_url r = js ''https://host'' @ path"
  using con_sample_headers [OF sample_reads(1) [of 0] assms]
  by (auto simp: build_request_def bind_res_def sample_console_def)

lemma lone_job_run: "(jobs.step env)\<^sup>*\<^sup>* (started [j], s) ([(j, fst (sequential env j s))], snd (sequential env j s))"
  using jobs.run_only [of env j "(Starting, s)" 9] by (simp add: lone_job jobs.only_def started_def)

theorem refresh_undoes_sign_out_witness:
  "\<exists>s'. (jobs.step renewing_env)\<^sup>*\<^sup>* (started [ApiCall (js ''/x'') get_auth, SignOut], signed_in)
      ([(ApiCall (js ''/x'') get_auth, Calling (js ''/x'') get_auth Retrying), (SignOut, Ended)], s')
    \<and> screen_of s' = Inr SignIn \<and> storedUser (pg_console s') = sample_user"
proof -
  have ne: "js ''/x'' \<noteq> refresh_path" "logout_path \<noteq> refresh_path" by (simp_all add: refresh_path_def logout_path_def)
  have init: "fi_headers get_auth = []" "fi_headers (refresh_init t) = []" "fi_auth get_auth" for t
    by (simp_all add: get_auth_def refresh_init_def post_noauth_def)
  have w: "con_world (sample_console 0) = 0" by (simp add: sample_console_def)
  obtain r where r: "build_request (sample_console 0) (js ''/x'') get_auth = Inr r" "req_url r = js ''https://host'' @ js ''/x''"
    using renewing_request [OF init(1)] by blast
  obtain q where q: "build_request (sample_console 0) refresh_path (refresh_init (js ''r1'')) = Inr q" "req_url q = js ''https://host'' @ refresh_path"
    using renewing_request [OF init(2)] by blast
  obtain out where out: "build_request (sample_console 0) logout_path (refresh_init (js ''r1'')) = Inr out" "req_url out = js ''https://host'' @ logout_path"
    using renewing_request [OF init(2)] by blast
  have f: "env_fetch renewing_env r 0 = (Inr (con_answer 401 JNull), 1)" "env_fetch renewing_env q 1 = (Inr (con_answer 200 user_session), 2)"
    "env_fetch renewing_env out 2 = (Inr (con_answer 401 JNull), 3)"
    using r(2) q(2) out(2) ne by (simp_all add: renewing_env_def)
  have "expires (env_fetch renewing_env) (sample_console 0) (js ''/x'', get_auth) r (con_answer 401 JNull)
      (con_world (sample_console 0)) 1"
    using r(1) f(1) init(3) by (simp add: expires_def con_answer_def w)
  moreover have wf: "wf_json user_session" "wf_json sample_user" by code_simp+
  then have "answer_value (con_answer 200 user_session) = Inr user_session"
    by (simp add: answer_value_def parseResponse_answer) (simp add: resp_ok_def con_answer_def)
  moreover have "user_session \<noteq> JNull" "member (js ''user'') user_session = Some sample_user" "js ''r1'' \<noteq> []"
    "has_window (sample_console 0)"
    by (simp_all add: user_session_def member_def sample_console_def)
  ultimately show ?thesis
    using refresh_undoes_sign_out [of signed_in renewing_env "js ''/x''" get_auth r "con_answer 401 JNull" 1 "js ''r1''" q
        "con_answer 200 user_session" 2 user_session sample_user out "Inr (con_answer 401 JNull)" 3]
      sample_reads(2) [of 0] q(1) out(1) f(2,3) wf(2)
    unfolding signed_in_console by blast
qed

theorem signed_out_stays_signed_out_witness:
  "\<exists>ts' s'. (jobs.step renewing_env)\<^sup>*\<^sup>* (started [Recover], snd (signed_out signed_in)) (ts', s')
    \<and> (\<forall>t \<in> set ts'. job_ended (snd t)) \<and> no_session (pg_console s') \<and> screen_of s' = Inr SignIn"
proof -
  have "\<forall>(j, l) \<in> set (started [Recover]). quiet_point j l" by (simp add: started_def)
  from signed_out_stays_signed_out [OF lone_job_run this] show ?thesis
    using lone_job_run [of renewing_env Recover "snd (signed_out signed_in)"] by fastforce
qed

theorem concurrent_jobs_end_witness:
  "\<exists>n ts s'. (jobs.step renewing_env ^^ n) (started [SignOut], signed_in) (ts, s') \<and> ts \<noteq> started [SignOut]
    \<and> n \<le> 9 \<and> (\<nexists>y. jobs.step renewing_env (ts, s') y)"
proof -
  obtain n where n: "(jobs.step renewing_env ^^ n) (started [SignOut], signed_in)
      ([(SignOut, fst (sequential renewing_env SignOut signed_in))], snd (sequential renewing_env SignOut signed_in))"
    using rtranclp_imp_relpowp [OF lone_job_run] by blast
  show ?thesis using concurrent_jobs_end [OF n] n by (fastforce simp: started_def)
qed

theorem concurrent_jobs_coherent_witness:
  "\<exists>ts s'. (jobs.step renewing_env)\<^sup>*\<^sup>* (started [Recover], signed_in) (ts, s') \<and> (\<forall>t \<in> set ts. job_ended (snd t))
    \<and> one_store (pg_console signed_in) \<and> one_store (pg_console s')"
proof -
  have "one_store (pg_console signed_in)"
    by (simp add: signed_in_console one_store_def empty_store_def sample_console_def)
  then show ?thesis
    using concurrent_jobs_coherent [OF lone_job_run [of renewing_env Recover signed_in]] lone_job_run [of renewing_env Recover signed_in]
    by fastforce
qed

end
