(* ===== verification/View_Keys.thy ===== *)
theory View_Keys
  imports Console_Ui
begin

text \<open>
  The page of API keys (\<open>src/console/src/components/console/views/keys-view.tsx\<close>): its state, the three
  mutations with their callbacks, what it renders, and the handlers of its controls. The lemmas show
  that the text of a key never reaches the page and that a revoked key can be neither rotated nor revoked.
\<close>

subsection \<open>State\<close>

datatype keys_mutation = CreateKey | RevokeKey jsstr | RotateKey jsstr

datatype keys_event =
    SetKeyName jsstr | SetKeyType jsstr | ClickCreateKey | ClickCopyKey
  | ClickRotateKey jsstr json | ClickRevokeKey jsstr json

record 'w keys_page = "('w, keys_mutation) page" +
  kv_keyType :: jsstr
  kv_name :: jsstr
  kv_visibleKey :: "(jsstr \<times> json option) option"

definition keys_query :: "json \<Rightarrow> jsstr list" where
  "keys_query app = [js ''keys'', app_id app]"

definition keys_queries :: "'w ui_env \<Rightarrow> json \<Rightarrow> 'w keys_page \<Rightarrow> (jsstr list \<times> nat \<times> ('w keys_page, json option) ui_prog) list" where
  "keys_queries env app s = [(keys_query app, default_retry, fetch_member env (app_path app (js ''/keys'')) ''app_keys'')]"

subsection \<open>Mutations\<close>

definition key_url :: "json \<Rightarrow> jsstr \<Rightarrow> jsstr" where
  "key_url app keyId = app_path app (js ''/keys/'' @ keyId)"

fun keys_mutationFn :: "'w ui_env \<Rightarrow> json \<Rightarrow> keys_mutation \<Rightarrow> ('w keys_page, json) ui_prog" where
  "keys_mutationFn env app CreateKey =
     bnd (gets (\<lambda>s. (kv_name s, kv_keyType s))) (\<lambda>(name, keyType).
       send_json env ''POST'' (app_path app (js ''/keys'')) (object [(''name'', Some (JStr name)), (''key_type'', Some (JStr keyType))]))"
| "keys_mutationFn env app (RevokeKey keyId) = send env ''DELETE'' (key_url app keyId)"
| "keys_mutationFn env app (RotateKey keyId) = send env ''POST'' (key_url app keyId @ js ''/rotate'')"

text \<open>The name a row shows for its key: \<open>String(key.name ?? key.key_prefix ?? "")\<close>.\<close>

definition key_row_name :: "json \<Rightarrow> jsstr" where
  "key_row_name key = string_or (coalesce (fld ''name'' key) (fld ''key_prefix'' key)) []"

fun keys_onSuccess :: "'w ui_env \<Rightarrow> json \<Rightarrow> keys_mutation \<Rightarrow> json \<Rightarrow> ('w keys_page, unit) ui_prog" where
  "keys_onSuccess env app CreateKey response =
     bnd (lift_res (get_prop ''key'' response)) (\<lambda>key.
     bnd (modify (\<lambda>s. s\<lparr>kv_visibleKey := Some (kv_name s, key)\<rparr>)) (\<lambda>_.
     bnd (toast_success (env_tr env ''keys'' ''created'' [])) (\<lambda>_.
     invalidateQueries (keys_query app))))"
| "keys_onSuccess env app (RevokeKey keyId) response =
     bnd (toast_success (env_tr env ''keys'' ''revoked'' [])) (\<lambda>_. invalidateQueries (keys_query app))"
| "keys_onSuccess env app (RotateKey keyId) response =
     bnd (lift_res (get_prop ''key'' response)) (\<lambda>key.
     bnd (modify (\<lambda>s. s\<lparr>kv_visibleKey := Some (key_row_name (latest_row ''id'' (keys_query app) keyId s), key)\<rparr>)) (\<lambda>_.
     bnd (toast_success (env_tr env ''keys'' ''rotated'' [])) (\<lambda>_.
     invalidateQueries (keys_query app))))"

definition keys_onError :: "'w ui_env \<Rightarrow> keys_mutation \<Rightarrow> exn \<Rightarrow> ('w keys_page, unit) ui_prog" where
  "keys_onError env m e = onError_toast env e"

subsection \<open>Handlers\<close>

fun keys_handle :: "'w ui_env \<Rightarrow> json \<Rightarrow> keys_event \<Rightarrow> 'w keys_page \<Rightarrow> 'w keys_page" where
  "keys_handle env app (SetKeyName v) s = s\<lparr>kv_name := v\<rparr>"
| "keys_handle env app (SetKeyType v) s = s\<lparr>kv_keyType := v\<rparr>"
| "keys_handle env app ClickCreateKey s = mutate CreateKey (keys_mutationFn env app CreateKey) s"
| "keys_handle env app ClickCopyKey s = (case kv_visibleKey s of
     None \<Rightarrow> s | Some (name, key) \<Rightarrow> copy_to_clipboard env (item_string key) s)"
| "keys_handle env app (ClickRotateKey keyId row) s =
     mutate (RotateKey keyId) (keys_mutationFn env app (RotateKey keyId)) (use_row keyId row s)"
| "keys_handle env app (ClickRevokeKey keyId row) s =
     mutate (RevokeKey keyId) (keys_mutationFn env app (RevokeKey keyId)) (use_row keyId row s)"

subsection \<open>Rendering\<close>

definition KeyRowActions :: "'w ui_env \<Rightarrow> 'w keys_page \<Rightarrow> json \<Rightarrow> keys_event ui" where
  "KeyRowActions env s key =
     (let t = env_tr env ''keys''; common = (\<lambda>k. env_tr env ''common'' k []); keyId = row_id ''id'' key;
          name = key_row_name key; revoked = is_true (fld ''revoked_at'' key) in
      Box [ConfirmButton (common ''rotate'') (revoked \<or> isPending (RotateKey keyId) s)
             (t ''confirmRotate'' [(''name'', name)]) (ClickRotateKey keyId key),
           ConfirmButton (common ''revoke'') (revoked \<or> isPending (RevokeKey keyId) s)
             (t ''confirmRevoke'' [(''name'', name)]) (ClickRevokeKey keyId key)])"

definition keys_row :: "'w ui_env \<Rightarrow> 'w keys_page \<Rightarrow> json \<Rightarrow> keys_event ui list" where
  "keys_row env s key =
     (let common = (\<lambda>k. env_tr env ''common'' k []) in
      [Txt (string_or (fld ''name'' key) []), Txt (string_or (fld ''key_type'' key) []),
       Txt (string_or (fld ''key_prefix'' key) []), Txt (string_or (fld ''last_used_at'' key) (common ''never'')),
       Txt (if is_true (fld ''revoked_at'' key) then common ''revoked'' else common ''active''),
       KeyRowActions env s key])"

text \<open>The panel of a new key shows its name and asterisks; the key itself can only be copied.\<close>

definition new_key_panel :: "'w ui_env \<Rightarrow> 'w keys_page \<Rightarrow> keys_event ui list" where
  "new_key_panel env s = (case kv_visibleKey s of
     None \<Rightarrow> []
   | Some (name, key) \<Rightarrow> [Panel (env_tr env ''keys'' ''newKeyTitle'' [])
       [Txt name, Txt (env_tr env ''keys'' ''newKeyHelp'' []), Txt (env_tr env ''keys'' ''fullKey'' []),
        Txt (js ''********************''), Button (env_tr env ''common'' ''copy'' []) False ClickCopyKey]])"

definition KeysView :: "'w ui_env \<Rightarrow> json \<Rightarrow> 'w keys_page \<Rightarrow> exn + keys_event ui" where
  "KeysView env app s =
     (let t = (\<lambda>k. env_tr env ''keys'' k []); common = (\<lambda>k. env_tr env ''common'' k []) in
      bind_res (rows_of (query_data (keys_query app) s)) (\<lambda>keys.
      Inr (Section (t ''title'') (t ''description'') []
        ([Panel (t ''create'')
           [Input (kv_name s) False SetKeyName,
            Select (kv_keyType s) [(js ''client'', t ''client''), (js ''server'', t ''server''), (js ''admin'', t ''admin'')] SetKeyType,
            Button (common ''create'') (isPending CreateKey s) ClickCreateKey]]
         @ new_key_panel env s
         @ [DataTableView (env_tr env)
              [t ''columnsName'', t ''columnsType'', t ''columnsPrefix'', t ''columnsLastUsed'', t ''columnsStatus'', t ''columnsActions'']
              (map (keys_row env s) keys) (isLoading True (keys_query app) s)
              (Some (t ''emptyTitle'')) (Some (t ''emptyDescription''))]))))"

subsection \<open>The contract\<close>

fun keys_starts :: "keys_event \<Rightarrow> keys_mutation option" where
  "keys_starts ClickCreateKey = Some CreateKey"
| "keys_starts (ClickRotateKey k r) = Some (RotateKey k)"
| "keys_starts (ClickRevokeKey k r) = Some (RevokeKey k)"
| "keys_starts e = None"

text \<open>What the page offers, read off the rendered tree.\<close>

lemma keys_offers:
  assumes "KeysView env app s = Inr u" "e \<in> offers u"
  shows "(\<exists>v. e = SetKeyName v \<or> e = SetKeyType v) \<or> e = ClickCopyKey
    \<or> e = ClickCreateKey \<and> \<not> isPending CreateKey s
    \<or> (\<exists>row. e = ClickRotateKey (row_id ''id'' row) row \<and> \<not> is_true (fld ''revoked_at'' row) \<and> \<not> isPending (RotateKey (row_id ''id'' row)) s)
    \<or> (\<exists>row. e = ClickRevokeKey (row_id ''id'' row) row \<and> \<not> is_true (fld ''revoked_at'' row) \<and> \<not> isPending (RevokeKey (row_id ''id'' row)) s)"
  using assms
  by (auto simp: KeysView_def Let_def Section_def Panel_def new_key_panel_def offers_DataTableView keys_row_def
      KeyRowActions_def bind_res_def split: sum.splits option.splits if_splits prod.splits)

lemma keys_onSuccess_pending: "keeps_pending (keys_onSuccess env app m v)"
  by (cases m) (simp_all, (intro pending_simps | simp)+)

lemma keys_mutationFn_pending: "keeps_pending (keys_mutationFn env app m)"
  by (cases m) (auto intro!: pending_simps split: prod.split)

lemma copy_pending [simp]: "pg_pending (copy_to_clipboard env t s) = pg_pending s"
  by (auto simp: copy_to_clipboard_def toast_success_def toast_error_def prog_simps split: prod.split sum.split)

interpretation keys: console_view "KeysView env app" "keys_handle env app" keys_starts
  "keys_onSuccess env app" "keys_onError env" "keys_queries env app" "\<lambda>_. True" for env app
proof unfold_locales
  show "\<not> isPending m s" if "KeysView env app s = Inr u" "e \<in> offers u" "keys_starts e = Some m" for s u e m
    using keys_offers [OF that(1,2)] that(3) by auto
  show "map fst (pg_pending (keys_handle env app e s)) =
      map fst (pg_pending s) @ (case keys_starts e of None \<Rightarrow> [] | Some m \<Rightarrow> [m])" for e s
    by (cases e) (auto simp: pending_mutate keys_mutationFn_pending use_row_def simp del: keys_mutationFn.simps split: option.split)
qed (auto simp: keys_onSuccess_pending keys_onError_def keys_queries_def pending_simps)

subsection \<open>Properties\<close>

text \<open>
  C29: The text of a key is never part of the page: for one and the same state but for the key that was
  just created or rotated, the page renders the same tree, whatever the key is. And no control the
  page offers rotates or revokes a key that is already revoked.
\<close>

theorem key_text_not_rendered:
  "KeysView env app (s\<lparr>kv_visibleKey := Some (name, k)\<rparr>) = KeysView env app (s\<lparr>kv_visibleKey := Some (name, k')\<rparr>)
   \<and> (KeysView env app s = Inr u \<and> ClickRotateKey i row \<in> offers u \<longrightarrow> \<not> is_true (fld ''revoked_at'' row))
   \<and> (KeysView env app s = Inr u \<and> ClickRevokeKey i row \<in> offers u \<longrightarrow> \<not> is_true (fld ''revoked_at'' row))"
proof (intro conjI impI)
  let ?s = "s\<lparr>kv_visibleKey := Some (name, k)\<rparr>" and ?s' = "s\<lparr>kv_visibleKey := Some (name, k')\<rparr>"
  have "keys_row env ?s = keys_row env ?s'"
    by (rule ext) (simp add: keys_row_def KeyRowActions_def isPending_def Let_def)
  moreover have "new_key_panel env ?s = new_key_panel env ?s'" by (simp add: new_key_panel_def)
  ultimately show "KeysView env app ?s = KeysView env app ?s'"
    by (simp add: KeysView_def query_data_def isLoading_def isPending_def Let_def)
next
  assume a: "KeysView env app s = Inr u \<and> ClickRotateKey i row \<in> offers u"
  from keys_offers [OF conjunct1 [OF a] conjunct2 [OF a]] show "\<not> is_true (fld ''revoked_at'' row)" by auto
next
  assume a: "KeysView env app s = Inr u \<and> ClickRevokeKey i row \<in> offers u"
  from keys_offers [OF conjunct1 [OF a] conjunct2 [OF a]] show "\<not> is_true (fld ''revoked_at'' row)" by auto
qed

definition sample_keys :: "nat keys_page" where
  "sample_keys = page.extend (sample_page (keys_query sample_app) (JArr [JObj [(js ''id'', JStr (js ''k1''))]]))
     (keys_page.fields (js ''server'') (js ''key'') None)"

theorem key_text_not_rendered_witness:
  "\<exists>u. KeysView sample_env sample_app sample_keys = Inr u
     \<and> ClickRotateKey (js ''k1'') (JObj [(js ''id'', JStr (js ''k1''))]) \<in> offers u
     \<and> \<not> is_true (fld ''revoked_at'' (JObj [(js ''id'', JStr (js ''k1''))]))"
proof -
  let ?row = "JObj [(js ''id'', JStr (js ''k1''))]"
  have d: "query_data (keys_query sample_app) sample_keys = Some (JArr [?row])"
    by (simp add: sample_keys_def sample_page_def page.defs keys_page.defs query_data_def)
  have nl: "\<not> isLoading True (keys_query sample_app) sample_keys"
    using d by (simp add: isLoading_def query_data_def)
  have np: "\<not> isPending m sample_keys" for m
    by (simp add: sample_keys_def sample_page_def page.defs keys_page.defs isPending_def)
  obtain u where u: "KeysView sample_env sample_app sample_keys = Inr u"
    using d by (simp add: KeysView_def rows_of_def Let_def)
  have "ClickRotateKey (js ''k1'') ?row \<in> offers u"
    using u d nl np by (auto simp: KeysView_def rows_of_def Let_def offers_simps keys_row_def KeyRowActions_def
        row_id_def fld_def member_def item_string_def is_true_def)
  then show ?thesis
    using u key_text_not_rendered [where env = sample_env and app = sample_app and s = sample_keys and u = u and i = "js ''k1''" and row = ?row] by auto
qed

end
