(* ===== verification/View_Apps.thy ===== *)
theory View_Apps
  imports Console_Ui
begin

text \<open>
  The page of projects (\<open>src/console/src/components/console/views/apps-view.tsx\<close>). The lemmas show that
  the page never deletes the default project. The state of a row (open dialog, edited name) begins
  when the row is first used.
\<close>

subsection \<open>State\<close>

datatype apps_mutation = CreateApp | UpdateApp jsstr | DeleteApp jsstr

datatype apps_event =
    SetOpen bool | SetName jsstr | SetDisplayName jsstr | ClickCreateApp
  | RowSetOpen json bool | RowSetDisplayName json jsstr | ClickUpdateApp json | ClickDeleteApp json

record app_row =
  ar_open :: bool
  ar_displayName :: "json option"

record 'w apps_page = "('w, apps_mutation) page" +
  av_open :: bool
  av_name :: jsstr
  av_displayName :: jsstr
  av_rows :: "jsstr \<Rightarrow> app_row option"

definition app_row_state :: "'w apps_page \<Rightarrow> json \<Rightarrow> app_row" where
  "app_row_state s app = (case av_rows s (app_id app) of
     Some r \<Rightarrow> r | None \<Rightarrow> \<lparr>ar_open = False, ar_displayName = fld ''display_name'' app\<rparr>)"

definition set_app_row :: "json \<Rightarrow> (app_row \<Rightarrow> app_row) \<Rightarrow> 'w apps_page \<Rightarrow> 'w apps_page" where
  "set_app_row app f s = s\<lparr>av_rows := (av_rows s)(app_id app \<mapsto> f (app_row_state s app))\<rparr>"

definition apps_query :: "jsstr list" where
  "apps_query = [js ''apps'']"

subsection \<open>Mutations\<close>

definition one_app_url :: "jsstr \<Rightarrow> jsstr" where
  "one_app_url i = js ''/api/apps/'' @ i"

fun apps_mutationFn :: "'w ui_env \<Rightarrow> apps_mutation \<Rightarrow> ('w apps_page, json) ui_prog" where
  "apps_mutationFn env CreateApp =
     bnd (gets (\<lambda>s. (av_name s, av_displayName s))) (\<lambda>(name, displayName).
       send_json env ''POST'' (js ''/api/apps'') (object [(''name'', Some (JStr name)), (''display_name'', Some (JStr displayName))]))"
| "apps_mutationFn env (UpdateApp i) =
     bnd (gets (\<lambda>s. ar_displayName (app_row_state s (pg_rows s i)))) (\<lambda>displayName.
       send_json env ''PATCH'' (one_app_url i) (object [(''display_name'', displayName)]))"
| "apps_mutationFn env (DeleteApp i) = send env ''DELETE'' (one_app_url i)"

fun apps_onSuccess :: "'w ui_env \<Rightarrow> apps_mutation \<Rightarrow> json \<Rightarrow> ('w apps_page, unit) ui_prog" where
  "apps_onSuccess env CreateApp response =
     bnd (toast_success (env_tr env ''apps'' ''created'' [])) (\<lambda>_.
     bnd (modify (\<lambda>s. s\<lparr>av_open := False, av_name := [], av_displayName := []\<rparr>)) (\<lambda>_.
     invalidateQueries apps_query))"
| "apps_onSuccess env (UpdateApp i) response =
     bnd (toast_success (env_tr env ''apps'' ''updated'' [])) (\<lambda>_.
     bnd (modify (\<lambda>s. set_app_row (pg_rows s i) (\<lambda>r. r\<lparr>ar_open := False\<rparr>) s)) (\<lambda>_.
     invalidateQueries apps_query))"
| "apps_onSuccess env (DeleteApp i) response =
     bnd (toast_success (env_tr env ''apps'' ''deleted'' [])) (\<lambda>_. invalidateQueries apps_query)"

definition apps_onError :: "'w ui_env \<Rightarrow> apps_mutation \<Rightarrow> exn \<Rightarrow> ('w apps_page, unit) ui_prog" where
  "apps_onError env m e = onError_toast env e"

subsection \<open>Handlers\<close>

fun apps_handle :: "'w ui_env \<Rightarrow> apps_event \<Rightarrow> 'w apps_page \<Rightarrow> 'w apps_page" where
  "apps_handle env (SetOpen b) s = s\<lparr>av_open := b\<rparr>"
| "apps_handle env (SetName v) s = s\<lparr>av_name := v\<rparr>"
| "apps_handle env (SetDisplayName v) s = s\<lparr>av_displayName := v\<rparr>"
| "apps_handle env ClickCreateApp s = mutate CreateApp (apps_mutationFn env CreateApp) s"
| "apps_handle env (RowSetOpen app b) s = set_app_row app (\<lambda>r. r\<lparr>ar_open := b\<rparr>) s"
| "apps_handle env (RowSetDisplayName app v) s = set_app_row app (\<lambda>r. r\<lparr>ar_displayName := Some (JStr v)\<rparr>) s"
| "apps_handle env (ClickUpdateApp app) s =
     mutate (UpdateApp (app_id app)) (apps_mutationFn env (UpdateApp (app_id app))) (use_row (app_id app) app s)"
| "apps_handle env (ClickDeleteApp app) s =
     mutate (DeleteApp (app_id app)) (apps_mutationFn env (DeleteApp (app_id app))) (use_row (app_id app) app s)"

subsection \<open>Rendering\<close>

definition AppRowActions :: "'w ui_env \<Rightarrow> 'w apps_page \<Rightarrow> json \<Rightarrow> apps_event ui" where
  "AppRowActions env s app =
     (let t = env_tr env ''apps''; common = (\<lambda>k. env_tr env ''common'' k []); row = app_row_state s app in
      Box [Dialog (ar_open row) (RowSetOpen app)
             [Button (common ''edit'') False (RowSetOpen app True)]
             [Txt (t ''editTitle'' []), Txt (t ''editDescription'' []),
              Input (item_string (fld ''name'' app)) True (RowSetDisplayName app),
              Input (item_string (ar_displayName row)) False (RowSetDisplayName app),
              Button (common ''cancel'') False (RowSetOpen app False),
              Button (common ''save'') (isPending (UpdateApp (app_id app)) s) (ClickUpdateApp app)],
           ConfirmButton (common ''delete'')
             (fld ''id'' app = Some (JStr (js ''default'')) \<or> isPending (DeleteApp (app_id app)) s)
             (t ''confirmDelete'' [(''name'', item_string (fld ''display_name'' app))]) (ClickDeleteApp app)])"

definition apps_row :: "'w ui_env \<Rightarrow> 'w apps_page \<Rightarrow> json \<Rightarrow> exn + apps_event ui list" where
  "apps_row env s app = bind_res (displayProjectName app) (\<lambda>name.
     Inr [Txt name, Child (fld ''name'' app), Child (fld ''id'' app), Child (fld ''updated_at'' app), AppRowActions env s app])"

definition AppsView :: "'w ui_env \<Rightarrow> json list \<Rightarrow> 'w apps_page \<Rightarrow> exn + apps_event ui" where
  "AppsView env apps s =
     (let t = (\<lambda>k. env_tr env ''apps'' k []); common = (\<lambda>k. env_tr env ''common'' k []) in
      bind_res (map_res (apps_row env s) apps) (\<lambda>rows.
      Inr (Section (t ''title'') (t ''description'')
        [Dialog (av_open s) SetOpen
           [Button (common ''newApp'') False (SetOpen True)]
           [Txt (t ''createTitle''), Input (av_name s) False SetName, Input (av_displayName s) False SetDisplayName,
            Button (common ''create'') (isPending CreateApp s) ClickCreateApp]]
        [DataTableView (env_tr env)
           [t ''columnsDisplay'', t ''columnsName'', t ''columnsId'', t ''columnsUpdated'', t ''columnsActions''] rows False
           (Some (t ''emptyTitle'')) (Some (t ''emptyDescription''))])))"

subsection \<open>The contract\<close>

fun apps_starts :: "apps_event \<Rightarrow> apps_mutation option" where
  "apps_starts ClickCreateApp = Some CreateApp"
| "apps_starts (ClickUpdateApp app) = Some (UpdateApp (app_id app))"
| "apps_starts (ClickDeleteApp app) = Some (DeleteApp (app_id app))"
| "apps_starts e = None"

definition apps_queries :: "'w ui_env \<Rightarrow> 'w apps_page \<Rightarrow> (jsstr list \<times> nat \<times> ('w apps_page, json option) ui_prog) list" where
  "apps_queries env s = [(apps_query, default_retry, fetch_member env (js ''/api/apps'') ''apps'')]"

lemma apps_row_offers:
  assumes "apps_row env s app = Inr row" "u \<in> set row" "e \<in> offers u"
  shows "(\<exists>b. e = RowSetOpen app b) \<or> (\<exists>v. e = RowSetDisplayName app v)
    \<or> e = ClickUpdateApp app \<and> \<not> isPending (UpdateApp (app_id app)) s
    \<or> e = ClickDeleteApp app \<and> fld ''id'' app \<noteq> Some (JStr (js ''default'')) \<and> \<not> isPending (DeleteApp (app_id app)) s"
  using assms
  by (auto simp: apps_row_def AppRowActions_def Let_def Dialog_def bind_res_eq_Inr split: if_splits)

lemma apps_offers:
  assumes "AppsView env apps s = Inr u" "e \<in> offers u"
  shows "(\<exists>b. e = SetOpen b) \<or> (\<exists>v. e = SetName v \<or> e = SetDisplayName v)
    \<or> e = ClickCreateApp \<and> \<not> isPending CreateApp s
    \<or> (\<exists>app \<in> set apps. (\<exists>b. e = RowSetOpen app b) \<or> (\<exists>v. e = RowSetDisplayName app v)
       \<or> e = ClickUpdateApp app \<and> \<not> isPending (UpdateApp (app_id app)) s
       \<or> e = ClickDeleteApp app \<and> fld ''id'' app \<noteq> Some (JStr (js ''default'')) \<and> \<not> isPending (DeleteApp (app_id app)) s)"
proof -
  obtain rows where rows: "map_res (apps_row env s) apps = Inr rows"
    and u: "u = (let t = (\<lambda>k. env_tr env ''apps'' k []); common = (\<lambda>k. env_tr env ''common'' k []) in
      Section (t ''title'') (t ''description'')
        [Dialog (av_open s) SetOpen
           [Button (common ''newApp'') False (SetOpen True)]
           [Txt (t ''createTitle''), Input (av_name s) False SetName, Input (av_displayName s) False SetDisplayName,
            Button (common ''create'') (isPending CreateApp s) ClickCreateApp]]
        [DataTableView (env_tr env)
           [t ''columnsDisplay'', t ''columnsName'', t ''columnsId'', t ''columnsUpdated'', t ''columnsActions''] rows False
           (Some (t ''emptyTitle'')) (Some (t ''emptyDescription''))])"
    using assms(1) by (auto simp: AppsView_def Let_def bind_res_eq_Inr)
  consider "e \<in> {SetOpen True, SetOpen False, ClickCreateApp} \<union> range SetName \<union> range SetDisplayName"
      "e = ClickCreateApp \<longrightarrow> \<not> isPending CreateApp s"
    | row v where "row \<in> set rows" "v \<in> set row" "e \<in> offers v"
    using assms(2) unfolding u Let_def by (auto simp: Section_def Dialog_def offers_DataTableView split: if_splits)
  then show ?thesis
  proof cases
    case 1
    then show ?thesis by auto
  next
    case (2 row v)
    then obtain app where "app \<in> set apps" "apps_row env s app = Inr row"
      using map_res_mem [OF rows] by blast
    then show ?thesis using apps_row_offers [of env s app row v e] 2 by blast
  qed
qed

lemma apps_mutationFn_pending: "keeps_pending (apps_mutationFn env m)"
  by (cases m) (auto intro!: pending_simps split: prod.split)

lemma set_app_row_simps [simp]:
  "pg_pending (set_app_row app f s) = pg_pending s" "pg_console (set_app_row app f s) = pg_console s"
  by (simp_all add: set_app_row_def)

lemma apps_onSuccess_ok: "keeps_pending (apps_onSuccess env m v)" "quiet (apps_onSuccess env m v)"
  by (cases m; auto intro!: pending_simps quiet_intros)+

interpretation apps: console_view "AppsView env apps" "apps_handle env" apps_starts
  "apps_onSuccess env" "apps_onError env" "apps_queries env" "\<lambda>_. True" for env apps
proof unfold_locales
  show "\<not> isPending m s" if "AppsView env apps s = Inr u" "e \<in> offers u" "apps_starts e = Some m" for s u e m
    using apps_offers [OF that(1,2)] that(3) by auto
  show "map fst (pg_pending (apps_handle env e s)) =
      map fst (pg_pending s) @ (case apps_starts e of None \<Rightarrow> [] | Some m \<Rightarrow> [m])" for e s
    by (cases e) (auto simp: pending_mutate apps_mutationFn_pending use_row_def simp del: apps_mutationFn.simps)
qed (auto simp: apps_onSuccess_ok apps_onError_def apps_queries_def pending_simps)

definition deletes_default :: "jsstr \<Rightarrow> request \<Rightarrow> bool" where
  "deletes_default base r \<longleftrightarrow> req_method r = js ''DELETE'' \<and> req_url r = base @ js ''/api/apps/default''"

lemma not_deletes_refresh: "refresh_request base r \<Longrightarrow> \<not> deletes_default base r"
  by (auto simp: deletes_default_def refresh_request_def)

lemma typed_id:
  assumes "has_type AppSummary app"
  shows "\<exists>i. fld ''id'' app = Some (JStr i) \<and> app_id app = i"
  using has_type_member [OF assms [unfolded AppSummary_def], of "''id''" TString]
  by (auto simp: fld_def app_id_def item_string_def has_type_TString simp del: has_type.simps)

text \<open>For projects of the declared type, no request deletes the default project.\<close>

definition keeps_default :: "json list \<Rightarrow> jsstr \<Rightarrow> request \<Rightarrow> bool" where
  "keeps_default apps base r \<longleftrightarrow> (list_all (has_type AppSummary) apps \<longrightarrow> \<not> deletes_default base r)"

lemma keeps_defaultI: "\<not> deletes_default base r \<Longrightarrow> keeps_default apps base r"
  by (simp add: keeps_default_def)

lemma apps_handle_sends:
  assumes "AppsView env apps s = Inr u" "e \<in> offers u" "pg_base s = base"
  shows "page_log (keeps_default apps base) s (apps_handle env e s)"
proof -
  have same: "page_log P s s'" if "pg_console s' = pg_console s" for P s' using that by (rule page_log_refl)
  have use: "pg_base (use_row i a s) = base" "pg_console (use_row i a s) = pg_console s" for i a
    using assms(3) by (simp_all add: use_row_def pg_base_def)
  have mut: "page_log P s (mutate m fn (use_row i a s))" if "page_sends P fn (use_row i a s)" for P m fn i a
    using page_log_trans [OF same page_log_mutate [OF that]] use(2) by blast
  from apps_offers [OF assms(1,2)] show ?thesis
  proof (elim disjE exE conjE bexE)
    assume e: "e = ClickCreateApp"
    show ?thesis unfolding e using assms(3)
      by (auto intro!: page_log_mutate appends_bnd_gets page_sends_send [of _ base] keeps_defaultI simp: deletes_default_def refresh_request_def)
  next
    fix app assume e: "e = ClickUpdateApp app"
    show ?thesis unfolding e apps_handle.simps apps_mutationFn.simps
      by (intro mut appends_bnd_gets page_sends_send [OF use(1)] keeps_defaultI) (auto simp: deletes_default_def refresh_request_def)
  next
    fix app assume e: "e = ClickDeleteApp app" and app: "app \<in> set apps" "fld ''id'' app \<noteq> Some (JStr (js ''default''))"
    have url: "\<not> deletes_default base r" if "req_url r = base @ one_app_url (app_id app)" "has_type AppSummary app" for r
      using typed_id [OF that(2)] that(1) app(2) by (auto simp: deletes_default_def one_app_url_def js_def)
    then have "keeps_default apps base r" if "req_url r = base @ one_app_url (app_id app)" for r
      using that app(1) by (auto simp: keeps_default_def list_all_iff)
    then show ?thesis unfolding e apps_handle.simps apps_mutationFn.simps
      by (intro mut page_sends_send [OF use(1)]) (auto simp: keeps_default_def not_deletes_refresh)
  qed (auto intro!: same)
qed

interpretation apps_audit: audited_view "AppsView env apps" "apps_handle env" apps_starts
  "apps_onSuccess env" "apps_onError env" "apps_queries env" "\<lambda>_. True" base "keeps_default apps base" for env apps base
  by unfold_locales (auto simp: apps_handle_sends apps_onSuccess_ok apps_onError_def apps_queries_def quiet_intros
      intro!: page_sends_get keeps_defaultI simp: deletes_default_def refresh_request_def)

subsection \<open>Properties\<close>

text \<open>
  C28: The project page never asks the server to delete the default project: in every run of the page, with
  any clicks, edits, answers and repeated queries in any order, no request is a DELETE of
  \<open>/api/apps/default\<close>, for projects of the declared type.
\<close>

theorem default_project_not_deleted:
  assumes "list_all (has_type AppSummary) apps" "(apps.step env apps)\<^sup>*\<^sup>* s s'"
  shows "\<exists>rs. pg_sent s' = pg_sent s @ rs \<and> list_all (\<lambda>r. \<not> deletes_default (pg_base s) r) rs"
  using apps_audit.run_sends [OF assms(2) refl] assms(1) by (auto simp: page_log_def keeps_default_def list_all_iff)

definition typed_app :: json where
  "typed_app = JObj (map (\<lambda>k. (js k, JStr (js ''default''))) [''id'', ''workspace_id'', ''name'', ''display_name'', ''created_at'', ''updated_at''])"

definition sample_apps :: "nat apps_page" where
  "sample_apps = page.extend (sample_page apps_query (JArr [typed_app])) (apps_page.fields False [] [] (\<lambda>_. None))"

theorem default_project_not_deleted_witness:
  "\<exists>rs. pg_sent (load_query default_retry apps_query (fetch_member sample_env (js ''/api/apps'') ''apps'') sample_apps) = pg_sent sample_apps @ rs
     \<and> list_all (\<lambda>r. \<not> deletes_default (pg_base sample_apps) r) rs"
proof (rule default_project_not_deleted [of "[typed_app]" sample_env])
  show "list_all (has_type AppSummary) [typed_app]" by (simp add: AppSummary_def typed_app_def)
  show "(apps.step sample_env [typed_app])\<^sup>*\<^sup>* sample_apps
      (load_query default_retry apps_query (fetch_member sample_env (js ''/api/apps'') ''apps'') sample_apps)"
    by (rule r_into_rtranclp, rule apps.step.load) (simp add: apps_queries_def)
qed

end
