(* ===== verification/View_Storage.thy ===== *)
theory View_Storage
  imports Console_Ui
begin

text \<open>
  The storage page (\<open>src/console/src/components/console/views/storage-view.tsx\<close>). The properties are about
  how the page addresses objects and how it sends a size limit. The state of a bucket's row begins
  when the row is first used.
\<close>

subsection \<open>State\<close>

datatype storage_mutation =
    CreateBucket | UploadObject | UpdateBucket jsstr | DeleteBucket jsstr | DeleteObject jsstr jsstr

datatype storage_event =
    SelectBucket jsstr | SetBucketName jsstr | SetObjectKey jsstr | SetObjectBody jsstr | SetContentType jsstr
  | ClickCreateBucket | ClickUpload
  | BucketSetOpen json bool | BucketSetPublicRead json jsstr | BucketSetClientUploads json jsstr
  | BucketSetMaxBytes json jsstr | BucketSetMimeTypes json jsstr | ClickUpdateBucket json | ClickDeleteBucket json
  | ClickDeleteObject jsstr jsstr

record bucket_row =
  br_open :: bool
  br_publicRead :: jsstr
  br_clientUploads :: jsstr
  br_maxBytes :: jsstr
  br_mimeTypes :: jsstr

record 'w storage_page = "('w, storage_mutation) page" +
  sv_selectedBucket :: jsstr
  sv_name :: jsstr
  sv_objectKey :: jsstr
  sv_objectBody :: jsstr
  sv_contentType :: jsstr
  sv_rows :: "jsstr \<Rightarrow> bucket_row option"

text \<open>\<open>types.join(", ")\<close>: \<open>null\<close> elements give the empty string.\<close>

definition join_values :: "json list \<Rightarrow> jsstr" where
  "join_values vs = js_join (js '', '') (map (\<lambda>v. if v = JNull then [] else js_String v) vs)"

definition bool_text :: "bool \<Rightarrow> jsstr" where
  "bool_text b = js (if b then ''true'' else ''false'')"

definition initial_bucket_row :: "json \<Rightarrow> bucket_row" where
  "initial_bucket_row bucket = \<lparr>br_open = False, br_publicRead = bool_text (is_true (fld ''public_read'' bucket)),
     br_clientUploads = bool_text (is_true (fld ''allow_client_uploads'' bucket)),
     br_maxBytes = (if is_true (fld ''max_object_bytes'' bucket) then item_string (fld ''max_object_bytes'' bucket) else []),
     br_mimeTypes = join_values (storageMimeTypes bucket)\<rparr>"

definition bucket_name :: "json \<Rightarrow> jsstr" where
  "bucket_name bucket = row_id ''name'' bucket"

definition bucket_row_state :: "'w storage_page \<Rightarrow> json \<Rightarrow> bucket_row" where
  "bucket_row_state s bucket = (case sv_rows s (bucket_name bucket) of Some r \<Rightarrow> r | None \<Rightarrow> initial_bucket_row bucket)"

definition set_bucket_row :: "json \<Rightarrow> (bucket_row \<Rightarrow> bucket_row) \<Rightarrow> 'w storage_page \<Rightarrow> 'w storage_page" where
  "set_bucket_row bucket f s = s\<lparr>sv_rows := (sv_rows s)(bucket_name bucket \<mapsto> f (bucket_row_state s bucket))\<rparr>"

definition buckets_query :: "json \<Rightarrow> jsstr list" where
  "buckets_query app = [js ''storage'', js ''buckets'', app_id app]"

definition objects_query :: "json \<Rightarrow> jsstr \<Rightarrow> jsstr list" where
  "objects_query app bucket = [js ''storage'', js ''objects'', app_id app, bucket]"

text \<open>\<open>selected || data?.[0]?.k || ""\<close>\<close>

definition or_first :: "jsstr \<Rightarrow> string \<Rightarrow> json option \<Rightarrow> jsstr" where
  "or_first selected k d = (if selected \<noteq> [] then selected
     else if is_true (first_member k d) then item_string (first_member k d) else [])"

definition activeBucket :: "json \<Rightarrow> 'w storage_page \<Rightarrow> jsstr" where
  "activeBucket app s = or_first (sv_selectedBucket s) ''name'' (query_data (buckets_query app) s)"

definition buckets_url :: "json \<Rightarrow> jsstr" where
  "buckets_url app = app_path app (js ''/storage/buckets'')"

definition bucket_url :: "json \<Rightarrow> jsstr \<Rightarrow> jsstr" where
  "bucket_url app bucket = buckets_url app @ js ''/'' @ bucket"

definition object_url :: "json \<Rightarrow> jsstr \<Rightarrow> jsstr \<Rightarrow> jsstr" where
  "object_url app bucket key = bucket_url app bucket @ js ''/objects/'' @ key"

definition storage_queries :: "'w ui_env \<Rightarrow> json \<Rightarrow> 'w storage_page \<Rightarrow> (jsstr list \<times> nat \<times> ('w storage_page, json option) ui_prog) list" where
  "storage_queries env app s =
     (buckets_query app, default_retry, fetch_member env (buckets_url app) ''buckets'')
     # (if activeBucket app s \<noteq> [] then [(objects_query app (activeBucket app s), default_retry,
          fetch_member env (bucket_url app (activeBucket app s) @ js ''/objects'') ''objects'')] else [])"

subsection \<open>Mutations\<close>

definition bucket_patch :: "bucket_row \<Rightarrow> json" where
  "bucket_patch row = object [
     (''public_read'', Some (JBool (br_publicRead row = js ''true''))),
     (''allow_client_uploads'', Some (JBool (br_clientUploads row = js ''true''))),
     (''max_object_bytes'', Some (if js_trim (br_maxBytes row) \<noteq> [] then JNum (js_Number (br_maxBytes row)) else JNull)),
     (''allowed_mime_types'', Some (JArr (map JStr (filter (\<lambda>v. v \<noteq> []) (map js_trim (js_split [44] (br_mimeTypes row)))))))]"

definition new_bucket :: "jsstr \<Rightarrow> json" where
  "new_bucket name = object [(''name'', Some (JStr name)), (''public_read'', Some (JBool False)),
     (''allow_client_uploads'', Some (JBool False)), (''max_object_bytes'', Some JNull), (''allowed_mime_types'', Some (JArr []))]"

fun storage_mutationFn :: "'w ui_env \<Rightarrow> json \<Rightarrow> storage_mutation \<Rightarrow> ('w storage_page, json) ui_prog" where
  "storage_mutationFn env app CreateBucket =
     bnd (gets sv_name) (\<lambda>name. send_json env ''POST'' (buckets_url app) (new_bucket name))"
| "storage_mutationFn env app UploadObject =
     bnd (gets (\<lambda>s. s)) (\<lambda>s.
       in_console (apiFetch (env_fetch env) (object_url app (activeBucket app s) (sv_objectKey s))
         \<lparr>fi_method = ''PUT'',
          fi_headers = [(js ''Content-Type'', if sv_contentType s \<noteq> [] then sv_contentType s else js ''text/plain'')],
          fi_body = Some (BodyText (sv_objectBody s)), fi_auth = True\<rparr>))"
| "storage_mutationFn env app (UpdateBucket b) =
     bnd (gets (\<lambda>s. bucket_row_state s (pg_rows s b))) (\<lambda>row. send_json env ''PATCH'' (bucket_url app b) (bucket_patch row))"
| "storage_mutationFn env app (DeleteBucket b) = send env ''DELETE'' (bucket_url app b)"
| "storage_mutationFn env app (DeleteObject b key) = send env ''DELETE'' (object_url app b key)"

fun storage_onSuccess :: "'w ui_env \<Rightarrow> json \<Rightarrow> storage_mutation \<Rightarrow> json \<Rightarrow> ('w storage_page, unit) ui_prog" where
  "storage_onSuccess env app CreateBucket response =
     bnd (toast_success (env_tr env ''storageView'' ''bucketCreated'' [])) (\<lambda>_. invalidateQueries (buckets_query app))"
| "storage_onSuccess env app UploadObject response =
     bnd (toast_success (env_tr env ''storageView'' ''objectUploaded'' [])) (\<lambda>_.
     bnd (gets (activeBucket app)) (\<lambda>b. invalidateQueries (objects_query app b)))"
| "storage_onSuccess env app (UpdateBucket b) response =
     bnd (toast_success (env_tr env ''storageView'' ''bucketUpdated'' [])) (\<lambda>_.
     bnd (modify (\<lambda>s. set_bucket_row (pg_rows s b) (\<lambda>r. r\<lparr>br_open := False\<rparr>) s)) (\<lambda>_.
     invalidateQueries (buckets_query app)))"
| "storage_onSuccess env app (DeleteBucket b) response =
     bnd (toast_success (env_tr env ''storageView'' ''bucketDeleted'' [])) (\<lambda>_. invalidateQueries (buckets_query app))"
| "storage_onSuccess env app (DeleteObject b key) response =
     bnd (toast_success (env_tr env ''storageView'' ''objectDeleted'' [])) (\<lambda>_. invalidateQueries (objects_query app b))"

definition storage_onError :: "'w ui_env \<Rightarrow> storage_mutation \<Rightarrow> exn \<Rightarrow> ('w storage_page, unit) ui_prog" where
  "storage_onError env m e = onError_toast env e"

subsection \<open>Handlers\<close>

fun storage_handle :: "'w ui_env \<Rightarrow> json \<Rightarrow> storage_event \<Rightarrow> 'w storage_page \<Rightarrow> 'w storage_page" where
  "storage_handle env app (SelectBucket v) s = s\<lparr>sv_selectedBucket := v\<rparr>"
| "storage_handle env app (SetBucketName v) s = s\<lparr>sv_name := v\<rparr>"
| "storage_handle env app (SetObjectKey v) s = s\<lparr>sv_objectKey := v\<rparr>"
| "storage_handle env app (SetObjectBody v) s = s\<lparr>sv_objectBody := v\<rparr>"
| "storage_handle env app (SetContentType v) s = s\<lparr>sv_contentType := v\<rparr>"
| "storage_handle env app ClickCreateBucket s = mutate CreateBucket (storage_mutationFn env app CreateBucket) s"
| "storage_handle env app ClickUpload s = mutate UploadObject (storage_mutationFn env app UploadObject) s"
| "storage_handle env app (BucketSetOpen b v) s = set_bucket_row b (\<lambda>r. r\<lparr>br_open := v\<rparr>) s"
| "storage_handle env app (BucketSetPublicRead b v) s = set_bucket_row b (\<lambda>r. r\<lparr>br_publicRead := v\<rparr>) s"
| "storage_handle env app (BucketSetClientUploads b v) s = set_bucket_row b (\<lambda>r. r\<lparr>br_clientUploads := v\<rparr>) s"
| "storage_handle env app (BucketSetMaxBytes b v) s = set_bucket_row b (\<lambda>r. r\<lparr>br_maxBytes := v\<rparr>) s"
| "storage_handle env app (BucketSetMimeTypes b v) s = set_bucket_row b (\<lambda>r. r\<lparr>br_mimeTypes := v\<rparr>) s"
| "storage_handle env app (ClickUpdateBucket b) s =
     mutate (UpdateBucket (bucket_name b)) (storage_mutationFn env app (UpdateBucket (bucket_name b))) (use_row (bucket_name b) b s)"
| "storage_handle env app (ClickDeleteBucket b) s =
     mutate (DeleteBucket (bucket_name b)) (storage_mutationFn env app (DeleteBucket (bucket_name b))) (use_row (bucket_name b) b s)"
| "storage_handle env app (ClickDeleteObject b key) s = mutate (DeleteObject b key) (storage_mutationFn env app (DeleteObject b key)) s"

subsection \<open>Rendering\<close>

definition BucketActions :: "'w ui_env \<Rightarrow> 'w storage_page \<Rightarrow> json \<Rightarrow> storage_event ui" where
  "BucketActions env s bucket =
     (let t = (\<lambda>k. env_tr env ''storageView'' k []); common = (\<lambda>k. env_tr env ''common'' k []); row = bucket_row_state s bucket;
          choice = (\<lambda>l. [(js ''false'', l @ js '': '' @ common ''no''), (js ''true'', l @ js '': '' @ common ''yes'')]) in
      Box [Dialog (br_open row) (BucketSetOpen bucket)
             [Button (common ''edit'') False (BucketSetOpen bucket True)]
             [Txt (t ''editBucket''), Child (fld ''name'' bucket),
              Select (br_publicRead row) (choice (t ''publicRead'')) (BucketSetPublicRead bucket),
              Select (br_clientUploads row) (choice (t ''clientUploads'')) (BucketSetClientUploads bucket),
              Input (br_maxBytes row) False (BucketSetMaxBytes bucket),
              Input (br_mimeTypes row) False (BucketSetMimeTypes bucket),
              Button (common ''cancel'') False (BucketSetOpen bucket False),
              Button (common ''save'') (isPending (UpdateBucket (bucket_name bucket)) s) (ClickUpdateBucket bucket)],
           ConfirmButton (common ''delete'') (isPending (DeleteBucket (bucket_name bucket)) s)
             (env_tr env ''storageView'' ''confirmDeleteBucket'' [(''name'', bucket_name bucket)]) (ClickDeleteBucket bucket)])"

definition ObjectActions :: "'w ui_env \<Rightarrow> 'w storage_page \<Rightarrow> jsstr \<Rightarrow> jsstr \<Rightarrow> storage_event ui" where
  "ObjectActions env s bucket key =
     ConfirmButton (env_tr env ''common'' ''delete'' []) (isPending (DeleteObject bucket key) s)
       (env_tr env ''storageView'' ''confirmDeleteObject'' [(''key'', key)]) (ClickDeleteObject bucket key)"

definition bucket_table_row :: "'w ui_env \<Rightarrow> 'w storage_page \<Rightarrow> json \<Rightarrow> storage_event ui list" where
  "bucket_table_row env s bucket =
     (let common = (\<lambda>k. env_tr env ''common'' k []); yes_no = (\<lambda>b. Txt (if b then common ''yes'' else common ''no'')) in
      [Child (fld ''name'' bucket), yes_no (is_true (fld ''public_read'' bucket)),
       yes_no (is_true (fld ''allow_client_uploads'' bucket)),
       Txt (if is_true (fld ''max_object_bytes'' bucket) then bytes_text (fld ''max_object_bytes'' bucket) else common ''no''),
       Child (fld ''updated_at'' bucket), BucketActions env s bucket])"

definition object_table_row :: "'w ui_env \<Rightarrow> json \<Rightarrow> 'w storage_page \<Rightarrow> json \<Rightarrow> storage_event ui list" where
  "object_table_row env app s obj =
     [Child (fld ''key'' obj), Child (fld ''size'' obj), Child (coalesce (fld ''content_type'' obj) (Some (JStr []))),
      Child (fld ''updated_at'' obj), ObjectActions env s (activeBucket app s) (row_id ''key'' obj)]"

definition storage_tabs :: "'w ui_env \<Rightarrow> json \<Rightarrow> 'w storage_page \<Rightarrow> json list \<Rightarrow> json list \<Rightarrow> storage_event ui" where
  "storage_tabs env app s buckets objects =
     (let t = (\<lambda>k. env_tr env ''storageView'' k []); common = (\<lambda>k. env_tr env ''common'' k []); active = activeBucket app s in
      Tabs [
        (t ''buckets'', DataTableView (env_tr env)
           [t ''name'', t ''publicRead'', t ''clientUploads'', t ''maxBytes'', t ''updated'', t ''columnsActions'']
           (map (bucket_table_row env s) buckets) (isLoading True (buckets_query app) s)
           (Some (t ''emptyBucketsTitle'')) (Some (t ''emptyBucketsDescription''))),
        (t ''objects'', Box [
           Panel (t ''overwriteObject'')
             [Select active (map (\<lambda>b. (bucket_name b, child_text (fld ''name'' b))) buckets) SelectBucket,
              Input (sv_objectKey s) False SetObjectKey, Input (sv_contentType s) False SetContentType,
              Input (sv_objectBody s) False SetObjectBody,
              Button (common ''upload'') (active = [] \<or> isPending UploadObject s) ClickUpload],
           DataTableView (env_tr env) [t ''key'', t ''size'', t ''contentType'', t ''updated'', t ''columnsActions'']
             (map (object_table_row env app s) objects) (isLoading (active \<noteq> []) (objects_query app active) s)
             (Some (if active \<noteq> [] then t ''emptyObjectsTitle'' else t ''emptyObjectsNoBucketTitle''))
             (Some (if active \<noteq> [] then t ''emptyObjectsDescription'' else t ''emptyObjectsNoBucketDescription''))])])"

definition StorageView :: "'w ui_env \<Rightarrow> json \<Rightarrow> 'w storage_page \<Rightarrow> exn + storage_event ui" where
  "StorageView env app s =
     (let t = (\<lambda>k. env_tr env ''storageView'' k []); common = (\<lambda>k. env_tr env ''common'' k []); active = activeBucket app s in
      bind_res (rows_of (query_data (buckets_query app) s)) (\<lambda>buckets.
      bind_res (rows_of (query_data (objects_query app active) s)) (\<lambda>objects.
      Inr (Section (t ''title'') (t ''description'') []
        [Panel (t ''createBucket'')
           [Input (sv_name s) False SetBucketName, Button (common ''create'') (isPending CreateBucket s) ClickCreateBucket],
         storage_tabs env app s buckets objects]))))"

subsection \<open>The contract\<close>

fun storage_starts :: "storage_event \<Rightarrow> storage_mutation option" where
  "storage_starts ClickCreateBucket = Some CreateBucket"
| "storage_starts ClickUpload = Some UploadObject"
| "storage_starts (ClickUpdateBucket b) = Some (UpdateBucket (bucket_name b))"
| "storage_starts (ClickDeleteBucket b) = Some (DeleteBucket (bucket_name b))"
| "storage_starts (ClickDeleteObject b k) = Some (DeleteObject b k)"
| "storage_starts e = None"

lemma bucket_row_guarded:
  "u \<in> set (bucket_table_row env s b) \<Longrightarrow> e \<in> offers u \<Longrightarrow> storage_starts e = Some m \<Longrightarrow> \<not> isPending m s"
  by (auto simp: bucket_table_row_def BucketActions_def Let_def Dialog_def split: if_splits)

lemma object_row_guarded:
  "u \<in> set (object_table_row env app s b) \<Longrightarrow> e \<in> offers u \<Longrightarrow> storage_starts e = Some m \<Longrightarrow> \<not> isPending m s"
  by (auto simp: object_table_row_def ObjectActions_def split: if_splits)

lemma storage_tabs_guarded:
  assumes "e \<in> offers (storage_tabs env app s buckets objects)" "storage_starts e = Some m"
  shows "\<not> isPending m s"
proof -
  consider row v where "row \<in> set (map (bucket_table_row env s) buckets)" "v \<in> set row" "e \<in> offers v"
    | row v where "row \<in> set (map (object_table_row env app s) objects)" "v \<in> set row" "e \<in> offers v"
    | "e = ClickUpload" "\<not> isPending UploadObject s"
    | v where "e \<in> {SelectBucket v, SetObjectKey v, SetContentType v, SetObjectBody v}"
    using assms(1) unfolding storage_tabs_def Let_def
    by (auto simp: Panel_def offers_DataTableView simp del: set_map split: if_splits)
  then show ?thesis
    using assms(2) bucket_row_guarded [of _ env s _ e m] object_row_guarded [of _ env app s _ e m] by cases auto
qed

lemma storage_guarded:
  assumes "StorageView env app s = Inr u" "e \<in> offers u" "storage_starts e = Some m"
  shows "\<not> isPending m s"
proof -
  from assms(1) obtain buckets objects where u: "u = (let t = (\<lambda>k. env_tr env ''storageView'' k []); common = (\<lambda>k. env_tr env ''common'' k []);
      active = activeBucket app s in
      Section (t ''title'') (t ''description'') []
        [Panel (t ''createBucket'')
           [Input (sv_name s) False SetBucketName, Button (common ''create'') (isPending CreateBucket s) ClickCreateBucket],
         storage_tabs env app s buckets objects])"
    by (auto simp: StorageView_def Let_def bind_res_eq_Inr)
  consider "e = ClickCreateBucket" "\<not> isPending CreateBucket s" | v where "e = SetBucketName v"
    | "e \<in> offers (storage_tabs env app s buckets objects)"
    using assms(2) unfolding u Let_def by (auto simp: Section_def Panel_def split: if_splits)
  then show ?thesis
  proof cases
    case 3
    then show ?thesis using storage_tabs_guarded assms(3) by blast
  qed (use assms(3) in auto)
qed

lemma storage_mutationFn_pending: "keeps_pending (storage_mutationFn env app m)"
  by (cases m) (auto intro!: pending_simps)

lemma set_bucket_row_simps [simp]:
  "pg_pending (set_bucket_row b f s) = pg_pending s" "pg_console (set_bucket_row b f s) = pg_console s"
  by (simp_all add: set_bucket_row_def)

lemma storage_onSuccess_pending: "keeps_pending (storage_onSuccess env app m v)"
  by (cases m) (auto intro!: pending_simps)

interpretation storage: console_view "StorageView env app" "storage_handle env app" storage_starts
  "storage_onSuccess env app" "storage_onError env" "storage_queries env app" "\<lambda>_. True" for env app
proof unfold_locales
  show "map fst (pg_pending (storage_handle env app e s)) =
      map fst (pg_pending s) @ (case storage_starts e of None \<Rightarrow> [] | Some m \<Rightarrow> [m])" for e s
    by (cases e) (auto simp: pending_mutate storage_mutationFn_pending use_row_def simp del: storage_mutationFn.simps)
qed (auto simp: storage_guarded storage_onSuccess_pending storage_onError_def storage_queries_def pending_simps split: if_splits)

subsection \<open>Properties\<close>

text \<open>The part of a URL that names the resource: up to the query or the fragment.\<close>

definition url_path :: "jsstr \<Rightarrow> jsstr" where
  "url_path u = takeWhile (\<lambda>c. c \<noteq> 63 \<and> c \<noteq> 35) u"

lemma url_path_cut_last: "c = 63 \<or> c = 35 \<Longrightarrow> url_path (u @ c # r) = url_path u"
  by (induction u) (auto simp: url_path_def)

lemma url_path_cut: "c = 63 \<or> c = 35 \<Longrightarrow> url_path (a @ u @ c # r) = url_path (a @ u)"
  using url_path_cut_last [of c "a @ u" r] by simp


definition sample_storage :: "nat storage_page" where
  "sample_storage = page.extend (sample_page (buckets_query sample_app) (JArr []))
     (storage_page.fields [] [] [] [] [] (\<lambda>_. None))"


text \<open>
  A mistyped size limit removes the limit: when the text in the field is no number (such as
  \<open>10MB\<close>), the saved bucket is the one an empty field saves, without a limit, because
  \<open>NaN\<close> serialises as null.
\<close>

theorem mistyped_limit_removes_limit:
  assumes "js_Number m = NaN"
  shows "stringify (bucket_patch (row\<lparr>br_maxBytes := m\<rparr>)) = stringify (bucket_patch (row\<lparr>br_maxBytes := []\<rparr>))"
  using assms by (simp add: bucket_patch_def object_def List.map_filter_simps stringify_def js_trim_def)

theorem mistyped_limit_removes_limit_witness:
  "stringify (bucket_patch \<lparr>br_open = True, br_publicRead = [], br_clientUploads = [], br_maxBytes = js ''10MB'', br_mimeTypes = []\<rparr>)
   = stringify (bucket_patch \<lparr>br_open = True, br_publicRead = [], br_clientUploads = [], br_maxBytes = [], br_mimeTypes = []\<rparr>)"
proof -
  have "js_Number (js ''10MB'') = NaN" by code_simp
  from mistyped_limit_removes_limit [OF this, of "\<lparr>br_open = True, br_publicRead = [], br_clientUploads = [], br_maxBytes = [], br_mimeTypes = []\<rparr>"]
  show ?thesis by simp
qed

end
