(* ===== verification/View_Data.thy ===== *)
theory View_Data
  imports Console_Ui
begin

text \<open>
  The data page (\<open>src/console/src/components/console/views/data-view.tsx\<close>): tables with their editor,
  export and deletion, rows with theirs. Loading the draft of a table into its editor is an
  asynchronous handler, not a mutation, and is modelled as one that is not exclusive. The state of a
  table's or row's controls begins when they are first used.
\<close>

subsection \<open>State\<close>

datatype data_mutation =
    CreateTable | CreateRow | LoadDraft jsstr | UpdateTable jsstr | DeleteTable jsstr | ExportTable jsstr
  | UpdateRow jsstr jsstr | DeleteRow jsstr jsstr

datatype data_event =
    SelectTable jsstr | SetTableName jsstr | SetRowJson jsstr | ClickCreateTable | ClickCreateRow
  | TableSetOpen jsstr bool | TableOpenEditor jsstr | TableSetDisplayName jsstr jsstr | TableSetPolicy jsstr jsstr
  | TableSetSchema jsstr jsstr | ClickUpdateTable jsstr | ClickExportTable jsstr | ClickDeleteTable jsstr
  | RowSetOpen jsstr json bool | RowSetJson jsstr json jsstr | ClickUpdateRow jsstr json | ClickDeleteRow jsstr json

record table_row =
  tr_open :: bool
  tr_loadingDraft :: bool
  tr_displayName :: jsstr
  tr_schemaJson :: jsstr
  tr_policyMode :: json

record data_row =
  dr_open :: bool
  dr_rowJson :: jsstr

record 'w data_page = "('w, data_mutation) page" +
  dv_selectedTable :: jsstr
  dv_name :: jsstr
  dv_rowJson :: jsstr
  dv_tables :: "jsstr \<Rightarrow> table_row option"
  dv_rows :: "jsstr \<Rightarrow> data_row option"

definition table_state :: "'w data_page \<Rightarrow> jsstr \<Rightarrow> table_row" where
  "table_state s tableName = (case dv_tables s tableName of
     Some r \<Rightarrow> r
   | None \<Rightarrow> \<lparr>tr_open = False, tr_loadingDraft = False, tr_displayName = tableName, tr_schemaJson = [],
       tr_policyMode = JStr (js ''admin_only'')\<rparr>)"

definition set_table :: "jsstr \<Rightarrow> (table_row \<Rightarrow> table_row) \<Rightarrow> 'w data_page \<Rightarrow> 'w data_page" where
  "set_table tableName f s = s\<lparr>dv_tables := (dv_tables s)(tableName \<mapsto> f (table_state s tableName))\<rparr>"

text \<open>\<open>String(row.id ?? "")\<close> and \<open>row.data ?? {}\<close>\<close>

definition data_row_id :: "json \<Rightarrow> jsstr" where
  "data_row_id row = string_or (fld ''id'' row) []"

definition row_data :: "json \<Rightarrow> json" where
  "row_data row = (case fld ''data'' row of None \<Rightarrow> JObj [] | Some d \<Rightarrow> if d = JNull then JObj [] else d)"

definition data_row_state :: "'w data_page \<Rightarrow> json \<Rightarrow> data_row" where
  "data_row_state s row = (case dv_rows s (data_row_id row) of
     Some r \<Rightarrow> r | None \<Rightarrow> \<lparr>dr_open = False, dr_rowJson = stringify2 (row_data row)\<rparr>)"

definition set_data_row :: "json \<Rightarrow> (data_row \<Rightarrow> data_row) \<Rightarrow> 'w data_page \<Rightarrow> 'w data_page" where
  "set_data_row row f s = s\<lparr>dv_rows := (dv_rows s)(data_row_id row \<mapsto> f (data_row_state s row))\<rparr>"

definition tables_query :: "json \<Rightarrow> jsstr list" where
  "tables_query app = [js ''data'', js ''tables'', app_id app]"

definition rows_query :: "json \<Rightarrow> jsstr \<Rightarrow> jsstr list" where
  "rows_query app t = [js ''data'', js ''rows'', app_id app, t]"

text \<open>\<open>selectedTable || String(tables.data?.[0]?.name ?? "")\<close>\<close>

definition activeTable :: "json \<Rightarrow> 'w data_page \<Rightarrow> jsstr" where
  "activeTable app s = (if dv_selectedTable s \<noteq> [] then dv_selectedTable s
     else case query_data (tables_query app) s of Some (JArr (t # _)) \<Rightarrow> string_or (fld ''name'' t) [] | _ \<Rightarrow> [])"

definition tables_url :: "json \<Rightarrow> jsstr" where
  "tables_url app = app_path app (js ''/data/tables'')"

definition table_url :: "json \<Rightarrow> jsstr \<Rightarrow> jsstr" where
  "table_url app t = tables_url app @ js ''/'' @ t"

definition rows_url :: "json \<Rightarrow> jsstr \<Rightarrow> jsstr" where
  "rows_url app t = table_url app t @ js ''/rows''"

definition row_url :: "json \<Rightarrow> jsstr \<Rightarrow> jsstr \<Rightarrow> jsstr" where
  "row_url app t i = rows_url app t @ js ''/'' @ i"

definition data_queries :: "'w ui_env \<Rightarrow> json \<Rightarrow> 'w data_page \<Rightarrow> (jsstr list \<times> nat \<times> ('w data_page, json option) ui_prog) list" where
  "data_queries env app s =
     (tables_query app, default_retry, fetch_member env (tables_url app) ''tables'')
     # (if activeTable app s \<noteq> [] then [(rows_query app (activeTable app s), default_retry,
          fetch_member env (rows_url app (activeTable app s)) ''rows'')] else [])"

subsection \<open>Mutations\<close>

definition new_table :: "jsstr \<Rightarrow> json" where
  "new_table name = object [(''name'', Some (JStr name)), (''display_name'', Some (JStr name)),
     (''schema'', Some (object [(''fields'', Some (object [(''title'', Some (object
        [(''type'', Some (JStr (js ''string''))), (''required'', Some (JBool True))]))]))])),
     (''access_policy'', Some (object [(''mode'', Some (JStr (js ''admin_only'')))]))]"

definition invalid_json :: "'w ui_env \<Rightarrow> jsstr" where
  "invalid_json env = env_tr env ''common'' ''inputJsonInvalid'' []"

fun data_mutationFn :: "'w ui_env \<Rightarrow> json \<Rightarrow> data_mutation \<Rightarrow> ('w data_page, json) ui_prog" where
  "data_mutationFn env app CreateTable = bnd (gets dv_name) (\<lambda>name. send_json env ''POST'' (tables_url app) (new_table name))"
| "data_mutationFn env app CreateRow =
     bnd (gets (\<lambda>s. (activeTable app s, dv_rowJson s))) (\<lambda>(t, rowJson).
     bnd (lift_res (or_throw SyntaxError (parse rowJson))) (\<lambda>v.
     send_json env ''POST'' (rows_url app t) (object [(''data'', Some v)])))"
| "data_mutationFn env app (LoadDraft t) = send env ''GET'' (table_url app t)"
| "data_mutationFn env app (UpdateTable t) =
     bnd (gets (\<lambda>s. table_state s t)) (\<lambda>row.
     bnd (lift_res (parseJsonInput (tr_schemaJson row) (invalid_json env))) (\<lambda>schema.
     send_json env ''PATCH'' (table_url app t) (object [(''display_name'', Some (JStr (tr_displayName row))),
       (''schema'', Some schema), (''access_policy'', Some (object [(''mode'', Some (tr_policyMode row))]))])))"
| "data_mutationFn env app (DeleteTable t) = send env ''DELETE'' (table_url app t)"
| "data_mutationFn env app (ExportTable t) = send env ''GET'' (table_url app t @ js ''/export'')"
| "data_mutationFn env app (UpdateRow t i) =
     bnd (gets (\<lambda>s. data_row_state s (pg_rows s i))) (\<lambda>row.
     bnd (lift_res (parseJsonInput (dr_rowJson row) (invalid_json env))) (\<lambda>v.
     send_json env ''PATCH'' (row_url app t i) (object [(''data'', Some v)])))"
| "data_mutationFn env app (DeleteRow t i) = send env ''DELETE'' (row_url app t i)"

text \<open>The body of \<open>openEditor\<close> after the request; \<open>finally\<close> ends the loading state.\<close>

definition load_draft :: "jsstr \<Rightarrow> json \<Rightarrow> ('w data_page, unit) ui_prog" where
  "load_draft t response =
     bnd (lift_res (get_prop ''table'' response)) (\<lambda>table.
     bnd (lift_res (case table of None \<Rightarrow> Inl TypeError | Some v \<Rightarrow> if v = JNull then Inl TypeError else Inr v)) (\<lambda>v.
     bnd (modify (set_table t (\<lambda>r. r\<lparr>tr_displayName := string_or (fld ''display_name'' v) t,
       tr_schemaJson := stringify2 (case fld ''schema'' v of None \<Rightarrow> JObj [(js ''fields'', JObj [])]
          | Some x \<Rightarrow> if x = JNull then JObj [(js ''fields'', JObj [])] else x)\<rparr>))) (\<lambda>_.
     modify (set_table t (\<lambda>r. r\<lparr>tr_policyMode :=
       (case fld ''access_policy'' v of None \<Rightarrow> JStr (js ''admin_only'')
        | Some p \<Rightarrow> (case coalesce (member (js ''mode'') p) (Some (JStr (js ''admin_only''))) of Some m \<Rightarrow> m | None \<Rightarrow> JNull))\<rparr>)))))"

fun data_onSuccess :: "'w ui_env \<Rightarrow> json \<Rightarrow> data_mutation \<Rightarrow> json \<Rightarrow> ('w data_page, unit) ui_prog" where
  "data_onSuccess env app CreateTable response =
     bnd (toast_success (env_tr env ''dataView'' ''tableCreated'' [])) (\<lambda>_. invalidateQueries (tables_query app))"
| "data_onSuccess env app CreateRow response =
     bnd (toast_success (env_tr env ''dataView'' ''rowCreated'' [])) (\<lambda>_.
     bnd (gets (activeTable app)) (\<lambda>t. invalidateQueries (rows_query app t)))"
| "data_onSuccess env app (LoadDraft t) response =
     bnd (load_draft t response) (\<lambda>_. modify (set_table t (\<lambda>r. r\<lparr>tr_loadingDraft := False\<rparr>)))"
| "data_onSuccess env app (UpdateTable t) response =
     bnd (toast_success (env_tr env ''dataView'' ''tableUpdated'' [])) (\<lambda>_.
     bnd (modify (set_table t (\<lambda>r. r\<lparr>tr_open := False\<rparr>))) (\<lambda>_. invalidateQueries (tables_query app)))"
| "data_onSuccess env app (DeleteTable t) response =
     bnd (toast_success (env_tr env ''dataView'' ''tableDeleted'' [])) (\<lambda>_. invalidateQueries (tables_query app))"
| "data_onSuccess env app (ExportTable t) payload =
     modify (\<lambda>s. s\<lparr>pg_downloads := pg_downloads s @ [(t @ js ''.json'', stringify2 payload)]\<rparr>)"
| "data_onSuccess env app (UpdateRow t i) response =
     bnd (toast_success (env_tr env ''dataView'' ''rowUpdated'' [])) (\<lambda>_.
     bnd (modify (\<lambda>s. set_data_row (pg_rows s i) (\<lambda>r. r\<lparr>dr_open := False\<rparr>) s)) (\<lambda>_. invalidateQueries (rows_query app t)))"
| "data_onSuccess env app (DeleteRow t i) response =
     bnd (toast_success (env_tr env ''dataView'' ''rowDeleted'' [])) (\<lambda>_. invalidateQueries (rows_query app t))"

fun data_onError :: "'w ui_env \<Rightarrow> data_mutation \<Rightarrow> exn \<Rightarrow> ('w data_page, unit) ui_prog" where
  "data_onError env (LoadDraft t) e =
     bnd (onError_toast env e) (\<lambda>_. modify (set_table t (\<lambda>r. r\<lparr>tr_loadingDraft := False\<rparr>)))"
| "data_onError env m e = onError_toast env e"

subsection \<open>Handlers\<close>

definition start :: "'w ui_env \<Rightarrow> json \<Rightarrow> data_mutation \<Rightarrow> 'w data_page \<Rightarrow> 'w data_page" where
  "start env app m s = mutate m (data_mutationFn env app m) s"

fun data_handle :: "'w ui_env \<Rightarrow> json \<Rightarrow> data_event \<Rightarrow> 'w data_page \<Rightarrow> 'w data_page" where
  "data_handle env app (SelectTable v) s = s\<lparr>dv_selectedTable := v\<rparr>"
| "data_handle env app (SetTableName v) s = s\<lparr>dv_name := v\<rparr>"
| "data_handle env app (SetRowJson v) s = s\<lparr>dv_rowJson := v\<rparr>"
| "data_handle env app ClickCreateTable s = start env app CreateTable s"
| "data_handle env app ClickCreateRow s = start env app CreateRow s"
| "data_handle env app (TableSetOpen t v) s = set_table t (\<lambda>r. r\<lparr>tr_open := v\<rparr>) s"
| "data_handle env app (TableOpenEditor t) s =
     start env app (LoadDraft t) (set_table t (\<lambda>r. r\<lparr>tr_open := True, tr_loadingDraft := True\<rparr>) s)"
| "data_handle env app (TableSetDisplayName t v) s = set_table t (\<lambda>r. r\<lparr>tr_displayName := v\<rparr>) s"
| "data_handle env app (TableSetPolicy t v) s = set_table t (\<lambda>r. r\<lparr>tr_policyMode := JStr v\<rparr>) s"
| "data_handle env app (TableSetSchema t v) s = set_table t (\<lambda>r. r\<lparr>tr_schemaJson := v\<rparr>) s"
| "data_handle env app (ClickUpdateTable t) s = start env app (UpdateTable t) s"
| "data_handle env app (ClickExportTable t) s = start env app (ExportTable t) s"
| "data_handle env app (ClickDeleteTable t) s = start env app (DeleteTable t) s"
| "data_handle env app (RowSetOpen t row v) s = set_data_row row (\<lambda>r. r\<lparr>dr_open := v\<rparr>) s"
| "data_handle env app (RowSetJson t row v) s = set_data_row row (\<lambda>r. r\<lparr>dr_rowJson := v\<rparr>) s"
| "data_handle env app (ClickUpdateRow t row) s = start env app (UpdateRow t (data_row_id row)) (use_row (data_row_id row) row s)"
| "data_handle env app (ClickDeleteRow t row) s = start env app (DeleteRow t (data_row_id row)) (use_row (data_row_id row) row s)"

subsection \<open>Rendering\<close>

definition DataTableActions :: "'w ui_env \<Rightarrow> 'w data_page \<Rightarrow> jsstr \<Rightarrow> data_event ui" where
  "DataTableActions env s t =
     (let tt = env_tr env ''dataView''; common = (\<lambda>k. env_tr env ''common'' k []); row = table_state s t in
      Box [Dialog (tr_open row) (TableSetOpen t)
             [Button (common ''edit'') False (TableOpenEditor t)]
             [Txt (tt ''editTable'' []), Txt t,
              Input (tr_displayName row) False (TableSetDisplayName t),
              Select (js_String (tr_policyMode row))
                (map (\<lambda>p. (js p, js p)) [''admin_only'', ''owner_private'', ''authenticated_shared_rw'']) (TableSetPolicy t),
              Input (tr_schemaJson row) False (TableSetSchema t),
              Button (common ''cancel'') False (TableSetOpen t False),
              Button (common ''save'') (isPending (UpdateTable t) s \<or> tr_loadingDraft row) (ClickUpdateTable t)],
           Button (tt ''export'' []) (isPending (ExportTable t) s) (ClickExportTable t),
           ConfirmButton (common ''delete'') (isPending (DeleteTable t) s)
             (tt ''confirmDeleteTable'' [(''name'', t)]) (ClickDeleteTable t)])"

definition DataRowActions :: "'w ui_env \<Rightarrow> 'w data_page \<Rightarrow> jsstr \<Rightarrow> json \<Rightarrow> data_event ui" where
  "DataRowActions env s t row =
     (let tt = (\<lambda>k. env_tr env ''dataView'' k []); common = (\<lambda>k. env_tr env ''common'' k []); r = data_row_state s row; i = data_row_id row in
      Box [Dialog (dr_open r) (RowSetOpen t row)
             [Button (common ''edit'') False (RowSetOpen t row True)]
             [Txt (tt ''editRow''), Txt i, Input (dr_rowJson r) False (RowSetJson t row),
              Button (common ''cancel'') False (RowSetOpen t row False),
              Button (common ''save'') (isPending (UpdateRow t i) s) (ClickUpdateRow t row)],
           ConfirmButton (common ''delete'') (isPending (DeleteRow t i) s) (tt ''confirmDeleteRow'') (ClickDeleteRow t row)])"

definition table_table_row :: "'w ui_env \<Rightarrow> 'w data_page \<Rightarrow> json \<Rightarrow> data_event ui list" where
  "table_table_row env s table =
     [Child (fld ''name'' table), Txt (item_string (coalesce (fld ''display_name'' table) (fld ''name'' table))),
      Txt (string_or (fld ''policy_mode'' table) (js ''admin'')), Child (fld ''created_at'' table),
      DataTableActions env s (row_id ''name'' table)]"

definition data_table_row :: "'w ui_env \<Rightarrow> json \<Rightarrow> 'w data_page \<Rightarrow> json \<Rightarrow> data_event ui list" where
  "data_table_row env app s row =
     [Txt (data_row_id row), Txt (stringify (row_data row)), Txt (string_or (fld ''created_at'' row) []),
      Txt (string_or (fld ''updated_at'' row) []), DataRowActions env s (activeTable app s) row]"

definition data_tabs :: "'w ui_env \<Rightarrow> json \<Rightarrow> 'w data_page \<Rightarrow> json list \<Rightarrow> json list \<Rightarrow> data_event ui" where
  "data_tabs env app s tables rows =
     (let t = (\<lambda>k. env_tr env ''dataView'' k []); common = (\<lambda>k. env_tr env ''common'' k []); active = activeTable app s in
      Tabs [
        (t ''tables'', DataTableView (env_tr env) [t ''name'', t ''display'', t ''policy'', t ''created'', common ''actions'']
           (map (table_table_row env s) tables) (isLoading True (tables_query app) s)
           (Some (t ''emptyTablesTitle'')) (Some (t ''emptyTablesDescription''))),
        (t ''rows'', Box [
           Panel (t ''rowEditor'')
             [Select active (map (\<lambda>b. (row_id ''name'' b, child_text (fld ''name'' b))) tables) SelectTable,
              Input (dv_rowJson s) False SetRowJson,
              Button (t ''createRow'') (active = [] \<or> isPending CreateRow s) ClickCreateRow],
           DataTableView (env_tr env) [js ''ID'', t ''data'', t ''created'', t ''updated'', common ''actions'']
             (map (data_table_row env app s) rows) (isLoading (active \<noteq> []) (rows_query app active) s)
             (Some (if active \<noteq> [] then t ''emptyRowsTitle'' else t ''emptyRowsNoTableTitle''))
             (Some (if active \<noteq> [] then t ''emptyRowsDescription'' else t ''emptyRowsNoTableDescription''))])])"

definition DataView :: "'w ui_env \<Rightarrow> json \<Rightarrow> 'w data_page \<Rightarrow> exn + data_event ui" where
  "DataView env app s =
     (let t = (\<lambda>k. env_tr env ''dataView'' k []); common = (\<lambda>k. env_tr env ''common'' k []) in
      bind_res (rows_of (query_data (tables_query app) s)) (\<lambda>tables.
      bind_res (rows_of (query_data (rows_query app (activeTable app s)) s)) (\<lambda>rows.
      Inr (Section (t ''title'') (t ''description'') []
        [Panel (t ''createTable'')
           [Input (dv_name s) False SetTableName, Button (common ''create'') (isPending CreateTable s) ClickCreateTable],
         data_tabs env app s tables rows]))))"

subsection \<open>The contract\<close>

fun data_starts :: "data_event \<Rightarrow> data_mutation option" where
  "data_starts ClickCreateTable = Some CreateTable"
| "data_starts ClickCreateRow = Some CreateRow"
| "data_starts (TableOpenEditor t) = Some (LoadDraft t)"
| "data_starts (ClickUpdateTable t) = Some (UpdateTable t)"
| "data_starts (ClickExportTable t) = Some (ExportTable t)"
| "data_starts (ClickDeleteTable t) = Some (DeleteTable t)"
| "data_starts (ClickUpdateRow t row) = Some (UpdateRow t (data_row_id row))"
| "data_starts (ClickDeleteRow t row) = Some (DeleteRow t (data_row_id row))"
| "data_starts e = None"

fun data_exclusive :: "data_mutation \<Rightarrow> bool" where
  "data_exclusive (LoadDraft t) = False"
| "data_exclusive m = True"

lemma table_row_guarded:
  "u \<in> set (table_table_row env s b) \<Longrightarrow> e \<in> offers u \<Longrightarrow> data_starts e = Some m \<Longrightarrow> data_exclusive m \<Longrightarrow> \<not> isPending m s"
  by (auto simp: table_table_row_def DataTableActions_def Let_def Dialog_def split: if_splits)

lemma data_row_guarded:
  "u \<in> set (data_table_row env app s b) \<Longrightarrow> e \<in> offers u \<Longrightarrow> data_starts e = Some m \<Longrightarrow> data_exclusive m \<Longrightarrow> \<not> isPending m s"
  by (auto simp: data_table_row_def DataRowActions_def Let_def Dialog_def split: if_splits)

lemma data_tabs_guarded:
  assumes "e \<in> offers (data_tabs env app s tables rows)" "data_starts e = Some m" "data_exclusive m"
  shows "\<not> isPending m s"
proof -
  consider row v where "row \<in> set (map (table_table_row env s) tables)" "v \<in> set row" "e \<in> offers v"
    | row v where "row \<in> set (map (data_table_row env app s) rows)" "v \<in> set row" "e \<in> offers v"
    | "e = ClickCreateRow" "\<not> isPending CreateRow s"
    | v where "e \<in> {SelectTable v, SetRowJson v}"
    using assms(1) unfolding data_tabs_def Let_def
    by (auto simp: Panel_def offers_DataTableView simp del: set_map split: if_splits)
  then show ?thesis
    using assms(2,3) table_row_guarded [of _ env s _ e m] data_row_guarded [of _ env app s _ e m] by cases auto
qed

lemma data_guarded:
  assumes "DataView env app s = Inr u" "e \<in> offers u" "data_starts e = Some m" "data_exclusive m"
  shows "\<not> isPending m s"
proof -
  obtain tables rows where u: "u = (let t = (\<lambda>k. env_tr env ''dataView'' k []); common = (\<lambda>k. env_tr env ''common'' k []) in
      Section (t ''title'') (t ''description'') []
        [Panel (t ''createTable'')
           [Input (dv_name s) False SetTableName, Button (common ''create'') (isPending CreateTable s) ClickCreateTable],
         data_tabs env app s tables rows])"
    using assms(1) by (auto simp: DataView_def Let_def bind_res_eq_Inr)
  consider "e = ClickCreateTable" "\<not> isPending CreateTable s" | v where "e = SetTableName v"
    | "e \<in> offers (data_tabs env app s tables rows)"
    using assms(2) unfolding u Let_def by (auto simp: Section_def Panel_def split: if_splits)
  then show ?thesis
  proof cases
    case 3
    then show ?thesis using data_tabs_guarded assms(3,4) by blast
  qed (use assms(3) in auto)
qed

lemma set_table_simps [simp]:
  "pg_pending (set_table t f s) = pg_pending s" "pg_pending (set_data_row r g s) = pg_pending s"
  by (simp_all add: set_table_def set_data_row_def)

lemma data_mutationFn_pending: "keeps_pending (data_mutationFn env app m)"
  by (cases m) (auto intro!: pending_simps split: prod.split)

lemma data_onSuccess_pending: "keeps_pending (data_onSuccess env app m v)"
  by (cases m) (auto simp: load_draft_def intro!: pending_simps)

lemma data_onError_pending: "keeps_pending (data_onError env m e)"
  by (cases m) (auto intro!: pending_simps)

interpretation data: console_view "DataView env app" "data_handle env app" data_starts
  "data_onSuccess env app" "data_onError env" "data_queries env app" data_exclusive for env app
proof unfold_locales
  show "map fst (pg_pending (data_handle env app e s)) =
      map fst (pg_pending s) @ (case data_starts e of None \<Rightarrow> [] | Some m \<Rightarrow> [m])" for e s
    by (cases e) (auto simp: start_def pending_mutate data_mutationFn_pending use_row_def simp del: data_mutationFn.simps)
qed (auto simp: data_guarded data_onSuccess_pending data_onError_pending data_queries_def pending_simps split: if_splits)

end
