(* ===== verification/View_Auth.thy ===== *)
theory View_Auth
  imports Console_Ui
begin

text \<open>
  The page of users, sessions and providers
  (\<open>src/console/src/components/console/views/auth-view.tsx\<close>).
\<close>

subsection \<open>State\<close>

datatype auth_mutation = CreateUser | ToggleUser jsstr | DeleteUser jsstr | RevokeSession jsstr jsstr

datatype auth_event =
    SelectUser jsstr | SetEmail jsstr | SetPassword jsstr | SetIsActive jsstr | SetIsAdmin jsstr | ClickCreateUser
  | ClickToggleUser json | ClickDeleteUser json | ClickRevokeSession jsstr jsstr

record 'w auth_page = "('w, auth_mutation) page" +
  uv_selectedUserId :: jsstr
  uv_email :: jsstr
  uv_password :: jsstr
  uv_isActive :: jsstr
  uv_isAdmin :: jsstr

definition users_query :: "json \<Rightarrow> jsstr list" where
  "users_query app = [js ''auth'', js ''users'', app_id app]"

definition providers_query :: "json \<Rightarrow> jsstr list" where
  "providers_query app = [js ''auth'', js ''providers'', app_id app]"

definition sessions_query :: "json \<Rightarrow> jsstr \<Rightarrow> jsstr list" where
  "sessions_query app u = [js ''auth'', js ''sessions'', app_id app, u]"

definition firstUserId :: "json \<Rightarrow> 'w auth_page \<Rightarrow> json option" where
  "firstUserId app s = (if uv_selectedUserId s \<noteq> [] then Some (JStr (uv_selectedUserId s))
     else first_member ''id'' (query_data (users_query app) s))"

definition users_url :: "json \<Rightarrow> jsstr" where
  "users_url app = app_path app (js ''/auth/users'')"

definition user_url :: "json \<Rightarrow> jsstr \<Rightarrow> jsstr" where
  "user_url app u = users_url app @ js ''/'' @ u"

definition auth_queries :: "'w ui_env \<Rightarrow> json \<Rightarrow> 'w auth_page \<Rightarrow> (jsstr list \<times> nat \<times> ('w auth_page, json option) ui_prog) list" where
  "auth_queries env app s =
     [(users_query app, default_retry, fetch_member env (users_url app) ''users''),
      (providers_query app, default_retry, fetch_all env (app_path app (js ''/auth/providers'')) get_init)]
     @ (if is_true (firstUserId app s) then [(sessions_query app (item_string (firstUserId app s)), default_retry,
          fetch_member env (user_url app (item_string (firstUserId app s)) @ js ''/sessions'') ''sessions'')] else [])"

subsection \<open>Mutations\<close>

definition new_user :: "'w auth_page \<Rightarrow> json" where
  "new_user s = object [(''email'', Some (JStr (uv_email s))), (''password'', Some (JStr (uv_password s))),
     (''is_active'', Some (JBool (uv_isActive s = js ''true''))), (''is_admin'', Some (JBool (uv_isAdmin s = js ''true''))),
     (''admin_role'', Some (JStr (js (if uv_isAdmin s = js ''true'' then ''developer'' else ''viewer''))))]"

definition user_active :: "json \<Rightarrow> bool" where
  "user_active user = is_true (fld ''is_active'' user)"

fun auth_mutationFn :: "'w ui_env \<Rightarrow> json \<Rightarrow> auth_mutation \<Rightarrow> ('w auth_page, json) ui_prog" where
  "auth_mutationFn env app CreateUser = bnd (gets new_user) (\<lambda>body. send_json env ''POST'' (users_url app) body)"
| "auth_mutationFn env app (ToggleUser u) =
     bnd (gets (\<lambda>s. user_active (pg_rows s u))) (\<lambda>active.
     send env ''POST'' (user_url app u @ js ''/'' @ js (if active then ''deactivate'' else ''activate'')))"
| "auth_mutationFn env app (DeleteUser u) = send env ''DELETE'' (user_url app u)"
| "auth_mutationFn env app (RevokeSession u i) = send env ''DELETE'' (user_url app u @ js ''/sessions/'' @ i)"

definition refresh_users :: "json \<Rightarrow> jsstr \<Rightarrow> ('w auth_page, unit) ui_prog" where
  "refresh_users app u = bnd (invalidateQueries (users_query app)) (\<lambda>_. invalidateQueries (sessions_query app u))"

fun auth_onSuccess :: "'w ui_env \<Rightarrow> json \<Rightarrow> auth_mutation \<Rightarrow> json \<Rightarrow> ('w auth_page, unit) ui_prog" where
  "auth_onSuccess env app CreateUser response =
     bnd (toast_success (env_tr env ''authView'' ''createdUser'' [])) (\<lambda>_. invalidateQueries (users_query app))"
| "auth_onSuccess env app (ToggleUser u) response =
     bnd (gets (\<lambda>s. user_active (latest_row ''id'' (users_query app) u s))) (\<lambda>active.
     bnd (toast_success (env_tr env ''authView'' (if active then ''userDeactivated'' else ''userActivated'') [])) (\<lambda>_.
     refresh_users app u))"
| "auth_onSuccess env app (DeleteUser u) response =
     bnd (toast_success (env_tr env ''authView'' ''userDeleted'' [])) (\<lambda>_. refresh_users app u)"
| "auth_onSuccess env app (RevokeSession u i) response =
     bnd (toast_success (env_tr env ''authView'' ''sessionRevoked'' [])) (\<lambda>_. invalidateQueries (sessions_query app u))"

definition auth_onError :: "'w ui_env \<Rightarrow> auth_mutation \<Rightarrow> exn \<Rightarrow> ('w auth_page, unit) ui_prog" where
  "auth_onError env m e = onError_toast env e"

subsection \<open>Handlers\<close>

definition user_id :: "json \<Rightarrow> jsstr" where
  "user_id user = row_id ''id'' user"

definition auth_start :: "'w ui_env \<Rightarrow> json \<Rightarrow> auth_mutation \<Rightarrow> 'w auth_page \<Rightarrow> 'w auth_page" where
  "auth_start env app m s = mutate m (auth_mutationFn env app m) s"

fun auth_handle :: "'w ui_env \<Rightarrow> json \<Rightarrow> auth_event \<Rightarrow> 'w auth_page \<Rightarrow> 'w auth_page" where
  "auth_handle env app (SelectUser v) s = s\<lparr>uv_selectedUserId := v\<rparr>"
| "auth_handle env app (SetEmail v) s = s\<lparr>uv_email := v\<rparr>"
| "auth_handle env app (SetPassword v) s = s\<lparr>uv_password := v\<rparr>"
| "auth_handle env app (SetIsActive v) s = s\<lparr>uv_isActive := v\<rparr>"
| "auth_handle env app (SetIsAdmin v) s = s\<lparr>uv_isAdmin := v\<rparr>"
| "auth_handle env app ClickCreateUser s = auth_start env app CreateUser s"
| "auth_handle env app (ClickToggleUser user) s = auth_start env app (ToggleUser (user_id user)) (use_row (user_id user) user s)"
| "auth_handle env app (ClickDeleteUser user) s = auth_start env app (DeleteUser (user_id user)) (use_row (user_id user) user s)"
| "auth_handle env app (ClickRevokeSession u i) s = auth_start env app (RevokeSession u i) s"

subsection \<open>Rendering\<close>

definition AuthUserActions :: "'w ui_env \<Rightarrow> 'w auth_page \<Rightarrow> json \<Rightarrow> auth_event ui" where
  "AuthUserActions env s user =
     (let t = env_tr env ''authView''; common = (\<lambda>k. env_tr env ''common'' k []); u = user_id user;
          email = [(''email'', item_string (fld ''email'' user))] in
      Box [Button (t ''sessions'' []) False (SelectUser u),
           ConfirmButton (if user_active user then common ''deactivate'' else common ''activate'') (isPending (ToggleUser u) s)
             (if user_active user then t ''confirmDeactivate'' email else t ''confirmActivate'' email) (ClickToggleUser user),
           ConfirmButton (common ''delete'') (isPending (DeleteUser u) s) (t ''confirmDeleteUser'' email) (ClickDeleteUser user)])"

definition SessionActions :: "'w ui_env \<Rightarrow> 'w auth_page \<Rightarrow> jsstr \<Rightarrow> jsstr \<Rightarrow> bool \<Rightarrow> auth_event ui" where
  "SessionActions env s userId sessionId active =
     ConfirmButton (env_tr env ''common'' ''delete'' [])
       (\<not> active \<or> userId = [] \<or> sessionId = [] \<or> isPending (RevokeSession userId sessionId) s)
       (env_tr env ''authView'' ''confirmSessionRevoke'' []) (ClickRevokeSession userId sessionId)"

definition user_table_row :: "'w ui_env \<Rightarrow> 'w auth_page \<Rightarrow> json \<Rightarrow> auth_event ui list" where
  "user_table_row env s user =
     [Child (fld ''email'' user), Child (fld ''id'' user), Txt (yes_no env (user_active user)),
      Txt (yes_no env (is_true (fld ''is_admin'' user))), AuthUserActions env s user]"

definition session_table_row :: "'w ui_env \<Rightarrow> json \<Rightarrow> 'w auth_page \<Rightarrow> json \<Rightarrow> auth_event ui list" where
  "session_table_row env app s session =
     [Txt (string_or (fld ''session_id'' session) []), Txt (yes_no env (is_true (fld ''is_active'' session))),
      Txt (string_or (fld ''created_at'' session) []), Txt (string_or (fld ''last_seen_at'' session) []),
      Txt (string_or (fld ''expires_at'' session) []),
      SessionActions env s (string_or (firstUserId app s) []) (string_or (fld ''session_id'' session) []) (is_true (fld ''is_active'' session))]"

definition create_user_panel :: "'w ui_env \<Rightarrow> 'w auth_page \<Rightarrow> auth_event ui" where
  "create_user_panel env s =
     (let t = (\<lambda>k. env_tr env ''authView'' k []);
          choice = (\<lambda>l vs. map (\<lambda>v. (js v, l @ js '': '' @ yes_no env (v = ''true''))) vs) in
      Panel (t ''createUser'')
        [Input (uv_email s) False SetEmail, Input (uv_password s) False SetPassword,
         Select (uv_isActive s) (choice (t ''active'') [''true'', ''false'']) SetIsActive,
         Select (uv_isAdmin s) (choice (t ''admin'') [''false'', ''true'']) SetIsAdmin,
         Button (env_tr env ''common'' ''create'' []) (isPending CreateUser s) ClickCreateUser])"

definition AuthView :: "'w ui_env \<Rightarrow> json \<Rightarrow> 'w auth_page \<Rightarrow> exn + auth_event ui" where
  "AuthView env app s =
     (let t = (\<lambda>k. env_tr env ''authView'' k []); u = firstUserId app s; sessionsKey = sessions_query app (item_string u) in
      bind_res (rows_of (query_data (users_query app) s)) (\<lambda>users.
      bind_res (rows_of (query_data sessionsKey s)) (\<lambda>sessions.
      Inr (Section (t ''title'') (t ''description'') []
        [Tabs [
          (t ''users'', Box [create_user_panel env s,
             DataTableView (env_tr env) [t ''email'', t ''userId'', t ''active'', t ''admin'', t ''actions'']
               (map (user_table_row env s) users) (isLoading True (users_query app) s) None None]),
          (t ''sessions'', Box [
             Select (string_or u []) (map (\<lambda>v. (user_id v, child_text (fld ''email'' v))) users) SelectUser,
             DataTableView (env_tr env) [t ''session'', t ''active'', t ''created'', t ''lastSeen'', t ''expires'', t ''actions'']
               (map (session_table_row env app s) sessions) (isLoading (is_true u) sessionsKey s) None None]),
          (t ''providers'', JsonText (or_loading env (query_data (providers_query app) s)))]]))))"

subsection \<open>The contract\<close>

fun auth_starts :: "auth_event \<Rightarrow> auth_mutation option" where
  "auth_starts ClickCreateUser = Some CreateUser"
| "auth_starts (ClickToggleUser user) = Some (ToggleUser (user_id user))"
| "auth_starts (ClickDeleteUser user) = Some (DeleteUser (user_id user))"
| "auth_starts (ClickRevokeSession u i) = Some (RevokeSession u i)"
| "auth_starts e = None"

lemma user_row_guarded:
  "u \<in> set (user_table_row env s b) \<Longrightarrow> e \<in> offers u \<Longrightarrow> auth_starts e = Some m \<Longrightarrow> \<not> isPending m s"
  by (auto simp: user_table_row_def AuthUserActions_def Let_def split: if_splits)

lemma session_row_guarded:
  "u \<in> set (session_table_row env app s b) \<Longrightarrow> e \<in> offers u \<Longrightarrow> auth_starts e = Some m \<Longrightarrow> \<not> isPending m s"
  by (auto simp: session_table_row_def SessionActions_def split: if_splits)

lemma auth_guarded:
  assumes "AuthView env app s = Inr v" "e \<in> offers v" "auth_starts e = Some m"
  shows "\<not> isPending m s"
proof -
  obtain users sessions where "rows_of (query_data (users_query app) s) = Inr users"
    "rows_of (query_data (sessions_query app (item_string (firstUserId app s))) s) = Inr sessions"
    using assms(1) unfolding AuthView_def Let_def bind_res_eq_Inr by blast
  then consider row x where "row \<in> set (map (user_table_row env s) users)" "x \<in> set row" "e \<in> offers x"
    | row x where "row \<in> set (map (session_table_row env app s) sessions)" "x \<in> set row" "e \<in> offers x"
    | "e = ClickCreateUser" "\<not> isPending CreateUser s"
    | x where "e \<in> {SelectUser x, SetEmail x, SetPassword x, SetIsActive x, SetIsAdmin x}"
    using assms(1,2)
    by (auto simp: AuthView_def Let_def Section_def create_user_panel_def Panel_def offers_DataTableView simp del: set_map split: if_splits)
  then show ?thesis
    using assms(3) user_row_guarded [of _ env s _ e m] session_row_guarded [of _ env app s _ e m] by cases auto
qed

lemma auth_mutationFn_pending: "keeps_pending (auth_mutationFn env app m)"
  by (cases m) (auto intro!: pending_simps)

lemma auth_onSuccess_pending: "keeps_pending (auth_onSuccess env app m v)"
  by (cases m) (auto simp: refresh_users_def intro!: pending_simps)

interpretation users: console_view "AuthView env app" "auth_handle env app" auth_starts
  "auth_onSuccess env app" "auth_onError env" "auth_queries env app" "\<lambda>_. True" for env app
proof unfold_locales
  show "map fst (pg_pending (auth_handle env app e s)) =
      map fst (pg_pending s) @ (case auth_starts e of None \<Rightarrow> [] | Some m \<Rightarrow> [m])" for e s
    by (cases e) (auto simp: auth_start_def pending_mutate auth_mutationFn_pending use_row_def simp del: auth_mutationFn.simps)
qed (auto simp: auth_guarded auth_onSuccess_pending auth_onError_def auth_queries_def pending_simps split: if_splits)

end
