(* ===== verification/Console_Metrics.thy ===== *)
theory Console_Metrics
  imports Console_Ui
begin

text \<open>
  What the functions, operations, overview and activity pages have in common: the queries for
  readiness, diagnostics, metrics and activity, and the figures they compute from the answers
  (\<open>views/functions-view.tsx\<close>, \<open>ops-view.tsx\<close>, \<open>overview-view.tsx\<close>, \<open>activity-view.tsx\<close>). The lemmas relate
  the counted failures to the groups of diagnostics that are shown.
\<close>

subsection \<open>Values\<close>

text \<open>\<open>a || b\<close>\<close>

definition js_or :: "json option \<Rightarrow> json option \<Rightarrow> json option" where
  "js_or a b = (if is_true a then a else b)"

text \<open>\<open>data?.a.b\<close>: only the first access is optional.\<close>

definition opt_chain :: "string \<Rightarrow> string \<Rightarrow> json option \<Rightarrow> exn + json option" where
  "opt_chain a b d = (case d of None \<Rightarrow> Inr None
     | Some v \<Rightarrow> if v = JNull then Inr None
         else case fld a v of None \<Rightarrow> Inl TypeError | Some w \<Rightarrow> get_prop b w)"

subsection \<open>Queries\<close>

definition ready_query :: "jsstr list" where
  "ready_query = [js ''ready'']"

definition diagnostics_query :: "jsstr list" where
  "diagnostics_query = [js ''ops'', js ''diagnostics'']"

definition metrics_query :: "jsstr list" where
  "metrics_query = [js ''ops'', js ''metrics'']"

definition activity_query :: "json \<Rightarrow> jsstr list" where
  "activity_query app = [js ''activity'', app_id app]"

definition fetch_ready :: "'w ui_env \<Rightarrow> (('w, 'm, 'z) page_scheme, json option) ui_prog" where
  "fetch_ready env = fetch_all env (js ''/api/ready'') (get_init\<lparr>fi_auth := False\<rparr>)"

definition fetch_diagnostics :: "'w ui_env \<Rightarrow> (('w, 'm, 'z) page_scheme, json option) ui_prog" where
  "fetch_diagnostics env = fetch_all env (js ''/api/admin/ops/diagnostics'') get_init"

definition fetch_metrics :: "'w ui_env \<Rightarrow> (('w, 'm, 'z) page_scheme, json option) ui_prog" where
  "fetch_metrics env = fetch_all env (js ''/api/admin/ops/metrics'') get_init"

text \<open>\<open>response.events ?? response.activity ?? []\<close>\<close>

definition activity_events :: "json \<Rightarrow> exn + json option" where
  "activity_events response = (if response = JNull then Inl TypeError
     else Inr (coalesce (fld ''events'' response) (coalesce (fld ''activity'' response) (Some (JArr [])))))"

definition fetch_activity :: "'w ui_env \<Rightarrow> json \<Rightarrow> (('w, 'm, 'z) page_scheme, json option) ui_prog" where
  "fetch_activity env app =
     bnd (in_console (apiFetch (env_fetch env) (app_path app (js ''/activity'')) get_init)) (\<lambda>v. lift_res (activity_events v))"

subsection \<open>Figures\<close>

text \<open>\<open>metrics.data?.functions.enabled ?? true\<close>; a flag counts by its truth value.\<close>

definition runtimeEnabled :: "json option \<Rightarrow> exn + bool" where
  "runtimeEnabled metrics = bind_res (opt_chain ''functions'' ''enabled'' metrics) (\<lambda>v.
     Inr (is_true (coalesce v (Some (JBool True)))))"

text \<open>\<open>platform?.checks ?? []\<close>, filtered by the state of the checks.\<close>

definition platformChecks :: "json option \<Rightarrow> exn + json list" where
  "platformChecks diagnostics = rows_of (case diagnostics of None \<Rightarrow> None | Some v \<Rightarrow> fld ''checks'' v)"

definition failedChecks :: "json list \<Rightarrow> nat" where
  "failedChecks checks = length (filter (\<lambda>c. \<not> check_ok c) checks)"

definition warningChecks :: "json list \<Rightarrow> nat" where
  "warningChecks checks = length (filter check_warning checks)"

text \<open>\<open>formatBytes(metrics.data?.database.size_bytes ?? 0)\<close>\<close>

definition database_size :: "json option \<Rightarrow> exn + jsstr" where
  "database_size metrics = bind_res (opt_chain ''database'' ''size_bytes'' metrics) (\<lambda>v.
     Inr (bytes_text (coalesce v (Some (JNum (Fin 0 0))))))"

lemma keeps_pending_metrics [pending_simps]:
  "keeps_pending (fetch_ready env)" "keeps_pending (fetch_diagnostics env)" "keeps_pending (fetch_metrics env)"
  "keeps_pending (fetch_activity env app)"
  unfolding fetch_ready_def fetch_diagnostics_def fetch_metrics_def fetch_activity_def by (intro pending_simps)+

lemma failed_and_warning_disjoint: "failedChecks checks + warningChecks checks \<le> length checks"
proof -
  have "length (filter check_warning checks) \<le> length (filter check_ok checks)"
    by (induction checks) (auto simp: check_warning_def)
  then show ?thesis
    using sum_length_filter_compl [of check_ok checks] by (simp add: failedChecks_def warningChecks_def)
qed

text \<open>Every page counts no failure exactly when each group of checks is shown as healthy.\<close>

lemma no_failures_iff_groups_ok:
  "failedChecks checks = 0 \<longleftrightarrow> list_all dg_ok (groupDiagnosticChecks t checks)"
proof -
  have "set checks = (\<Union>(b, cs) \<in> set (check_buckets checks). set cs)"
    by (auto simp: check_buckets_eq)
  then show ?thesis
    by (auto simp: failedChecks_def groupDiagnosticChecks_def list_all_iff filter_empty_conv Let_def) 
qed

end
