(* ===== verification/View_Functions.thy ===== *)
theory View_Functions
  imports Console_Metrics
begin

text \<open>
  The page of functions (\<open>src/console/src/components/console/views/functions-view.tsx\<close>) and its panels
  (\<open>views/functions\<close>): the draft of a function, the queries for the active one, the eight mutations with
  their callbacks, the loading of drafts, what is rendered and which controls are offered when. The
  lemmas show what a draft sends, what a disabled runtime leaves possible, and that a mutation never
  runs twice; the draft is not tied to the function that is saved.
\<close>

subsection \<open>State\<close>

datatype functions_mutation =
    CreateFunction | UpdateFunction | DeleteFunction | LintFunction | DryRunFunction | InvokeFunction
  | RollbackVersion jsstr | RetryInvocation jsstr | LoadFunctionDraft jsstr

datatype functions_event =
    SelectFunction "json option" | ApplyCachedDraft | CopyEndpoint
  | SetFunctionName jsstr | SetDisplayName jsstr | SetEndpointSlug jsstr | SetSourceCode jsstr
  | SetRuntime jsstr | SetInvokePolicy jsstr | SetTimeoutMs jsstr | SetEnabled jsstr
  | ClickCreateFunction | ClickUpdateFunction | ClickLint | ClickDryRun | ClickInvoke | ClickDeleteFunction
  | SetRequestMethod string | SetQueryJson jsstr | SetInputJson jsstr
  | ClickRollback jsstr | ClickRetry jsstr

text \<open>
  The fields of the draft that are set from an answer hold whatever it contains; \<open>enabled\<close> and
  \<open>timeoutMs\<close> are converted to strings.
\<close>

record function_draft =
  fd_name :: "json option"
  fd_displayName :: "json option"
  fd_endpointSlug :: "json option"
  fd_runtime :: "json option"
  fd_invokePolicy :: "json option"
  fd_enabled :: jsstr
  fd_timeoutMs :: jsstr
  fd_sourceCode :: "json option"

record 'w functions_page = "('w, functions_mutation) page" +
  fv_selectedName :: "json option"
  fv_draft :: function_draft
  fv_requestMethod :: string
  fv_queryJson :: jsstr
  fv_inputJson :: jsstr
  fv_output :: json
  fv_browserOrigin :: jsstr

definition text_value :: "string \<Rightarrow> json option" where
  "text_value t = Some (JStr (js t))"

definition new_source :: string where
  "new_source = ''export default function handler(ctx) {'' @ [CHR 0x0A]
     @ ''  return { ok: true, input: ctx.request.input }'' @ [CHR 0x0A] @ ''}'' @ [CHR 0x0A]"

definition new_draft :: function_draft where
  "new_draft = \<lparr>fd_name = text_value ''hello_console'', fd_displayName = text_value ''Hello Console'',
     fd_endpointSlug = text_value ''hello-console'', fd_runtime = text_value ''javascript'',
     fd_invokePolicy = text_value ''authenticated'', fd_enabled = js ''true'', fd_timeoutMs = js ''3000'',
     fd_sourceCode = text_value new_source\<rparr>"

definition new_input :: string where
  "new_input = ''{'' @ [CHR 0x0A] @ ''  '' @ [CHR 0x22] @ ''input'' @ [CHR 0x22] @ '': {'' @ [CHR 0x0A]
     @ ''    '' @ [CHR 0x22] @ ''message'' @ [CHR 0x22] @ '': '' @ [CHR 0x22] @ ''Hello Peanut'' @ [CHR 0x22] @ [CHR 0x0A]
     @ ''  }'' @ [CHR 0x0A] @ ''}''"

definition new_functions_page :: "jsstr \<Rightarrow> ('w, functions_mutation) page \<Rightarrow> 'w functions_page" where
  "new_functions_page origin p = page.extend p (functions_page.fields (text_value '''') new_draft ''POST''
     (js ([CHR 0x7B, CHR 0x0A, CHR 0x7D])) (js new_input) JNull origin)"

subsection \<open>Queries\<close>

definition functions_query :: "json \<Rightarrow> jsstr list" where
  "functions_query app = [js ''functions'', app_id app]"

definition function_query :: "string \<Rightarrow> json \<Rightarrow> json \<Rightarrow> jsstr list" where
  "function_query part app name = [js ''functions'', js part, app_id app, js_String name]"

text \<open>\<open>selectedName || functions.data?.[0]?.name || ""\<close>\<close>

definition activeName :: "json \<Rightarrow> 'w functions_page \<Rightarrow> json" where
  "activeName app s = (case js_or (fv_selectedName s) (first_member ''name'' (query_data (functions_query app) s)) of
     Some v \<Rightarrow> if truthy v then v else JStr [] | None \<Rightarrow> JStr [])"

definition functions_url :: "json \<Rightarrow> jsstr" where
  "functions_url app = app_path app (js ''/functions'')"

definition function_url :: "json \<Rightarrow> jsstr \<Rightarrow> jsstr" where
  "function_url app name = functions_url app @ js ''/'' @ name"

definition runtime_on :: "'w functions_page \<Rightarrow> bool" where
  "runtime_on s \<longleftrightarrow> runtimeEnabled (query_data metrics_query s) = Inr True"

text \<open>
  The page queries the list and the parts of the active function only while the runtime is enabled;
  while the page cannot be rendered it queries nothing but the metrics.
\<close>

definition functions_queries ::
  "'w ui_env \<Rightarrow> json \<Rightarrow> 'w functions_page \<Rightarrow> (jsstr list \<times> nat \<times> ('w functions_page, json option) ui_prog) list" where
  "functions_queries env app s =
     (let active = activeName app s; url = function_url app (js_String active) in
      (metrics_query, default_retry, fetch_metrics env)
      # (if runtime_on s then
           (functions_query app, default_retry, fetch_member env (functions_url app) ''functions'')
           # (if truthy active then
                [(function_query ''detail'' app active, default_retry, fetch_member env url ''function''),
                 (function_query ''versions'' app active, default_retry, fetch_member env (url @ js ''/versions'') ''versions''),
                 (function_query ''invocations'' app active, default_retry,
                    fetch_member env (url @ js ''/invocations'') ''invocations'')]
              else [])
         else []))"

text \<open>The address shown for the function of the draft.\<close>

definition with_query :: "jsstr \<Rightarrow> jsstr" where
  "with_query q = (if q \<noteq> [] then [63] @ q else [])"

definition endpointUrl :: "json \<Rightarrow> 'w functions_page \<Rightarrow> jsstr" where
  "endpointUrl app s =
     (let slug = item_string (js_or (fd_endpointSlug (fv_draft s)) (text_value ''{endpoint-slug}''));
          endpointPath = app_path app (js ''/function-endpoints/'' @ slug) @ with_query (safeBuildQueryString (fv_queryJson s)) in
      if fv_browserOrigin s \<noteq> [] then fv_browserOrigin s @ endpointPath else endpointPath)"

subsection \<open>Drafts\<close>

definition draft_of :: "json \<Rightarrow> function_draft" where
  "draft_of fn = \<lparr>fd_name = fld ''name'' fn, fd_displayName = fld ''display_name'' fn,
     fd_endpointSlug = fld ''endpoint_slug'' fn, fd_runtime = fld ''runtime'' fn,
     fd_invokePolicy = fld ''invoke_policy'' fn, fd_enabled = item_string (fld ''enabled'' fn),
     fd_timeoutMs = item_string (fld ''timeout_ms'' fn), fd_sourceCode = fld ''source_code'' fn\<rparr>"

definition applyFunctionDraft :: "json option \<Rightarrow> ('w functions_page, unit) ui_prog" where
  "applyFunctionDraft fn = (if nullish fn then throw TypeError
     else modify (\<lambda>s. s\<lparr>fv_draft := draft_of (the fn)\<rparr>))"

text \<open>The members that \<open>createFunction\<close> and \<open>updateFunction\<close> send.\<close>

definition draft_members :: "function_draft \<Rightarrow> (string \<times> json option) list" where
  "draft_members d =
     [(''display_name'', fd_displayName d), (''endpoint_slug'', fd_endpointSlug d), (''runtime'', fd_runtime d),
      (''source_code'', fd_sourceCode d), (''invoke_policy'', fd_invokePolicy d),
      (''timeout_ms'', Some (JNum (js_Number (fd_timeoutMs d)))), (''enabled'', Some (JBool (fd_enabled d = js ''true'')))]"

definition functionPayload :: "function_draft \<Rightarrow> json" where
  "functionPayload d = object ((''name'', fd_name d) # draft_members d)"

text \<open>\<open>name || activeName || "editor"\<close>\<close>

definition editor_name :: "json \<Rightarrow> 'w functions_page \<Rightarrow> json option" where
  "editor_name app s = js_or (fd_name (fv_draft s)) (js_or (Some (activeName app s)) (text_value ''editor''))"

subsection \<open>Mutations\<close>

definition invalid_input :: "'w ui_env \<Rightarrow> jsstr" where
  "invalid_input env = env_tr env ''common'' ''inputJsonInvalid'' []"

definition lint_body :: "json \<Rightarrow> 'w functions_page \<Rightarrow> json" where
  "lint_body app s = (let d = fv_draft s in
     object [(''runtime'', fd_runtime d), (''source_code'', fd_sourceCode d), (''function_name'', editor_name app s),
       (''timeout_ms'', Some (JNum (js_Number (fd_timeoutMs d))))])"

definition dry_run_body :: "'w ui_env \<Rightarrow> json \<Rightarrow> 'w functions_page \<Rightarrow> exn + json" where
  "dry_run_body env app s =
     (let d = fv_draft s in
      bind_res (parseFunctionTestPayload (fv_inputJson s) (invalid_input env)) (\<lambda>testPayload.
      bind_res (parseJsonInput (fv_queryJson s) (invalid_input env)) (\<lambda>query.
      Inr (object [(''runtime'', fd_runtime d), (''source_code'', fd_sourceCode d), (''function_name'', editor_name app s),
        (''method'', text_value (fv_requestMethod s)), (''input'', Some (input testPayload)), (''query'', Some query),
        (''body'', Some (requestBody testPayload)), (''timeout_ms'', Some (JNum (js_Number (fd_timeoutMs d))))]))))"

text \<open>The request of \<open>invokeFunction\<close>: the path with its query string and the body, absent for GET and HEAD.\<close>

definition invoke_request :: "'w ui_env \<Rightarrow> json \<Rightarrow> 'w functions_page \<Rightarrow> exn + (jsstr \<times> json option)" where
  "invoke_request env app s =
     bind_res (parseFunctionTestPayload (fv_inputJson s) (invalid_input env)) (\<lambda>testPayload.
     bind_res (buildQueryString (fv_queryJson s) (invalid_input env)) (\<lambda>query.
     Inr (app_path app (js ''/function-endpoints/'' @ item_string (fd_endpointSlug (fv_draft s))) @ with_query query,
       if fv_requestMethod s \<in> {''GET'', ''HEAD''} then None else Some (requestBody testPayload))))"

definition send_optional :: "'w ui_env \<Rightarrow> string \<Rightarrow> jsstr \<Rightarrow> json option \<Rightarrow> (('w, 'm, 'z) page_scheme, json) ui_prog" where
  "send_optional env m path body = (case body of None \<Rightarrow> send env m path | Some v \<Rightarrow> send_json env m path v)"

fun functions_mutationFn :: "'w ui_env \<Rightarrow> json \<Rightarrow> functions_mutation \<Rightarrow> ('w functions_page, json) ui_prog" where
  "functions_mutationFn env app CreateFunction =
     bnd (gets fv_draft) (\<lambda>d. send_json env ''POST'' (functions_url app) (functionPayload d))"
| "functions_mutationFn env app UpdateFunction =
     bnd (gets (\<lambda>s. (activeName app s, fv_draft s))) (\<lambda>(active, d).
     send_json env ''PATCH'' (function_url app (js_String active)) (object (draft_members d)))"
| "functions_mutationFn env app DeleteFunction =
     bnd (gets (activeName app)) (\<lambda>active. send env ''DELETE'' (function_url app (js_String active)))"
| "functions_mutationFn env app LintFunction =
     bnd (gets (lint_body app)) (\<lambda>body. send_json env ''POST'' (functions_url app @ js ''/editor/lint'') body)"
| "functions_mutationFn env app DryRunFunction =
     bnd (gets (dry_run_body env app)) (\<lambda>r. bnd (lift_res r) (\<lambda>body.
     send_json env ''POST'' (functions_url app @ js ''/editor/dry-run'') body))"
| "functions_mutationFn env app InvokeFunction =
     bnd (gets (\<lambda>s. (invoke_request env app s, fv_requestMethod s))) (\<lambda>(r, m).
     bnd (lift_res r) (\<lambda>(path, body). send_optional env m path body))"
| "functions_mutationFn env app (RollbackVersion v) =
     bnd (gets (activeName app)) (\<lambda>active.
     send env ''POST'' (function_url app (js_String active) @ js ''/versions/'' @ v @ js ''/rollback''))"
| "functions_mutationFn env app (RetryInvocation i) =
     bnd (gets (activeName app)) (\<lambda>active.
     send env ''POST'' (function_url app (js_String active) @ js ''/invocations/'' @ i @ js ''/retry''))"
| "functions_mutationFn env app (LoadFunctionDraft name) = send env ''GET'' (function_url app name)"

text \<open>\<open>response.function\<close> of an answer, selected and loaded into the draft.\<close>

definition select_answer :: "json \<Rightarrow> ('w functions_page, unit) ui_prog" where
  "select_answer response =
     bnd (lift_res (get_prop ''function'' response)) (\<lambda>fn.
     bnd (lift_res (if nullish fn then Inl TypeError else Inr (fld ''name'' (the fn)))) (\<lambda>name.
     bnd (modify (\<lambda>s. s\<lparr>fv_selectedName := name\<rparr>)) (\<lambda>_.
     applyFunctionDraft fn)))"

definition toast_fn :: "'w ui_env \<Rightarrow> string \<Rightarrow> ('w functions_page, unit) ui_prog" where
  "toast_fn env k = toast_success (env_tr env ''functionsView'' k [])"

definition refresh_function :: "json \<Rightarrow> json \<Rightarrow> ('w functions_page, unit) ui_prog" where
  "refresh_function app active =
     bnd (invalidateQueries (functions_query app)) (\<lambda>_.
     bnd (invalidateQueries (function_query ''detail'' app active)) (\<lambda>_.
     invalidateQueries (function_query ''versions'' app active)))"

definition show_output :: "json \<Rightarrow> ('w functions_page, unit) ui_prog" where
  "show_output response = modify (\<lambda>s. s\<lparr>fv_output := response\<rparr>)"

text \<open>
  The callbacks see the active name of the render before their own state changes.
\<close>

fun functions_onSuccess :: "'w ui_env \<Rightarrow> json \<Rightarrow> functions_mutation \<Rightarrow> json \<Rightarrow> ('w functions_page, unit) ui_prog" where
  "functions_onSuccess env app CreateFunction response =
     bnd (toast_fn env ''functionCreated'') (\<lambda>_.
     bnd (select_answer response) (\<lambda>_. invalidateQueries (functions_query app)))"
| "functions_onSuccess env app UpdateFunction response =
     bnd (gets (activeName app)) (\<lambda>active.
     bnd (toast_fn env ''functionSaved'') (\<lambda>_.
     bnd (select_answer response) (\<lambda>_. refresh_function app active)))"
| "functions_onSuccess env app DeleteFunction response =
     bnd (toast_fn env ''functionDeleted'') (\<lambda>_.
     bnd (modify (\<lambda>s. s\<lparr>fv_selectedName := text_value ''''\<rparr>)) (\<lambda>_. invalidateQueries (functions_query app)))"
| "functions_onSuccess env app LintFunction response =
     bnd (show_output response) (\<lambda>_. toast_fn env ''lintFinished'')"
| "functions_onSuccess env app DryRunFunction response =
     bnd (show_output response) (\<lambda>_. toast_fn env ''dryRunFinished'')"
| "functions_onSuccess env app InvokeFunction response =
     bnd (show_output response) (\<lambda>_.
     bnd (gets (activeName app)) (\<lambda>active.
     bnd (invalidateQueries (function_query ''invocations'' app active)) (\<lambda>_. toast_fn env ''invocationRecorded'')))"
| "functions_onSuccess env app (RollbackVersion v) response =
     bnd (toast_fn env ''versionRestored'') (\<lambda>_.
     bnd (gets (activeName app)) (\<lambda>active. refresh_function app active))"
| "functions_onSuccess env app (RetryInvocation i) response =
     bnd (show_output response) (\<lambda>_.
     bnd (gets (activeName app)) (\<lambda>active.
     bnd (invalidateQueries (function_query ''invocations'' app active)) (\<lambda>_. toast_fn env ''invocationRetried'')))"
| "functions_onSuccess env app (LoadFunctionDraft name) response =
     bnd (lift_res (get_prop ''function'' response)) applyFunctionDraft"

definition functions_onError :: "'w ui_env \<Rightarrow> functions_mutation \<Rightarrow> exn \<Rightarrow> ('w functions_page, unit) ui_prog" where
  "functions_onError env m e = onError_toast env e"

subsection \<open>Handlers\<close>

definition functions_start :: "'w ui_env \<Rightarrow> json \<Rightarrow> functions_mutation \<Rightarrow> 'w functions_page \<Rightarrow> 'w functions_page" where
  "functions_start env app m s = mutate m (functions_mutationFn env app m) s"

definition edit_draft :: "(function_draft \<Rightarrow> function_draft) \<Rightarrow> 'w functions_page \<Rightarrow> 'w functions_page" where
  "edit_draft f s = s\<lparr>fv_draft := f (fv_draft s)\<rparr>"

text \<open>\<open>onApplyCachedDraft\<close> does nothing without an active function or its data.\<close>

definition cached_detail :: "json \<Rightarrow> 'w functions_page \<Rightarrow> json option" where
  "cached_detail app s = query_data (function_query ''detail'' app (activeName app s)) s"

definition apply_cached :: "json \<Rightarrow> 'w functions_page \<Rightarrow> 'w functions_page" where
  "apply_cached app s = (if truthy (activeName app s) \<and> is_true (cached_detail app s)
     then snd (applyFunctionDraft (cached_detail app s) s) else s)"

fun functions_handle :: "'w ui_env \<Rightarrow> json \<Rightarrow> functions_event \<Rightarrow> 'w functions_page \<Rightarrow> 'w functions_page" where
  "functions_handle env app (SelectFunction name) s =
     functions_start env app (LoadFunctionDraft (item_string name)) (s\<lparr>fv_selectedName := name\<rparr>)"
| "functions_handle env app ApplyCachedDraft s = apply_cached app s"
| "functions_handle env app CopyEndpoint s = copy_to_clipboard env (endpointUrl app s) s"
| "functions_handle env app (SetFunctionName v) s = edit_draft (\<lambda>d. d\<lparr>fd_name := Some (JStr v)\<rparr>) s"
| "functions_handle env app (SetDisplayName v) s = edit_draft (\<lambda>d. d\<lparr>fd_displayName := Some (JStr v)\<rparr>) s"
| "functions_handle env app (SetEndpointSlug v) s = edit_draft (\<lambda>d. d\<lparr>fd_endpointSlug := Some (JStr v)\<rparr>) s"
| "functions_handle env app (SetSourceCode v) s = edit_draft (\<lambda>d. d\<lparr>fd_sourceCode := Some (JStr v)\<rparr>) s"
| "functions_handle env app (SetRuntime v) s = edit_draft (\<lambda>d. d\<lparr>fd_runtime := Some (JStr v)\<rparr>) s"
| "functions_handle env app (SetInvokePolicy v) s = edit_draft (\<lambda>d. d\<lparr>fd_invokePolicy := Some (JStr v)\<rparr>) s"
| "functions_handle env app (SetTimeoutMs v) s = edit_draft (\<lambda>d. d\<lparr>fd_timeoutMs := v\<rparr>) s"
| "functions_handle env app (SetEnabled v) s = edit_draft (\<lambda>d. d\<lparr>fd_enabled := v\<rparr>) s"
| "functions_handle env app ClickCreateFunction s = functions_start env app CreateFunction s"
| "functions_handle env app ClickUpdateFunction s = functions_start env app UpdateFunction s"
| "functions_handle env app ClickLint s = functions_start env app LintFunction s"
| "functions_handle env app ClickDryRun s = functions_start env app DryRunFunction s"
| "functions_handle env app ClickInvoke s = functions_start env app InvokeFunction s"
| "functions_handle env app ClickDeleteFunction s = functions_start env app DeleteFunction s"
| "functions_handle env app (SetRequestMethod m) s = s\<lparr>fv_requestMethod := m\<rparr>"
| "functions_handle env app (SetQueryJson v) s = s\<lparr>fv_queryJson := v\<rparr>"
| "functions_handle env app (SetInputJson v) s = s\<lparr>fv_inputJson := v\<rparr>"
| "functions_handle env app (ClickRollback v) s = functions_start env app (RollbackVersion v) s"
| "functions_handle env app (ClickRetry i) s = functions_start env app (RetryInvocation i) s"

subsection \<open>Rendering\<close>

text \<open>A value in an input field: \<open>undefined\<close> and \<open>null\<close> leave it empty.\<close>

definition field_text :: "json option \<Rightarrow> jsstr" where
  "field_text v = (if nullish v then [] else js_String (the v))"

definition FunctionField :: "jsstr \<Rightarrow> jsstr \<Rightarrow> 'e ui \<Rightarrow> 'e ui" where
  "FunctionField label help content = Box [Txt label, content, Txt help]"

definition CodeWorkbenchPane :: "jsstr \<Rightarrow> jsstr \<Rightarrow> 'e ui \<Rightarrow> 'e ui" where
  "CodeWorkbenchPane title description content = Box [Txt title, Txt description, content]"

definition function_entry :: "json \<Rightarrow> functions_event ui" where
  "function_entry fn = Box [
     Button (child_text (js_or (fld ''display_name'' fn) (fld ''name'' fn))) False (SelectFunction (fld ''name'' fn)),
     Txt (js ''v''), Child (fld ''active_version_number'' fn), Txt (js ''/''), Child (fld ''endpoint_slug'' fn)]"

definition FunctionListPanel ::
  "'w ui_env \<Rightarrow> bool \<Rightarrow> json list \<Rightarrow> bool \<Rightarrow> json \<Rightarrow> json option \<Rightarrow> functions_event ui" where
  "FunctionListPanel env runtime functions loading active detail =
     (let t = (\<lambda>k. env_tr env ''functionsView'' k []) in
      Panel (t ''functions'')
        [Select (js_String active) (map (\<lambda>fn. (row_id ''name'' fn, child_text (fld ''name'' fn))) functions)
           (\<lambda>v. SelectFunction (Some (JStr v))),
         Button (t ''loadDraft'') (\<not> runtime \<or> \<not> is_true detail) ApplyCachedDraft,
         Txt (t ''leftRailHint''),
         if \<not> runtime then EmptyState (t ''runtimeDisabledEmptyTitle'') (t ''runtimeDisabledEmptyDescription'') []
         else if loading then Skeleton
         else if functions \<noteq> [] then Box (map function_entry functions)
         else EmptyState (t ''emptyFunctionsTitle'') (t ''emptyFunctionsDescription'') []])"

definition endpoint_panel :: "'w ui_env \<Rightarrow> json \<Rightarrow> bool \<Rightarrow> 'w functions_page \<Rightarrow> functions_event ui" where
  "endpoint_panel env app runtime s =
     (let t = (\<lambda>k. env_tr env ''functionsView'' k []) in
      Panel (t ''endpoint'')
        [Txt (if fd_enabled (fv_draft s) = js ''true'' then t ''enabled'' else t ''disabled''), Txt (t ''endpointHelp''),
         Txt (endpointUrl app s), Button (t ''copyEndpoint'') (\<not> runtime) CopyEndpoint])"

definition choice_of :: "string \<Rightarrow> jsstr \<times> jsstr" where
  "choice_of v = (js v, js v)"

text \<open>The editor shows the lines of \<open>sourceCode\<close>, which must be a string.\<close>

definition draft_fields :: "'w ui_env \<Rightarrow> function_draft \<Rightarrow> jsstr \<Rightarrow> functions_event ui" where
  "draft_fields env d source =
     (let t = (\<lambda>k. env_tr env ''functionsView'' k []) in
      Box [FunctionField (t ''name'') (t ''nameHelp'') (Input (field_text (fd_name d)) False SetFunctionName),
        FunctionField (t ''displayName'') (t ''displayNameHelp'') (Input (field_text (fd_displayName d)) False SetDisplayName),
        FunctionField (t ''endpointSlug'') (t ''endpointSlugHelp'') (Input (field_text (fd_endpointSlug d)) False SetEndpointSlug),
        Txt (t ''code''), Txt (t ''codeHelp''), Child (fd_runtime d), Input source False SetSourceCode,
        Txt (t ''runtimeSettings''), Txt (t ''runtimeSettingsHelp''),
        FunctionField (t ''runtime'') (t ''runtimeHelp'') (Select (field_text (fd_runtime d))
          [(js ''javascript'', js ''JavaScript''), (js ''typescript'', js ''TypeScript'')] SetRuntime),
        FunctionField (t ''invokePolicy'') (t ''invokePolicyHelp'') (Select (field_text (fd_invokePolicy d))
          [(js ''authenticated'', t ''authenticated''), (js ''public'', t ''public''), (js ''api_key'', js ''API key'')] SetInvokePolicy),
        FunctionField (t ''timeoutMs'') (t ''timeoutHelp'') (Input (fd_timeoutMs d) False SetTimeoutMs),
        FunctionField (t ''state'') (t ''stateHelp'') (Select (fd_enabled d)
          [(js ''true'', t ''enabled''), (js ''false'', t ''disabled'')] SetEnabled)])"

definition function_buttons :: "'w ui_env \<Rightarrow> json \<Rightarrow> bool \<Rightarrow> 'w functions_page \<Rightarrow> functions_event ui" where
  "function_buttons env app runtime s =
     (let t = (\<lambda>k. env_tr env ''functionsView'' k []); active = activeName app s; none = \<not> truthy active in
      Box [Button (t ''create'') (\<not> runtime \<or> isPending CreateFunction s) ClickCreateFunction,
        Button (t ''save'') (\<not> runtime \<or> none \<or> isPending UpdateFunction s) ClickUpdateFunction,
        Button (t ''lint'') (\<not> runtime \<or> isPending LintFunction s) ClickLint,
        Button (t ''dryRun'') (\<not> runtime \<or> isPending DryRunFunction s) ClickDryRun,
        Button (t ''invoke'') (\<not> runtime \<or> none \<or> isPending InvokeFunction s) ClickInvoke,
        ConfirmButton (t ''delete'') (\<not> runtime \<or> none \<or> isPending DeleteFunction s)
          (env_tr env ''functionsView'' ''confirmDeleteFunction'' [(''name'', js_String active)]) ClickDeleteFunction])"

definition FunctionWorkspacePanels :: "'w ui_env \<Rightarrow> json \<Rightarrow> bool \<Rightarrow> 'w functions_page \<Rightarrow> jsstr \<Rightarrow> functions_event ui" where
  "FunctionWorkspacePanels env app runtime s source =
     Box [endpoint_panel env app runtime s,
       Panel (env_tr env ''functionsView'' ''editor'' [])
         [draft_fields env (fv_draft s) source, function_buttons env app runtime s]]"

definition request_methods :: "string list" where
  "request_methods = [''GET'', ''POST'', ''PUT'', ''PATCH'', ''DELETE'']"

definition method_event :: "jsstr \<Rightarrow> functions_event" where
  "method_event v = SetRequestMethod (case find (\<lambda>m. js m = v) request_methods of Some m \<Rightarrow> m | None \<Rightarrow> [])"

definition FunctionTestConsole :: "'w ui_env \<Rightarrow> 'w functions_page \<Rightarrow> functions_event ui" where
  "FunctionTestConsole env s =
     (let t = (\<lambda>k. env_tr env ''functionsView'' k []) in
      Panel (t ''testConsole'')
        [Txt (t ''httpMethod''), Select (js (fv_requestMethod s)) (map choice_of request_methods) method_event,
         Txt (t ''httpMethodHelp''), Txt (t ''runtimeRequest''),
         Box (map (\<lambda>field. Txt (js (''ctx.request.'' @ field))) [''method'', ''query'', ''body'', ''input'']),
         CodeWorkbenchPane (t ''queryParams'') (t ''queryParamsHelp'') (Input (fv_queryJson s) False SetQueryJson),
         CodeWorkbenchPane (t ''requestBody'') (t ''requestBodyHelp'') (Input (fv_inputJson s) False SetInputJson),
         CodeWorkbenchPane (t ''executionResult'') (t ''executionResultHelp'')
           (JsonText (if fv_output s = JNull then object [(''status'', text_value ''idle'')] else fv_output s))])"

text \<open>One hook serves all rows: while any rollback runs, no other can be started.\<close>

definition rollbackPending :: "'w functions_page \<Rightarrow> bool" where
  "rollbackPending s = list_ex (\<lambda>(m, _). case m of RollbackVersion _ \<Rightarrow> True | _ \<Rightarrow> False) (pg_pending s)"

definition retryPending :: "'w functions_page \<Rightarrow> bool" where
  "retryPending s = list_ex (\<lambda>(m, _). case m of RetryInvocation _ \<Rightarrow> True | _ \<Rightarrow> False) (pg_pending s)"

definition version_row :: "'w ui_env \<Rightarrow> bool \<Rightarrow> 'w functions_page \<Rightarrow> json \<Rightarrow> functions_event ui list" where
  "version_row env runtime s version =
     [Child (fld ''version_number'' version), Child (fld ''runtime'' version),
      Txt (yes_no env (is_true (fld ''is_active'' version))),
      if is_true (fld ''is_active'' version) then Txt []
      else Button (env_tr env ''functionsView'' ''restore'' []) (\<not> runtime \<or> rollbackPending s)
        (ClickRollback (row_id ''version_number'' version))]"

definition invocation_row :: "'w ui_env \<Rightarrow> bool \<Rightarrow> 'w functions_page \<Rightarrow> json \<Rightarrow> functions_event ui list" where
  "invocation_row env runtime s invocation =
     [Child (fld ''id'' invocation), Child (fld ''status'' invocation), Child (fld ''invoke_mode'' invocation),
      Child (coalesce (fld ''duration_ms'' invocation) (text_value '''')),
      Button (env_tr env ''functionsView'' ''retry'' []) (\<not> runtime \<or> retryPending s) (ClickRetry (row_id ''id'' invocation))]"

definition FunctionHistoryPanels ::
  "'w ui_env \<Rightarrow> bool \<Rightarrow> json list \<Rightarrow> bool \<Rightarrow> json list \<Rightarrow> bool \<Rightarrow> 'w functions_page \<Rightarrow> functions_event ui" where
  "FunctionHistoryPanels env runtime versions versionsLoading invocations invocationsLoading s =
     (let t = (\<lambda>k. env_tr env ''functionsView'' k []);
          empty = (\<lambda>k. Some (t (if runtime then ''empty'' @ k else if k \<in> {''VersionsTitle'', ''InvocationsTitle''}
            then ''runtimeDisabledEmptyTitle'' else ''runtimeDisabledEmptyDescription''))) in
      Box [Panel (t ''versions'')
             [DataTableView (env_tr env) [t ''columnsVersion'', t ''columnsRuntime'', t ''columnsActive'', t ''columnsAction'']
                (map (version_row env runtime s) versions) versionsLoading (empty ''VersionsTitle'') (empty ''VersionsDescription'')],
           Panel (t ''invocations'')
             [DataTableView (env_tr env) [t ''columnsId'', t ''columnsStatus'', t ''columnsMode'', t ''columnsDuration'', t ''columnsRetry'']
                (map (invocation_row env runtime s) invocations) invocationsLoading
                (empty ''InvocationsTitle'') (empty ''InvocationsDescription'')]])"

definition functions_page_ui ::
  "'w ui_env \<Rightarrow> json \<Rightarrow> 'w functions_page \<Rightarrow> bool \<Rightarrow> json list \<Rightarrow> json list \<Rightarrow> json list \<Rightarrow> jsstr \<Rightarrow> functions_event ui" where
  "functions_page_ui env app s runtime functions versions invocations source =
     (let t = (\<lambda>k. env_tr env ''functionsView'' k []); active = activeName app s;
          loading = (\<lambda>part. isLoading (runtime \<and> truthy active) (function_query part app active) s) in
      Section (t ''title'') (t ''description'') []
        ((if runtime then [] else [Box [Txt (t ''runtimeDisabledTitle''), Txt (t ''runtimeDisabledDescription'')]])
         @ [FunctionListPanel env runtime functions (isLoading runtime (functions_query app) s) active (cached_detail app s),
            FunctionWorkspacePanels env app runtime s source,
            FunctionTestConsole env s,
            FunctionHistoryPanels env runtime versions (loading ''versions'') invocations (loading ''invocations'') s]))"

definition source_text :: "json option \<Rightarrow> exn + jsstr" where
  "source_text v = (case v of Some (JStr t) \<Rightarrow> Inr t | _ \<Rightarrow> Inl TypeError)"

definition FunctionsView :: "'w ui_env \<Rightarrow> json \<Rightarrow> 'w functions_page \<Rightarrow> exn + functions_event ui" where
  "FunctionsView env app s =
     (let active = activeName app s in
      bind_res (runtimeEnabled (query_data metrics_query s)) (\<lambda>runtime.
      bind_res (rows_of (query_data (functions_query app) s)) (\<lambda>functions.
      bind_res (rows_of (query_data (function_query ''versions'' app active) s)) (\<lambda>versions.
      bind_res (rows_of (query_data (function_query ''invocations'' app active) s)) (\<lambda>invocations.
      bind_res (source_text (fd_sourceCode (fv_draft s))) (\<lambda>source.
      Inr (functions_page_ui env app s runtime functions versions invocations source)))))))"

subsection \<open>The contract\<close>

fun functions_starts :: "functions_event \<Rightarrow> functions_mutation option" where
  "functions_starts (SelectFunction name) = Some (LoadFunctionDraft (item_string name))"
| "functions_starts ClickCreateFunction = Some CreateFunction"
| "functions_starts ClickUpdateFunction = Some UpdateFunction"
| "functions_starts ClickLint = Some LintFunction"
| "functions_starts ClickDryRun = Some DryRunFunction"
| "functions_starts ClickInvoke = Some InvokeFunction"
| "functions_starts ClickDeleteFunction = Some DeleteFunction"
| "functions_starts (ClickRollback v) = Some (RollbackVersion v)"
| "functions_starts (ClickRetry i) = Some (RetryInvocation i)"
| "functions_starts e = None"

text \<open>Loading a draft is not guarded.\<close>

fun functions_exclusive :: "functions_mutation \<Rightarrow> bool" where
  "functions_exclusive (LoadFunctionDraft name) = False"
| "functions_exclusive m = True"

text \<open>Which mutations a page offers to start: none but loading a draft while the runtime is disabled.\<close>

lemma list_panel_starts:
  "e \<in> offers (FunctionListPanel env runtime functions loading active detail) \<Longrightarrow> functions_starts e = Some m
   \<Longrightarrow> \<not> functions_exclusive m"
  by (auto simp: FunctionListPanel_def function_entry_def Let_def offers_simps split: if_splits)

lemma endpoint_starts: "e \<in> offers (endpoint_panel env app runtime s) \<Longrightarrow> functions_starts e = None"
  by (auto simp: endpoint_panel_def Let_def Panel_def split: if_splits)

lemma draft_starts: "e \<in> offers (draft_fields env d source) \<Longrightarrow> functions_starts e = None"
  unfolding draft_fields_def FunctionField_def Let_def by (simp, elim disjE) auto

lemma button_starts:
  "e \<in> offers (function_buttons env app runtime s) \<Longrightarrow> functions_starts e = Some m \<Longrightarrow> runtime \<and> \<not> isPending m s"
  by (auto simp: function_buttons_def Let_def split: if_splits)

lemma workspace_starts:
  "e \<in> offers (FunctionWorkspacePanels env app runtime s source) \<Longrightarrow> functions_starts e = Some m
   \<Longrightarrow> runtime \<and> \<not> isPending m s"
  using button_starts [of e env app runtime s m] endpoint_starts [of e env app runtime s] draft_starts [of e env "fv_draft s" source]
  by (auto simp: FunctionWorkspacePanels_def Panel_def)

lemma console_starts: "e \<in> offers (FunctionTestConsole env s) \<Longrightarrow> functions_starts e = None"
  by (auto simp: FunctionTestConsole_def CodeWorkbenchPane_def method_event_def Let_def offers_simps)

lemma rollback_free: "\<not> rollbackPending s \<Longrightarrow> \<not> isPending (RollbackVersion v) s"
  and retry_free: "\<not> retryPending s \<Longrightarrow> \<not> isPending (RetryInvocation i) s"
  by (fastforce simp: rollbackPending_def retryPending_def isPending_def list_ex_iff)+

lemma history_starts:
  "e \<in> offers (FunctionHistoryPanels env runtime vs vl is il s) \<Longrightarrow> functions_starts e = Some m \<Longrightarrow> runtime \<and> \<not> isPending m s"
  by (auto simp: FunctionHistoryPanels_def version_row_def invocation_row_def Let_def offers_simps rollback_free retry_free
      split: if_splits)

lemma functions_offer:
  assumes "FunctionsView env app s = Inr u" "e \<in> offers u" "functions_starts e = Some m" "functions_exclusive m"
  shows "runtime_on s \<and> \<not> isPending m s"
proof -
  obtain runtime fns versions invocations source where
    r: "runtimeEnabled (query_data metrics_query s) = Inr runtime"
    and u: "u = functions_page_ui env app s runtime fns versions invocations source"
    using assms(1) by (auto simp: FunctionsView_def Let_def bind_res_eq_Inr)
  consider f l a d where "e \<in> offers (FunctionListPanel env runtime f l a d)"
    | "e \<in> offers (FunctionWorkspacePanels env app runtime s source)" | "e \<in> offers (FunctionTestConsole env s)"
    | v l i k where "e \<in> offers (FunctionHistoryPanels env runtime v l i k s)"
    using assms(2) unfolding u functions_page_ui_def Let_def Section_def by (auto split: if_splits)
  then have "runtime \<and> \<not> isPending m s"
    using assms(3,4) by cases (auto dest: list_panel_starts workspace_starts history_starts console_starts)
  then show ?thesis using r by (simp add: runtime_on_def)
qed

lemma apply_cached_simps [simp]:
  "pg_pending (apply_cached app s) = pg_pending s" "pg_console (apply_cached app s) = pg_console s"
  by (simp_all add: apply_cached_def applyFunctionDraft_def prog_simps)

lemma copy_to_clipboard_simps [simp]:
  "pg_pending (copy_to_clipboard env t s) = pg_pending s" "pg_console (copy_to_clipboard env t s) = pg_console s"
  by (simp_all add: copy_to_clipboard_def toast_success_def toast_error_def prog_simps split: prod.split sum.split)

lemma functions_mutationFn_pending: "keeps_pending (functions_mutationFn env app m)"
  by (cases m) (auto simp: send_optional_def intro!: pending_simps split: prod.split option.split)

lemma keeps_pending_apply [pending_simps]: "keeps_pending (applyFunctionDraft fn)"
  by (simp add: applyFunctionDraft_def pending_simps)

lemma functions_onSuccess_pending: "keeps_pending (functions_onSuccess env app m v)"
  by (cases m) (auto simp: select_answer_def toast_fn_def refresh_function_def show_output_def intro!: pending_simps)

interpretation funs: console_view "FunctionsView env app" "functions_handle env app" functions_starts
  "functions_onSuccess env app" "functions_onError env" "functions_queries env app" functions_exclusive for env app
proof unfold_locales
  show "map fst (pg_pending (functions_handle env app e s)) =
      map fst (pg_pending s) @ (case functions_starts e of None \<Rightarrow> [] | Some m \<Rightarrow> [m])" for e s
    by (cases e) (auto simp: functions_start_def pending_mutate functions_mutationFn_pending edit_draft_def
        simp del: functions_mutationFn.simps)
qed (auto simp: functions_offer functions_onSuccess_pending functions_onError_def functions_queries_def Let_def pending_simps
      split: if_splits)

subsection \<open>What a draft sends\<close>

definition saved_members :: "string list" where
  "saved_members = [''display_name'', ''endpoint_slug'', ''runtime'', ''source_code'', ''invoke_policy'', ''timeout_ms'', ''enabled'']"

lemma has_type_cases:
  "has_type TNumber v \<longleftrightarrow> (\<exists>x. v = JNum x)" "has_type TBoolean v \<longleftrightarrow> (\<exists>b. v = JBool b)"
  by (cases v; simp)+

lemma typed_members:
  assumes "has_type FunctionDetail fn"
  shows "\<exists>b x. fld ''enabled'' fn = Some (JBool b) \<and> fld ''timeout_ms'' fn = Some (JNum x)"
proof -
  have "(''enabled'', True, TBoolean) \<in> set FunctionSummary_members" "(''timeout_ms'', True, TNumber) \<in> set FunctionSummary_members"
    by (simp_all add: FunctionSummary_members_def)
  then show ?thesis
    using has_type_member [OF assms [unfolded FunctionDetail_def]] unfolding fld_def
    by (metis Un_iff has_type_cases set_append)
qed

lemma draft_members_of:
  assumes "has_type FunctionDetail fn" "\<And>x. fld ''timeout_ms'' fn = Some (JNum x) \<Longrightarrow> normal_number x"
  shows "draft_members (draft_of fn) = map (\<lambda>k. (k, fld k fn)) saved_members"
proof -
  obtain b x where bx: "fld ''enabled'' fn = Some (JBool b)" "fld ''timeout_ms'' fn = Some (JNum x)"
    using typed_members [OF assms(1)] by blast
  then have "js_Number (item_string (fld ''timeout_ms'' fn)) = x"
    using js_Number_string [OF assms(2)] by (simp add: item_string_def)
  moreover have "(item_string (fld ''enabled'' fn) = js ''true'') = b" using bx(1) by (simp add: item_string_def)
  ultimately show ?thesis using bx by (simp add: draft_members_def draft_of_def saved_members_def)
qed

text \<open>
  C18: A function that is loaded into the editor and saved without a change is saved as it was: for
  every function of the declared type, after \<open>applyFunctionDraft\<close> the save button sends a PATCH of the
  active function whose body has exactly the loaded display name, address, runtime, source, policy,
  time limit (through \<open>String\<close> and \<open>Number\<close>) and state, and creating it sends the same with the loaded name.
\<close>

theorem loaded_draft_roundtrip:
  assumes "has_type FunctionDetail fn" "\<And>x. fld ''timeout_ms'' fn = Some (JNum x) \<Longrightarrow> normal_number x"
    and "s' = snd (applyFunctionDraft (Some fn) s)"
  shows "functions_mutationFn env app UpdateFunction s' = send_json env ''PATCH''
      (function_url app (js_String (activeName app s))) (object (map (\<lambda>k. (k, fld k fn)) saved_members)) s'
    \<and> functions_mutationFn env app CreateFunction s' = send_json env ''POST'' (functions_url app)
      (object (map (\<lambda>k. (k, fld k fn)) (''name'' # saved_members))) s'"
proof -
  have "fn \<noteq> JNull" using assms(1) by (auto simp: FunctionDetail_def)
  then have s': "s' = s\<lparr>fv_draft := draft_of fn\<rparr>"
    using assms(3) by (simp add: applyFunctionDraft_def nullish_def prog_simps)
  then have "activeName app s' = activeName app s" by (simp add: activeName_def query_data_def)
  moreover have "fd_name (draft_of fn) = fld ''name'' fn" by (simp add: draft_of_def)
  ultimately show ?thesis
    using draft_members_of [OF assms(1,2)] s' by (simp add: functionPayload_def prog_simps)
qed

definition sample_function :: json where
  "sample_function = JObj [(js ''id'', JStr (js ''f1'')), (js ''app_id'', JStr (js ''a1'')), (js ''name'', JStr (js ''hello'')),
     (js ''display_name'', JStr (js ''Hello'')), (js ''endpoint_slug'', JStr (js ''hello'')), (js ''runtime'', JStr (js ''javascript'')),
     (js ''invoke_policy'', JStr (js ''public'')), (js ''rate_limit_per_minute'', JNum (Fin 6 1)),
     (js ''api_key_present'', JBool False), (js ''timeout_ms'', JNum (Fin 15 2)), (js ''enabled'', JBool False),
     (js ''active_version_number'', JNum (Fin 1 0)), (js ''secret_key_count'', JNum (Fin 0 0)), (js ''updated_at'', JStr []),
     (js ''source_code'', JStr (js ''return 1'')), (js ''env_json'', JStr []), (js ''allowed_origins_json'', JStr []),
     (js ''active_version_id'', JStr []), (js ''created_by'', JStr []), (js ''updated_by'', JStr []), (js ''created_at'', JStr [])]"

definition sample_functions :: "nat functions_page" where
  "sample_functions = new_functions_page (js ''https://host'') (sample_page (functions_query sample_app) (JArr [sample_function]))"

theorem loaded_draft_roundtrip_witness:
  "\<exists>s'. functions_mutationFn sample_env sample_app CreateFunction s' = send_json sample_env ''POST'' (functions_url sample_app)
      (object (map (\<lambda>k. (k, fld k sample_function)) (''name'' # saved_members))) s'
    \<and> fld ''timeout_ms'' sample_function = Some (JNum (Fin 15 2))"
proof -
  have t: "has_type FunctionDetail sample_function" by code_simp
  have f: "fld ''timeout_ms'' sample_function = Some (JNum (Fin 15 2))" by code_simp
  have n: "normal_number x" if "fld ''timeout_ms'' sample_function = Some (JNum x)" for x
    using that f by (auto simp: normal_number_def)
  show ?thesis
    using loaded_draft_roundtrip [OF t n refl, of sample_env sample_app sample_functions] f by blast
qed

subsection \<open>What a disabled runtime leaves possible\<close>

lemma page_log_start_load:
  assumes "pg_base s = base"
  shows "page_log (\<lambda>r. req_method r = js ''GET'' \<or> refresh_request base r) s
    (functions_start env app (LoadFunctionDraft n) (s\<lparr>fv_selectedName := v\<rparr>))"
proof -
  let ?P = "\<lambda>r. req_method r = js ''GET'' \<or> refresh_request base r" and ?s = "s\<lparr>fv_selectedName := v\<rparr>"
  have "page_log ?P ?s (functions_start env app (LoadFunctionDraft n) ?s)"
    unfolding functions_start_def functions_mutationFn.simps
    using assms by (intro page_log_mutate page_sends_send(1) [of _ base]) (auto simp: pg_base_def)
  moreover have "page_log ?P s ?s" by (rule page_log_refl) simp
  ultimately show ?thesis by (rule page_log_trans [rotated])
qed

text \<open>
  C20: While the metrics say that the function runtime is disabled, nothing on the page changes
  anything on the server: whatever control is used, only reads (and refreshes of the session) are
  sent, and of the queries only the metrics are loaded.
\<close>

theorem disabled_runtime_only_reads:
  assumes "FunctionsView env app s = Inr u" "\<not> runtime_on s" "e \<in> offers u" "pg_base s = base"
  shows "page_log (\<lambda>r. req_method r = js ''GET'' \<or> refresh_request base r) s (functions_handle env app e s)
    \<and> functions_queries env app s = [(metrics_query, default_retry, fetch_metrics env)]"
proof -
  have no: "case functions_starts e of None \<Rightarrow> True | Some m \<Rightarrow> \<not> functions_exclusive m"
    using functions_offer [OF assms(1,3)] assms(2) by (auto split: option.split)
  have "page_log (\<lambda>r. req_method r = js ''GET'' \<or> refresh_request base r) s (functions_handle env app e s)"
    using no page_log_start_load [OF assms(4)] by (cases e) (auto intro!: page_log_refl simp: edit_draft_def)
  then show ?thesis using assms(2) by (simp add: functions_queries_def Let_def)
qed

definition disabled_functions :: "nat functions_page" where
  "disabled_functions = new_functions_page [] (sample_page metrics_query
     (JObj [(js ''functions'', JObj [(js ''enabled'', JBool False)])]))"

theorem disabled_runtime_only_reads_witness:
  "\<exists>u. FunctionsView sample_env sample_app disabled_functions = Inr u \<and> SetQueryJson [] \<in> offers u
    \<and> functions_queries sample_env sample_app disabled_functions = [(metrics_query, default_retry, fetch_metrics sample_env)]"
proof -
  let ?s = disabled_functions
  have q: "query_data k ?s = (if k = metrics_query then Some (JObj [(js ''functions'', JObj [(js ''enabled'', JBool False)])]) else None)" for k
    by (simp add: disabled_functions_def new_functions_page_def sample_page_def query_data_def page.defs functions_page.defs)
  have r: "runtimeEnabled (query_data metrics_query ?s) = Inr False"
    unfolding q by (simp add: runtimeEnabled_def opt_chain_def fld_def member_def get_prop_def coalesce_def nullish_def is_true_def truthy_def)
  have d: "fd_sourceCode (fv_draft ?s) = Some (JStr (js new_source))"
    by (simp add: disabled_functions_def new_functions_page_def page.defs functions_page.defs new_draft_def text_value_def)
  have m: "functions_query sample_app \<noteq> metrics_query" "function_query p sample_app v \<noteq> metrics_query" for p v
    by (simp_all add: functions_query_def function_query_def metrics_query_def)
  obtain u where u: "FunctionsView sample_env sample_app ?s = Inr u" "u = functions_page_ui sample_env sample_app ?s False [] [] [] (js new_source)"
    using r d m by (simp add: FunctionsView_def Let_def q rows_of_def source_text_def)
  have "SetQueryJson [] \<in> offers u"
    unfolding u(2) by (simp add: functions_page_ui_def Let_def Section_def FunctionTestConsole_def Panel_def CodeWorkbenchPane_def)
  moreover have "\<not> runtime_on ?s" using r by (simp add: runtime_on_def)
  ultimately show ?thesis using disabled_runtime_only_reads [OF u(1) _ _ refl] u(1) by blast
qed

subsection \<open>A draft is not tied to the function that is saved\<close>

text \<open>
  C37: When the page is opened on a project that has functions, the first of them counts as the active
  one while the editor still holds the built-in example: the save button is offered and overwrites
  that function with the example's source, address and settings, without having shown its code.
\<close>

theorem save_overwrites_first_function:
  assumes "query_data (functions_query app) s = Some (JArr (fn # fns))" "JNull \<notin> set (fn # fns)"
    and "fld ''name'' fn = Some (JStr name)" "name \<noteq> []"
    and "s = new_functions_page origin p" "pg_pending p = []" "runtime_on s"
    and "FunctionsView env app s = Inr u"
  shows "ClickUpdateFunction \<in> offers u
    \<and> functions_handle env app ClickUpdateFunction s = mutate UpdateFunction
        (send_json env ''PATCH'' (function_url app name) (object (draft_members new_draft))) s
    \<and> fld ''source_code'' (object (draft_members new_draft)) = Some (JStr (js new_source))"
proof -
  have sel: "fv_selectedName s = text_value ''''" "fv_draft s = new_draft" "pg_pending s = []"
    using assms(5,6) by (simp_all add: new_functions_page_def page.defs functions_page.defs)
  have active: "activeName app s = JStr name"
    using assms(1,3,4) sel(1) by (simp add: activeName_def js_or_def text_value_def is_true_def truthy_def first_member_def)
  obtain fs vs ivs src where u: "u = functions_page_ui env app s True fs vs ivs src"
    using assms(7,8) by (auto simp: FunctionsView_def Let_def bind_res_eq_Inr runtime_on_def)
  have "ClickUpdateFunction \<in> offers (function_buttons env app True s)"
    using active assms(4) sel(3) by (simp add: function_buttons_def Let_def truthy_def isPending_def)
  then have "ClickUpdateFunction \<in> offers u"
    unfolding u by (simp add: functions_page_ui_def Let_def Section_def FunctionWorkspacePanels_def Panel_def)
  moreover have "fld ''source_code'' (object (draft_members new_draft)) = Some (JStr (js new_source))"
    by (simp add: draft_members_def new_draft_def object_def fld_def member_def text_value_def map_filter_def)
  ultimately show ?thesis
    using active sel(2) by (simp add: functions_start_def mutate_def prog_simps)
qed

theorem save_overwrites_first_function_witness:
  "\<exists>u. FunctionsView sample_env sample_app sample_functions = Inr u \<and> ClickUpdateFunction \<in> offers u"
proof -
  let ?s = sample_functions and ?p = "sample_page (functions_query sample_app) (JArr [sample_function])"
  have s: "?s = new_functions_page (js ''https://host'') ?p" by (simp add: sample_functions_def)
  have q: "query_data k ?s = (if k = functions_query sample_app then Some (JArr [sample_function]) else None)" for k
    by (simp add: s new_functions_page_def sample_page_def query_data_def page.defs functions_page.defs)
  have m: "metrics_query \<noteq> functions_query sample_app" "function_query p sample_app v \<noteq> functions_query sample_app" for p v
    by (simp_all add: functions_query_def function_query_def metrics_query_def)
  have r: "runtimeEnabled (query_data metrics_query ?s) = Inr True"
    using m(1) by (simp add: q runtimeEnabled_def opt_chain_def coalesce_def nullish_def is_true_def truthy_def)
  have d: "fd_sourceCode (fv_draft ?s) = Some (JStr (js new_source))"
    by (simp add: s new_functions_page_def page.defs functions_page.defs new_draft_def text_value_def)
  obtain u where u: "FunctionsView sample_env sample_app ?s = Inr u"
    using r d m by (simp add: FunctionsView_def Let_def q rows_of_def source_text_def sample_function_def)
  have p: "pg_pending ?p = []" by (simp add: sample_page_def)
  have n: "JNull \<notin> set [sample_function]" "fld ''name'' sample_function = Some (JStr (js ''hello''))"
    by (simp_all add: sample_function_def fld_def member_def)
  have "runtime_on ?s" using r by (simp add: runtime_on_def)
  from save_overwrites_first_function [OF _ n(1,2) _ s p this u] q u show ?thesis by simp
qed

text \<open>
  C36: The answers of two selections may arrive in either order, and the later answer fills the
  editor: after the function \<open>a\<close> and then \<open>b\<close> was selected, when the answer for \<open>b\<close> arrives first, the
  page is left with \<open>b\<close> active and the code of \<open>a\<close> in the editor, and saving writes it over \<open>b\<close>.
\<close>

theorem late_draft_overwrites_other_function:
  assumes "functions_handle env app (SelectFunction (Some (JStr b))) (functions_handle env app (SelectFunction (Some (JStr a))) s0) = s"
    and "pg_pending s0 = []" "pg_pending s = [(LoadFunctionDraft a, Inr ra), (LoadFunctionDraft b, Inr rb)]"
    and "fld ''function'' ra = Some fa" "fld ''function'' rb = Some fb" "fa \<noteq> JNull" "fb \<noteq> JNull" "b \<noteq> []"
    and "s' = settle (functions_onSuccess env app) (functions_onError env) 0
      (settle (functions_onSuccess env app) (functions_onError env) 1 s)"
  shows "(funs.step env app)\<^sup>*\<^sup>* s s' \<and> activeName app s' = JStr b \<and> fv_draft s' = draft_of fa
    \<and> functions_mutationFn env app UpdateFunction s' =
        send_json env ''PATCH'' (function_url app b) (object (draft_members (draft_of fa))) s'"
proof -
  let ?settle = "settle (functions_onSuccess env app) (functions_onError env)"
  have sel: "fv_selectedName s = Some (JStr b)"
    using assms(1) by (auto simp: functions_start_def mutate_def send_def in_console_def split: prod.splits)
  have n: "ra \<noteq> JNull" "rb \<noteq> JNull" using assms(4,5) by (auto simp: fld_def member_def)
  have 1: "?settle 1 s = s\<lparr>pg_pending := [(LoadFunctionDraft a, Inr ra)], fv_draft := draft_of fb\<rparr>"
    using assms(3,5,7) n by (simp add: settle_def get_prop_def applyFunctionDraft_def nullish_def fld_def try_catch_def prog_simps)
  then have s': "s' = s\<lparr>pg_pending := [], fv_draft := draft_of fa\<rparr>"
    using assms(4,6,9) n by (simp add: settle_def get_prop_def applyFunctionDraft_def nullish_def fld_def try_catch_def prog_simps)
  have active: "activeName app s' = JStr b"
    using sel assms(8) by (simp add: s' activeName_def js_or_def is_true_def truthy_def)
  have "funs.step env app s (?settle 1 s)" "funs.step env app (?settle 1 s) s'"
    using funs.step.arrive [of 1 s env app] funs.step.arrive [of 0 "?settle 1 s" env app] assms(3,9) 1 by simp_all
  then have "(funs.step env app)\<^sup>*\<^sup>* s s'" by (meson rtranclp.rtrancl_into_rtrancl r_into_rtranclp)
  then show ?thesis using active by (simp add: s' prog_simps)
qed

definition two_functions :: "nat ui_env" where
  "two_functions = sample_env\<lparr>env_fetch := (\<lambda>r w. (Inr (con_answer 200 (JObj [(js ''function'',
     if w = 0 then sample_function else JObj [(js ''name'', JStr (js ''b''))])])), Suc w))\<rparr>"

theorem late_draft_overwrites_other_function_witness:
  "\<exists>s' :: nat functions_page. activeName sample_app s' = JStr (js ''b'') \<and> fv_draft s' = draft_of sample_function"
proof -
  let ?f = "env_fetch two_functions" and ?s = sample_functions and ?b = "JObj [(js ''name'', JStr (js ''b''))]"
  let ?ra = "JObj [(js ''function'', sample_function)]" and ?rb = "JObj [(js ''function'', ?b)]"
  let ?s1 = "functions_handle two_functions sample_app (SelectFunction (Some (JStr (js ''a'')))) ?s"
  let ?s2 = "functions_handle two_functions sample_app (SelectFunction (Some (JStr (js ''b'')))) ?s1"
  have c: "pg_console ?s = sample_console 0" "pg_pending ?s = []"
    by (simp_all add: sample_functions_def new_functions_page_def sample_page_def page.defs functions_page.defs)
  have t: "readAccessToken (sample_console 0) = Some (js ''a1'')"
    using keys_distinct by (simp add: readAccessToken_def getItem_def sample_console_def)
  have w: "wf_json ?ra" "wf_json ?rb" by code_simp+
  have f: "?f r 0 = (Inr (con_answer 200 ?ra), 1)" "?f r 1 = (Inr (con_answer 200 ?rb), 2)" for r
    by (simp_all add: two_functions_def)
  let ?init = "\<lparr>fi_method = ''GET'', fi_headers = [], fi_body = None, fi_auth = True\<rparr>"
  let ?u = "\<lambda>n. function_url sample_app (js n)"
  obtain r1 where 1: "apiFetch ?f (?u ''a'') ?init (sample_console 0) =
      (Inr ?ra, (sample_console 0)\<lparr>con_world := 1, con_sent := [r1]\<rparr>)"
    using con_sample_ok [OF t, of ?init ?ra ?f 1 "?u ''a''"] w(1) f(1) by (auto simp: sample_console_def)
  obtain c2 where 2: "apiFetch ?f (?u ''b'') ?init ((sample_console 0)\<lparr>con_world := 1, con_sent := [r1]\<rparr>) = (Inr ?rb, c2)"
    using con_sample_ok [of "(sample_console 0)\<lparr>con_world := 1, con_sent := [r1]\<rparr>" ?init ?rb ?f 2 "?u ''b''"] t w(2) f(2) by auto
  have "pg_pending ?s2 = [(LoadFunctionDraft (js ''a''), Inr ?ra), (LoadFunctionDraft (js ''b''), Inr ?rb)]"
    using 1 2 c by (simp add: functions_start_def mutate_def send_def in_console_def item_string_def)
  moreover have "fld ''function'' ?ra = Some sample_function" "fld ''function'' ?rb = Some ?b" "sample_function \<noteq> JNull"
    "?b \<noteq> JNull" "js ''b'' \<noteq> []" by (simp_all add: fld_def member_def sample_function_def)
  ultimately show ?thesis using late_draft_overwrites_other_function [OF refl c(2) _ _ _ _ _ _ refl] by blast
qed

end
