(* ===== verification/View_Push.thy ===== *)
theory View_Push
  imports Console_Metrics
begin

text \<open>
  The page of push notifications (\<open>src/console/src/components/console/views/push-view.tsx\<close>):
  subscriptions, a test message, statistics and the queue.
\<close>

subsection \<open>State\<close>

datatype push_mutation = SendTest

datatype push_event = SetTitle jsstr | SetBody jsstr | SetUserId jsstr | ClickSendTest

record 'w push_page = "('w, push_mutation) page" +
  pv_title :: jsstr
  pv_body :: jsstr
  pv_userId :: jsstr

definition push_users_query :: "json \<Rightarrow> jsstr list" where
  "push_users_query app = [js ''auth'', js ''users'', app_id app]"

definition push_query :: "string \<Rightarrow> json \<Rightarrow> jsstr list" where
  "push_query part app = [js ''push'', js part, app_id app]"

definition push_url :: "json \<Rightarrow> string \<Rightarrow> jsstr" where
  "push_url app rest = app_path app (js (''/push/'' @ rest))"

definition push_queries :: "'w ui_env \<Rightarrow> json \<Rightarrow> 'w push_page \<Rightarrow> (jsstr list \<times> nat \<times> ('w push_page, json option) ui_prog) list" where
  "push_queries env app s =
     [(push_users_query app, default_retry, fetch_member env (app_path app (js ''/auth/users'')) ''users''),
      (push_query ''subscriptions'' app, default_retry, fetch_member env (push_url app ''subscriptions'') ''subscriptions''),
      (push_query ''diagnostics'' app, default_retry, fetch_all env (push_url app ''diagnostics'') get_init),
      (push_query ''queue'' app, default_retry, fetch_all env (push_url app ''queue'') get_init),
      (push_query ''queue-stats'' app, default_retry, fetch_all env (push_url app ''queue/stats?window_hours=24&limit=5'') get_init)]"

subsection \<open>The test message\<close>

text \<open>\<open>userId || users.data?.[0]?.id\<close>\<close>

definition target_user :: "json \<Rightarrow> 'w push_page \<Rightarrow> json option" where
  "target_user app s = js_or (Some (JStr (pv_userId s))) (first_member ''id'' (query_data (push_users_query app) s))"

definition test_message :: "json \<Rightarrow> 'w push_page \<Rightarrow> json" where
  "test_message app s = object [(''title'', Some (JStr (pv_title s))), (''body'', Some (JStr (pv_body s))),
     (''user_id'', target_user app s)]"

definition push_mutationFn :: "'w ui_env \<Rightarrow> json \<Rightarrow> push_mutation \<Rightarrow> ('w push_page, json) ui_prog" where
  "push_mutationFn env app m = bnd (gets (test_message app)) (\<lambda>body. send_json env ''POST'' (push_url app ''test-message'') body)"

definition push_onSuccess :: "'w ui_env \<Rightarrow> json \<Rightarrow> push_mutation \<Rightarrow> json \<Rightarrow> ('w push_page, unit) ui_prog" where
  "push_onSuccess env app m response =
     bnd (toast_success (env_tr env ''pushView'' ''queued'' [])) (\<lambda>_.
     bnd (invalidateQueries (push_query ''queue'' app)) (\<lambda>_. invalidateQueries (push_query ''queue-stats'' app)))"

definition push_onError :: "'w ui_env \<Rightarrow> push_mutation \<Rightarrow> exn \<Rightarrow> ('w push_page, unit) ui_prog" where
  "push_onError env m e = onError_toast env e"

fun push_handle :: "'w ui_env \<Rightarrow> json \<Rightarrow> push_event \<Rightarrow> 'w push_page \<Rightarrow> 'w push_page" where
  "push_handle env app (SetTitle v) s = s\<lparr>pv_title := v\<rparr>"
| "push_handle env app (SetBody v) s = s\<lparr>pv_body := v\<rparr>"
| "push_handle env app (SetUserId v) s = s\<lparr>pv_userId := v\<rparr>"
| "push_handle env app ClickSendTest s = mutate SendTest (push_mutationFn env app SendTest) s"

subsection \<open>Rendering\<close>

text \<open>\<open>value.map(...)\<close>, reading members of the elements.\<close>

definition elements_of :: "json option \<Rightarrow> exn + json list" where
  "elements_of v = (case v of Some (JArr vs) \<Rightarrow> if JNull \<in> set vs then Inl TypeError else Inr vs | _ \<Rightarrow> Inl TypeError)"

definition reason_table :: "'w ui_env \<Rightarrow> json list \<Rightarrow> push_event ui" where
  "reason_table env items =
     (let t = (\<lambda>k. env_tr env ''pushView'' k []) in
      DataTableView (env_tr env) [t ''statsReason'', t ''statsCount'']
        (map (\<lambda>item. [Child (fld ''reason'' item), Child (fld ''count'' item)]) items) False
        (Some (t ''statsNoFailures'')) (Some (t ''statsNoFailuresDescription'')))"

definition PushStatsView :: "'w ui_env \<Rightarrow> json option \<Rightarrow> bool \<Rightarrow> exn + push_event ui" where
  "PushStatsView env stats loading =
     (let t = (\<lambda>k. env_tr env ''pushView'' k []) in
      if loading then Inr Skeleton
      else if \<not> is_true stats then Inr (EmptyState (t ''emptyStatsTitle'') (t ''emptyStatsDescription'') [])
      else let v = the stats in
        bind_res (elements_of (fld ''terminal_failure_reasons'' v)) (\<lambda>terminal.
        bind_res (elements_of (fld ''destination_failure_reasons'' v)) (\<lambda>destination.
        Inr (Box [
          Metric (t ''statsWindowHours'') (Txt (item_string (fld ''window_hours'' v) @ js ''h'')),
          Metric (t ''statsRetryScheduled'') (Child (fld ''retry_scheduled'' v)),
          Metric (t ''statsRetryOverdue'') (Child (fld ''retry_overdue'' v)),
          Metric (t ''statsReasonLimit'') (Child (fld ''limit'' v)),
          Panel (t ''statsTerminalFailures'') [reason_table env terminal],
          Panel (t ''statsDestinationFailures'') [reason_table env destination]]))))"

text \<open>\<open>queue?.items ?? []\<close>; a value without elements counts as an empty queue.\<close>

definition queue_items :: "json option \<Rightarrow> exn + json list" where
  "queue_items queue = (case coalesce (case queue of None \<Rightarrow> None | Some q \<Rightarrow> fld ''items'' q) None of
     None \<Rightarrow> Inr [] | Some v \<Rightarrow> bind_res (event_list v) (\<lambda>items. if JNull \<in> set items then Inl TypeError else Inr items))"

definition count_of :: "nat \<Rightarrow> json option" where
  "count_of n = Some (JNum (mk_number False n 0))"

definition queue_metrics :: "'w ui_env \<Rightarrow> json option \<Rightarrow> nat \<Rightarrow> push_event ui" where
  "queue_metrics env summary n =
     (let t = (\<lambda>k. env_tr env ''pushView'' k []);
          figure = (\<lambda>k d. Child (coalesce (case summary of None \<Rightarrow> None | Some v \<Rightarrow> fld k v) d)) in
      Box [Metric (t ''queuedTotal'') (figure ''total'' (count_of n)), Metric (t ''queuedPending'') (figure ''pending'' (count_of 0)),
        Metric (t ''queuedProcessing'') (figure ''processing'' (count_of 0)), Metric (t ''queuedFailed'') (figure ''failed'' (count_of 0)),
        Metric (t ''queuedSent'') (figure ''sent'' (count_of 0)), Metric (t ''queuedPartial'') (figure ''partial_success'' (count_of 0))])"

definition queue_row :: "json \<Rightarrow> push_event ui list" where
  "queue_row item = map (\<lambda>k. Child (fld k item)) [''id'', ''title'', ''status'', ''retry_count'', ''partial_failure_count'', ''created_at'']"

definition PushQueueView :: "'w ui_env \<Rightarrow> json option \<Rightarrow> bool \<Rightarrow> exn + push_event ui" where
  "PushQueueView env queue loading =
     (let t = (\<lambda>k. env_tr env ''pushView'' k []) in
      if loading then Inr Skeleton
      else bind_res (queue_items queue) (\<lambda>items.
        if items = [] then Inr (Box [EmptyState (t ''emptyQueueTitle'') (t ''emptyQueueDescription'') [],
          Txt (t ''rawQueue''), JsonText (or_loading env queue)])
        else Inr (Box [queue_metrics env (case queue of None \<Rightarrow> None | Some q \<Rightarrow> fld ''summary'' q) (length items),
          DataTableView (env_tr env) [t ''columnsId'', t ''columnsTitle'', t ''columnsStatus'', t ''columnsRetry'',
            t ''columnsPartialFailures'', t ''columnsCreated''] (map queue_row items) False None None,
          Txt (t ''rawQueue''), JsonText (the queue)])))"

definition subscription_row :: "json \<Rightarrow> push_event ui list" where
  "subscription_row subscription =
     map (\<lambda>k. Txt (string_or (fld k subscription) [])) [''id'', ''kind'', ''topic'', ''endpoint'', ''created_at'']"

definition test_panel :: "'w ui_env \<Rightarrow> json \<Rightarrow> 'w push_page \<Rightarrow> json list \<Rightarrow> push_event ui" where
  "test_panel env app s users =
     Panel (env_tr env ''pushView'' ''queueTestPush'' [])
       [Input (pv_title s) False SetTitle, Input (pv_body s) False SetBody,
        Select (string_or (js_or (target_user app s) (Some (JStr []))) [])
          (map (\<lambda>user. (row_id ''id'' user, child_text (fld ''email'' user))) users) SetUserId,
        Button (env_tr env ''common'' ''send'' []) (isPending SendTest s \<or> users = []) ClickSendTest]"

definition push_tabs :: "'w ui_env \<Rightarrow> json \<Rightarrow> 'w push_page \<Rightarrow> json list \<Rightarrow> json list \<Rightarrow> push_event ui \<Rightarrow> push_event ui \<Rightarrow> push_event ui" where
  "push_tabs env app s users subscriptions stats queue =
     (let t = (\<lambda>k. env_tr env ''pushView'' k []) in
      Tabs [
        (t ''subscriptions'', DataTableView (env_tr env)
           [t ''columnsId'', t ''columnsKind'', t ''columnsTopic'', t ''columnsEndpoint'', t ''columnsCreated'']
           (map subscription_row subscriptions) (isLoading True (push_query ''subscriptions'' app) s)
           (Some (t ''emptySubscriptionsTitle'')) (Some (t ''emptySubscriptionsDescription''))),
        (t ''testMessage'', test_panel env app s users),
        (t ''stats'', stats),
        (t ''diagnostics'', Panel (t ''diagnostics'') [JsonText (or_loading env (query_data (push_query ''diagnostics'' app) s))]),
        (t ''queue'', Panel (t ''queue'') [queue])])"

definition PushView :: "'w ui_env \<Rightarrow> json \<Rightarrow> 'w push_page \<Rightarrow> exn + push_event ui" where
  "PushView env app s =
     (let t = (\<lambda>k. env_tr env ''pushView'' k []); data = (\<lambda>part. query_data (push_query part app) s) in
      bind_res (rows_of (query_data (push_users_query app) s)) (\<lambda>users.
      bind_res (rows_of (data ''subscriptions'')) (\<lambda>subscriptions.
      bind_res (PushStatsView env (data ''queue-stats'') (isLoading True (push_query ''queue-stats'' app) s)) (\<lambda>stats.
      bind_res (PushQueueView env (data ''queue'') (isLoading True (push_query ''queue'' app) s)) (\<lambda>queue.
      Inr (Section (t ''title'') (t ''description'') [] [push_tabs env app s users subscriptions stats queue]))))))"

subsection \<open>The contract\<close>

fun push_starts :: "push_event \<Rightarrow> push_mutation option" where
  "push_starts ClickSendTest = Some SendTest"
| "push_starts e = None"

lemma stats_offers: "PushStatsView env stats loading = Inr u \<Longrightarrow> offers u = {}"
  by (auto simp: PushStatsView_def reason_table_def Let_def offers_simps bind_res_eq_Inr split: if_splits)

lemma queue_offers: "PushQueueView env queue loading = Inr u \<Longrightarrow> offers u = {}"
  by (auto simp: PushQueueView_def queue_metrics_def queue_row_def Let_def offers_simps bind_res_eq_Inr split: if_splits)

lemma push_offers:
  assumes "PushView env app s = Inr u"
  obtains users where "rows_of (query_data (push_users_query app) s) = Inr users" "offers u = offers (test_panel env app s users)"
proof -
  obtain users subs stats queue where r: "rows_of (query_data (push_users_query app) s) = Inr users"
    and o: "offers stats = {}" "offers queue = {}"
    and u: "u = Section (env_tr env ''pushView'' ''title'' []) (env_tr env ''pushView'' ''description'' []) []
      [push_tabs env app s users subs stats queue]"
    using assms stats_offers queue_offers unfolding PushView_def Let_def bind_res_eq_Inr by blast
  have "offers (push_tabs env app s users subs stats queue) = offers (test_panel env app s users)"
    using o by (auto simp: push_tabs_def Let_def offers_DataTableView Panel_def subscription_row_def)
  then have "offers u = offers (test_panel env app s users)" by (simp add: u Section_def)
  then show thesis using that r by blast
qed

lemma push_guarded:
  assumes "PushView env app s = Inr u" "e \<in> offers u" "push_starts e = Some m"
  shows "\<not> isPending m s"
  using assms by (elim push_offers) (auto simp: test_panel_def Panel_def split: if_splits)

interpretation push: console_view "PushView env app" "push_handle env app" push_starts
  "push_onSuccess env app" "push_onError env" "push_queries env app" "\<lambda>_. True" for env app
proof unfold_locales
  have "keeps_pending (push_mutationFn env app SendTest)" by (simp add: push_mutationFn_def pending_simps)
  then show "map fst (pg_pending (push_handle env app e s)) =
      map fst (pg_pending s) @ (case push_starts e of None \<Rightarrow> [] | Some m \<Rightarrow> [m])" for e s
    by (cases e) (auto simp: pending_mutate)
qed (auto simp: push_guarded push_onSuccess_def push_onError_def push_queries_def pending_simps)

subsection \<open>The target of a test message\<close>

text \<open>
  The test message goes to the user shown in the selection: whenever the send button is offered and the
  users have non-empty identifiers, the request names the shown one, and without a choice it is the first
  of the list.
\<close>

lemma test_message_target:
  assumes "PushView env app s = Inr u" "ClickSendTest \<in> offers u"
    and "query_data (push_users_query app) s = Some (JArr users)"
    and "\<And>user. user \<in> set users \<Longrightarrow> \<exists>i. fld ''id'' user = Some (JStr i) \<and> i \<noteq> []"
  shows "\<exists>i items. i \<noteq> [] \<and> fld ''user_id'' (test_message app s) = Some (JStr i)
    \<and> test_panel env app s users = Panel (env_tr env ''pushView'' ''queueTestPush'' [])
        [Input (pv_title s) False SetTitle, Input (pv_body s) False SetBody, Select i items SetUserId,
         Button (env_tr env ''common'' ''send'' []) False ClickSendTest]
    \<and> (pv_userId s = [] \<longrightarrow> i = row_id ''id'' (hd users))"
proof -
  obtain users' where r: "rows_of (query_data (push_users_query app) s) = Inr users'"
    "offers u = offers (test_panel env app s users')" using push_offers [OF assms(1)] .
  then have "users' = users" using assms(3) by (simp add: rows_of_def split: if_splits)
  with r(2) have np: "\<not> isPending SendTest s" and users: "users \<noteq> []"
    using assms(2) by (auto simp: test_panel_def Panel_def split: if_splits)
  obtain user us where us: "users = user # us" using users by (cases users) auto
  then obtain i where i: "fld ''id'' user = Some (JStr i)" "i \<noteq> []" using assms(4) by fastforce
  define j where "j = (if pv_userId s = [] then i else pv_userId s)"
  have j: "j \<noteq> []" "pv_userId s = [] \<longrightarrow> j = row_id ''id'' (hd users)"
    using i us by (simp_all add: j_def row_id_def item_string_def fld_def)
  have t: "target_user app s = Some (JStr j)"
    using i assms(3) us by (simp add: target_user_def js_or_def is_true_def truthy_def first_member_def j_def)
  then have m: "fld ''user_id'' (test_message app s) = Some (JStr j)"
    by (simp add: test_message_def fld_def member_def object_def map_filter_def)
  have "string_or (js_or (target_user app s) (Some (JStr []))) [] = j"
    using t j(1) by (simp add: js_or_def is_true_def truthy_def string_or_def)
  then have "test_panel env app s users = Panel (env_tr env ''pushView'' ''queueTestPush'' [])
    [Input (pv_title s) False SetTitle, Input (pv_body s) False SetBody,
     Select j (map (\<lambda>user. (row_id ''id'' user, child_text (fld ''email'' user))) users) SetUserId,
     Button (env_tr env ''common'' ''send'' []) False ClickSendTest]"
    using np users by (simp add: test_panel_def)
  then show ?thesis using m j by blast
qed

end
