(* ===== verification/Js_Double.thy ===== *)
theory Js_Double
  imports Console_Utils "HOL-Library.Log_Nat"
begin

text \<open>
  Floating-point arithmetic as far as the console computes with it: rounding to IEEE 754 double
  precision (53 significant bits, smallest exponent -1074, ties to even, overflow to infinity), division,
  multiplication, \<open>Math.round\<close> and \<open>Math.min\<close>, and \<open>usagePercent\<close> of
  \<open>src/console/src/components/console/utils/display.ts\<close>. The lemmas bound the error of a rounding
  and show that the percentage is within half a percent of the exact one. The sign of a zero is left out: it
  makes no difference here.
\<close>

subsection \<open>Rounding\<close>

text \<open>The exponent of the leading bit of a positive number.\<close>

definition ilog2 :: "rat \<Rightarrow> int" where
  "ilog2 x = (case quotient_of x of (n, d) \<Rightarrow>
     let e = bitlen n - bitlen d in if 2 powi e \<le> x then e else e - 1)"

definition round_even :: "rat \<Rightarrow> int" where
  "round_even y = (let f = \<lfloor>y\<rfloor>; r = y - of_int f in
     if r < 1 / 2 then f else if r > 1 / 2 then f + 1 else if even f then f else f + 1)"

definition fl :: "rat \<Rightarrow> rat" where
  "fl x = (if x = 0 then 0
     else let q = max (ilog2 \<bar>x\<bar> - 52) (-1074) in of_int (round_even (x / 2 powi q)) * 2 powi q)"

datatype double = DNaN | DInf bool | DFin rat

definition rnd :: "rat \<Rightarrow> double" where
  "rnd x = (let y = fl x in if \<bar>y\<bar> \<ge> 2 ^ 1024 then DInf (x < 0) else DFin y)"

definition number_rat :: "int \<Rightarrow> int \<Rightarrow> rat" where
  "number_rat m e = of_int m * 10 powi e"

definition double_of :: "number \<Rightarrow> double" where
  "double_of x = (case x of NaN \<Rightarrow> DNaN | Infinity neg \<Rightarrow> DInf neg | Fin m e \<Rightarrow> rnd (number_rat m e))"

subsection \<open>Operations\<close>

fun dbl_div :: "double \<Rightarrow> double \<Rightarrow> double" where
  "dbl_div (DFin x) (DFin y) = (if y = 0 then (if x = 0 then DNaN else DInf (x < 0)) else rnd (x / y))"
| "dbl_div (DInf s) (DFin y) = DInf (s \<noteq> (y < 0))"
| "dbl_div (DFin x) (DInf s) = DFin 0"
| "dbl_div _ _ = DNaN"

fun dbl_times100 :: "double \<Rightarrow> double" where
  "dbl_times100 (DFin x) = rnd (x * 100)"
| "dbl_times100 (DInf s) = DInf s"
| "dbl_times100 DNaN = DNaN"

fun math_round :: "double \<Rightarrow> double" where
  "math_round (DFin x) = DFin (of_int \<lfloor>x + 1 / 2\<rfloor>)"
| "math_round d = d"

fun min100 :: "double \<Rightarrow> double" where
  "min100 (DFin x) = DFin (min 100 x)"
| "min100 (DInf s) = (if s then DInf True else DFin 100)"
| "min100 DNaN = DNaN"

fun dbl_positive :: "double \<Rightarrow> bool" where
  "dbl_positive (DFin x) = (0 < x)"
| "dbl_positive (DInf s) = (\<not> s)"
| "dbl_positive DNaN = False"

text \<open>\<open>limit <= 0\<close>, which is false for \<open>NaN\<close>.\<close>

fun dbl_le_zero :: "double \<Rightarrow> bool" where
  "dbl_le_zero (DFin x) = (x \<le> 0)"
| "dbl_le_zero (DInf s) = s"
| "dbl_le_zero DNaN = False"

definition usagePercent :: "double \<Rightarrow> double \<Rightarrow> double" where
  "usagePercent used limit =
     (if dbl_le_zero limit then (if dbl_positive used then DFin 100 else DFin 0)
      else min100 (math_round (dbl_times100 (dbl_div used limit))))"

text \<open>\<open>String\<close> of the result, an integer.\<close>

definition percent_text :: "double \<Rightarrow> jsstr" where
  "percent_text d = number_string (case d of DNaN \<Rightarrow> NaN | DInf s \<Rightarrow> Infinity s
     | DFin x \<Rightarrow> mk_number (x < 0) (nat \<bar>\<lfloor>x\<rfloor>\<bar>) 0)"

subsection \<open>The error of a rounding\<close>

lemma ilog2_bounds:
  assumes "0 < x"
  shows "2 powi ilog2 x \<le> x" "x < 2 powi (ilog2 x + 1)"
proof -
  obtain n d where q: "quotient_of x = (n, d)" by (cases "quotient_of x")
  have d: "0 < d" and x: "x = of_int n / of_int d"
    using quotient_of_denom_pos [OF q] quotient_of_div [OF q] by auto
  have n: "0 < n" using assms d by (simp add: x zero_less_divide_iff)
  have pos: "0 < bitlen n" "0 < bitlen d" using n d bitlen_nonneg [of n] bitlen_nonneg [of d] bitlen_eq_zero_iff [of n] bitlen_eq_zero_iff [of d] by linarith+
  have pw: "(2 :: rat) powi k = of_int (2 ^ nat k)" if "0 \<le> k" for k using that by (simp add: power_int_def)
  have bn: "2 powi (bitlen n - 1) \<le> (of_int n :: rat)" "(of_int n :: rat) < 2 powi bitlen n"
    using bitlen_bounds [OF n] pos by (simp_all only: pw of_int_le_iff of_int_less_iff)
  have bd: "2 powi (bitlen d - 1) \<le> (of_int d :: rat)" "(of_int d :: rat) < 2 powi bitlen d"
    using bitlen_bounds [OF d] pos by (simp_all only: pw of_int_le_iff of_int_less_iff)
  define e where "e = bitlen n - bitlen d"
  have lo: "2 powi (e - 1) \<le> x"
  proof -
    have "2 powi (e - 1) * (of_int d :: rat) \<le> 2 powi (e - 1) * 2 powi bitlen d" using bd(2) by (intro mult_left_mono) auto
    also have "\<dots> = 2 powi (bitlen n - 1)" by (simp add: e_def flip: power_int_add)
    also have "\<dots> \<le> of_int n" by (rule bn(1))
    finally show ?thesis using d by (simp add: x pos_le_divide_eq)
  qed
  have hi: "x < 2 powi (e + 1)"
  proof -
    have "(of_int n :: rat) < 2 powi bitlen n" by (rule bn(2))
    also have "\<dots> = 2 powi (e + 1) * 2 powi (bitlen d - 1)" by (simp add: e_def flip: power_int_add)
    also have "\<dots> \<le> 2 powi (e + 1) * of_int d" using bd(1) by (intro mult_left_mono) auto
    finally show ?thesis using d by (simp add: x pos_divide_less_eq)
  qed
  show "2 powi ilog2 x \<le> x" "x < 2 powi (ilog2 x + 1)"
    using lo hi by (auto simp: ilog2_def q Let_def e_def)
qed

lemma round_even_error: "\<bar>of_int (round_even y) - y\<bar> \<le> 1 / 2"
  using of_int_floor_le [of y] floor_correct [of y] by (auto simp: round_even_def Let_def abs_if) linarith+

lemma fl_error: "\<bar>fl x - x\<bar> \<le> \<bar>x\<bar> / 2 ^ 53 + 1 / 2 ^ 1075"
proof (cases "x = 0")
  case False
  define q where "q = max (ilog2 \<bar>x\<bar> - 52) (-1074)"
  have "fl x - x = (of_int (round_even (x / 2 powi q)) - x / 2 powi q) * 2 powi q"
    using False by (simp add: fl_def q_def Let_def algebra_simps)
  then have "\<bar>fl x - x\<bar> = \<bar>of_int (round_even (x / 2 powi q)) - x / 2 powi q\<bar> * 2 powi q" by (simp add: abs_mult)
  also have "\<dots> \<le> 1 / 2 * 2 powi q" using round_even_error by (intro mult_right_mono) auto
  also have "\<dots> \<le> \<bar>x\<bar> / 2 ^ 53 + 1 / 2 ^ 1075"
  proof (cases "q = -1074")
    case True
    then have "1 / 2 * (2 :: rat) powi q = 1 / 2 ^ 1075" by (simp add: power_int_minus divide_simps)
    then show ?thesis by simp
  next
    case False
    then have "q = ilog2 \<bar>x\<bar> - 52" by (simp add: q_def max_def split: if_splits)
    then have "1 / 2 * (2 :: rat) powi q = 2 powi ilog2 \<bar>x\<bar> / 2 ^ 53"
      by (simp add: power_int_diff)
    also have "\<dots> \<le> \<bar>x\<bar> / 2 ^ 53" using ilog2_bounds(1) [of "\<bar>x\<bar>"] \<open>x \<noteq> 0\<close> by (intro divide_right_mono) auto
    finally show ?thesis by (simp add: add_increasing2)
  qed
  finally show ?thesis .
qed (simp add: fl_def)

subsection \<open>Percentages\<close>

definition percent_error :: rat where
  "percent_error = 1 / 2 ^ 40"

text \<open>One product after one quotient, both rounded.\<close>

lemma fl_nonneg_error:
  assumes "0 \<le> x" "x \<le> b"
  shows "\<bar>fl x - x\<bar> \<le> b / 2 ^ 53 + 1 / 2 ^ 1075"
  using fl_error [of x] assms divide_right_mono [OF assms(2), of "2 ^ 53"] by simp

lemma percent_product_error:
  assumes "0 \<le> x" "x \<le> 2"
  shows "\<bar>fl (fl x * 100) - 100 * x\<bar> \<le> percent_error"
proof -
  have e: "\<bar>fl x - x\<bar> \<le> 2 / 2 ^ 53 + 1 / 2 ^ 1075" by (rule fl_nonneg_error [OF assms])
  also have "\<dots> \<le> 1 / 2 ^ 51" by simp
  finally have e1: "fl x - x \<le> 1 / 2 ^ 51" "x - fl x \<le> 1 / 2 ^ 51" unfolding abs_le_iff by linarith+
  have small: "(1 :: rat) / 2 ^ 51 \<le> 1 / 100" by simp
  have b: "fl x * 100 \<le> 201" "- (fl x * 100) \<le> 1" using assms e1 small by linarith+
  have "\<bar>fl (fl x * 100) - fl x * 100\<bar> \<le> \<bar>fl x * 100\<bar> / 2 ^ 53 + 1 / 2 ^ 1075" by (rule fl_error)
  also have "\<dots> \<le> 201 / 2 ^ 53 + 1 / 2 ^ 1075" using b by (intro add_right_mono divide_right_mono) (simp_all add: abs_le_iff)
  also have "\<dots> \<le> 202 / 2 ^ 53" by simp
  finally have e2: "fl (fl x * 100) - fl x * 100 \<le> 202 / 2 ^ 53" "fl x * 100 - fl (fl x * 100) \<le> 202 / 2 ^ 53"
    unfolding abs_le_iff by linarith+
  have "202 / 2 ^ 53 + 100 * (1 / 2 ^ 51) \<le> percent_error" unfolding percent_error_def by simp
  then show ?thesis unfolding abs_le_iff using e1 e2 by linarith
qed

lemma rnd_small: "\<bar>fl x\<bar> < 2 ^ 1024 \<Longrightarrow> rnd x = DFin (fl x)"
  by (simp add: rnd_def Let_def)

lemma rnd_positive:
  assumes "0 < x"
  shows "rnd x = DFin (fl x) \<or> rnd x = DInf False"
  using assms by (auto simp: rnd_def Let_def)

lemma fl_large: "b \<le> x \<Longrightarrow> 1 \<le> b \<Longrightarrow> b / 2 \<le> fl x"
proof -
  assume a: "b \<le> x" "1 \<le> b"
  have "\<bar>fl x - x\<bar> \<le> \<bar>x\<bar> / 2 ^ 53 + 1 / 2 ^ 1075" by (rule fl_error)
  also have "\<dots> \<le> x / 4 + 1 / 4" using a by (intro add_mono) (simp_all add: field_simps)
  finally show "b / 2 \<le> fl x" using a unfolding abs_le_iff by linarith
qed

lemma percent_small:
  assumes "0 \<le> x" "x \<le> 2"
  shows "\<exists>p :: int. math_round (dbl_times100 (rnd x)) = DFin (of_int p) \<and> 0 \<le> p \<and> \<bar>of_int p - 100 * x\<bar> \<le> 1 / 2 + percent_error"
proof -
  define y where "y = fl (fl x * 100)"
  have y: "y - 100 * x \<le> percent_error" "100 * x - y \<le> percent_error"
    using percent_product_error [OF assms] unfolding y_def abs_le_iff by linarith+
  have eps: "0 \<le> percent_error" "percent_error \<le> 1 / 2" by (simp_all add: percent_error_def)
  have big: "(1000 :: rat) < 2 ^ 1024" by simp
  have "\<bar>fl x - x\<bar> \<le> 2 / 2 ^ 53 + 1 / 2 ^ 1075" by (rule fl_nonneg_error [OF assms])
  also have "\<dots> \<le> 1" by simp
  finally have "\<bar>fl x\<bar> < 2 ^ 1024" using assms big unfolding abs_le_iff abs_less_iff by linarith
  moreover have "\<bar>y\<bar> < 2 ^ 1024" using y eps assms big unfolding abs_less_iff by linarith
  ultimately have r: "dbl_times100 (rnd x) = DFin y" by (simp add: rnd_small y_def)
  define p where "p = \<lfloor>y + 1 / 2\<rfloor>"
  have p: "of_int p \<le> y + 1 / 2" "y + 1 / 2 < of_int p + 1" unfolding p_def by linarith+
  have "0 \<le> y + 1 / 2" using y eps assms by linarith
  then have "0 \<le> p" by (simp add: p_def)
  moreover have "\<bar>of_int p - 100 * x\<bar> \<le> 1 / 2 + percent_error" using p y unfolding abs_le_iff by linarith
  moreover have "math_round (dbl_times100 (rnd x)) = DFin (of_int p)" by (simp add: r p_def)
  ultimately show ?thesis by blast
qed

lemma percent_large:
  assumes "2 \<le> x"
  shows "min100 (math_round (dbl_times100 (rnd x))) = DFin 100"
proof -
  have "0 < x" using assms by simp
  then consider "rnd x = DFin (fl x)" | "rnd x = DInf False" using rnd_positive by blast
  then show ?thesis
  proof cases
    case 1
    have f: "1 \<le> fl x" using fl_large [OF assms] by simp
    then have "100 \<le> fl x * 100" by simp
    then have g: "\<bar>fl (fl x * 100) - fl x * 100\<bar> \<le> fl x * 100 / 2 ^ 53 + 1 / 2 ^ 1075" using fl_error [of "fl x * 100"] by simp
    have "0 < fl x * 100" using f by simp
    then consider "rnd (fl x * 100) = DFin (fl (fl x * 100))" | "rnd (fl x * 100) = DInf False" using rnd_positive by blast
    then show ?thesis
    proof cases
      case 1
      have "fl x * 100 / 2 ^ 53 + 1 / 2 ^ 1075 \<le> fl x / 4 + 1 / 4" using f by (intro add_mono) (simp_all add: field_simps)
      then have "fl x * 100 - fl (fl x * 100) \<le> fl x / 4 + 1 / 4" using g unfolding abs_le_iff by linarith
      then have "99 + 1 / 2 \<le> fl (fl x * 100)" using f by linarith
      then have "100 \<le> \<lfloor>fl (fl x * 100) + 1 / 2\<rfloor>" by (simp add: le_floor_iff)
      then have "(100 :: rat) \<le> of_int \<lfloor>fl (fl x * 100) + 1 / 2\<rfloor>" by (metis of_int_le_iff of_int_numeral)
      then show ?thesis using 1 \<open>rnd x = DFin (fl x)\<close> by simp
    qed (simp add: \<open>rnd x = DFin (fl x)\<close>)
  qed simp
qed

text \<open>
  C21: The percentage of used resources that the console shows is a whole number between 0 and 100, at
  most half a percent (and the error of two floating-point roundings, below \<open>2^-40\<close>) away from the exact
  proportion capped at 100; so it is exact when the exact percentage is whole, and 100 once the limit is
  reached.
\<close>

theorem usage_percent_bounds:
  assumes "0 \<le> used" "0 < limit"
  shows "\<exists>p :: int. usagePercent (DFin used) (DFin limit) = DFin (of_int p) \<and> 0 \<le> p \<and> p \<le> 100
    \<and> \<bar>of_int p - min 100 (100 * (used / limit))\<bar> \<le> 1 / 2 + percent_error
    \<and> (\<forall>k. 100 * (used / limit) = of_int k \<and> k \<le> 100 \<longrightarrow> p = k) \<and> (limit \<le> used \<longrightarrow> p = 100)"
proof -
  define x where "x = used / limit"
  have x: "0 \<le> x" "limit \<le> used \<longleftrightarrow> 1 \<le> x" using assms by (simp_all add: x_def pos_le_divide_eq)
  have u: "usagePercent (DFin used) (DFin limit) = min100 (math_round (dbl_times100 (rnd x)))"
    using assms by (simp add: usagePercent_def x_def)
  have eps: "0 \<le> percent_error" "percent_error < 1 / 2" by (simp_all add: percent_error_def)
  have "\<exists>p :: int. usagePercent (DFin used) (DFin limit) = DFin (of_int p) \<and> 0 \<le> p \<and> p \<le> 100
    \<and> \<bar>of_int p - min 100 (100 * x)\<bar> \<le> 1 / 2 + percent_error"
  proof (cases "x \<le> 2")
    case True
    obtain p :: int where p: "math_round (dbl_times100 (rnd x)) = DFin (of_int p)" "0 \<le> p"
      "\<bar>of_int p - 100 * x\<bar> \<le> 1 / 2 + percent_error" using percent_small [OF x(1) True] by blast
    have "\<bar>of_int (min 100 p) - min 100 (100 * x)\<bar> \<le> 1 / 2 + percent_error"
      using p(3) eps(1) unfolding of_int_min abs_le_iff min_def by (auto split: if_splits)
    then show ?thesis using p u by (intro exI [of _ "min 100 p"]) (simp add: of_int_min)
  next
    case False
    then show ?thesis using u percent_large [of x] eps by (intro exI [of _ 100]) simp
  qed
  then obtain p :: int where p: "usagePercent (DFin used) (DFin limit) = DFin (of_int p)" "0 \<le> p" "p \<le> 100"
    "\<bar>of_int p - min 100 (100 * x)\<bar> \<le> 1 / 2 + percent_error" by blast
  have close: "p = k" if "min 100 (100 * x) = of_int k" for k
  proof -
    have "\<bar>of_int p - (of_int k :: rat)\<bar> < 1" using p(4) eps unfolding that by linarith
    then have "\<bar>p - k\<bar> < 1" by (simp flip: of_int_diff of_int_abs)
    then show ?thesis by simp
  qed
  have "p = k" if "100 * x = of_int k" "k \<le> 100" for k
    using that by (intro close) (simp add: min_def)
  moreover have "p = 100" if "limit \<le> used" using that x(2) by (intro close) (simp add: min_def)
  ultimately show ?thesis using p unfolding x_def by blast
qed

theorem usage_percent_bounds_witness: "\<exists>p :: int. usagePercent (DFin 29) (DFin 100) = DFin (of_int p) \<and> p = 29"
proof -
  obtain p :: int where "usagePercent (DFin 29) (DFin 100) = DFin (of_int p)"
    "\<forall>k. 100 * (29 / 100) = (of_int k :: rat) \<and> k \<le> 100 \<longrightarrow> p = k"
    using usage_percent_bounds [of 29 100] by auto
  then show ?thesis by (intro exI [of _ p]) simp
qed

end
