(* ===== verification/View_Ops.thy ===== *)
theory View_Ops
  imports Console_Metrics Js_Double
begin

text \<open>
  The operations page (\<open>src/console/src/components/console/views/ops-view.tsx\<close>): readiness, grouped
  diagnostics, metrics, the usage of workspaces, and backups with their restoration and download.
  How a number is grouped for the reader (\<open>toLocaleString\<close>) depends on the browser and is a parameter.
\<close>

subsection \<open>State\<close>

datatype ops_mutation = CreateBackup | ScheduleRestore jsstr | ClearRestore | DownloadBackup jsstr

datatype ops_event = ClickClearRestore | ClickCreateBackup | ClickDownload jsstr | ClickRestore jsstr

type_synonym 'w ops_page = "('w, ops_mutation) page"

definition backups_query :: "jsstr list" where
  "backups_query = [js ''ops'', js ''backups'']"

definition usage_query :: "jsstr list" where
  "usage_query = [js ''ops'', js ''workspace-usage'']"

subsection \<open>Queries\<close>

text \<open>
  \<open>Promise.all\<close>: every computation is run, and the first failure is the outcome. The computations run one
  after the other here; their interleaving is the subject of \<open>Console_Concurrent\<close>.
\<close>

fun promise_all :: "('s, 'a) ui_prog list \<Rightarrow> ('s, 'a list) ui_prog" where
  "promise_all [] = ret []"
| "promise_all (m # ms) = (\<lambda>s. case m s of (r, s1) \<Rightarrow> (case promise_all ms s1 of (rs, s2) \<Rightarrow>
     (bind_res r (\<lambda>x. bind_res rs (\<lambda>xs. Inr (x # xs))), s2)))"

text \<open>\<open>value.map(...)\<close> on something that may not be an array.\<close>

definition array_of :: "json option \<Rightarrow> exn + json list" where
  "array_of v = (case v of Some (JArr vs) \<Rightarrow> Inr vs | _ \<Rightarrow> Inl TypeError)"

definition workspace_usage :: "'w ui_env \<Rightarrow> json \<Rightarrow> (('w, 'm, 'z) page_scheme, json) ui_prog" where
  "workspace_usage env workspace = (if workspace = JNull then throw TypeError
     else bnd (in_console (apiFetch (env_fetch env)
         (js ''/api/workspaces/'' @ row_id ''id'' workspace @ js ''/resource-usage'') get_init)) (\<lambda>usage.
       ret (object [(''workspace'', Some workspace), (''usage'', Some usage)])))"

definition fetch_usage :: "'w ui_env \<Rightarrow> (('w, 'm, 'z) page_scheme, json option) ui_prog" where
  "fetch_usage env =
     bnd (in_console (apiFetch (env_fetch env) (js ''/api/workspaces'') get_init)) (\<lambda>response.
     bnd (lift_res (bind_res (get_prop ''workspaces'' response) array_of)) (\<lambda>workspaces.
     bnd (promise_all (map (workspace_usage env) workspaces)) (\<lambda>rows. ret (Some (JArr rows)))))"

definition ops_queries :: "'w ui_env \<Rightarrow> 'w ops_page \<Rightarrow> (jsstr list \<times> nat \<times> ('w ops_page, json option) ui_prog) list" where
  "ops_queries env s =
     [(ready_query, default_retry, fetch_ready env),
      (diagnostics_query, default_retry, fetch_diagnostics env),
      (metrics_query, default_retry, fetch_metrics env),
      (backups_query, default_retry, fetch_all env (js ''/api/admin/backups'') get_init),
      (usage_query, default_retry, fetch_usage env)]"

subsection \<open>Mutations\<close>

definition backups_url :: jsstr where
  "backups_url = js ''/api/admin/backups''"

definition restore_body :: "jsstr \<Rightarrow> json" where
  "restore_body name = object [(''confirmation'', Some (JStr name)), (''reason'', Some (JStr (js ''scheduled from Peanut Console'')))]"

fun ops_mutationFn :: "'w ui_env \<Rightarrow> ops_mutation \<Rightarrow> ('w ops_page, json) ui_prog" where
  "ops_mutationFn env CreateBackup = send_json env ''POST'' backups_url (object [])"
| "ops_mutationFn env (ScheduleRestore name) =
     send_json env ''POST'' (backups_url @ js ''/'' @ name @ js ''/restore'') (restore_body name)"
| "ops_mutationFn env ClearRestore = send env ''DELETE'' (backups_url @ js ''/restore-pending'')"
| "ops_mutationFn env (DownloadBackup name) =
     bnd (in_console (downloadBackup (env_fetch env) name)) (\<lambda>blob. ret (JStr blob))"

definition toast_ops :: "'w ui_env \<Rightarrow> string \<Rightarrow> (string \<times> jsstr) list \<Rightarrow> ('w ops_page, unit) ui_prog" where
  "toast_ops env k args = toast_success (env_tr env ''opsView'' k args)"

definition refresh_backups :: "('w ops_page, unit) ui_prog" where
  "refresh_backups = bnd (invalidateQueries backups_query) (\<lambda>_. invalidateQueries metrics_query)"

fun ops_onSuccess :: "'w ui_env \<Rightarrow> ops_mutation \<Rightarrow> json \<Rightarrow> ('w ops_page, unit) ui_prog" where
  "ops_onSuccess env CreateBackup response = bnd (toast_ops env ''backupCreated'' []) (\<lambda>_. refresh_backups)"
| "ops_onSuccess env (ScheduleRestore name) response = bnd (toast_ops env ''restoreScheduled'' []) (\<lambda>_. refresh_backups)"
| "ops_onSuccess env ClearRestore response = bnd (toast_ops env ''restoreCleared'' []) (\<lambda>_. refresh_backups)"
| "ops_onSuccess env (DownloadBackup name) blob =
     bnd (modify (\<lambda>s. s\<lparr>pg_downloads := pg_downloads s @ [(name, js_String blob)]\<rparr>)) (\<lambda>_.
     toast_ops env ''downloaded'' [(''name'', name)])"

definition ops_onError :: "'w ui_env \<Rightarrow> ops_mutation \<Rightarrow> exn \<Rightarrow> ('w ops_page, unit) ui_prog" where
  "ops_onError env m e = onError_toast env e"

definition ops_start :: "'w ui_env \<Rightarrow> ops_mutation \<Rightarrow> 'w ops_page \<Rightarrow> 'w ops_page" where
  "ops_start env m s = mutate m (ops_mutationFn env m) s"

fun ops_handle :: "'w ui_env \<Rightarrow> ops_event \<Rightarrow> 'w ops_page \<Rightarrow> 'w ops_page" where
  "ops_handle env ClickClearRestore s = ops_start env ClearRestore s"
| "ops_handle env ClickCreateBackup s = ops_start env CreateBackup s"
| "ops_handle env (ClickDownload name) s = ops_start env (DownloadBackup name) s"
| "ops_handle env (ClickRestore name) s = ops_start env (ScheduleRestore name) s"

subsection \<open>Usage\<close>

text \<open>\<open>Number(v)\<close> as the arithmetic of \<open>usagePercent\<close> applies it.\<close>

definition json_number :: "json \<Rightarrow> number" where
  "json_number v = (case v of JNum x \<Rightarrow> x | JStr t \<Rightarrow> js_Number t | JBool b \<Rightarrow> Fin (if b then 1 else 0) 0
     | JNull \<Rightarrow> Fin 0 0 | _ \<Rightarrow> js_Number (js_String v))"

text \<open>\<open>limit.used.toLocaleString()\<close>\<close>

definition locale_text :: "(json \<Rightarrow> jsstr) \<Rightarrow> json option \<Rightarrow> exn + jsstr" where
  "locale_text loc v = (if nullish v then Inl TypeError else Inr (loc (the v)))"

definition usage_row :: "(json \<Rightarrow> jsstr) \<Rightarrow> json \<Rightarrow> json \<Rightarrow> exn + ops_event ui list" where
  "usage_row loc workspace limit =
     (if limit = JNull then Inl TypeError
      else bind_res (locale_text loc (fld ''used'' limit)) (\<lambda>used.
        bind_res (locale_text loc (fld ''limit'' limit)) (\<lambda>total.
        Inr [Child (fld ''display_name'' workspace), Child (fld ''resource_key'' limit), Txt (used @ js '' / '' @ total),
          Txt (percent_text (usagePercent (double_of (json_number (the (fld ''used'' limit))))
            (double_of (json_number (the (fld ''limit'' limit))))) @ js ''%''),
          Child (coalesce (fld ''reset_at'' limit) (fld ''period_start'' limit))])))"

definition usage_rows_of :: "(json \<Rightarrow> jsstr) \<Rightarrow> json \<Rightarrow> exn + ops_event ui list list" where
  "usage_rows_of loc entry =
     (case (fld ''workspace'' entry, fld ''usage'' entry) of
        (Some workspace, Some usage) \<Rightarrow>
          bind_res (bind_res (get_prop ''resource_limits'' usage) array_of) (\<lambda>limits. map_res (usage_row loc workspace) limits)
      | _ \<Rightarrow> Inl TypeError)"

definition usageRows :: "(json \<Rightarrow> jsstr) \<Rightarrow> json option \<Rightarrow> exn + ops_event ui list list" where
  "usageRows loc data = bind_res (rows_of data) (\<lambda>entries.
     bind_res (map_res (usage_rows_of loc) entries) (\<lambda>rows. Inr (concat rows)))"

subsection \<open>Rendering\<close>

text \<open>
  \<open>metrics.data?.area.name\<close>: rendering reads all five areas, so a metrics answer without one of them throws.
\<close>

definition metric_areas :: "string list" where
  "metric_areas = [''database'', ''storage'', ''functions'', ''push'', ''system'']"

definition metric_value :: "json option \<Rightarrow> string \<Rightarrow> string \<Rightarrow> json option" where
  "metric_value metrics a b = (case opt_chain a b metrics of Inr v \<Rightarrow> v | Inl _ \<Rightarrow> None)"

definition metrics_complete :: "json option \<Rightarrow> exn + unit" where
  "metrics_complete metrics = bind_res (map_res (\<lambda>a. opt_chain a [] metrics) metric_areas) (\<lambda>_. Inr ())"

definition runtime_table :: "'w ui_env \<Rightarrow> 'w ops_page \<Rightarrow> ops_event ui" where
  "runtime_table env s =
     (let t = (\<lambda>k. env_tr env ''opsView'' k []); common = (\<lambda>k. env_tr env ''common'' k []);
          value = metric_value (query_data metrics_query s); zero = Some (JNum (Fin 0 0)); none = Some (JStr []) in
      DataTableView (env_tr env) [t ''columnsArea'', t ''columnsValue'', t ''columnsState'']
        [[Txt (t ''storage''), Child (coalesce (value ''storage'' ''root'') none),
            if is_true (value ''storage'' ''ok'') then Txt (t ''writable'') else Child (coalesce (value ''storage'' ''error'') none)],
         [Txt (t ''backups''), Child (coalesce (value ''database'' ''backup_count'') zero),
            Txt (if is_true (value ''database'' ''restore_pending'') then t ''restorePendingState'' else t ''clearState'')],
         [Txt (t ''functions''), Child (coalesce (value ''functions'' ''work_dir'') none),
            Txt (if is_true (value ''functions'' ''enabled'') then common ''enabled'' else common ''disabled'')],
         [Txt (t ''pushQueue''), Child (coalesce (value ''push'' ''queued'') zero),
            Txt (env_tr env ''opsView'' ''failed24h'' [(''count'', item_string (coalesce (value ''push'' ''failed_recent'') zero))])],
         [Txt (t ''version''), Child (coalesce (value ''system'' ''version'') none),
            Txt (env_tr env ''opsView'' ''uptime'' [(''seconds'', item_string (coalesce (value ''system'' ''uptime_seconds'') zero))])]]
        (isLoading True metrics_query s) None None)"

definition check_entry :: "'w ui_env \<Rightarrow> diagnostic_group \<Rightarrow> ops_event ui" where
  "check_entry env g =
     (let common = (\<lambda>k. env_tr env ''common'' k []) in
      Box ([Txt (dg_label g)] @ (if dg_severity g = Some (JStr (js ''warning'')) then [Txt (common ''warning'')] else [])
        @ [Txt (dg_description g), Txt (if dg_ok g then common ''ok'' else common ''fail'')]))"

definition checks_panel :: "'w ui_env \<Rightarrow> json list \<Rightarrow> ops_event ui" where
  "checks_panel env checks = Panel (env_tr env ''opsView'' ''platformChecks'' [])
     (map (check_entry env) (groupDiagnosticChecks (env_tr env ''opsView'') checks) @ (if checks = [] then [Skeleton] else []))"

definition backup_row :: "'w ui_env \<Rightarrow> json \<Rightarrow> ops_event ui list" where
  "backup_row env backup =
     (let common = (\<lambda>k. env_tr env ''common'' k []); name = row_id ''name'' backup in
      [Child (fld ''name'' backup), Txt (bytes_text (fld ''size_bytes'' backup)), Child (fld ''modified_at'' backup),
       Box [Button (common ''download'') False (ClickDownload name),
         ConfirmButton (common ''restore'') False (env_tr env ''opsView'' ''confirmScheduleRestore'' [(''name'', name)]) (ClickRestore name)]])"

definition restore_pending :: "'w ops_page \<Rightarrow> json option" where
  "restore_pending s = (case query_data backups_query s of None \<Rightarrow> None | Some v \<Rightarrow> fld ''restore_pending'' v)"

definition backups_panel :: "'w ui_env \<Rightarrow> 'w ops_page \<Rightarrow> json list \<Rightarrow> ops_event ui" where
  "backups_panel env s backups =
     (let t = (\<lambda>k. env_tr env ''opsView'' k []); common = (\<lambda>k. env_tr env ''common'' k []); pending = restore_pending s in
      Panel (t ''backups'')
        [if is_true pending then Box [Txt (t ''restorePending''), Child (fld ''backup_name'' (the pending))]
         else StatusBadge (env_tr env) True,
         ConfirmButton (common ''clear'') (\<not> is_true pending \<or> isPending ClearRestore s) (t ''confirmClearRestore'') ClickClearRestore,
         Button (common ''create'') (isPending CreateBackup s) ClickCreateBackup,
         DataTableView (env_tr env) [t ''columnsName'', t ''columnsSize'', t ''columnsModified'', t ''columnsActions'']
           (map (backup_row env) backups) (isLoading True backups_query s)
           (Some (t ''emptyBackupsTitle'')) (Some (t ''emptyBackupsDescription''))])"

definition ops_page_ui :: "'w ui_env \<Rightarrow> 'w ops_page \<Rightarrow> json list \<Rightarrow> ops_event ui list list \<Rightarrow> json list \<Rightarrow> ops_event ui" where
  "ops_page_ui env s checks usage backups =
     (let t = (\<lambda>k. env_tr env ''opsView'' k []); common = (\<lambda>k. env_tr env ''common'' k []);
          ready = query_data ready_query s; metrics = query_data metrics_query s in
      Section (t ''title'') (t ''description'') []
        [Metric (t ''ready'') (Txt (string_or (case ready of None \<Rightarrow> None | Some v \<Rightarrow> fld ''status'' v) (common ''checking''))),
         Metric (t ''warnings'') (Txt (digits (warningChecks checks))),
         Metric (t ''failures'') (Txt (digits (failedChecks checks))),
         Metric (t ''dbSize'') (Txt (bytes_text (coalesce (metric_value metrics ''database'' ''size_bytes'') (Some (JNum (Fin 0 0)))))),
         checks_panel env checks,
         Panel (t ''runtime'') [runtime_table env s],
         Panel (t ''workspaceUsage'')
           [DataTableView (env_tr env) [t ''columnsWorkspace'', t ''columnsResource'', t ''columnsUsage'', t ''columnsPercent'', t ''columnsPeriod'']
              usage (isLoading True usage_query s) (Some (t ''emptyUsageTitle'')) (Some (t ''emptyUsageDescription''))],
         backups_panel env s backups,
         Txt (t ''rawPayloads''),
         Panel (t ''readyPayload'') [JsonText (or_loading env ready)],
         Panel (t ''diagnosticsPayload'') [JsonText (or_loading env (query_data diagnostics_query s))]])"

definition OpsView :: "'w ui_env \<Rightarrow> (json \<Rightarrow> jsstr) \<Rightarrow> 'w ops_page \<Rightarrow> exn + ops_event ui" where
  "OpsView env loc s =
     bind_res (platformChecks (query_data diagnostics_query s)) (\<lambda>checks.
     bind_res (usageRows loc (query_data usage_query s)) (\<lambda>usage.
     bind_res (metrics_complete (query_data metrics_query s)) (\<lambda>_.
     bind_res (rows_of (case query_data backups_query s of None \<Rightarrow> None | Some v \<Rightarrow> fld ''backups'' v)) (\<lambda>backups.
     Inr (ops_page_ui env s checks usage backups)))))"

subsection \<open>The contract\<close>

fun ops_starts :: "ops_event \<Rightarrow> ops_mutation option" where
  "ops_starts ClickClearRestore = Some ClearRestore"
| "ops_starts ClickCreateBackup = Some CreateBackup"
| "ops_starts (ClickDownload name) = Some (DownloadBackup name)"
| "ops_starts (ClickRestore name) = Some (ScheduleRestore name)"

text \<open>Downloads and restorations are not guarded.\<close>

fun ops_exclusive :: "ops_mutation \<Rightarrow> bool" where
  "ops_exclusive CreateBackup = True"
| "ops_exclusive ClearRestore = True"
| "ops_exclusive _ = False"

lemma usage_row_offers: "usage_row loc w l = Inr row \<Longrightarrow> u \<in> set row \<Longrightarrow> offers u = {}"
  by (auto simp: usage_row_def bind_res_eq_Inr split: if_splits)

lemma usageRows_offers:
  assumes "usageRows loc d = Inr rows" "row \<in> set rows" "u \<in> set row"
  shows "offers u = {}"
proof -
  obtain e rs where "usage_rows_of loc e = Inr rs" "row \<in> set rs"
    using assms(1,2) by (auto simp: usageRows_def bind_res_eq_Inr) (meson map_res_mem)
  then obtain w l where "usage_row loc w l = Inr row"
    by (auto simp: usage_rows_of_def bind_res_eq_Inr dest!: map_res_mem split: option.splits)
  then show ?thesis using usage_row_offers assms(3) by blast
qed

lemma ops_offers:
  assumes "OpsView env loc s = Inr u"
  obtains backups where
    "rows_of (case query_data backups_query s of None \<Rightarrow> None | Some v \<Rightarrow> fld ''backups'' v) = Inr backups"
    "offers u = offers (backups_panel env s backups)"
proof -
  obtain checks usage backups where r: "usageRows loc (query_data usage_query s) = Inr usage"
    "rows_of (case query_data backups_query s of None \<Rightarrow> None | Some v \<Rightarrow> fld ''backups'' v) = Inr backups"
    "u = ops_page_ui env s checks usage backups"
    using assms by (auto simp: OpsView_def bind_res_eq_Inr)
  have c: "offers (checks_panel env checks) = {}"
    by (auto simp: checks_panel_def check_entry_def Panel_def Let_def)
  have t: "offers (runtime_table env s) = {}"
    by (simp add: runtime_table_def Let_def offers_DataTableView)
  have "offers u = offers (backups_panel env s backups)"
    using usageRows_offers [OF r(1)] c t
    by (simp add: r(3) ops_page_ui_def Let_def Section_def Metric_def Panel_def [of "env_tr env ''opsView'' k []" for k] offers_DataTableView)
  then show thesis using that r(2) by blast
qed

lemma backup_row_offers: "(\<Union>u \<in> set (backup_row env b). offers u) = {ClickDownload (row_id ''name'' b), ClickRestore (row_id ''name'' b)}"
  by (auto simp: backup_row_def Let_def)

lemma backups_panel_offers:
  "offers (backups_panel env s backups) =
     (if is_true (restore_pending s) \<and> \<not> isPending ClearRestore s then {ClickClearRestore} else {})
     \<union> (if isPending CreateBackup s then {} else {ClickCreateBackup})
     \<union> (if isLoading True backups_query s then {}
        else (\<Union>b \<in> set backups. {ClickDownload (row_id ''name'' b), ClickRestore (row_id ''name'' b)}))"
proof -
  have badge: "offers (if is_true p then Box [Txt a, Child b] else StatusBadge tr True) = {}" for p a b tr
    by (simp add: StatusBadge_def)
  show ?thesis
    unfolding backups_panel_def Panel_def Let_def
    by (simp add: badge offers_DataTableView backup_row_offers)
qed

lemma panel_guarded:
  "e \<in> offers (backups_panel env s backups) \<Longrightarrow> ops_starts e = Some m \<Longrightarrow> ops_exclusive m \<Longrightarrow> \<not> isPending m s"
  unfolding backups_panel_offers by (auto split: if_splits)

lemma ops_guarded:
  assumes "OpsView env loc s = Inr u" "e \<in> offers u" "ops_starts e = Some m" "ops_exclusive m"
  shows "\<not> isPending m s"
  using assms(1)
proof (rule ops_offers)
  fix backups
  assume "offers u = offers (backups_panel env s backups)"
  then show ?thesis using assms(2-4) panel_guarded by blast
qed

lemma keeps_pending_all [pending_simps]: "(\<And>m. m \<in> set ms \<Longrightarrow> keeps_pending m) \<Longrightarrow> keeps_pending (promise_all ms)"
proof (induction ms)
  case (Cons m ms)
  then have "keeps_pending m" "keeps_pending (promise_all ms)" by simp_all
  then show ?case by (simp add: keeps_pending_def split: prod.split) (metis snd_conv)
qed (simp add: pending_simps)

lemma keeps_pending_usage [pending_simps]: "keeps_pending (fetch_usage env)"
  by (auto simp: fetch_usage_def workspace_usage_def intro!: pending_simps)

lemma ops_mutationFn_pending: "keeps_pending (ops_mutationFn env m)"
  by (cases m) (auto intro!: pending_simps)

lemma ops_onSuccess_pending: "keeps_pending (ops_onSuccess env m v)"
  by (cases m) (auto simp: toast_ops_def refresh_backups_def intro!: pending_simps)

interpretation ops: console_view "OpsView env loc" "ops_handle env" ops_starts
  "ops_onSuccess env" "ops_onError env" "ops_queries env" ops_exclusive for env loc
proof unfold_locales
  show "map fst (pg_pending (ops_handle env e s)) =
      map fst (pg_pending s) @ (case ops_starts e of None \<Rightarrow> [] | Some m \<Rightarrow> [m])" for e s
    by (cases e) (simp_all add: ops_start_def pending_mutate ops_mutationFn_pending del: ops_mutationFn.simps)
qed (auto simp: ops_guarded ops_onSuccess_pending ops_onError_def ops_queries_def pending_simps)

subsection \<open>What the page sends\<close>

definition ops_request :: "jsstr \<Rightarrow> request \<Rightarrow> bool" where
  "ops_request base r \<longleftrightarrow> req_method r = js ''GET'' \<or> refresh_request base r
     \<or> req_method r = js ''POST'' \<and> req_url r = base @ backups_url
     \<or> req_method r = js ''DELETE'' \<and> req_url r = base @ backups_url @ js ''/restore-pending''
     \<or> (\<exists>name. req_method r = js ''POST'' \<and> req_url r = base @ backups_url @ js ''/'' @ name @ js ''/restore''
          \<and> req_body r = Some (BodyText (stringify (restore_body name))))"

lemma page_sends_read:
  assumes "pg_base s = base" "fi_method init = ''GET''"
  shows "page_sends (ops_request base) (in_console (apiFetch (env_fetch env) path init)) s"
  using assms by (intro page_sends_in_console sends_asked [of _ base]) (auto simp: pg_base_def asked_request_def ops_request_def)

lemma sends_ops_download: "con_sends (ops_request base) (downloadBackup f name) s"
  unfolding downloadBackup_def by (intro appends_intros sends_con_fetch) (simp add: ops_request_def)

lemma page_sends_all:
  assumes "\<And>m s. m \<in> set ms \<Longrightarrow> pg_base s = base \<Longrightarrow> page_sends P m s" "pg_base s = base"
  shows "page_sends P (promise_all ms) s"
  using assms
proof (induction ms arbitrary: s)
  case (Cons m ms)
  obtain r s1 where 1: "m s = (r, s1)" by (cases "m s")
  have m: "page_sends P m s" using Cons.prems by simp
  then have "pg_base s1 = base" using 1 Cons.prems(2) by (simp add: appends_def)
  then have "page_sends P (promise_all ms) s1" using Cons by simp
  then show ?case using m 1 by (auto simp: appends_def split: prod.split)
qed (simp add: appends_intros)

lemma page_sends_usage:
  assumes "pg_base s = base"
  shows "page_sends (ops_request base) (fetch_usage env) s"
proof -
  have one: "page_sends (ops_request base) (workspace_usage env w) s" if "pg_base s = base" for w s
    unfolding workspace_usage_def using that
    by (intro appends_if appends_throw appends_bnd_any page_sends_read appends_ret) (simp_all add: get_init_def)
  have read: "page_sends (ops_request base) (in_console (apiFetch (env_fetch env) (js ''/api/workspaces'') get_init)) s"
    using assms by (intro page_sends_read) (simp_all add: get_init_def)
  show ?thesis
    unfolding fetch_usage_def
  proof (rule appends_bnd [OF read])
    fix v s' assume "in_console (apiFetch (env_fetch env) (js ''/api/workspaces'') get_init) s = (Inr v, s')"
    then have "pg_base s' = base" using read assms by (simp add: appends_def)
    then show "page_sends (ops_request base) (bnd (lift_res (bind_res (get_prop ''workspaces'' v) array_of))
        (\<lambda>workspaces. bnd (promise_all (map (workspace_usage env) workspaces)) (\<lambda>rows. ret (Some (JArr rows))))) s'"
      using one by (intro appends_bnd_lift appends_bnd_any page_sends_all appends_ret) auto
  qed
qed

lemma ops_query_sends:
  assumes "(k, n, fn) \<in> set (ops_queries env s)" "pg_base s' = base"
  shows "page_sends (ops_request base) fn s'"
proof -
  have "page_sends (ops_request base) (fetch_all env path init) s'" if "fi_method init = ''GET''" for path init
    unfolding fetch_all_def using assms(2) that by (intro appends_bnd_any page_sends_read appends_ret)
  then show ?thesis
    using assms page_sends_usage [OF assms(2)]
    by (auto simp: ops_queries_def fetch_ready_def fetch_diagnostics_def fetch_metrics_def get_init_def)
qed

lemma ops_mutation_sends:
  assumes "pg_base s = base"
  shows "page_sends (ops_request base) (ops_mutationFn env m) s"
proof (cases m)
  case (ScheduleRestore name)
  then show ?thesis unfolding ScheduleRestore ops_mutationFn.simps send_json_def using assms
    by (intro page_sends_in_console sends_asked [of _ base]) (auto simp: pg_base_def asked_request_def ops_request_def)
qed (auto intro!: page_sends_send [OF assms] appends_bnd_any page_sends_in_console sends_ops_download appends_ret simp: ops_request_def)

interpretation ops_audit: audited_view "OpsView env loc" "ops_handle env" ops_starts
  "ops_onSuccess env" "ops_onError env" "ops_queries env" ops_exclusive base "ops_request base" for env loc base
proof unfold_locales
  show "page_log (ops_request base) s (ops_handle env e s)" if "pg_base s = base" for e s
    using ops_mutation_sends [OF that] by (cases e) (auto simp: ops_start_def simp del: ops_mutationFn.simps intro!: page_log_mutate)
  show "quiet (ops_onSuccess env m v)" for m v
    by (cases m) (auto simp: toast_ops_def refresh_backups_def intro!: quiet_intros)
qed (auto simp: ops_query_sends ops_onError_def quiet_intros)



end
