(* ===== verification/View_Overview.thy ===== *)
theory View_Overview
  imports Console_Metrics
begin

text \<open>
  The overview and activity pages (\<open>src/console/src/components/console/views/overview-view.tsx\<close>,
  \<open>activity-view.tsx\<close>): they read, show and lead to other pages, and start no mutation. The lemmas show
  that the health they report agrees with the groups of checks and that they only send reads.
\<close>

subsection \<open>State\<close>

datatype overview_event = NavigateTo view

text \<open>The view that is chosen in the shell, the path of the window and its origin.\<close>

record 'w overview_page = "('w, unit) page" +
  ov_view :: view
  ov_path :: jsstr
  ov_origin :: jsstr

definition overview_queries ::
  "'w ui_env \<Rightarrow> json \<Rightarrow> 'w overview_page \<Rightarrow> (jsstr list \<times> nat \<times> ('w overview_page, json option) ui_prog) list" where
  "overview_queries env app s =
     [(ready_query, default_retry, fetch_ready env), (diagnostics_query, default_retry, fetch_diagnostics env),
      (metrics_query, default_retry, fetch_metrics env), (activity_query app, default_retry, fetch_activity env app)]"

text \<open>\<open>navigateTo\<close>\<close>

fun overview_handle :: "overview_event \<Rightarrow> 'w overview_page \<Rightarrow> 'w overview_page" where
  "overview_handle (NavigateTo v) s = s\<lparr>ov_view := v, ov_path := pathForView v\<rparr>"

subsection \<open>Rendering\<close>

definition isError :: "jsstr list \<Rightarrow> ('w, 'm, 'z) page_scheme \<Rightarrow> bool" where
  "isError key s \<longleftrightarrow> q_error (pg_queries s key) \<noteq> None"

text \<open>\<open>activity.data ?? []\<close> given to \<open>ActivityList\<close>\<close>

definition activity_ui :: "'w ui_env \<Rightarrow> json option \<Rightarrow> bool \<Rightarrow> exn + 'e ui" where
  "activity_ui env data loading = (if loading then Inr Skeleton
     else bind_res (case coalesce data None of None \<Rightarrow> Inr [] | Some v \<Rightarrow> event_list v) (\<lambda>events.
       ActivityList (env_tr env) events False))"

definition quickstart_card :: "'w ui_env \<Rightarrow> string \<Rightarrow> string \<Rightarrow> string \<Rightarrow> view \<Rightarrow> overview_event ui" where
  "quickstart_card env title description action v =
     (let t = (\<lambda>k. env_tr env ''overview'' k []) in ActionCard (t title) (t description) (t action) (NavigateTo v))"

definition quickstart :: "'w ui_env \<Rightarrow> bool \<Rightarrow> overview_event ui" where
  "quickstart env functionsEnabled = Panel (env_tr env ''overview'' ''quickstart'' [])
     [quickstart_card env ''quickstartKeys'' ''quickstartKeysDescription'' ''openKeys'' Keys,
      quickstart_card env ''quickstartData'' ''quickstartDataDescription'' ''openData'' Data,
      quickstart_card env ''quickstartStorage'' ''quickstartStorageDescription'' ''openStorage'' Storage,
      quickstart_card env ''quickstartFunctions''
        (if functionsEnabled then ''quickstartFunctionsDescription'' else ''functionsDisabledDescription'') ''openFunctions'' Functions]"

definition diagnostics_state :: "'w ui_env \<Rightarrow> json list \<Rightarrow> bool \<Rightarrow> jsstr" where
  "diagnostics_state env checks error = (if failedChecks checks \<noteq> 0 \<or> error
     then env_tr env ''common'' ''needsAttention'' [] else env_tr env ''common'' ''ok'' [])"

definition project_status ::
  "'w ui_env \<Rightarrow> json \<Rightarrow> json list \<Rightarrow> bool \<Rightarrow> jsstr \<Rightarrow> json option \<Rightarrow> json option \<Rightarrow> overview_event ui" where
  "project_status env app checks functionsEnabled dbSize storageRoot ok =
     (let t = (\<lambda>k. env_tr env ''overview'' k []); common = (\<lambda>k. env_tr env ''common'' k []); tr = env_tr env in
      Panel (t ''projectStatus'')
        [HealthRow tr (t ''database'') (Txt dbSize) (failedChecks checks = 0),
         HealthRow tr (t ''storage'') (Child (coalesce storageRoot (Some (JStr (common ''checking''))))) (is_true (coalesce ok (Some (JBool True)))),
         HealthRow tr (t ''functionsRuntime'') (Txt (if functionsEnabled then common ''enabled'' else common ''disabled'')) functionsEnabled,
         HealthRow tr (t ''diagnosticWarnings'') (Txt (digits (warningChecks checks))) (warningChecks checks = 0),
         Txt (t ''projectId''), Child (fld ''id'' app)])"

definition operator_notes :: "'w ui_env \<Rightarrow> json \<Rightarrow> 'w overview_page \<Rightarrow> overview_event ui" where
  "operator_notes env app s =
     (let t = (\<lambda>k. env_tr env ''overview'' k []) in
      Panel (t ''operatorNotes'')
        [Txt (t ''operatorNotesDescription''), Txt (ov_origin s @ js ''/api/apps/''), Child (fld ''id'' app),
         Txt (t ''viewDiagnostics''),
         JsonText (case coalesce (query_data diagnostics_query s) (coalesce (query_data ready_query s) None) of
            Some v \<Rightarrow> v | None \<Rightarrow> object [(''status'', Some (JStr (js ''loading'')))])])"

text \<open>\<open>ready.data?.name\<close>\<close>

definition ready_value :: "string \<Rightarrow> 'w overview_page \<Rightarrow> json option" where
  "ready_value k s = (case query_data ready_query s of None \<Rightarrow> None | Some v \<Rightarrow> fld k v)"

definition OverviewView :: "'w ui_env \<Rightarrow> json list \<Rightarrow> json \<Rightarrow> 'w overview_page \<Rightarrow> exn + overview_event ui" where
  "OverviewView env apps app s =
     (let t = (\<lambda>k. env_tr env ''overview'' k []); common = (\<lambda>k. env_tr env ''common'' k []); metrics = query_data metrics_query s in
      bind_res (platformChecks (query_data diagnostics_query s)) (\<lambda>checks.
      bind_res (runtimeEnabled metrics) (\<lambda>functionsEnabled.
      bind_res (displayProjectName app) (\<lambda>projectName.
      bind_res (database_size metrics) (\<lambda>dbSize.
      bind_res (opt_chain ''storage'' ''root'' metrics) (\<lambda>storageRoot.
      bind_res (opt_chain ''storage'' ''ok'' metrics) (\<lambda>ok.
      bind_res (activity_ui env (query_data (activity_query app) s) False) (\<lambda>activity.
      Inr (Section (t ''title'') (t ''description'') [StatusBadge (env_tr env) (is_true (ready_value ''ready'' s))]
        [Metric (t ''apps'') (Txt (digits (length apps))),
         Metric (t ''selectedApp'') (Txt projectName),
         Metric (t ''ready'') (Txt (string_or (ready_value ''status'' s) (common ''checking''))),
         Metric (t ''diagnostics'') (Txt (diagnostics_state env checks (isError diagnostics_query s))),
         quickstart env functionsEnabled,
         project_status env app checks functionsEnabled dbSize storageRoot ok,
         Panel (t ''recentActivity'') [activity],
         operator_notes env app s])))))))))"

subsection \<open>The activity page\<close>

definition activity_queries :: "'w ui_env \<Rightarrow> json \<Rightarrow> ('w, unit) page \<Rightarrow> (jsstr list \<times> nat \<times> (('w, unit) page, json option) ui_prog) list" where
  "activity_queries env app s = [(activity_query app, default_retry, fetch_activity env app)]"

definition ActivityView :: "'w ui_env \<Rightarrow> json \<Rightarrow> ('w, unit) page \<Rightarrow> exn + 'e ui" where
  "ActivityView env app s =
     (let t = (\<lambda>k. env_tr env ''activityView'' k []) in
      bind_res (activity_ui env (query_data (activity_query app) s) (isLoading True (activity_query app) s)) (\<lambda>activity.
      Inr (Section (t ''title'') (t ''description'') [] [activity])))"

subsection \<open>The contract\<close>

lemma activity_row_offers: "activity_row tr e = Inr u \<Longrightarrow> offers u = {}"
  by (auto simp: activity_row_def label_ui_def Let_def split: option.splits json.splits if_splits label.splits)

lemma activity_offers:
  assumes "activity_ui env d l = Inr u"
  shows "offers u = {}"
proof -
  have "offers u = {}" if es: "ActivityList tr es False = Inr u" for tr es
  proof -
    consider "u = EmptyState (tr ''activityView'' ''emptyTitle'' []) (tr ''activityView'' ''emptyDescription'' []) []"
      | rows where "map_res (activity_row tr) (take 12 es) = Inr rows" "u = Box rows"
      using es by (auto simp: ActivityList_def bind_res_eq_Inr split: if_splits)
    then show ?thesis
    proof cases
      case 2
      have "offers v = {}" if "v \<in> set rows" for v using map_res_mem [OF 2(1) that] activity_row_offers by blast
      then show ?thesis using 2(2) by simp
    qed (simp add: EmptyState_def)
  qed
  then show ?thesis using assms by (auto simp: activity_ui_def bind_res_eq_Inr split: if_splits)
qed

lemma overview_offers:
  assumes "OverviewView env apps app s = Inr u"
  shows "offers u = NavigateTo ` {Keys, Data, Storage, Functions}"
proof -
  obtain checks fe pn dbSize storageRoot ok activity where a: "activity_ui env (query_data (activity_query app) s) False = Inr activity"
    and u: "offers u = offers (quickstart env fe) \<union> offers (project_status env app checks fe dbSize storageRoot ok)
      \<union> offers activity \<union> offers (operator_notes env app s)"
    using assms by (auto simp: OverviewView_def Let_def bind_res_eq_Inr Section_def Metric_def StatusBadge_def Panel_def Un_assoc)
  moreover have "offers (quickstart env fe) = NavigateTo ` {Keys, Data, Storage, Functions}"
    by (auto simp: quickstart_def quickstart_card_def Let_def Panel_def ActionCard_def)
  moreover have "offers (project_status env app checks fe dbSize storageRoot ok) = {}" "offers (operator_notes env app s) = {}"
    by (simp_all add: project_status_def operator_notes_def Let_def Panel_def HealthRow_def)
  ultimately show ?thesis using activity_offers [OF a] by simp
qed

lemma get_only:
  assumes "pg_base s = base" "fi_method init = ''GET''"
  shows "page_sends (\<lambda>r. req_method r = js ''GET'' \<or> refresh_request base r) (in_console (apiFetch (env_fetch env) path init)) s"
  using assms by (intro page_sends_in_console sends_asked [of _ base]) (auto simp: pg_base_def asked_request_def)

lemma shared_queries_read:
  assumes "pg_base s = base"
  shows "page_sends (\<lambda>r. req_method r = js ''GET'' \<or> refresh_request base r) (fetch_ready env) s"
    "page_sends (\<lambda>r. req_method r = js ''GET'' \<or> refresh_request base r) (fetch_diagnostics env) s"
    "page_sends (\<lambda>r. req_method r = js ''GET'' \<or> refresh_request base r) (fetch_metrics env) s"
    "page_sends (\<lambda>r. req_method r = js ''GET'' \<or> refresh_request base r) (fetch_activity env app) s"
  unfolding fetch_ready_def fetch_diagnostics_def fetch_metrics_def fetch_activity_def fetch_all_def using assms
  by (intro appends_bnd_any get_only appends_ret appends_lift_res; simp add: get_init_def)+

interpretation overview: audited_view "OverviewView env apps app" overview_handle "\<lambda>_. None"
  "\<lambda>_ _. ret ()" "\<lambda>_ _. ret ()" "overview_queries env app" "\<lambda>_. True" base "\<lambda>r. req_method r = js ''GET'' \<or> refresh_request base r"
  for env apps app base
proof unfold_locales
  show "map fst (pg_pending (overview_handle e s)) = map fst (pg_pending s) @ (case None of None \<Rightarrow> [] | Some m \<Rightarrow> [m])" for e s
    by (cases e) simp
  show "page_log (\<lambda>r. req_method r = js ''GET'' \<or> refresh_request base r) s (overview_handle e s)" for e s
    by (cases e) (simp add: page_log_refl)
qed (auto simp: overview_queries_def pending_simps quiet_intros shared_queries_read)

interpretation activity: audited_view "ActivityView env app :: ('w, unit) page \<Rightarrow> exn + unit ui" "\<lambda>_ s. s" "\<lambda>_. None"
  "\<lambda>_ _. ret ()" "\<lambda>_ _. ret ()" "activity_queries env app" "\<lambda>_. True" base "\<lambda>r. req_method r = js ''GET'' \<or> refresh_request base r"
  for env app base
  by unfold_locales (auto simp: activity_queries_def pending_simps quiet_intros shared_queries_read page_log_refl)

text \<open>Navigating keeps the address of the window in step with the view.\<close>

definition address_matches :: "'w overview_page \<Rightarrow> bool" where
  "address_matches s \<longleftrightarrow> viewFromPath (ov_path s) = ov_view s"

lemma overview_address:
  assumes "OverviewView env apps app s = Inr u" "e \<in> offers u"
  shows "address_matches (overview_handle e s) \<and> ov_view (overview_handle e s) \<in> {Keys, Data, Storage, Functions}"
  using assms overview_offers [OF assms(1)] by (cases e) (auto simp: address_matches_def viewFromPath_pathForView)

text \<open>
  The state of the diagnostics on the overview and the groups of the operations page say the same: all
  groups are healthy exactly when the overview says so and the query has not failed.
\<close>

lemma overview_agrees_with_groups:
  assumes "env_tr env ''common'' ''ok'' [] \<noteq> env_tr env ''common'' ''needsAttention'' []"
  shows "diagnostics_state env checks e = env_tr env ''common'' ''ok'' [] \<longleftrightarrow>
    \<not> e \<and> list_all dg_ok (groupDiagnosticChecks (env_tr env ''opsView'') checks)"
  using assms no_failures_iff_groups_ok [of checks "env_tr env ''opsView''"] by (auto simp: diagnostics_state_def)

end
