(* ===== verification/Spec2Isabelle.thy ===== *)
theory Spec2Isabelle
  imports Ui_Contract Sdk_Dist Sdk_Session Example_Client Code_Editor Shell_Concurrent View_Keys View_Apps View_Storage View_Data View_Auth
    View_Functions View_Push View_Ops View_Overview Console_App
begin

text \<open>
  Peanut is a self-hosted backend: a server written in Rust, an administration console written in
  TypeScript with React, a JavaScript SDK and example clients. This development models the program's
  JavaScript and TypeScript: the SDK, the browser example and the console. The server appears as the
  function \<open>fetch\<close>, a parameter of every definition that sends requests: it maps a request and the
  state of the world to an answer (or a failure) and the next state of the world, so the theorems hold
  for every behaviour of the server.

  \<^bold>\<open>Language and libraries.\<close>
  \<^item> \<open>Prelude\<close>: strings as lists of 16-bit code units, computations that may throw (a state function
    into \<open>exn + 'a\<close> that keeps the state reached before the throw), the rules for state predicates.
  \<^item> \<open>Js_String\<close>, \<open>Js_Utf8\<close>, \<open>Js_Uri\<close>, \<open>Js_Json\<close>, \<open>Js_Json_Roundtrip\<close>: what the sources use of
    ECMAScript and the web platform: splitting, trimming and slicing strings, streaming UTF-8 decoding,
    \<open>encodeURIComponent\<close> and form encoding, \<open>JSON.parse\<close> and \<open>JSON.stringify\<close>. The parser recurses with
    fuel, one more than the length of the text, and the round-trip theorem shows that this is enough for
    every printed value.
  \<^item> \<open>Http\<close>: headers with their validation, requests, responses, thrown values, and the locale
    \<open>logged_client\<close>: what all operations of a client send is collected in a log, and a law about single
    operations extends to every sequence of them.

  \<^bold>\<open>The SDK\<close> (\<open>src/sdks/js/src/index.ts\<close>).
  \<^item> \<open>Sdk_Client\<close>: the constructor, headers, URLs, timeouts, retries and error handling of
    \<open>PeanutClient\<close>. The retry loop is a recursion on the number of attempts left.
  \<^item> \<open>Sdk_Services\<close>: the auth, data, storage, push and function clients.
  \<^item> \<open>Sdk_Realtime\<close>: the event stream: decoding, splitting into events, dispatch and reconnection.
  \<^item> \<open>Sdk_Session\<close>: all operations of a client as one datatype, their log, and the properties of the
    SDK: where requests go, which credentials they carry, which are repeated, what errors reach the
    caller, that parameters and paths are read back as they were given, and that a stream gives the same
    events however its bytes are cut.
  \<^item> \<open>Sdk_Dist\<close>: the file the package ships (\<open>src/sdks/js/dist/index.js\<close>), translated on its own, with the
    retry loop as a \<open>while\<close> loop that is shown to end, and equal to the source on every method it has; the
    three methods it lacks throw.

  \<^bold>\<open>The browser example\<close> (\<open>src/examples/auth-client-web/app.js\<close>) is \<open>Example_Client\<close>: its stored session,
  requests with one refresh, the handlers of its page.

  \<^bold>\<open>The console\<close> (\<open>src/console/src\<close>).
  \<^item> \<open>Console_Api\<close>: the two web storages, authenticated requests with one refresh, the authentication
    calls (\<open>lib/api/session.ts\<close>, \<open>client.ts\<close>, \<open>auth.ts\<close>), with the locale \<open>session_store\<close> for what the
    callers rely on.
  \<^item> \<open>Console_Concurrent\<close>: calls of \<open>apiFetch\<close> that run at the same time, as state machines over their awaits,
    with the locale \<open>interleaving\<close> for processes that take turns over a shared state.
  \<^item> \<open>Api_Types\<close>: the declared types of the data (\<open>lib/api/types.ts\<close>, \<open>components/console/types.ts\<close>)
    as sets of JSON values.
  \<^item> \<open>Console_Utils\<close>: JSON input, query strings, display names, sizes, diagnostics, clipboard, paths of
    views, language, activity labels (\<open>components/console/utils\<close>, \<open>nav-config.ts\<close>, \<open>i18n/provider.tsx\<close>).
  \<^item> \<open>Code_Editor\<close>: the editor with its undo history and indentation (\<open>shared/code-editor.tsx\<close>).
  \<^item> \<open>Console_Ui\<close>: rendered trees with the controls they offer, shared components, the state around a
    page (API layer, notifications, cached queries, running mutations), and the locales \<open>console_view\<close>
    (a page renders, handles what it offers, settles its mutations) and \<open>audited_view\<close> (a page that sends
    only allowed requests). Their step relation is a run of a page: a control is used, a query is loaded,
    an answer arrives, in any order.
  \<^item> \<open>View_Keys\<close>, \<open>View_Apps\<close>, \<open>View_Storage\<close>, \<open>View_Data\<close>, \<open>View_Auth\<close>, \<open>View_Functions\<close>, \<open>View_Push\<close>,
    \<open>View_Ops\<close>: the pages of \<open>components/console/views\<close> that change something, each with its state, mutations,
    callbacks, handlers and rendering, and an interpretation of \<open>console_view\<close>.
  \<^item> \<open>Console_Metrics\<close>: the queries and checks the functions, push, operations and overview pages share
    (diagnostics, metrics, activity). \<open>View_Overview\<close>: the overview and activity pages, which only read;
    this is their interpretation of \<open>audited_view\<close>.
  \<^item> \<open>Js_Double\<close>: \<open>usagePercent\<close> in double arithmetic, with the rounding of every operation written out.
  \<^item> \<open>Console_App\<close>: the signed-in user, session check and recovery, logout, sign-in screen, header,
    navigation and choice of the page (\<open>console-app.tsx\<close>, \<open>layout\<close>), the error boundary around it.
  \<^item> \<open>Shell_Concurrent\<close>: everything that touches the session as jobs that interleave at their awaits: calls of
    the pages, sign-in, sign-out and the recovery of a session. It interprets \<open>interleaving\<close> a second time and shows
    that all runs end (a rank bounds the turns of a job by nine), that the stored tokens belong together, when a
    sign-out is final, and that a refresh on its way undoes it.
  \<^item> \<open>Ui_Elements\<close>: properties, spreads, children and elements, and \<open>cn\<close>. \<open>Ui_Widgets\<close>: the widgets of
    \<open>components/ui\<close>, the root layout and the brand, as functions from properties to elements. \<open>Ui_Contract\<close>: what all
    of them promise to the pages, as the locale \<open>widget_contract\<close>, which a widget that wraps another one inherits. These theories are about what a widget hands on; the pages use their own, more
    abstract trees of \<open>Console_Ui\<close>, in which a widget is the control or text it stands for.

  \<^bold>\<open>Conventions.\<close> A promise is a computation that returns or throws; awaited calls run one after the
  other, except in \<open>Console_Concurrent\<close> and \<open>Shell_Concurrent\<close>, where others may run at every await; a call or job
  that is alone there is shown to behave as in the other theories. A mutation of a page runs its request when it is started and its
  callbacks when the answer arrives, in any order with other events. JSON values come from the server and may
  be ill-typed unless a theorem says otherwise; reading a member of \<open>null\<close> throws. Numbers are decimals with
  their digits, exact up to fifteen digits. The state of a table row's controls begins when they are first used.

  \<^bold>\<open>Assumed of code that is not in the repository\<close>: React shows the current state; the query cache
  behaves as TanStack Query documents (retries, data kept when a repetition fails, callbacks of the latest
  render, \<open>undefined\<close> as a failure); a disabled control does nothing; translations are a parameter.

  \<^bold>\<open>Not modelled.\<close> The Rust server and the SDKs in other languages; the libraries the widgets wrap (\<open>radix-ui\<close>,
  \<open>cmdk\<close>, \<open>sonner\<close>), which are not in the repository: their components are leaves of the rendered elements, and
  \<open>clsx\<close>, \<open>tailwind-merge\<close> and \<open>class-variance-authority\<close> are parameters; what a class name looks like; message
  catalogues and the configuration of the build tools, which are data; type declarations without behaviour; the compiled
  console in \<open>src/console/out\<close>, which the build generates.

  \<^bold>\<open>Coverage.\<close> The SDK in both forms, the browser example, the API layer, the pages, the shell and the widgets are
  complete in the sense that every function that computes, sends or changes something has a definition.
\<close>

subsection \<open>The pages of the console\<close>



end
